(* ===== verification/Ballista_Prelude.thy ===== *)
theory Ballista_Prelude
  imports Main "HOL-Library.Word" "HOL-Library.Sublist"
begin

text \<open>
  Shared vocabulary of the development.

  \<^item> \<open>('a, 'e) result\<close>: the outcome of a Rust function that returns \<open>Result\<close>.  A panic
    (\<open>unwrap\<close> on \<open>None\<close>, an index out of range, \<open>unimplemented!\<close>, a failed \<open>assert!\<close>) is a
    third outcome, so that no theorem confuses it with an error value.
  \<^item> \<open>rbind\<close> is the \<open>?\<close> operator, \<open>mapM\<close> is \<open>iter().map(f).collect::<Result<Vec<_>, _>>()\<close>.
  \<^item> \<open>show_nat\<close> is \<open>format!("{}", n)\<close> on an unsigned integer.
  \<^item> The locale \<open>serde\<close> is the contract of a pair of conversions to and from the protocol buffer
    types; each conversion pair of the code interprets it, and the lifting to vectors and optional
    fields is proved once here.
\<close>

named_theorems result_simps \<open>rewriting of the result type and of its bind\<close>
named_theorems plan_simps \<open>rewriting of execution plans\<close>
named_theorems key_simps \<open>rewriting of configuration keys\<close>

section \<open>Machine types\<close>

type_synonym u8 = "8 word"
type_synonym u16 = "16 word"
type_synonym u32 = "32 word"
type_synonym u64 = "64 word"

text \<open>
  \<open>usize\<close> is modelled as \<^typ>\<open>nat\<close>; every \<open>as\<close> cast between \<open>usize\<close> and a fixed width is
  written out with these two functions.
\<close>

definition usize_to_u32 :: "nat \<Rightarrow> u32" where
  "usize_to_u32 n = word_of_nat n"

definition u32_to_usize :: "u32 \<Rightarrow> nat" where
  "u32_to_usize w = unat w"

lemma u32_to_usize_of [simp]: "u32_to_usize (usize_to_u32 n) = n mod 2 ^ 32"
  by (simp add: usize_to_u32_def u32_to_usize_def unat_of_nat)

lemma usize_to_u32_of [simp]: "usize_to_u32 (u32_to_usize w) = w"
  by (simp add: usize_to_u32_def u32_to_usize_def)

lemma u32_roundtrip_small: "n < 2 ^ 32 \<Longrightarrow> u32_to_usize (usize_to_u32 n) = n"
  by simp

section \<open>Results\<close>

datatype ('a, 'e) result = Ok (the_ok: 'a) | Err 'e | Panic string

fun rbind :: "('a, 'e) result \<Rightarrow> ('a \<Rightarrow> ('b, 'e) result) \<Rightarrow> ('b, 'e) result" where
  "rbind (Ok x) f = f x"
| "rbind (Err e) f = Err e"
| "rbind (Panic s) f = Panic s"

fun map_err :: "('e \<Rightarrow> 'f) \<Rightarrow> ('a, 'e) result \<Rightarrow> ('a, 'f) result" where
  "map_err g (Ok x) = Ok x"
| "map_err g (Err e) = Err (g e)"
| "map_err g (Panic s) = Panic s"

definition ok_or :: "'a option \<Rightarrow> 'e \<Rightarrow> ('a, 'e) result" where
  "ok_or x e = (case x of None \<Rightarrow> Err e | Some y \<Rightarrow> Ok y)"

definition unwrap :: "'a option \<Rightarrow> ('a, 'e) result" where
  "unwrap x = (case x of None \<Rightarrow> Panic ''called `Option::unwrap()` on a `None` value'' | Some y \<Rightarrow> Ok y)"

definition is_ok :: "('a, 'e) result \<Rightarrow> bool" where
  "is_ok r = (case r of Ok _ \<Rightarrow> True | _ \<Rightarrow> False)"

definition is_panic :: "('a, 'e) result \<Rightarrow> bool" where
  "is_panic r = (case r of Panic _ \<Rightarrow> True | _ \<Rightarrow> False)"

text \<open>Rust slice indexing: \<open>xs[i]\<close> panics out of range.\<close>

definition index_vec :: "'a list \<Rightarrow> nat \<Rightarrow> ('a, 'e) result" where
  "index_vec xs i = (if i < length xs then Ok (xs ! i) else Panic ''index out of bounds'')"

lemma rbind_eq_Ok [result_simps]: "rbind r f = Ok y \<longleftrightarrow> (\<exists>x. r = Ok x \<and> f x = Ok y)"
  by (cases r) auto

lemma rbind_eq_Err [result_simps]:
  "rbind r f = Err e \<longleftrightarrow> r = Err e \<or> (\<exists>x. r = Ok x \<and> f x = Err e)"
  by (cases r) auto

lemma rbind_eq_Panic [result_simps]:
  "rbind r f = Panic s \<longleftrightarrow> r = Panic s \<or> (\<exists>x. r = Ok x \<and> f x = Panic s)"
  by (cases r) auto

lemma rbind_assoc: "rbind (rbind r f) g = rbind r (\<lambda>x. rbind (f x) g)"
  by (cases r) auto

lemma rbind_Ok_right [simp]: "rbind r Ok = r"
  by (cases r) auto

lemma map_err_eq_Ok [result_simps]: "map_err g r = Ok y \<longleftrightarrow> r = Ok y"
  by (cases r) auto

lemma ok_or_eq_Ok [result_simps]: "ok_or x e = Ok y \<longleftrightarrow> x = Some y"
  by (auto simp: ok_or_def split: option.splits)

lemma ok_or_simps [simp]: "ok_or None e = Err e" "ok_or (Some y) e = Ok y"
  by (simp_all add: ok_or_def)

lemma ok_or_not_Panic [result_simps]: "ok_or x e \<noteq> Panic s"
  by (auto simp: ok_or_def split: option.splits)

lemma unwrap_eq_Ok [result_simps]: "unwrap x = Ok y \<longleftrightarrow> x = Some y"
  by (auto simp: unwrap_def split: option.splits)

lemma unwrap_Some [simp]: "unwrap (Some y) = Ok y"
  by (simp add: unwrap_def)

lemma unwrap_not_Err [result_simps]: "unwrap x \<noteq> Err e"
  by (auto simp: unwrap_def split: option.splits)

lemma index_vec_eq_Ok [result_simps]: "index_vec xs i = Ok y \<longleftrightarrow> i < length xs \<and> xs ! i = y"
  by (auto simp: index_vec_def)

lemma index_vec_0 [simp]: "index_vec (x # xs) 0 = Ok x"
  by (simp add: index_vec_def)

lemma rbind_cong [fundef_cong]:
  "r = r' \<Longrightarrow> (\<And>x. r' = Ok x \<Longrightarrow> f x = f' x) \<Longrightarrow> rbind r f = rbind r' f'"
  by (cases r') auto

section \<open>Collecting an iterator of results\<close>

fun mapM :: "('a \<Rightarrow> ('b, 'e) result) \<Rightarrow> 'a list \<Rightarrow> ('b list, 'e) result" where
  "mapM f [] = Ok []"
| "mapM f (x # xs) = rbind (f x) (\<lambda>y. rbind (mapM f xs) (\<lambda>ys. Ok (y # ys)))"

lemma mapM_cong [fundef_cong]:
  "xs = ys \<Longrightarrow> (\<And>x. x \<in> set ys \<Longrightarrow> f x = g x) \<Longrightarrow> mapM f xs = mapM g ys"
proof (induction ys arbitrary: xs)
  case (Cons y ys)
  then show ?case by simp
qed simp

lemma mapM_eq_Ok [result_simps]:
  "mapM f xs = Ok ys \<longleftrightarrow> list_all2 (\<lambda>x y. f x = Ok y) xs ys"
proof (induction xs arbitrary: ys)
  case (Cons x xs)
  then show ?case by (cases ys) (auto simp: result_simps)
qed auto

lemma mapM_all_Ok: "(\<And>x. x \<in> set xs \<Longrightarrow> f x = Ok (g x)) \<Longrightarrow> mapM f xs = Ok (map g xs)"
  by (induction xs) auto

lemma mapM_Ok [simp]: "mapM (\<lambda>x. Ok (g x)) xs = Ok (map g xs)"
  by (rule mapM_all_Ok) simp

lemma mapM_Ok' [simp]: "mapM Ok xs = Ok xs"
  using mapM_all_Ok [of xs Ok id] by simp

lemma mapM_length: "mapM f xs = Ok ys \<Longrightarrow> length ys = length xs"
  by (auto simp: result_simps dest: list_all2_lengthD)

lemma mapM_nth: "mapM f xs = Ok ys \<Longrightarrow> i < length xs \<Longrightarrow> f (xs ! i) = Ok (ys ! i)"
  by (auto simp: result_simps list_all2_conv_all_nth)

lemma mapM_in_set: "mapM f xs = Ok ys \<Longrightarrow> y \<in> set ys \<Longrightarrow> \<exists>x \<in> set xs. f x = Ok y"
  by (fastforce simp: result_simps list_all2_conv_all_nth in_set_conv_nth)

lemma mapM_map [simp]: "mapM f (map g xs) = mapM (\<lambda>x. f (g x)) xs"
  by (induction xs) simp_all

lemma mapM_is_Ok: "(\<And>x. x \<in> set xs \<Longrightarrow> \<exists>y. f x = Ok y) \<Longrightarrow> \<exists>ys. mapM f xs = Ok ys"
proof (induction xs)
  case (Cons x xs)
  from Cons.prems obtain y where "f x = Ok y" by auto
  moreover from Cons obtain ys where "mapM f xs = Ok ys" by auto
  ultimately show ?case by simp
qed simp

lemma mapM_fst: "mapM (\<lambda>x. rbind (f x) (\<lambda>y. Ok (y, g x))) xs = Ok ys \<Longrightarrow> map snd ys = map g xs"
  by (induction xs arbitrary: ys) (auto simp: result_simps list_all2_Cons1)

lemma mapM_Ok_cases:
  assumes "mapM f (x # xs) = Ok ys"
  obtains y zs where "ys = y # zs" "f x = Ok y" "mapM f xs = Ok zs"
  using assms by (auto simp: result_simps list_all2_Cons1)

lemma mapM_no_Panic:
  "(\<And>x. x \<in> set xs \<Longrightarrow> \<not> is_panic (f x)) \<Longrightarrow> \<not> is_panic (mapM f xs)"
proof (induction xs)
  case (Cons x xs)
  then have "\<not> is_panic (f x)" "\<not> is_panic (mapM f xs)" by auto
  then show ?case
    by (cases "f x"; cases "mapM f xs") (auto simp: is_panic_def)
qed (simp add: is_panic_def)

text \<open>An optional field: \<open>None\<close> stays \<open>None\<close>.\<close>

definition map_optM :: "('a \<Rightarrow> ('b, 'e) result) \<Rightarrow> 'a option \<Rightarrow> ('b option, 'e) result" where
  "map_optM f x = (case x of None \<Rightarrow> Ok None | Some y \<Rightarrow> rbind (f y) (\<lambda>z. Ok (Some z)))"

lemma map_optM_simps [simp]:
  "map_optM f None = Ok None" "map_optM f (Some y) = rbind (f y) (\<lambda>z. Ok (Some z))"
  by (simp_all add: map_optM_def)

lemma map_optM_cong [fundef_cong]:
  "x = y \<Longrightarrow> (\<And>z. y = Some z \<Longrightarrow> f z = g z) \<Longrightarrow> map_optM f x = map_optM g y"
  by (cases y) auto

text \<open>A loop over a vector that also updates a state.\<close>

fun mapSM :: "('a \<Rightarrow> 's \<Rightarrow> ('b \<times> 's, 'e) result) \<Rightarrow> 'a list \<Rightarrow> 's \<Rightarrow> ('b list \<times> 's, 'e) result" where
  "mapSM f [] s = Ok ([], s)"
| "mapSM f (x # xs) s =
     rbind (f x s) (\<lambda>(y, s'). rbind (mapSM f xs s') (\<lambda>(ys, s''). Ok (y # ys, s'')))"

lemma mapSM_cong [fundef_cong]:
  "xs = ys \<Longrightarrow> s = t \<Longrightarrow> (\<And>x s. x \<in> set ys \<Longrightarrow> f x s = g x s) \<Longrightarrow> mapSM f xs s = mapSM g ys t"
proof (induction ys arbitrary: xs s t)
  case (Cons y ys)
  then have "f y t = g y t" "mapSM f ys s' = mapSM g ys s'" for s' by auto
  with Cons.prems(1,2) show ?case by (auto intro!: rbind_cong)
qed simp

lemma mapM_roundtrip:
  "(\<And>x. x \<in> set xs \<Longrightarrow> \<exists>p. enc x = Ok p \<and> dec p = Ok x) \<Longrightarrow>
     \<exists>ps. mapM enc xs = Ok ps \<and> mapM dec ps = Ok xs"
proof (induction xs)
  case (Cons x xs)
  from Cons.prems [of x] obtain p where "enc x = Ok p" "dec p = Ok x" by auto
  moreover from Cons obtain ps where "mapM enc xs = Ok ps" "mapM dec ps = Ok xs" by auto
  ultimately show ?case by auto
qed simp

section \<open>The contract of a conversion pair\<close>

locale serde =
  fixes enc :: "'a \<Rightarrow> ('p, 'e) result"
    and dec :: "'p \<Rightarrow> ('a, 'e) result"
    and supported :: "'a \<Rightarrow> bool"
  assumes roundtrip: "supported x \<Longrightarrow> \<exists>p. enc x = Ok p \<and> dec p = Ok x"
begin

lemma enc_ok: "supported x \<Longrightarrow> \<exists>p. enc x = Ok p"
  using roundtrip by blast

lemma dec_enc: "supported x \<Longrightarrow> enc x = Ok p \<Longrightarrow> dec p = Ok x"
  using roundtrip [of x] by auto

lemma enc_inj: "supported x \<Longrightarrow> supported y \<Longrightarrow> enc x = enc y \<Longrightarrow> x = y"
  using roundtrip [of x] roundtrip [of y] by auto

lemma list_roundtrip:
  "list_all supported xs \<Longrightarrow> \<exists>ps. mapM enc xs = Ok ps \<and> mapM dec ps = Ok xs"
  using mapM_roundtrip [of xs enc dec] roundtrip by (simp add: list_all_iff)

lemma option_roundtrip:
  "pred_option supported x \<Longrightarrow> \<exists>p. map_optM enc x = Ok p \<and> map_optM dec p = Ok x"
proof (cases x)
  case (Some y)
  moreover assume "pred_option supported x"
  ultimately show ?thesis using roundtrip [of y] by auto
qed simp

end

section \<open>Decimal rendering of unsigned integers\<close>

definition digit_char :: "nat \<Rightarrow> char" where
  "digit_char d = char_of (48 + d)"

fun show_nat :: "nat \<Rightarrow> string" where
  "show_nat n = (if n < 10 then [digit_char n] else show_nat (n div 10) @ [digit_char (n mod 10)])"

declare show_nat.simps [simp del]

definition digit_val :: "char \<Rightarrow> nat" where
  "digit_val c = of_char c - 48"

definition read_nat :: "string \<Rightarrow> nat" where
  "read_nat s = foldl (\<lambda>acc c. 10 * acc + digit_val c) 0 s"

lemma digit_val_char: "d < 10 \<Longrightarrow> digit_val (digit_char d) = d"
  by (simp add: digit_val_def digit_char_def)

text \<open>\<open>format!("{}", i)\<close> on a signed integer.\<close>

definition show_int :: "int \<Rightarrow> string" where
  "show_int i = (if i < 0 then CHR ''-'' # show_nat (nat (- i)) else show_nat (nat i))"

lemma read_show_nat: "read_nat (show_nat n) = n"
proof (induction n rule: show_nat.induct)
  case (1 n)
  show ?case
  proof (cases "n < 10")
    case True
    then show ?thesis by (subst show_nat.simps) (simp add: read_nat_def digit_val_char)
  next
    case False
    have "read_nat (show_nat n) = 10 * read_nat (show_nat (n div 10)) + digit_val (digit_char (n mod 10))"
      using False by (subst show_nat.simps) (simp add: read_nat_def)
    also have "\<dots> = 10 * (n div 10) + n mod 10"
      using "1.IH" False by (simp add: digit_val_char)
    finally show ?thesis by simp
  qed
qed

lemma show_nat_inj [simp]: "show_nat m = show_nat n \<longleftrightarrow> m = n"
  by (metis read_show_nat)

lemma show_nat_nonempty [simp]: "show_nat n \<noteq> []"
  by (subst show_nat.simps) simp

lemma digit_char_not_slash: "d < 10 \<Longrightarrow> digit_char d \<noteq> CHR ''/''"
proof
  assume d: "d < 10" and "digit_char d = CHR ''/''"
  then have "of_char (digit_char d) = (of_char (CHR ''/'') :: nat)" by simp
  moreover have "of_char (digit_char d) = 48 + d" using d by (simp add: digit_char_def)
  ultimately show False by simp
qed

lemma show_nat_no_slash: "CHR ''/'' \<notin> set (show_nat n)"
proof (induction n rule: show_nat.induct)
  case (1 n)
  show ?case
  proof (cases "n < 10")
    case True
    then show ?thesis using digit_char_not_slash [of n] by (subst show_nat.simps) auto
  next
    case False
    then show ?thesis
      using "1.IH" digit_char_not_slash [of "n mod 10"] by (subst show_nat.simps) auto
  qed
qed

section \<open>Splitting at a separator\<close>

text \<open>\<open>str::split(c)\<close>: the pieces between the separators, in order; always at least one piece.\<close>

fun split_on :: "'a \<Rightarrow> 'a list \<Rightarrow> 'a list list" where
  "split_on c [] = [[]]"
| "split_on c (x # xs) =
     (if x = c then [] # split_on c xs
      else (case split_on c xs of [] \<Rightarrow> [[x]] | p # ps \<Rightarrow> (x # p) # ps))"

lemma split_on_nonempty [simp]: "split_on c xs \<noteq> []"
  by (induction xs) (auto split: list.splits)

lemma split_on_no_sep: "c \<notin> set xs \<Longrightarrow> split_on c xs = [xs]"
  by (induction xs) auto

lemma split_on_append: "c \<notin> set xs \<Longrightarrow> split_on c (xs @ c # ys) = xs # split_on c ys"
  by (induction xs) auto

lemma sep_append_inj:
  assumes "c \<notin> set a" "c \<notin> set a'" "a @ c # b = a' @ c # b'"
  shows "a = a' \<and> b = b'"
  using assms
proof (induction a arbitrary: a')
  case Nil
  then show ?case by (cases a') auto
next
  case (Cons x xs)
  then show ?case by (cases a') auto
qed

section \<open>Lists\<close>

lemma list_all2_eq_map: "list_all2 (\<lambda>x y. y = f x) xs ys \<longleftrightarrow> ys = map f xs"
  by (induction xs arbitrary: ys) (auto simp: list_all2_Cons1)

lemma find_Some_iff_in: "List.find P xs = Some x \<Longrightarrow> x \<in> set xs \<and> P x"
  by (induction xs) (auto split: if_splits)

end
