(* ===== verification/Df_Types.thy ===== *)
theory Df_Types
  imports Ballista_Prelude
begin

text \<open>
  The data the code exchanges with Arrow and DataFusion, with the constructors the code matches on:
  Arrow data types, fields and schemas, DataFusion scalar values, operators, functions and logical
  expressions.  These types are declared by the libraries; the matches of
  \<open>serde/logical_plan/to_proto.rs\<close> and \<open>from_proto.rs\<close> name their variants, and a type whose match
  has a catch-all arm gets one extra constructor (\<open>Other\<dots>\<close>) that carries the variant's name.
  An \<open>f32\<close> or \<open>f64\<close> is carried as its bits: the code only copies it.

  Also here: \<open>BallistaError\<close> of \<open>core/src/error.rs\<close>.  An error variant that wraps a library error
  keeps that error's text.
\<close>

section \<open>core/src/error.rs\<close>

datatype BallistaError =
    NotImplemented string
  | General string
  | Internal string
  | ArrowError string
  | DataFusionError string
  | SqlError string
  | IoError string
  | TonicError string
  | GrpcError string
  | TokioError string

type_synonym 'a bresult = "('a, BallistaError) result"

definition ballista_error :: "string \<Rightarrow> BallistaError" where
  "ballista_error message = General message"

definition proto_error :: "string \<Rightarrow> BallistaError" where
  "proto_error message = General message"

text \<open>
  The \<open>Display\<close> text.  \<open>DataFusionError\<close> and \<open>SqlError\<close> are printed with \<open>{:?}\<close>; the rendering
  of the wrapped error is the parameter \<open>dbg\<close>.
\<close>

fun display_error :: "(string \<Rightarrow> string) \<Rightarrow> BallistaError \<Rightarrow> string" where
  "display_error dbg (NotImplemented d) = ''Not implemented: '' @ d"
| "display_error dbg (General d) = ''General error: '' @ d"
| "display_error dbg (ArrowError d) = ''Arrow error: '' @ d"
| "display_error dbg (DataFusionError d) = ''DataFusion error: '' @ dbg d"
| "display_error dbg (SqlError d) = ''SQL error: '' @ dbg d"
| "display_error dbg (IoError d) = ''IO error: '' @ d"
| "display_error dbg (TonicError d) = ''Tonic error: '' @ d"
| "display_error dbg (GrpcError d) = ''Grpc error: '' @ d"
| "display_error dbg (Internal d) = ''Internal Ballista error: '' @ d"
| "display_error dbg (TokioError d) = ''Tokio join error: '' @ d"

section \<open>Arrow data types\<close>

datatype time_unit = Second | Millisecond | Microsecond | Nanosecond

datatype interval_unit = YearMonth | DayTime

datatype data_type =
    DT_Null | DT_Boolean
  | DT_Int8 | DT_Int16 | DT_Int32 | DT_Int64
  | DT_UInt8 | DT_UInt16 | DT_UInt32 | DT_UInt64
  | DT_Float16 | DT_Float32 | DT_Float64
  | DT_Timestamp time_unit "string option"
  | DT_Date32 | DT_Date64
  | DT_Time32 time_unit | DT_Time64 time_unit
  | DT_Duration time_unit
  | DT_Interval interval_unit
  | DT_Binary | DT_FixedSizeBinary u32 | DT_LargeBinary
  | DT_Utf8 | DT_LargeUtf8
  | DT_List field
  | DT_FixedSizeList field u32
  | DT_LargeList field
  | DT_Struct "field list"
  | DT_Union "field list"
  | DT_Dictionary data_type data_type
  | DT_Decimal nat nat
and field = MkField (f_name: string) (f_data_type: data_type) (f_nullable: bool)

type_synonym schema = "field list"

section \<open>DataFusion scalar values\<close>

datatype scalar_value =
    SV_Boolean "bool option"
  | SV_Float32 "u32 option"
  | SV_Float64 "u64 option"
  | SV_Int8 "u8 option"
  | SV_Int16 "u16 option"
  | SV_Int32 "u32 option"
  | SV_Int64 "u64 option"
  | SV_UInt8 "u8 option"
  | SV_UInt16 "u16 option"
  | SV_UInt32 "u32 option"
  | SV_UInt64 "u64 option"
  | SV_Utf8 "string option"
  | SV_LargeUtf8 "string option"
  | SV_List "scalar_value list option" data_type
  | SV_Date32 "u32 option"
  | SV_TimeMicrosecond "u64 option"
  | SV_TimeNanosecond "u64 option"
  | SV_Other string

section \<open>DataFusion operators and functions\<close>

datatype operator =
    Op_And | Op_Or | Op_Eq | Op_NotEq | Op_LtEq | Op_Lt | Op_Gt | Op_GtEq
  | Op_Plus | Op_Minus | Op_Multiply | Op_Divide | Op_Like
  | Op_Other string

datatype aggregate_function = Agg_Min | Agg_Max | Agg_Sum | Agg_Avg | Agg_Count

datatype builtin_scalar_function =
    F_Sqrt | F_Sin | F_Cos | F_Tan | F_Asin | F_Acos | F_Atan | F_Exp
  | F_Log | F_Log2 | F_Log10 | F_Floor | F_Ceil | F_Round | F_Trunc | F_Abs | F_Signum
  | F_Length | F_Concat | F_Lower | F_Upper | F_Trim | F_Ltrim | F_Rtrim
  | F_ToTimestamp | F_Array | F_NullIf | F_DateTrunc
  | F_MD5 | F_SHA224 | F_SHA256 | F_SHA384 | F_SHA512
  | F_Other string

text \<open>\<open>#[derive(Debug)]\<close> prints the variant's name.\<close>

fun debug_operator :: "operator \<Rightarrow> string" where
  "debug_operator Op_And = ''And''"
| "debug_operator Op_Or = ''Or''"
| "debug_operator Op_Eq = ''Eq''"
| "debug_operator Op_NotEq = ''NotEq''"
| "debug_operator Op_LtEq = ''LtEq''"
| "debug_operator Op_Lt = ''Lt''"
| "debug_operator Op_Gt = ''Gt''"
| "debug_operator Op_GtEq = ''GtEq''"
| "debug_operator Op_Plus = ''Plus''"
| "debug_operator Op_Minus = ''Minus''"
| "debug_operator Op_Multiply = ''Multiply''"
| "debug_operator Op_Divide = ''Divide''"
| "debug_operator Op_Like = ''Like''"
| "debug_operator (Op_Other n) = n"

section \<open>DataFusion logical expressions\<close>

datatype expr =
    E_Column string
  | E_Alias expr string
  | E_Literal scalar_value
  | E_BinaryExpr expr operator expr
  | E_AggregateFunction aggregate_function "expr list" bool
  | E_ScalarVariable "string list"
  | E_ScalarFunction builtin_scalar_function "expr list"
  | E_ScalarUDF string "expr list"
  | E_AggregateUDF string "expr list"
  | E_Not expr
  | E_IsNull expr
  | E_IsNotNull expr
  | E_Between expr bool expr expr
  | E_Case "expr option" "(expr \<times> expr) list" "expr option"
  | E_Cast expr data_type
  | E_Sort expr bool bool
  | E_Negative expr
  | E_InList expr "expr list" bool
  | E_Wildcard

datatype join_type = J_Inner | J_Left | J_Right

end
