(* ===== verification/Sched_Types.thy ===== *)
theory Sched_Types
  imports Df_Types
begin

text \<open>
  The scheduler's own data and its protocol buffer form: \<open>PartitionId\<close>, \<open>ExecutorMeta\<close> and
  \<open>PartitionLocation\<close> of \<open>core/src/serde/scheduler/mod.rs\<close>, the messages of
  \<open>core/proto/ballista.proto\<close> they travel in, and the conversions of \<open>to_proto.rs\<close> and
  \<open>from_proto.rs\<close> beside it.  A \<open>usize\<close> is cast to \<open>u32\<close> on the wire, so the round trip is the
  identity only below \<open>2 ^ 32\<close>; the theorems say what happens above it too.
\<close>

section \<open>core/src/serde/scheduler/mod.rs\<close>

record partition_id =
  pid_job :: string
  pid_stage :: nat
  pid_partition :: nat

record executor_meta =
  em_id :: string
  em_host :: string
  em_port :: u16

record partition_location =
  pl_partition_id :: partition_id
  pl_executor_meta :: executor_meta

definition PartitionId_new :: "string \<Rightarrow> nat \<Rightarrow> nat \<Rightarrow> partition_id" where
  "PartitionId_new job_id stage_id partition_id =
     \<lparr>pid_job = job_id, pid_stage = stage_id, pid_partition = partition_id\<rparr>"

section \<open>Messages of core/proto/ballista.proto\<close>

record pb_partition_id =
  ppid_job :: string
  ppid_stage :: u32
  ppid_partition :: u32

record pb_executor_metadata =
  pem_id :: string
  pem_host :: string
  pem_port :: u32

record pb_partition_location =
  ppl_partition_id :: "pb_partition_id option"
  ppl_executor_meta :: "pb_executor_metadata option"

text \<open>\<open>RunningTask\<close> and \<open>CompletedTask\<close> carry the executor's id, \<open>FailedTask\<close> the error text.\<close>

datatype task_state = TS_Running string | TS_Failed string | TS_Completed string

record task_status =
  ts_partition_id :: "pb_partition_id option"
  ts_status :: "task_state option"

datatype job_state =
    JS_Queued
  | JS_Running
  | JS_Failed string
  | JS_Completed "pb_partition_location list"

record job_status =
  js_status :: "job_state option"

section \<open>Conversions\<close>

definition executor_meta_to_pb :: "executor_meta \<Rightarrow> pb_executor_metadata" where
  "executor_meta_to_pb m =
     \<lparr>pem_id = em_id m, pem_host = em_host m, pem_port = ucast (em_port m)\<rparr>"

definition executor_meta_from_pb :: "pb_executor_metadata \<Rightarrow> executor_meta" where
  "executor_meta_from_pb m =
     \<lparr>em_id = pem_id m, em_host = pem_host m, em_port = ucast (pem_port m)\<rparr>"

definition partition_id_to_pb :: "partition_id \<Rightarrow> pb_partition_id" where
  "partition_id_to_pb p =
     \<lparr>ppid_job = pid_job p,
      ppid_stage = usize_to_u32 (pid_stage p),
      ppid_partition = usize_to_u32 (pid_partition p)\<rparr>"

definition partition_id_from_pb :: "pb_partition_id \<Rightarrow> partition_id bresult" where
  "partition_id_from_pb p =
     Ok (PartitionId_new (ppid_job p) (u32_to_usize (ppid_stage p)) (u32_to_usize (ppid_partition p)))"

definition partition_location_to_pb :: "partition_location \<Rightarrow> pb_partition_location bresult" where
  "partition_location_to_pb l =
     Ok \<lparr>ppl_partition_id = Some (partition_id_to_pb (pl_partition_id l)),
         ppl_executor_meta = Some (executor_meta_to_pb (pl_executor_meta l))\<rparr>"

definition partition_location_from_pb :: "pb_partition_location \<Rightarrow> partition_location bresult" where
  "partition_location_from_pb l =
     rbind (ok_or (ppl_partition_id l) (General ''partition_id in PartitionLocation is missing.''))
       (\<lambda>pb_pid. rbind (partition_id_from_pb pb_pid)
       (\<lambda>pid. rbind (ok_or (ppl_executor_meta l) (General ''executor_meta in PartitionLocation is missing''))
       (\<lambda>em. Ok \<lparr>pl_partition_id = pid, pl_executor_meta = executor_meta_from_pb em\<rparr>)))"

section \<open>Round trips\<close>

definition pid_fits :: "partition_id \<Rightarrow> bool" where
  "pid_fits p \<longleftrightarrow> pid_stage p < 2 ^ 32 \<and> pid_partition p < 2 ^ 32"

definition location_fits :: "partition_location \<Rightarrow> bool" where
  "location_fits l = pid_fits (pl_partition_id l)"

lemma ucast_u16_u32 [simp]: "ucast (ucast (w :: u16) :: u32) = w"
  by (simp add: ucast_up_ucast_id is_up)

lemma executor_meta_roundtrip [simp]: "executor_meta_from_pb (executor_meta_to_pb m) = m"
  by (simp add: executor_meta_from_pb_def executor_meta_to_pb_def)

lemma executor_meta_from_pb_id [simp]: "em_id (executor_meta_from_pb m) = pem_id m"
  by (simp add: executor_meta_from_pb_def)

lemma executor_meta_to_pb_id [simp]: "pem_id (executor_meta_to_pb m) = em_id m"
  by (simp add: executor_meta_to_pb_def)

lemma partition_id_wire:
  "partition_id_from_pb (partition_id_to_pb p) =
     Ok (p\<lparr>pid_stage := pid_stage p mod 2 ^ 32, pid_partition := pid_partition p mod 2 ^ 32\<rparr>)"
  by (simp add: partition_id_from_pb_def partition_id_to_pb_def PartitionId_new_def)

lemma partition_id_from_pb_inj:
  "partition_id_from_pb p = partition_id_from_pb q \<Longrightarrow> p = q"
  by (cases p; cases q)
     (auto simp: partition_id_from_pb_def PartitionId_new_def u32_to_usize_def intro: unsigned_word_eqI)

interpretation pid_serde: serde "\<lambda>p. Ok (partition_id_to_pb p)" partition_id_from_pb pid_fits
  by unfold_locales (simp add: partition_id_wire pid_fits_def)

interpretation location_serde: serde partition_location_to_pb partition_location_from_pb location_fits
proof unfold_locales
  fix l :: partition_location
  assume "location_fits l"
  then have "partition_id_from_pb (partition_id_to_pb (pl_partition_id l)) = Ok (pl_partition_id l)"
    using pid_serde.dec_enc by (simp add: location_fits_def)
  then show "\<exists>p. partition_location_to_pb l = Ok p \<and> partition_location_from_pb p = Ok l"
    by (simp add: partition_location_to_pb_def partition_location_from_pb_def)
qed

text \<open>The id a message stands for.\<close>

definition pid_of_pb :: "pb_partition_id \<Rightarrow> partition_id" where
  "pid_of_pb pb = PartitionId_new (ppid_job pb) (u32_to_usize (ppid_stage pb)) (u32_to_usize (ppid_partition pb))"

lemma pid_of_pb_inverse [simp]: "partition_id_to_pb (pid_of_pb pb) = pb"
  by (cases pb) (simp add: pid_of_pb_def partition_id_to_pb_def PartitionId_new_def u32_to_usize_def usize_to_u32_def)

lemma pid_of_pb_fits: "pid_fits p \<Longrightarrow> pid_of_pb (partition_id_to_pb p) = p"
  using pid_serde.dec_enc [of p] by (simp add: pid_of_pb_def partition_id_from_pb_def)

end
