(* ===== verification/Exec_Plans.thy ===== *)
theory Exec_Plans
  imports Sched_Types
begin

text \<open>
  Physical plans.  \<open>Arc<dyn ExecutionPlan>\<close> becomes the datatype \<open>exec_plan\<close>: one constructor per
  operator the code downcasts to, with what its accessors give, and \<open>OtherExec\<close> for any operator
  the code does not name.  Ballista's own operators (\<open>QueryStageExec\<close>, \<open>ShuffleReaderExec\<close>,
  \<open>UnresolvedShuffleExec\<close> of \<open>core/src/execution_plans\<close> and \<open>CollectExec\<close> of
  \<open>executor/src/collect.rs\<close>) have their trait methods translated; the methods of the DataFusion
  operators are the parameter \<open>df_ops\<close>, and what the planner relies on of them is the named
  hypothesis \<open>df_replaces\<close>, the documented contract of \<open>with_new_children\<close>.
\<close>

section \<open>Operators\<close>

datatype physical_expr =
    PE_Column string
  | PE_BinaryExpr physical_expr operator physical_expr
  | PE_CaseExpr "physical_expr option" "(physical_expr \<times> physical_expr) list" "physical_expr option"
  | PE_NotExpr physical_expr
  | PE_IsNullExpr physical_expr
  | PE_IsNotNullExpr physical_expr
  | PE_InListExpr physical_expr "physical_expr list" bool
  | PE_NegativeExpr physical_expr
  | PE_Literal scalar_value
  | PE_CastExpr physical_expr data_type
  | PE_ScalarFunctionExpr string "physical_expr list"
  | PE_Other string

datatype agg_kind = AK_Avg | AK_Sum | AK_Count | AK_Other string

text \<open>\<open>dyn AggregateExpr\<close>: its concrete type, \<open>expressions()\<close> and the name of \<open>field()?\<close>.\<close>

datatype agg_expr =
  MkAggExpr (ae_kind: agg_kind) (ae_expressions: "physical_expr list") (ae_field: "string bresult")

datatype sort_expr = MkSortExpr (se_expr: physical_expr) (se_descending: bool) (se_nulls_first: bool)

datatype aggregate_mode = Partial | Final

record csv_exec =
  cx_path :: string
  cx_filenames :: "string list"
  cx_projection :: "nat list option"
  cx_file_extension :: string
  cx_file_schema :: schema
  cx_has_header :: bool
  cx_delimiter :: "u8 option"

record parquet_exec =
  px_partitions :: "string list list"
  px_projection :: "nat list"
  px_batch_size :: nat

datatype exec_plan =
    ProjectionExec "(physical_expr \<times> string) list" exec_plan
  | FilterExec physical_expr exec_plan
  | GlobalLimitExec exec_plan nat
  | LocalLimitExec exec_plan nat
  | HashJoinExec exec_plan exec_plan "(string \<times> string) list" join_type
  | HashAggregateExec aggregate_mode "(physical_expr \<times> string) list" "agg_expr list" exec_plan schema
  | EmptyExec bool schema
  | CoalesceBatchesExec exec_plan nat
  | CsvExec csv_exec
  | ParquetExec parquet_exec
  | MergeExec exec_plan
  | SortExec "sort_expr list" exec_plan
  | ShuffleReaderExec "partition_location list" schema
  | UnresolvedShuffleExec "nat list" schema nat
  | QueryStageExec string nat exec_plan
  | CollectExec exec_plan
  | OtherExec string "exec_plan list"

fun children :: "exec_plan \<Rightarrow> exec_plan list" where
  "children (ProjectionExec _ c) = [c]"
| "children (FilterExec _ c) = [c]"
| "children (GlobalLimitExec c _) = [c]"
| "children (LocalLimitExec c _) = [c]"
| "children (HashJoinExec l r _ _) = [l, r]"
| "children (HashAggregateExec _ _ _ c _) = [c]"
| "children (EmptyExec _ _) = []"
| "children (CoalesceBatchesExec c _) = [c]"
| "children (CsvExec _) = []"
| "children (ParquetExec _) = []"
| "children (MergeExec c) = [c]"
| "children (SortExec _ c) = [c]"
| "children (ShuffleReaderExec _ _) = []"
| "children (UnresolvedShuffleExec _ _ _) = []"
| "children (QueryStageExec _ _ c) = [c]"
| "children (CollectExec c) = [c]"
| "children (OtherExec _ cs) = cs"

lemma children_size [simp]: "c \<in> set (children p) \<Longrightarrow> size c < size p"
  by (cases p) (auto simp: less_Suc_eq_le size_list_estimation')

section \<open>Trait methods\<close>

text \<open>What the DataFusion operators answer.\<close>

record df_ops =
  df_schema :: "exec_plan \<Rightarrow> schema"
  df_partition_count :: "exec_plan \<Rightarrow> nat"
  df_with_new_children :: "exec_plan \<Rightarrow> exec_plan list \<Rightarrow> exec_plan bresult"

text \<open>\<open>QueryStageExec::try_new\<close>, \<open>ShuffleReaderExec::try_new\<close>, \<open>UnresolvedShuffleExec::new\<close>.\<close>

record query_stage =
  qs_job_id :: string
  qs_stage_id :: nat
  qs_child :: exec_plan

definition QueryStageExec_try_new :: "string \<Rightarrow> nat \<Rightarrow> exec_plan \<Rightarrow> query_stage bresult" where
  "QueryStageExec_try_new job_id stage_id child =
     Ok \<lparr>qs_job_id = job_id, qs_stage_id = stage_id, qs_child = child\<rparr>"

text \<open>The coercion of \<open>Arc<QueryStageExec>\<close> to \<open>Arc<dyn ExecutionPlan>\<close>.\<close>

definition stage_plan :: "query_stage \<Rightarrow> exec_plan" where
  "stage_plan s = QueryStageExec (qs_job_id s) (qs_stage_id s) (qs_child s)"

definition ShuffleReaderExec_try_new :: "partition_location list \<Rightarrow> schema \<Rightarrow> exec_plan bresult" where
  "ShuffleReaderExec_try_new partition_meta sch = Ok (ShuffleReaderExec partition_meta sch)"

definition UnresolvedShuffleExec_new :: "nat list \<Rightarrow> schema \<Rightarrow> nat \<Rightarrow> exec_plan" where
  "UnresolvedShuffleExec_new query_stage_ids sch partition_count =
     UnresolvedShuffleExec query_stage_ids sch partition_count"

fun plan_schema :: "df_ops \<Rightarrow> exec_plan \<Rightarrow> schema" where
  "plan_schema df (QueryStageExec _ _ c) = plan_schema df c"
| "plan_schema df (ShuffleReaderExec _ sch) = sch"
| "plan_schema df (UnresolvedShuffleExec _ sch _) = sch"
| "plan_schema df (CollectExec c) = plan_schema df c"
| "plan_schema df p = df_schema df p"

text \<open>\<open>output_partitioning().partition_count()\<close>.\<close>

fun partition_count :: "df_ops \<Rightarrow> exec_plan \<Rightarrow> nat" where
  "partition_count df (QueryStageExec _ _ c) = partition_count df c"
| "partition_count df (ShuffleReaderExec locs _) = length locs"
| "partition_count df (UnresolvedShuffleExec _ _ n) = n"
| "partition_count df (CollectExec _) = 1"
| "partition_count df p = df_partition_count df p"

definition QueryStageExec_with_new_children :: "string \<Rightarrow> nat \<Rightarrow> exec_plan list \<Rightarrow> exec_plan bresult" where
  "QueryStageExec_with_new_children job_id stage_id cs =
     (if length cs = 1 then
        rbind (index_vec cs 0) (\<lambda>c. rbind (QueryStageExec_try_new job_id stage_id c) (\<lambda>q. Ok (stage_plan q)))
      else Panic ''assertion failed: children.len() == 1'')"

definition ShuffleReaderExec_with_new_children :: "exec_plan list \<Rightarrow> exec_plan bresult" where
  "ShuffleReaderExec_with_new_children cs =
     Err (DataFusionError ''Ballista ShuffleReaderExec does not support with_new_children()'')"

definition UnresolvedShuffleExec_with_new_children :: "exec_plan list \<Rightarrow> exec_plan bresult" where
  "UnresolvedShuffleExec_with_new_children cs =
     Err (DataFusionError ''Ballista UnresolvedShuffleExec does not support with_new_children()'')"

definition CollectExec_with_new_children :: "exec_plan list \<Rightarrow> exec_plan bresult" where
  "CollectExec_with_new_children cs = Panic ''not implemented''"

fun with_new_children :: "df_ops \<Rightarrow> exec_plan \<Rightarrow> exec_plan list \<Rightarrow> exec_plan bresult" where
  "with_new_children df (QueryStageExec j s _) cs = QueryStageExec_with_new_children j s cs"
| "with_new_children df (ShuffleReaderExec _ _) cs = ShuffleReaderExec_with_new_children cs"
| "with_new_children df (UnresolvedShuffleExec _ _ _) cs = UnresolvedShuffleExec_with_new_children cs"
| "with_new_children df (CollectExec _) cs = CollectExec_with_new_children cs"
| "with_new_children df p cs = df_with_new_children df p cs"

section \<open>The contract of with_new_children\<close>

text \<open>
  DataFusion documents \<open>with_new_children\<close> as returning "a new plan where all children were replaced
  by new plans", the vector being as long as \<open>children()\<close>.  \<open>replace_children\<close> is that plan.
\<close>

fun replace_children :: "exec_plan \<Rightarrow> exec_plan list \<Rightarrow> exec_plan" where
  "replace_children (ProjectionExec e _) [c] = ProjectionExec e c"
| "replace_children (FilterExec e _) [c] = FilterExec e c"
| "replace_children (GlobalLimitExec _ n) [c] = GlobalLimitExec c n"
| "replace_children (LocalLimitExec _ n) [c] = LocalLimitExec c n"
| "replace_children (HashJoinExec _ _ on j) [l, r] = HashJoinExec l r on j"
| "replace_children (HashAggregateExec m g a _ s) [c] = HashAggregateExec m g a c s"
| "replace_children (CoalesceBatchesExec _ n) [c] = CoalesceBatchesExec c n"
| "replace_children (MergeExec _) [c] = MergeExec c"
| "replace_children (SortExec e _) [c] = SortExec e c"
| "replace_children (QueryStageExec j s _) [c] = QueryStageExec j s c"
| "replace_children (CollectExec _) [c] = CollectExec c"
| "replace_children (OtherExec n _) cs = OtherExec n cs"
| "replace_children p cs = p"

fun is_ballista_op :: "exec_plan \<Rightarrow> bool" where
  "is_ballista_op (QueryStageExec _ _ _) = True"
| "is_ballista_op (ShuffleReaderExec _ _) = True"
| "is_ballista_op (UnresolvedShuffleExec _ _ _) = True"
| "is_ballista_op (CollectExec _) = True"
| "is_ballista_op _ = False"

definition df_replaces :: "df_ops \<Rightarrow> bool" where
  "df_replaces df \<longleftrightarrow>
     (\<forall>p cs. \<not> is_ballista_op p \<longrightarrow> length cs = length (children p) \<longrightarrow>
        df_with_new_children df p cs = Ok (replace_children p cs))"

text \<open>
  The instance used by the witnesses: a scan has one partition per file, a merge, a sort and a
  global limit have one, every other operator keeps the partitions of its first input.
\<close>

function plain_partitions :: "exec_plan \<Rightarrow> nat" where
  "plain_partitions p =
     (case p of
        CsvExec c \<Rightarrow> length (cx_filenames c)
      | ParquetExec x \<Rightarrow> length (px_partitions x)
      | ShuffleReaderExec locs _ \<Rightarrow> length locs
      | UnresolvedShuffleExec _ _ n \<Rightarrow> n
      | MergeExec _ \<Rightarrow> 1
      | SortExec _ _ \<Rightarrow> 1
      | GlobalLimitExec _ _ \<Rightarrow> 1
      | _ \<Rightarrow> (if children p = [] then 1 else plain_partitions (hd (children p))))"
  by pat_completeness auto
termination
proof (relation "measure size", goal_cases)
  case 1
  show ?case by simp
qed (metis children_size hd_in_set in_measure)+

declare plain_partitions.simps [simp del]

definition df_plain :: df_ops where
  "df_plain = \<lparr>df_schema = (\<lambda>_. []), df_partition_count = plain_partitions,
     df_with_new_children = (\<lambda>p cs. Ok (replace_children p cs))\<rparr>"

lemma df_replaces_plain: "df_replaces df_plain"
  by (simp add: df_replaces_def df_plain_def)

section \<open>Lemmas on plans\<close>

lemma length_1_iff: "length xs = Suc 0 \<longleftrightarrow> (\<exists>x. xs = [x])"
  by (auto simp: length_Suc_conv)

lemma length_2_iff: "length xs = Suc (Suc 0) \<longleftrightarrow> (\<exists>x y. xs = [x, y])"
  by (auto simp: length_Suc_conv)

lemma children_replace [simp, plan_simps]:
  "length cs = length (children p) \<Longrightarrow> children (replace_children p cs) = cs"
  by (cases p) (auto simp: length_1_iff length_2_iff)

lemma replace_children_same [simp, plan_simps]: "replace_children p (children p) = p"
  by (cases p) auto

lemma replace_children_twice [plan_simps]:
  "length cs = length (children p) \<Longrightarrow> length ds = length cs \<Longrightarrow>
     replace_children (replace_children p cs) ds = replace_children p ds"
  by (cases p) (auto simp: length_1_iff length_2_iff)

lemma is_ballista_replace [simp, plan_simps]: "is_ballista_op (replace_children p cs) = is_ballista_op p"
  by (induction p cs rule: replace_children.induct) auto

lemma with_new_children_df [plan_simps]:
  "\<not> is_ballista_op p \<Longrightarrow> with_new_children df p cs = df_with_new_children df p cs"
  by (cases p) auto

lemma with_new_children_replace [plan_simps]:
  assumes "df_replaces df" "\<not> is_ballista_op p" "length cs = length (children p)"
  shows "with_new_children df p cs = Ok (replace_children p cs)"
  using assms by (simp add: with_new_children_df df_replaces_def)

lemma with_new_children_query_stage [plan_simps]:
  "with_new_children df (QueryStageExec j s c) [c'] = Ok (QueryStageExec j s c')"
  by (simp add: QueryStageExec_with_new_children_def QueryStageExec_try_new_def stage_plan_def)

text \<open>A plan that only uses DataFusion's operators.\<close>

function df_plan :: "exec_plan \<Rightarrow> bool" where
  "df_plan p = (\<not> is_ballista_op p \<and> list_all df_plan (children p))"
  by pat_completeness auto
termination by (relation "measure size") auto

declare df_plan.simps [simp del]

lemma df_plan_children: "df_plan p \<Longrightarrow> c \<in> set (children p) \<Longrightarrow> df_plan c"
  by (subst (asm) df_plan.simps) (simp add: list_all_iff)

lemma df_plan_not_ballista: "df_plan p \<Longrightarrow> \<not> is_ballista_op p"
  by (subst (asm) df_plan.simps) simp

text \<open>Induction over a plan through \<open>children\<close>.\<close>

lemma plan_induct [case_names plan]:
  assumes "\<And>p. (\<And>c. c \<in> set (children p) \<Longrightarrow> P c) \<Longrightarrow> P p"
  shows "P p"
  by (induction p rule: measure_induct_rule [where f = size]) (auto intro: assms)

end
