(* ===== verification/Planner.thy ===== *)
theory Planner
  imports Exec_Plans
begin

text \<open>
  The distributed planner, \<open>scheduler/src/planner.rs\<close>, and \<open>find_unresolved_shuffles\<close> of
  \<open>scheduler/src/state/mod.rs\<close>.  \<open>DistributedPlanner\<close> keeps the executors and the last stage id it
  gave out; the counter is threaded through the recursion.  The branch of
  \<open>plan_query_stages_internal\<close> that downcasts to \<open>DFTableAdapter\<close> has no constructor to match:
  that type is a table provider and implements no \<open>ExecutionPlan\<close>.

  The planner's contract is stated against \<open>expand\<close>, which puts the stages back together: the
  stages are well formed (\<open>stages_ok\<close>) and expand to the plan they were made from.
\<close>

section \<open>State\<close>

record distributed_planner =
  dp_executors :: "executor_meta list"
  dp_next_stage_id :: nat

definition DistributedPlanner_try_new :: "executor_meta list \<Rightarrow> distributed_planner bresult" where
  "DistributedPlanner_try_new executors =
     (if executors = [] then Err (General ''DistributedPlanner requires at least one executor'')
      else Ok \<lparr>dp_executors = executors, dp_next_stage_id = 0\<rparr>)"

text \<open>Both the new counter and the id handed out.\<close>

definition next_stage_id :: "nat \<Rightarrow> nat \<times> nat" where
  "next_stage_id n = (n + 1, n + 1)"

definition create_query_stage :: "string \<Rightarrow> nat \<Rightarrow> exec_plan \<Rightarrow> query_stage bresult" where
  "create_query_stage job_id stage_id plan =
     rbind (QueryStageExec_try_new job_id stage_id plan) (\<lambda>s. Ok s)"

section \<open>Splitting a plan into stages\<close>

text \<open>The shuffle that stands for a stage in the plan that reads it.\<close>

definition stage_shuffle :: "df_ops \<Rightarrow> query_stage \<Rightarrow> exec_plan" where
  "stage_shuffle df s =
     UnresolvedShuffleExec_new [qs_stage_id s] (plan_schema df (stage_plan s))
       (partition_count df (stage_plan s))"

text \<open>The loop that puts every child into a stage of its own (it occurs twice in the code).\<close>

definition stage_child :: "df_ops \<Rightarrow> string \<Rightarrow> exec_plan \<Rightarrow> nat \<Rightarrow> ((exec_plan \<times> query_stage) \<times> nat) bresult" where
  "stage_child df job_id child n =
     (let (n', stage_id) = next_stage_id n in
      rbind (create_query_stage job_id stage_id child) (\<lambda>new_stage.
        Ok ((stage_shuffle df new_stage, new_stage), n')))"

definition stage_children ::
  "df_ops \<Rightarrow> string \<Rightarrow> exec_plan list \<Rightarrow> nat \<Rightarrow> ((exec_plan \<times> query_stage) list \<times> nat) bresult" where
  "stage_children df job_id cs n = mapSM (stage_child df job_id) cs n"

text \<open>
  What happens to an operator once its children have been planned: \<open>kids\<close> are the planned
  children, \<open>stages\<close> the stages they produced.  The merge branch stages \<open>merge.children()[0]\<close>, the
  child of the original operator.
\<close>

definition plan_operator ::
  "df_ops \<Rightarrow> string \<Rightarrow> exec_plan \<Rightarrow> exec_plan list \<Rightarrow> query_stage list \<Rightarrow> nat
    \<Rightarrow> ((exec_plan \<times> query_stage list) \<times> nat) bresult" where
  "plan_operator df job_id p kids stages n =
     (case p of
        MergeExec _ \<Rightarrow>
          (let (n', stage_id) = next_stage_id n in
           rbind (index_vec (children p) 0) (\<lambda>c0.
           rbind (create_query_stage job_id stage_id c0) (\<lambda>query_stage.
           rbind (with_new_children df p [stage_shuffle df query_stage]) (\<lambda>p'.
             Ok ((p', stages @ [query_stage]), n')))))
      | HashAggregateExec mode _ _ _ _ \<Rightarrow>
          (case mode of
             Final \<Rightarrow>
               rbind (stage_children df job_id kids n) (\<lambda>(new_children, n').
               rbind (with_new_children df p (map fst new_children)) (\<lambda>p'.
                 Ok ((p', stages @ map snd new_children), n')))
           | Partial \<Rightarrow> rbind (with_new_children df p kids) (\<lambda>p'. Ok ((p', stages), n)))
      | HashJoinExec _ _ _ _ \<Rightarrow> rbind (with_new_children df p kids) (\<lambda>p'. Ok ((p', stages), n))
      | _ \<Rightarrow>
          rbind (index_vec kids 0) (\<lambda>k0.
            if partition_count df p \<noteq> partition_count df k0 then
              rbind (stage_children df job_id kids n) (\<lambda>(new_children, n').
              rbind (with_new_children df p (map fst new_children)) (\<lambda>p'.
                Ok ((p', stages @ map snd new_children), n')))
            else rbind (with_new_children df p kids) (\<lambda>p'. Ok ((p', stages), n))))"

function plan_query_stages_internal ::
  "df_ops \<Rightarrow> string \<Rightarrow> exec_plan \<Rightarrow> nat \<Rightarrow> ((exec_plan \<times> query_stage list) \<times> nat) bresult" where
  "plan_query_stages_internal df job_id p n =
     (if children p = [] then Ok ((p, []), n)
      else rbind (mapSM (\<lambda>child m. plan_query_stages_internal df job_id child m) (children p) n)
             (\<lambda>(rs, n'). plan_operator df job_id p (map fst rs) (concat (map snd rs)) n'))"
  by pat_completeness auto
termination by (relation "measure (\<lambda>(df, j, p, n). size p)") auto

declare plan_query_stages_internal.simps [simp del]

definition plan_query_stages ::
  "df_ops \<Rightarrow> distributed_planner \<Rightarrow> string \<Rightarrow> exec_plan \<Rightarrow> (query_stage list \<times> distributed_planner) bresult" where
  "plan_query_stages df planner job_id p =
     rbind (plan_query_stages_internal df job_id p (dp_next_stage_id planner)) (\<lambda>((new_plan, stages), n).
       (let (n', stage_id) = next_stage_id n in
        rbind (create_query_stage job_id stage_id new_plan) (\<lambda>last_stage.
          Ok (stages @ [last_stage], planner\<lparr>dp_next_stage_id := n'\<rparr>))))"

section \<open>Unresolved shuffles\<close>

record unresolved_shuffle =
  us_query_stage_ids :: "nat list"
  us_schema :: schema
  us_partition_count :: nat

text \<open>\<open>as_any().downcast_ref::<UnresolvedShuffleExec>()\<close>.\<close>

fun as_unresolved :: "exec_plan \<Rightarrow> unresolved_shuffle option" where
  "as_unresolved (UnresolvedShuffleExec ids sch n) =
     Some \<lparr>us_query_stage_ids = ids, us_schema = sch, us_partition_count = n\<rparr>"
| "as_unresolved _ = None"

function find_unresolved_shuffles :: "exec_plan \<Rightarrow> unresolved_shuffle list bresult" where
  "find_unresolved_shuffles p =
     (case as_unresolved p of
        Some u \<Rightarrow> Ok [u]
      | None \<Rightarrow> rbind (mapM find_unresolved_shuffles (children p)) (\<lambda>xs. Ok (concat xs)))"
  by pat_completeness auto
termination by (relation "measure size") auto

declare find_unresolved_shuffles.simps [simp del]

type_synonym locations = "nat \<rightharpoonup> partition_location list"

definition relevant_locations :: "locations \<Rightarrow> nat list \<Rightarrow> partition_location list bresult" where
  "relevant_locations locs ids =
     rbind (mapM (\<lambda>id. ok_or (locs id)
              (General ''Missing partition location. Could not remove unresolved shuffles'')) ids)
       (\<lambda>xs. Ok (concat xs))"

function remove_unresolved_shuffles :: "df_ops \<Rightarrow> locations \<Rightarrow> exec_plan \<Rightarrow> exec_plan bresult" where
  "remove_unresolved_shuffles df locs stage =
     rbind (mapM (\<lambda>child. case as_unresolved child of
                Some u \<Rightarrow>
                  rbind (relevant_locations locs (us_query_stage_ids u)) (\<lambda>ls.
                    ShuffleReaderExec_try_new ls (us_schema u))
              | None \<Rightarrow> remove_unresolved_shuffles df locs child) (children stage))
       (\<lambda>new_children. with_new_children df stage new_children)"
  by pat_completeness auto
termination by (relation "measure (\<lambda>(df, locs, p). size p)") auto

declare remove_unresolved_shuffles.simps [simp del]

section \<open>Shuffles of a plan\<close>

function plan_shuffles :: "exec_plan \<Rightarrow> unresolved_shuffle list" where
  "plan_shuffles p = (case as_unresolved p of Some u \<Rightarrow> [u] | None \<Rightarrow> concat (map plan_shuffles (children p)))"
  by pat_completeness auto
termination by (relation "measure size") auto

declare plan_shuffles.simps [simp del]

lemma find_unresolved_shuffles_eq [plan_simps]: "find_unresolved_shuffles p = Ok (plan_shuffles p)"
proof (induction p rule: plan_induct)
  case (plan p)
  then have "mapM find_unresolved_shuffles (children p) = Ok (map plan_shuffles (children p))"
    by (rule mapM_all_Ok)
  then show ?case
    by (subst find_unresolved_shuffles.simps, subst plan_shuffles.simps) (simp split: option.split)
qed

lemma as_unresolved_ballista: "\<not> is_ballista_op p \<Longrightarrow> as_unresolved p = None"
  by (cases p) auto

lemma shuffles_unresolved: "as_unresolved p = Some u \<Longrightarrow> plan_shuffles p = [u]"
  by (subst plan_shuffles.simps) simp

lemma shuffles_children: "as_unresolved p = None \<Longrightarrow> plan_shuffles p = concat (map plan_shuffles (children p))"
  by (subst plan_shuffles.simps) simp

lemma df_plan_no_shuffles: "df_plan p \<Longrightarrow> plan_shuffles p = []"
proof (induction p rule: plan_induct)
  case (plan p)
  then have "as_unresolved p = None" "\<And>c. c \<in> set (children p) \<Longrightarrow> plan_shuffles c = []"
    by (auto simp: as_unresolved_ballista df_plan_not_ballista df_plan_children)
  then show ?case by (simp add: shuffles_children)
qed

text \<open>
  A staged plan: DataFusion operators only, except that an input may be an unresolved shuffle.
  This is what the planner puts into a stage, and what \<open>remove_unresolved_shuffles\<close> can resolve.
\<close>

function staged_plan :: "exec_plan \<Rightarrow> bool" where
  "staged_plan p =
     (\<not> is_ballista_op p \<and> list_all (\<lambda>c. as_unresolved c \<noteq> None \<or> staged_plan c) (children p))"
  by pat_completeness auto
termination by (relation "measure size") auto

declare staged_plan.simps [simp del]

lemma staged_plan_not_ballista: "staged_plan p \<Longrightarrow> \<not> is_ballista_op p"
  by (subst (asm) staged_plan.simps) simp

lemma staged_plan_child:
  "staged_plan p \<Longrightarrow> c \<in> set (children p) \<Longrightarrow> as_unresolved c = None \<Longrightarrow> staged_plan c"
  by (subst (asm) staged_plan.simps) (auto simp: list_all_iff)

lemma df_plan_staged: "df_plan p \<Longrightarrow> staged_plan p"
proof (induction p rule: plan_induct)
  case (plan p)
  then show ?case
    by (subst staged_plan.simps) (auto simp: list_all_iff df_plan_not_ballista df_plan_children)
qed

section \<open>Correctness of the planner\<close>

text \<open>The shuffle node of a stage, as a record.\<close>

definition shuffle_of :: "df_ops \<Rightarrow> query_stage \<Rightarrow> unresolved_shuffle" where
  "shuffle_of df s =
     \<lparr>us_query_stage_ids = [qs_stage_id s], us_schema = plan_schema df (qs_child s),
      us_partition_count = partition_count df (qs_child s)\<rparr>"

lemma as_unresolved_stage_shuffle [simp]: "as_unresolved (stage_shuffle df s) = Some (shuffle_of df s)"
  by (simp add: stage_shuffle_def shuffle_of_def UnresolvedShuffleExec_new_def stage_plan_def)

definition refs_in :: "df_ops \<Rightarrow> query_stage list \<Rightarrow> exec_plan \<Rightarrow> bool" where
  "refs_in df known p \<longleftrightarrow> set (plan_shuffles p) \<subseteq> shuffle_of df ` set known"

text \<open>
  A well-formed list of stages: each belongs to the job, can be resolved, and reads only stages
  that come before it, with the schema and partition count those stages have.
\<close>

fun stages_ok :: "df_ops \<Rightarrow> string \<Rightarrow> query_stage list \<Rightarrow> query_stage list \<Rightarrow> bool" where
  "stages_ok df job known [] = True"
| "stages_ok df job known (s # ss) =
     (qs_job_id s = job \<and> staged_plan (qs_child s) \<and> refs_in df known (qs_child s) \<and>
      stages_ok df job (known @ [s]) ss)"

text \<open>
  Putting the stages back together: \<open>expand env p\<close> replaces a shuffle by what \<open>env\<close> has for its
  stage; \<open>stages_env\<close> expands the stages one after the other.
\<close>

function expand :: "(nat \<Rightarrow> exec_plan) \<Rightarrow> exec_plan \<Rightarrow> exec_plan" where
  "expand env p =
     (case as_unresolved p of
        Some u \<Rightarrow> (case us_query_stage_ids u of [i] \<Rightarrow> env i | _ \<Rightarrow> p)
      | None \<Rightarrow> replace_children p (map (expand env) (children p)))"
  by pat_completeness auto
termination by (relation "measure (\<lambda>(env, p). size p)") auto

declare expand.simps [simp del]

fun stages_env :: "(nat \<Rightarrow> exec_plan) \<Rightarrow> query_stage list \<Rightarrow> nat \<Rightarrow> exec_plan" where
  "stages_env env [] = env"
| "stages_env env (s # ss) = stages_env (env(qs_stage_id s := expand env (qs_child s))) ss"

lemma expand_None: "as_unresolved p = None \<Longrightarrow> expand env p = replace_children p (map (expand env) (children p))"
  by (subst expand.simps) simp

lemma expand_shuffle [simp]: "expand env (stage_shuffle df s) = env (qs_stage_id s)"
  by (subst expand.simps) (simp add: shuffle_of_def)

lemma expand_cong:
  assumes "\<And>u i. u \<in> set (plan_shuffles p) \<Longrightarrow> us_query_stage_ids u = [i] \<Longrightarrow> env i = env' i"
  shows "expand env p = expand env' p"
  using assms
proof (induction p rule: plan_induct)
  case (plan p)
  show ?case
  proof (cases "as_unresolved p")
    case None
    then have "expand env c = expand env' c" if "c \<in> set (children p)" for c
      using plan.IH [OF that] plan.prems that by (auto simp: shuffles_children)
    with None show ?thesis
      by (simp add: expand_None cong: map_cong)
  next
    case (Some u)
    with plan.prems [of u] show ?thesis
      by (auto simp: expand.simps [of env p] expand.simps [of env' p] shuffles_unresolved split: list.split)
  qed
qed

lemma expand_df_plan: "df_plan p \<Longrightarrow> expand env p = p"
proof (induction p rule: plan_induct)
  case (plan p)
  then have "map (expand env) (children p) = children p"
    by (simp add: map_idI df_plan_children)
  with plan.prems show ?case
    by (simp add: expand_None as_unresolved_ballista df_plan_not_ballista)
qed

lemma stages_env_append: "stages_env env (xs @ ys) = stages_env (stages_env env xs) ys"
  by (induction xs arbitrary: env) auto

lemma stages_env_other: "i \<notin> qs_stage_id ` set ss \<Longrightarrow> stages_env env ss i = env i"
  by (induction ss arbitrary: env) auto

lemma refs_in_mono: "refs_in df known p \<Longrightarrow> set known \<subseteq> set known' \<Longrightarrow> refs_in df known' p"
  by (auto simp: refs_in_def)

lemma refs_in_df_plan: "df_plan p \<Longrightarrow> refs_in df known p"
  by (simp add: refs_in_def df_plan_no_shuffles)

lemma refs_in_shuffle: "s \<in> set known \<Longrightarrow> refs_in df known (stage_shuffle df s)"
  by (simp add: refs_in_def shuffles_unresolved)

lemma refs_in_children:
  "as_unresolved p = None \<Longrightarrow> refs_in df known p \<longleftrightarrow> (\<forall>c \<in> set (children p). refs_in df known c)"
  by (auto simp: refs_in_def shuffles_children)

lemma stages_ok_append [simp]:
  "stages_ok df job known (xs @ ys) \<longleftrightarrow> stages_ok df job known xs \<and> stages_ok df job (known @ xs) ys"
  by (induction xs arbitrary: known) auto

lemma stages_ok_mono:
  "stages_ok df job known ss \<Longrightarrow> set known \<subseteq> set known' \<Longrightarrow> stages_ok df job known' ss"
proof (induction ss arbitrary: known known')
  case (Cons s ss)
  then have "stages_ok df job (known' @ [s]) ss" by (intro Cons.IH [of "known @ [s]" "known' @ [s]"]) auto
  with Cons.prems show ?case by (auto intro: refs_in_mono)
qed simp

lemma expand_stages_env_skip:
  assumes "refs_in df known p" "qs_stage_id ` set known \<inter> qs_stage_id ` set ss = {}"
  shows "expand (stages_env env ss) p = expand env p"
proof (rule expand_cong)
  fix u i
  assume "u \<in> set (plan_shuffles p)" "us_query_stage_ids u = [i]"
  with assms(1) obtain s where "s \<in> set known" "i = qs_stage_id s"
    by (auto simp: refs_in_def shuffle_of_def)
  with assms(2) show "stages_env env ss i = env i"
    by (intro stages_env_other) auto
qed

text \<open>The stages the loop over the children creates.\<close>

fun new_stages :: "string \<Rightarrow> nat \<Rightarrow> exec_plan list \<Rightarrow> query_stage list" where
  "new_stages job m [] = []"
| "new_stages job m (k # ks) =
     \<lparr>qs_job_id = job, qs_stage_id = Suc m, qs_child = k\<rparr> # new_stages job (Suc m) ks"

lemma stage_children_eq:
  "stage_children df job ks m =
     Ok (map (\<lambda>s. (stage_shuffle df s, s)) (new_stages job m ks), m + length ks)"
  unfolding stage_children_def
  by (induction ks arbitrary: m)
     (simp_all add: stage_child_def next_stage_id_def create_query_stage_def QueryStageExec_try_new_def)

lemma length_new_stages [simp]: "length (new_stages job m ks) = length ks"
  by (induction ks arbitrary: m) auto

lemma new_stages_ids: "map qs_stage_id (new_stages job m ks) = [Suc m..<Suc (m + length ks)]"
proof (induction ks arbitrary: m)
  case (Cons k ks)
  have "[Suc m..<Suc (m + length (k # ks))] = Suc m # [Suc (Suc m)..<Suc (Suc m + length ks)]"
    by (subst upt_conv_Cons) auto
  with Cons show ?case by simp
qed simp

lemma new_stages_ok:
  "(\<forall>k \<in> set ks. staged_plan k \<and> refs_in df known k) \<Longrightarrow> stages_ok df job known (new_stages job m ks)"
proof (induction ks arbitrary: m known)
  case (Cons k ks)
  then have "stages_ok df job (known @ [t]) (new_stages job (Suc m) ks)" for t
    by (intro Cons.IH) (auto intro: refs_in_mono)
  with Cons.prems show ?case by simp
qed simp

text \<open>Each stage expands to the child it was made of, in the environment before the loop.\<close>

lemma expand_new_stages:
  assumes "\<And>k. k \<in> set ks \<Longrightarrow> refs_in df known k" "\<forall>s \<in> set known. qs_stage_id s \<le> m"
  shows "map (expand (stages_env env (new_stages job m ks))) (map (stage_shuffle df) (new_stages job m ks)) =
         map (expand env) ks"
  using assms
proof (induction ks arbitrary: m env)
  case (Cons k ks)
  let ?s = "\<lparr>qs_job_id = job, qs_stage_id = Suc m, qs_child = k\<rparr>"
  let ?env = "env(Suc m := expand env k)"
  have "Suc m \<notin> qs_stage_id ` set (new_stages job (Suc m) ks)"
    using new_stages_ids [of job "Suc m" ks] by (metis atLeastLessThan_iff list.set_map not_less_eq_eq order_refl set_upt)
  then have hd: "expand (stages_env env (new_stages job m (k # ks))) (stage_shuffle df ?s) = expand env k"
    by (simp add: stages_env_other)
  have "expand ?env k' = expand env k'" if "k' \<in> set ks" for k'
    using expand_stages_env_skip [of df known k' "[?s]" env] Cons.prems that by fastforce
  moreover have "map (expand (stages_env ?env (new_stages job (Suc m) ks)))
      (map (stage_shuffle df) (new_stages job (Suc m) ks)) = map (expand ?env) ks"
    using Cons.prems by (intro Cons.IH) (auto simp: le_Suc_eq)
  ultimately show ?case using hd by simp
qed simp

text \<open>
  \<open>kids_ok\<close>: the children \<open>cs\<close> of an operator were planned into \<open>ks\<close> with the stages \<open>sts\<close>,
  numbered from \<open>n + 1\<close> to \<open>m\<close>.  \<open>planned\<close>: the same for one plan.
\<close>

definition kids_ok ::
  "df_ops \<Rightarrow> string \<Rightarrow> nat \<Rightarrow> exec_plan list \<Rightarrow> exec_plan list \<Rightarrow> query_stage list \<Rightarrow> nat \<Rightarrow> bool" where
  "kids_ok df job n cs ks sts m \<longleftrightarrow>
     n \<le> m \<and> map qs_stage_id sts = [Suc n..<Suc m] \<and> stages_ok df job [] sts \<and>
     length ks = length cs \<and>
     (\<forall>k \<in> set ks. (as_unresolved k \<noteq> None \<or> staged_plan k) \<and> refs_in df sts k) \<and>
     (\<forall>env. map (expand (stages_env env sts)) ks = cs)"

definition planned ::
  "df_ops \<Rightarrow> string \<Rightarrow> nat \<Rightarrow> exec_plan \<Rightarrow> exec_plan \<Rightarrow> query_stage list \<Rightarrow> nat \<Rightarrow> bool" where
  "planned df job n p p' sts m \<longleftrightarrow> staged_plan p' \<and> kids_ok df job n [p] [p'] sts m"

lemma ids_range: "map qs_stage_id sts = [Suc n..<Suc m] \<Longrightarrow> s \<in> set sts \<Longrightarrow> n < qs_stage_id s \<and> qs_stage_id s \<le> m"
proof -
  assume "map qs_stage_id sts = [Suc n..<Suc m]" "s \<in> set sts"
  then have "qs_stage_id s \<in> set [Suc n..<Suc m]" by (metis image_eqI list.set_map)
  then show ?thesis by auto
qed

lemma upt_split: "i \<le> j \<Longrightarrow> j \<le> k \<Longrightarrow> [i..<k] = [i..<j] @ [j..<k]"
  using upt_add_eq_append [of i j "k - j"] by simp

lemma kids_ok_Nil: "kids_ok df job n [] [] [] n"
  by (simp add: kids_ok_def)

lemma kids_ok_append:
  assumes 1: "kids_ok df job n cs ks sts m" and 2: "kids_ok df job m cs' ks' sts' m'"
  shows "kids_ok df job n (cs @ cs') (ks @ ks') (sts @ sts') m'"
proof -
  have "[Suc n..<Suc m'] = [Suc n..<Suc m] @ [Suc m..<Suc m']"
    using 1 2 by (intro upt_split) (auto simp: kids_ok_def)
  then have ids: "map qs_stage_id (sts @ sts') = [Suc n..<Suc m']"
    using 1 2 by (simp add: kids_ok_def del: upt_Suc)
  have disj: "qs_stage_id ` set sts \<inter> qs_stage_id ` set sts' = {}"
    using ids_range [of sts n m] ids_range [of sts' m m'] 1 2 by (fastforce simp: kids_ok_def)
  have "expand (stages_env env (sts @ sts')) k = expand (stages_env env sts) k" if "k \<in> set ks" for env k
    using expand_stages_env_skip [OF _ disj] 1 that by (auto simp: kids_ok_def stages_env_append)
  then have "map (expand (stages_env env (sts @ sts'))) (ks @ ks') =
      map (expand (stages_env env sts)) ks @ map (expand (stages_env (stages_env env sts) sts')) ks'" for env
    by (simp add: stages_env_append)
  then have "map (expand (stages_env env (sts @ sts'))) (ks @ ks') = cs @ cs'" for env
    using 1 2 by (simp only: kids_ok_def)
  moreover have "stages_ok df job [] (sts @ sts')"
    using 1 2 by (auto simp: kids_ok_def intro: stages_ok_mono)
  ultimately show ?thesis
    using 1 2 ids by (auto simp: kids_ok_def intro: refs_in_mono)
qed

lemma kids_ok_operator:
  assumes ks: "kids_ok df job n (children p) ks sts m" and p: "\<not> is_ballista_op p"
  shows "planned df job n p (replace_children p ks) sts m"
proof -
  have kids: "children (replace_children p ks) = ks" using ks by (simp add: kids_ok_def)
  have none: "as_unresolved (replace_children p ks) = None"
    using p by (simp add: as_unresolved_ballista)
  have "staged_plan (replace_children p ks)"
    using ks p kids by (subst staged_plan.simps) (auto simp: kids_ok_def list_all_iff)
  moreover have "refs_in df sts (replace_children p ks)"
    using ks kids none by (simp add: refs_in_children kids_ok_def)
  moreover have "expand (stages_env env sts) (replace_children p ks) = p" for env
    using ks kids none by (simp add: expand_None kids_ok_def replace_children_twice)
  ultimately show ?thesis using ks by (simp add: planned_def kids_ok_def)
qed

lemma kids_ok_stage_children:
  assumes ks: "kids_ok df job n cs ks sts m" and staged: "\<forall>k \<in> set ks. staged_plan k"
  shows "kids_ok df job n cs (map (stage_shuffle df) (new_stages job m ks)) (sts @ new_stages job m ks)
           (m + length ks)"
proof -
  let ?ts = "new_stages job m ks"
  have "[Suc n..<Suc (m + length ks)] = [Suc n..<Suc m] @ [Suc m..<Suc (m + length ks)]"
    using ks by (intro upt_split) (auto simp: kids_ok_def)
  then have ids: "map qs_stage_id (sts @ ?ts) = [Suc n..<Suc (m + length ks)]"
    using ks by (simp add: kids_ok_def new_stages_ids del: upt_Suc)
  have "\<forall>s \<in> set sts. qs_stage_id s \<le> m"
    using ids_range [of sts n m] ks by (auto simp: kids_ok_def)
  then have "map (expand (stages_env env (sts @ ?ts))) (map (stage_shuffle df) ?ts) = cs" for env
    using expand_new_stages [of ks df sts m "stages_env env sts" job] ks
    by (simp add: kids_ok_def stages_env_append)
  moreover have "stages_ok df job [] (sts @ ?ts)"
    using ks staged new_stages_ok [of ks df sts job m] by (simp add: kids_ok_def)
  ultimately show ?thesis
    using ks ids by (auto simp: kids_ok_def intro: refs_in_shuffle)
qed

lemma planned_stage_children:
  assumes ks: "kids_ok df job n (children p) ks sts m" and staged: "\<forall>k \<in> set ks. staged_plan k"
    and p: "\<not> is_ballista_op p" and df: "df_replaces df"
  shows "\<exists>p' ts m'. rbind (stage_children df job ks m) (\<lambda>(new_children, n').
               rbind (with_new_children df p (map fst new_children)) (\<lambda>p'.
                 Ok ((p', sts @ map snd new_children), n'))) = Ok ((p', ts), m') \<and>
           planned df job n p p' ts m'"
proof -
  let ?ts = "new_stages job m ks"
  let ?ss = "map (stage_shuffle df) ?ts"
  have len: "length ?ss = length (children p)" using ks by (simp add: kids_ok_def)
  have "planned df job n p (replace_children p ?ss) (sts @ ?ts) (m + length ks)"
    using kids_ok_stage_children [OF ks staged] p by (rule kids_ok_operator)
  moreover have "with_new_children df p ?ss = Ok (replace_children p ?ss)"
    using df p len by (rule with_new_children_replace)
  ultimately show ?thesis
    by (auto simp: stage_children_eq comp_def)
qed

lemma planned_same_stage:
  assumes ks: "kids_ok df job n (children p) ks sts m"
    and p: "\<not> is_ballista_op p" and df: "df_replaces df"
  shows "\<exists>p' ts m'. rbind (with_new_children df p ks) (\<lambda>p'. Ok ((p', sts), m)) = Ok ((p', ts), m') \<and>
           planned df job n p p' ts m'"
  using kids_ok_operator [OF ks p] with_new_children_replace [OF df p, of ks] ks
  by (auto simp: kids_ok_def)

lemma kids_ok_refl:
  assumes "kids_ok df job n cs ks sts m" "\<forall>c \<in> set cs. df_plan c"
  shows "kids_ok df job n cs cs sts m"
  using assms by (auto simp: kids_ok_def df_plan_staged refs_in_df_plan expand_df_plan map_idI)

lemma planned_merge:
  assumes ks: "kids_ok df job n [c] ks sts m" and c: "df_plan c" and df: "df_replaces df"
  shows "\<exists>p' ts m'. plan_operator df job (MergeExec c) ks sts m = Ok ((p', ts), m') \<and>
           planned df job n (MergeExec c) p' ts m'"
proof -
  have "kids_ok df job n (children (MergeExec c)) [c] sts m"
    using kids_ok_refl [OF ks] c by simp
  from planned_stage_children [OF this _ _ df] c
  have "\<exists>p' ts m'. rbind (stage_children df job [c] m) (\<lambda>(new_children, n').
               rbind (with_new_children df (MergeExec c) (map fst new_children)) (\<lambda>p'.
                 Ok ((p', sts @ map snd new_children), n'))) = Ok ((p', ts), m') \<and>
           planned df job n (MergeExec c) p' ts m'"
    by (simp add: df_plan_staged)
  then show ?thesis
    by (simp add: plan_operator_def stage_children_eq next_stage_id_def create_query_stage_def
        QueryStageExec_try_new_def)
qed

lemma plan_operator_planned:
  assumes ks: "kids_ok df job n (children p) ks sts m" and staged: "\<forall>k \<in> set ks. staged_plan k"
    and p: "df_plan p" "children p \<noteq> []" and df: "df_replaces df"
  shows "\<exists>p' ts m'. plan_operator df job p ks sts m = Ok ((p', ts), m') \<and> planned df job n p p' ts m'"
proof -
  have np: "\<not> is_ballista_op p" using p by (simp add: df_plan_not_ballista)
  note staged_case = planned_stage_children [OF ks staged np df]
  note same_case = planned_same_stage [OF ks np df]
  obtain k0 ks' where k0: "ks = k0 # ks'" using ks p(2) by (cases ks) (auto simp: kids_ok_def)
  consider (merge) c where "p = MergeExec c"
    | (agg) md g a c s where "p = HashAggregateExec md g a c s"
    | (join) l r on j where "p = HashJoinExec l r on j"
    | (other) "plan_operator df job p ks sts m =
          rbind (index_vec ks 0) (\<lambda>k0.
            if partition_count df p \<noteq> partition_count df k0 then
              rbind (stage_children df job ks m) (\<lambda>(new_children, n').
              rbind (with_new_children df p (map fst new_children)) (\<lambda>p'.
                Ok ((p', sts @ map snd new_children), n')))
            else rbind (with_new_children df p ks) (\<lambda>p'. Ok ((p', sts), m)))"
    by (cases p) (auto simp: plan_operator_def)
  then show ?thesis
  proof cases
    case (merge c)
    with p(1) have "df_plan c" using df_plan_children [of p c] by simp
    then show ?thesis using planned_merge [of df job n c ks sts m] ks df merge by simp
  next
    case (agg md g a c s)
    then show ?thesis
      using staged_case same_case by (cases md) (simp_all add: plan_operator_def)
  next
    case (join l r on j)
    then show ?thesis using same_case by (simp add: plan_operator_def)
  next
    case other
    then show ?thesis
      using staged_case same_case by (cases "partition_count df p = partition_count df k0") (simp_all add: k0)
  qed
qed


lemma plan_children_planned:
  assumes IH: "\<And>c n. c \<in> set cs \<Longrightarrow>
      \<exists>p' ts m'. plan_query_stages_internal df job c n = Ok ((p', ts), m') \<and> planned df job n c p' ts m'"
  shows "\<exists>rs m. mapSM (plan_query_stages_internal df job) cs n = Ok (rs, m) \<and>
           kids_ok df job n cs (map fst rs) (concat (map snd rs)) m \<and>
           (\<forall>k \<in> set (map fst rs). staged_plan k)"
  using IH
proof (induction cs arbitrary: n)
  case Nil
  then show ?case by (simp add: kids_ok_Nil)
next
  case (Cons c cs)
  obtain p' ts m' where c: "plan_query_stages_internal df job c n = Ok ((p', ts), m')"
      "planned df job n c p' ts m'"
    using Cons.prems [of c n] by auto
  obtain rs m where rs: "mapSM (plan_query_stages_internal df job) cs m' = Ok (rs, m)"
      "kids_ok df job m' cs (map fst rs) (concat (map snd rs)) m" "\<forall>k \<in> set (map fst rs). staged_plan k"
    using Cons.IH [of m'] Cons.prems by auto
  then have "kids_ok df job n (c # cs) (map fst ((p', ts) # rs)) (concat (map snd ((p', ts) # rs))) m"
    using kids_ok_append [of df job n "[c]" "[p']" ts m'] c(2) by (simp add: planned_def)
  with c rs show ?case by (auto simp: planned_def)
qed

lemma plan_leaf_planned: "df_plan p \<Longrightarrow> planned df job n p p [] n"
  by (simp add: planned_def kids_ok_def df_plan_staged refs_in_df_plan expand_df_plan)

lemma plan_internal_planned:
  assumes "df_replaces df" "df_plan p"
  shows "\<exists>p' ts m. plan_query_stages_internal df job p n = Ok ((p', ts), m) \<and> planned df job n p p' ts m"
  using assms(2)
proof (induction p arbitrary: n rule: plan_induct)
  case (plan p)
  show ?case
  proof (cases "children p = []")
    case True
    then show ?thesis
      using plan.prems by (subst plan_query_stages_internal.simps) (simp add: plan_leaf_planned)
  next
    case False
    obtain rs m where rs: "mapSM (plan_query_stages_internal df job) (children p) n = Ok (rs, m)"
        "kids_ok df job n (children p) (map fst rs) (concat (map snd rs)) m"
        "\<forall>k \<in> set (map fst rs). staged_plan k"
      using plan_children_planned [of "children p" df job n] plan.IH df_plan_children [OF plan.prems] by blast
    with plan_operator_planned [OF rs(2,3) plan.prems False assms(1)] False show ?thesis
      by (subst plan_query_stages_internal.simps) simp
  qed
qed

lemma plan_query_stages_planned:
  assumes "df_replaces df" "df_plan p"
  obtains p' ts m where
    "plan_query_stages df planner job p =
       Ok (ts @ [\<lparr>qs_job_id = job, qs_stage_id = Suc m, qs_child = p'\<rparr>], planner\<lparr>dp_next_stage_id := Suc m\<rparr>)"
    "planned df job (dp_next_stage_id planner) p p' ts m"
proof -
  obtain p' ts m where "plan_query_stages_internal df job p (dp_next_stage_id planner) = Ok ((p', ts), m)"
      "planned df job (dp_next_stage_id planner) p p' ts m"
    using plan_internal_planned [OF assms] by blast
  then show ?thesis
    by (intro that [of ts m p'])
       (simp_all add: plan_query_stages_def next_stage_id_def create_query_stage_def QueryStageExec_try_new_def)
qed

section \<open>Resolving the shuffles of a stage\<close>

text \<open>What \<open>remove_unresolved_shuffles\<close> computes when no location is missing.\<close>

definition shuffle_reader :: "locations \<Rightarrow> unresolved_shuffle \<Rightarrow> exec_plan" where
  "shuffle_reader locs u =
     ShuffleReaderExec (concat (map (\<lambda>i. the (locs i)) (us_query_stage_ids u))) (us_schema u)"

function resolve :: "locations \<Rightarrow> exec_plan \<Rightarrow> exec_plan" where
  "resolve locs p =
     (case as_unresolved p of
        Some u \<Rightarrow> shuffle_reader locs u
      | None \<Rightarrow> replace_children p (map (resolve locs) (children p)))"
  by pat_completeness auto
termination by (relation "measure (\<lambda>(locs, p). size p)") auto

declare resolve.simps [simp del]

definition located :: "locations \<Rightarrow> exec_plan \<Rightarrow> bool" where
  "located locs p \<longleftrightarrow> (\<forall>u \<in> set (plan_shuffles p). set (us_query_stage_ids u) \<subseteq> dom locs)"

lemma resolve_None: "as_unresolved p = None \<Longrightarrow> resolve locs p = replace_children p (map (resolve locs) (children p))"
  by (subst resolve.simps) simp

lemma resolve_Some: "as_unresolved p = Some u \<Longrightarrow> resolve locs p = shuffle_reader locs u"
  by (subst resolve.simps) simp

lemma located_children:
  "as_unresolved p = None \<Longrightarrow> located locs p \<longleftrightarrow> (\<forall>c \<in> set (children p). located locs c)"
  by (auto simp: located_def shuffles_children)

lemma located_unresolved:
  "as_unresolved p = Some u \<Longrightarrow> located locs p \<longleftrightarrow> set (us_query_stage_ids u) \<subseteq> dom locs"
  by (simp add: located_def shuffles_unresolved)

lemma mapM_if_Ok_Err:
  assumes "\<And>x. x \<in> set xs \<Longrightarrow> f x = (if P x then Ok (g x) else Err e)"
  shows "mapM f xs = (if \<forall>x \<in> set xs. P x then Ok (map g xs) else Err e)"
  using assms by (induction xs) auto

lemma relevant_locations_eq:
  "relevant_locations locs ids =
     (if set ids \<subseteq> dom locs then Ok (concat (map (\<lambda>i. the (locs i)) ids))
      else Err (General ''Missing partition location. Could not remove unresolved shuffles''))"
proof -
  have "mapM (\<lambda>id. ok_or (locs id) (General ''Missing partition location. Could not remove unresolved shuffles'')) ids =
      (if \<forall>i \<in> set ids. i \<in> dom locs then Ok (map (\<lambda>i. the (locs i)) ids)
       else Err (General ''Missing partition location. Could not remove unresolved shuffles''))"
    by (rule mapM_if_Ok_Err) (auto simp: ok_or_def split: option.split)
  then show ?thesis by (auto simp: relevant_locations_def subset_iff)
qed

lemma remove_unresolved_staged:
  assumes "df_replaces df" "staged_plan p"
  shows "remove_unresolved_shuffles df locs p =
     (if located locs p then Ok (resolve locs p)
      else Err (General ''Missing partition location. Could not remove unresolved shuffles''))"
    (is "_ = ?spec p")
  using assms(2)
proof (induction p rule: plan_induct)
  case (plan p)
  have none: "as_unresolved p = None"
    using plan.prems by (simp add: as_unresolved_ballista staged_plan_not_ballista)
  have "(case as_unresolved c of
          Some u \<Rightarrow> rbind (relevant_locations locs (us_query_stage_ids u)) (\<lambda>ls. ShuffleReaderExec_try_new ls (us_schema u))
        | None \<Rightarrow> remove_unresolved_shuffles df locs c) = ?spec c" if "c \<in> set (children p)" for c
    using plan.IH [OF that] staged_plan_child [OF plan.prems that]
    by (cases "as_unresolved c")
       (simp_all add: relevant_locations_eq located_unresolved resolve_Some shuffle_reader_def ShuffleReaderExec_try_new_def)
  then have "mapM (\<lambda>c. case as_unresolved c of
          Some u \<Rightarrow> rbind (relevant_locations locs (us_query_stage_ids u)) (\<lambda>ls. ShuffleReaderExec_try_new ls (us_schema u))
        | None \<Rightarrow> remove_unresolved_shuffles df locs c) (children p) =
      (if \<forall>c \<in> set (children p). located locs c then Ok (map (resolve locs) (children p))
       else Err (General ''Missing partition location. Could not remove unresolved shuffles''))"
    by (rule mapM_if_Ok_Err)
  then show ?case
    using with_new_children_replace [OF assms(1) staged_plan_not_ballista [OF plan.prems]] none
    by (subst remove_unresolved_shuffles.simps) (simp add: located_children resolve_None)
qed

lemma remove_unresolved_stage:
  assumes "df_replaces df" "staged_plan (qs_child s)"
  shows "remove_unresolved_shuffles df locs (stage_plan s) =
     (if located locs (qs_child s) then Ok (stage_plan (s\<lparr>qs_child := resolve locs (qs_child s)\<rparr>))
      else Err (General ''Missing partition location. Could not remove unresolved shuffles''))"
  using remove_unresolved_staged [OF assms] assms(2)
  by (subst remove_unresolved_shuffles.simps)
     (simp add: stage_plan_def as_unresolved_ballista staged_plan_not_ballista QueryStageExec_with_new_children_def
       QueryStageExec_try_new_def)

lemma resolve_no_shuffles: "plan_shuffles (resolve locs p) = []"
proof (induction p rule: plan_induct)
  case (plan p)
  show ?case
  proof (cases "as_unresolved p")
    case None
    moreover from None have "as_unresolved (replace_children p cs) = None" for cs
      by (cases "(p, cs)" rule: replace_children.cases) auto
    ultimately show ?thesis using plan.IH
      by (simp add: resolve_None shuffles_children)
  next
    case (Some u)
    then show ?thesis by (simp add: resolve_Some shuffle_reader_def shuffles_children)
  qed
qed

section \<open>Properties\<close>

text \<open>A small distributed query for the witnesses: a merge over a projection of a two-file scan.\<close>

definition example_scan :: exec_plan where
  "example_scan = CsvExec \<lparr>cx_path = ''/data'', cx_filenames = [''a.csv'', ''b.csv''], cx_projection = None,
     cx_file_extension = ''.csv'', cx_file_schema = [], cx_has_header = True, cx_delimiter = None\<rparr>"

definition example_query :: exec_plan where
  "example_query = SortExec [] (MergeExec (ProjectionExec [] example_scan))"

lemma example_query_df_plan: "df_plan example_query"
  by (simp add: example_query_def example_scan_def df_plan.simps)

text \<open>
  C7. The stages are a refinement of the plan.  On a plan of DataFusion operators
  \<open>plan_query_stages\<close> always succeeds, returns at least one stage, and substituting every stage
  for the shuffles that read it, in the order of the list, gives back exactly the plan that was
  submitted.
\<close>

theorem plan_query_stages_refines:
  assumes "df_replaces df" "df_plan p"
  shows "\<exists>stages planner'. plan_query_stages df planner job p = Ok (stages, planner') \<and> stages \<noteq> [] \<and>
    (\<forall>env. expand (stages_env env (butlast stages)) (qs_child (last stages)) = p)"
proof -
  obtain p' ts m where
    "plan_query_stages df planner job p =
       Ok (ts @ [\<lparr>qs_job_id = job, qs_stage_id = Suc m, qs_child = p'\<rparr>], planner\<lparr>dp_next_stage_id := Suc m\<rparr>)"
    "planned df job (dp_next_stage_id planner) p p' ts m"
    using assms by (rule plan_query_stages_planned)
  then show ?thesis by (simp add: planned_def kids_ok_def)
qed

theorem plan_query_stages_refines_witness:
  "\<exists>stages planner'. plan_query_stages df_plain \<lparr>dp_executors = [], dp_next_stage_id = 0\<rparr> ''job'' example_query =
       Ok (stages, planner') \<and> stages \<noteq> [] \<and>
    (\<forall>env. expand (stages_env env (butlast stages)) (qs_child (last stages)) = example_query)"
  using plan_query_stages_refines [OF df_replaces_plain example_query_df_plan] .

text \<open>
  C8. The list of stages is well formed.  The stages carry the job's id and are numbered
  consecutively after the planner's counter, which ends at the last of them; every stage consists of
  DataFusion operators whose inputs may be unresolved shuffles, and each such shuffle names exactly
  one stage, an earlier one of the list, with that stage's schema and partition count.
\<close>

theorem plan_query_stages_wf:
  assumes "df_replaces df" "df_plan p" "plan_query_stages df planner job p = Ok (stages, planner')"
  shows "stages_ok df job [] stages \<and>
    map qs_stage_id stages = [Suc (dp_next_stage_id planner)..<Suc (dp_next_stage_id planner + length stages)] \<and>
    planner' = planner\<lparr>dp_next_stage_id := dp_next_stage_id planner + length stages\<rparr>"
proof -
  let ?n = "dp_next_stage_id planner"
  obtain p' ts m where *:
    "plan_query_stages df planner job p =
       Ok (ts @ [\<lparr>qs_job_id = job, qs_stage_id = Suc m, qs_child = p'\<rparr>], planner\<lparr>dp_next_stage_id := Suc m\<rparr>)"
    "planned df job ?n p p' ts m"
    using assms(1,2) by (rule plan_query_stages_planned)
  then have ids: "map qs_stage_id ts = [Suc ?n..<Suc m]" "?n \<le> m"
    by (simp_all add: planned_def kids_ok_def)
  from arg_cong [OF ids(1), of length] ids(2) have "m = ?n + length ts" by simp
  with * ids assms(3) show ?thesis by (auto simp: planned_def kids_ok_def)
qed

theorem plan_query_stages_wf_witness:
  "\<exists>stages planner'. plan_query_stages df_plain \<lparr>dp_executors = [], dp_next_stage_id = 0\<rparr> ''job'' example_query =
       Ok (stages, planner') \<and> stages_ok df_plain ''job'' [] stages"
proof -
  obtain stages planner' where
    "plan_query_stages df_plain \<lparr>dp_executors = [], dp_next_stage_id = 0\<rparr> ''job'' example_query = Ok (stages, planner')"
    using plan_query_stages_planned [OF df_replaces_plain example_query_df_plan] by metis
  with plan_query_stages_wf [OF df_replaces_plain example_query_df_plan this] show ?thesis by blast
qed

text \<open>
  C9. Resolving a stage.  On a planned stage \<open>remove_unresolved_shuffles\<close> either has a location
  list for every stage its shuffles name, and then returns the stage with each shuffle replaced by
  a reader of exactly those locations in order and nothing else changed, with no unresolved shuffle
  left; or it fails with the missing location error.
\<close>

theorem remove_unresolved_shuffles_resolves:
  assumes "df_replaces df" "staged_plan (qs_child s)"
  shows "remove_unresolved_shuffles df locs (stage_plan s) =
     (if located locs (qs_child s) then Ok (stage_plan (s\<lparr>qs_child := resolve locs (qs_child s)\<rparr>))
      else Err (General ''Missing partition location. Could not remove unresolved shuffles'')) \<and>
     find_unresolved_shuffles (stage_plan (s\<lparr>qs_child := resolve locs (qs_child s)\<rparr>)) = Ok []"
  using remove_unresolved_stage [OF assms]
  by (simp add: find_unresolved_shuffles_eq stage_plan_def shuffles_children resolve_no_shuffles)

theorem remove_unresolved_shuffles_resolves_witness:
  "remove_unresolved_shuffles df_plain Map.empty
       (stage_plan \<lparr>qs_job_id = ''job'', qs_stage_id = 2, qs_child = MergeExec (UnresolvedShuffleExec [1] [] 2)\<rparr>) =
     Err (General ''Missing partition location. Could not remove unresolved shuffles'')"
proof -
  let ?s = "\<lparr>qs_job_id = ''job'', qs_stage_id = 2, qs_child = MergeExec (UnresolvedShuffleExec [1] [] 2)\<rparr>"
  have "staged_plan (qs_child ?s)" by (subst staged_plan.simps) simp
  moreover have "\<not> located Map.empty (qs_child ?s)"
    by (simp add: located_def shuffles_children shuffles_unresolved)
  ultimately show ?thesis
    using remove_unresolved_shuffles_resolves [OF df_replaces_plain, of ?s Map.empty] by simp
qed

text \<open>
  The merge branch stages \<open>merge.children()[0]\<close>, the child as it was before planning.  The stages
  the recursion made of that child stay in the list but nothing reads them: the merge's own stage
  runs the whole child again, undistributed.
\<close>

lemma merge_stages_original_child:
  assumes "df_replaces df" "df_plan (MergeExec c)"
  shows "\<exists>orphans m stage.
    plan_query_stages df planner job (MergeExec c) =
      Ok (orphans @ [stage, \<lparr>qs_job_id = job, qs_stage_id = Suc (Suc m), qs_child = MergeExec (stage_shuffle df stage)\<rparr>],
          planner\<lparr>dp_next_stage_id := Suc (Suc m)\<rparr>) \<and>
    stage = \<lparr>qs_job_id = job, qs_stage_id = Suc m, qs_child = c\<rparr> \<and>
    map qs_stage_id orphans = [Suc (dp_next_stage_id planner)..<Suc m] \<and> plan_shuffles c = []"
proof -
  let ?n = "dp_next_stage_id planner"
  have c: "df_plan c" using assms(2) df_plan_children by fastforce
  obtain k ts m where k: "plan_query_stages_internal df job c ?n = Ok ((k, ts), m)" "planned df job ?n c k ts m"
    using plan_internal_planned [OF assms(1) c] by blast
  let ?s = "\<lparr>qs_job_id = job, qs_stage_id = Suc m, qs_child = c\<rparr>"
  have "with_new_children df (MergeExec c) [stage_shuffle df ?s] = Ok (MergeExec (stage_shuffle df ?s))"
    using with_new_children_replace [OF assms(1), of "MergeExec c" "[stage_shuffle df ?s]"] by simp
  then have "plan_query_stages_internal df job (MergeExec c) ?n =
      Ok ((MergeExec (stage_shuffle df ?s), ts @ [?s]), Suc m)"
    using k(1) by (subst plan_query_stages_internal.simps)
      (simp add: plan_operator_def next_stage_id_def create_query_stage_def QueryStageExec_try_new_def)
  then have "plan_query_stages df planner job (MergeExec c) =
      Ok (ts @ [?s, \<lparr>qs_job_id = job, qs_stage_id = Suc (Suc m), qs_child = MergeExec (stage_shuffle df ?s)\<rparr>],
          planner\<lparr>dp_next_stage_id := Suc (Suc m)\<rparr>)"
    by (simp add: plan_query_stages_def next_stage_id_def create_query_stage_def QueryStageExec_try_new_def)
  then show ?thesis
    using k(2) c by (intro exI [of _ ts] exI [of _ m] exI [of _ ?s])
      (simp add: planned_def kids_ok_def df_plan_no_shuffles)
qed

end
