(* ===== verification/Core_Utils.thy ===== *)
theory Core_Utils
  imports Exec_Plans
begin

text \<open>
  \<open>core/src/utils.rs\<close>: statistics of a partition and their Arrow form, writing and collecting a
  stream of record batches, and the rendering of plans.  Arrow's builders, the IPC file writer and
  the \<open>Debug\<close> and \<open>Display\<close> texts of library types are parameters.  The rendering of plans matters
  beyond its text: the planner evaluates \<open>format_plan\<close> inside its log statements, and
  \<open>format_plan\<close> can fail.
\<close>

section \<open>Rendering of plans\<close>

text \<open>Texts that library types give of themselves, and the levels at which logging is enabled.\<close>

record rendering =
  rd_debug_plan :: "exec_plan \<Rightarrow> string"
  rd_debug_strings :: "string list \<Rightarrow> string"
  rd_debug_join_type :: "join_type \<Rightarrow> string"
  rd_debug_on :: "(string \<times> string) list \<Rightarrow> string"
  rd_display_expr :: "physical_expr \<Rightarrow> string"
  rd_display_op :: "operator \<Rightarrow> string"
  rd_log_info :: bool
  rd_log_debug :: bool

text \<open>\<open>&s[0..n]\<close> on a \<open>String\<close>, and \<open>[String]::join\<close>.\<close>

definition str_prefix :: "nat \<Rightarrow> string \<Rightarrow> (string, 'e) result" where
  "str_prefix n s = (if n \<le> length s then Ok (take n s) else Panic ''byte index is out of bounds'')"

fun join_str :: "string \<Rightarrow> string list \<Rightarrow> string" where
  "join_str sep [] = []"
| "join_str sep [x] = x"
| "join_str sep (x # xs) = x @ sep @ join_str sep xs"

definition newline :: string where
  "newline = [CHR 0x0A]"

text \<open>\<open>{:?}\<close> on a \<open>Vec<usize>\<close>.\<close>

definition debug_usizes :: "nat list \<Rightarrow> string" where
  "debug_usizes ns = ''['' @ join_str '', '' (map show_nat ns) @ '']''"

fun format_expr :: "rendering \<Rightarrow> physical_expr \<Rightarrow> string" where
  "format_expr rd (PE_Column name) = name"
| "format_expr rd (PE_Literal v) = rd_display_expr rd (PE_Literal v)"
| "format_expr rd (PE_BinaryExpr l op r) =
     rd_display_expr rd l @ '' '' @ rd_display_op rd op @ '' '' @ rd_display_expr rd r"
| "format_expr rd e = rd_display_expr rd e"

definition format_agg_expr :: "rendering \<Rightarrow> agg_expr \<Rightarrow> string bresult" where
  "format_agg_expr rd e =
     rbind (ae_field e) (\<lambda>name.
       Ok (name @ '' '' @ rd_debug_strings rd (map (format_expr rd) (ae_expressions e))))"

fun operator_str :: "df_ops \<Rightarrow> rendering \<Rightarrow> exec_plan \<Rightarrow> string bresult" where
  "operator_str df rd (HashAggregateExec _ group_expr aggr_expr _ _) =
     rbind (mapM (format_agg_expr rd) aggr_expr) (\<lambda>aggrs.
       Ok (''HashAggregateExec: groupBy='' @ rd_debug_strings rd (map (format_expr rd \<circ> fst) group_expr) @
           '', aggrExpr='' @ rd_debug_strings rd aggrs))"
| "operator_str df rd (HashJoinExec _ _ on join_type) =
     Ok (''HashJoinExec: joinType='' @ rd_debug_join_type rd join_type @ '', on='' @ rd_debug_on rd on)"
| "operator_str df rd (ParquetExec x) =
     Ok (''ParquetExec: partitions='' @ show_nat (length (px_partitions x)) @
         '', files='' @ show_nat (sum_list (map length (px_partitions x))))"
| "operator_str df rd (CsvExec c) =
     Ok (''CsvExec: '' @ cx_path c @ ''; partitions='' @ show_nat (partition_count df (CsvExec c)))"
| "operator_str df rd (FilterExec predicate _) = Ok (''FilterExec: '' @ format_expr rd predicate)"
| "operator_str df rd (QueryStageExec job_id stage_id _) =
     Ok (''QueryStageExec: job='' @ job_id @ '', stage='' @ show_nat stage_id)"
| "operator_str df rd (UnresolvedShuffleExec ids _ _) =
     Ok (''UnresolvedShuffleExec: stages='' @ debug_usizes ids)"
| "operator_str df rd (CoalesceBatchesExec _ target_batch_size) =
     Ok (''CoalesceBatchesExec: batchSize='' @ show_nat target_batch_size)"
| "operator_str df rd (MergeExec _) = Ok ''MergeExec''"
| "operator_str df rd p = str_prefix 120 (rd_debug_plan rd p)"

function format_plan :: "df_ops \<Rightarrow> rendering \<Rightarrow> exec_plan \<Rightarrow> nat \<Rightarrow> string bresult" where
  "format_plan df rd p indent =
     rbind (operator_str df rd p) (\<lambda>operator_text.
     rbind (mapM (\<lambda>c. format_plan df rd c (indent + 1)) (children p)) (\<lambda>texts.
       (let children_str = join_str newline texts;
            indent_str = concat (replicate indent ''  '')
        in if children p = [] then Ok (indent_str @ operator_text @ children_str)
           else Ok (indent_str @ operator_text @ newline @ children_str))))"
  by pat_completeness auto
termination by (relation "measure (\<lambda>(df, rd, p, n). size p)") auto

declare format_plan.simps [simp del]

text \<open>
  \<open>info!("{}", format_plan(plan, 0)?)\<close>: nothing is evaluated unless the level is enabled.  The
  debug statement of \<open>execute\<close> slices the text of the stage.
\<close>

definition log_plan :: "df_ops \<Rightarrow> rendering \<Rightarrow> exec_plan \<Rightarrow> unit bresult" where
  "log_plan df rd p = (if rd_log_info rd then rbind (format_plan df rd p 0) (\<lambda>_. Ok ()) else Ok ())"

definition log_stage :: "rendering \<Rightarrow> exec_plan \<Rightarrow> unit bresult" where
  "log_stage rd p =
     (if rd_log_debug rd then rbind (str_prefix 60 (rd_debug_plan rd p)) (\<lambda>_. Ok ()) else Ok ())"

text \<open>The texts are long enough, and the aggregates have a field, for every operator of a plan.\<close>

definition renders :: "rendering \<Rightarrow> exec_plan \<Rightarrow> bool" where
  "renders rd p \<longleftrightarrow> 120 \<le> length (rd_debug_plan rd p) \<and>
     (case p of HashAggregateExec _ _ aggr _ _ \<Rightarrow> list_all (\<lambda>a. is_ok (ae_field a)) aggr | _ \<Rightarrow> True)"

function plan_nodes :: "exec_plan \<Rightarrow> exec_plan list" where
  "plan_nodes p = p # concat (map plan_nodes (children p))"
  by pat_completeness auto
termination by (relation "measure size") auto

declare plan_nodes.simps [simp del]

lemma plan_nodes_self [simp]: "p \<in> set (plan_nodes p)"
  by (subst plan_nodes.simps) simp

lemma plan_nodes_child: "c \<in> set (children p) \<Longrightarrow> q \<in> set (plan_nodes c) \<Longrightarrow> q \<in> set (plan_nodes p)"
  by (subst plan_nodes.simps) auto

lemma is_ok_Ok: "is_ok r \<longleftrightarrow> (\<exists>x. r = Ok x)"
  by (cases r) (auto simp: is_ok_def)

lemma operator_str_ok:
  assumes "renders rd p"
  shows "\<exists>s. operator_str df rd p = Ok s"
  using assms
proof (cases "(df, rd, p)" rule: operator_str.cases)
  case (1 df rd m g aggr c s)
  with assms have "\<exists>ys. mapM (format_agg_expr rd) aggr = Ok ys"
    by (intro mapM_is_Ok) (auto simp: renders_def list_all_iff is_ok_Ok format_agg_expr_def)
  with 1 show ?thesis by auto
qed (auto simp: renders_def str_prefix_def)

lemma format_plan_ok: "(\<And>q. q \<in> set (plan_nodes p) \<Longrightarrow> renders rd q) \<Longrightarrow> \<exists>s. format_plan df rd p n = Ok s"
proof (induction p arbitrary: n rule: plan_induct)
  case (plan p)
  obtain s where "operator_str df rd p = Ok s" using plan.prems [of p] operator_str_ok by fastforce
  moreover have "\<exists>ys. mapM (\<lambda>c. format_plan df rd c (n + 1)) (children p) = Ok ys"
    by (rule mapM_is_Ok) (use plan in \<open>blast intro: plan_nodes_child\<close>)
  ultimately show ?case by (subst format_plan.simps) (auto simp: Let_def)
qed

lemma log_plan_quiet [simp]: "\<not> rd_log_info rd \<Longrightarrow> log_plan df rd p = Ok ()"
  by (simp add: log_plan_def)

lemma log_stage_quiet [simp]: "\<not> rd_log_debug rd \<Longrightarrow> log_stage rd p = Ok ()"
  by (simp add: log_stage_def)

end
