(* ===== verification/Stage_Runner.thy ===== *)
theory Stage_Runner
  imports Planner Core_Utils
begin

text \<open>
  The part of \<open>scheduler/src/planner.rs\<close> that runs planned stages: \<open>execute\<close>,
  \<open>execute_query_stage\<close> and \<open>execute_distributed_query\<close>.  Running a chunk of partitions on an
  executor (a spawned task that makes a network call) is the parameter \<open>run\<close>.  Of the log
  statements only those that can fail are kept (\<open>log_plan\<close>, \<open>log_stage\<close>).
\<close>

section \<open>Running the stages\<close>

text \<open>\<open>[T]::chunks(n)\<close>; \<open>n\<close> is at least 1 where it is called.\<close>

function chunks :: "nat \<Rightarrow> 'a list \<Rightarrow> 'a list list" where
  "chunks n xs = (if n = 0 \<or> xs = [] then [] else take n xs # chunks n (drop n xs))"
  by pat_completeness auto
termination by (relation "measure (\<lambda>(n, xs). length xs)") auto

declare chunks.simps [simp del]

text \<open>
  One spawned execution: \<open>Err\<close> is a join error of the task, \<open>Ok r\<close> the result of
  \<open>BallistaClient::execute_partition\<close>.
\<close>

type_synonym 'r runner =
  "executor_meta \<Rightarrow> string \<Rightarrow> nat \<Rightarrow> nat list \<Rightarrow> exec_plan \<Rightarrow> ('r bresult, string) result"

definition check_execution :: "nat \<Rightarrow> ('r bresult, string) result \<Rightarrow> unit bresult" where
  "check_execution stage_id r =
     (case r of
        Ok partition_result \<Rightarrow> rbind partition_result (\<lambda>_. Ok ())
      | Err e \<Rightarrow> Err (General (''Query stage '' @ show_nat stage_id @ '' failed: '' @ e))
      | Panic s \<Rightarrow> Panic s)"

text \<open>The partitions in runs of \<open>partition_count / executors.len()\<close>, at least one each.\<close>

definition partition_chunks :: "nat \<Rightarrow> nat \<Rightarrow> nat list list" where
  "partition_chunks pc num_executors = chunks (max (pc div num_executors) 1) [0..<pc]"

definition execute_query_stage ::
  "df_ops \<Rightarrow> rendering \<Rightarrow> 'r runner \<Rightarrow> string \<Rightarrow> nat \<Rightarrow> exec_plan \<Rightarrow> executor_meta list
    \<Rightarrow> partition_location list bresult" where
  "execute_query_stage df rd run job_id stage_id plan executors =
     rbind (log_plan df rd plan) (\<lambda>_.
      if executors = [] then Panic ''attempt to divide by zero''
      else
        let pchunks = partition_chunks (partition_count df plan) (length executors);
            meta = concat (map (\<lambda>i. map (\<lambda>part.
                \<lparr>pl_partition_id = PartitionId_new job_id stage_id part,
                 pl_executor_meta = executors ! (i mod length executors)\<rparr>) (pchunks ! i))
              [0..<length pchunks]);
            results = map (\<lambda>i. run (executors ! (i mod length executors)) job_id stage_id (pchunks ! i) plan)
              [0..<length pchunks]
        in rbind (mapM (check_execution stage_id) results) (\<lambda>_. Ok meta))"

text \<open>The loop of \<open>execute\<close>: the locations of the stages run so far and of the last one run.\<close>

fun execute_stages ::
  "df_ops \<Rightarrow> rendering \<Rightarrow> 'r runner \<Rightarrow> executor_meta list \<Rightarrow> query_stage list \<Rightarrow> locations
    \<Rightarrow> partition_location list \<Rightarrow> partition_location list bresult" where
  "execute_stages df rd run executors [] locs result_locs = Ok result_locs"
| "execute_stages df rd run executors (s # ss) locs result_locs =
     rbind (log_stage rd (stage_plan s)) (\<lambda>_.
     rbind (remove_unresolved_shuffles df locs (stage_plan s)) (\<lambda>p.
       case p of
         QueryStageExec job_id stage_id child \<Rightarrow>
           rbind (execute_query_stage df rd run job_id stage_id child executors) (\<lambda>ls.
             execute_stages df rd run executors ss (locs(stage_id \<mapsto> ls)) ls)
       | _ \<Rightarrow> Panic ''called `Option::unwrap()` on a `None` value''))"

definition execute ::
  "df_ops \<Rightarrow> rendering \<Rightarrow> 'r runner \<Rightarrow> query_stage list \<Rightarrow> executor_meta list \<Rightarrow> exec_plan bresult" where
  "execute df rd run stages executors =
     rbind (execute_stages df rd run executors stages Map.empty []) (\<lambda>ls.
     rbind (unwrap (if stages = [] then None else Some (last stages))) (\<lambda>last_stage.
       ShuffleReaderExec_try_new ls (plan_schema df (stage_plan last_stage))))"

definition execute_distributed_query ::
  "df_ops \<Rightarrow> rendering \<Rightarrow> 'r runner \<Rightarrow> distributed_planner \<Rightarrow> string \<Rightarrow> exec_plan
    \<Rightarrow> (exec_plan \<times> distributed_planner) bresult" where
  "execute_distributed_query df rd run planner job_id p =
     rbind (plan_query_stages df planner job_id p) (\<lambda>(execution_plans, planner').
     rbind (mapM (\<lambda>s. log_plan df rd (stage_plan s)) execution_plans) (\<lambda>_.
     rbind (execute df rd run execution_plans (dp_executors planner')) (\<lambda>r. Ok (r, planner'))))"

section \<open>Chunks\<close>

lemma chunks_Nil [simp]: "chunks n [] = []"
  by (subst chunks.simps) simp

lemma chunks_Cons: "n > 0 \<Longrightarrow> xs \<noteq> [] \<Longrightarrow> chunks n xs = take n xs # chunks n (drop n xs)"
  by (subst chunks.simps) simp

lemma chunks_induct [consumes 1, case_names Nil Cons]:
  assumes "n > 0" "P []" "\<And>xs. xs \<noteq> [] \<Longrightarrow> P (drop n xs) \<Longrightarrow> P xs"
  shows "P xs"
proof (induction xs rule: measure_induct_rule [where f = length])
  case (less xs)
  then show ?case using assms by (cases "xs = []") auto
qed

lemma concat_chunks:
  assumes "n > 0"
  shows "concat (chunks n xs) = xs"
  using assms by (induction xs rule: chunks_induct) (use assms in \<open>auto simp: chunks_Cons\<close>)

lemma length_chunks:
  assumes n: "n > 0"
  shows "length (chunks n xs) = (length xs + (n - 1)) div n"
  using n
proof (induction xs rule: chunks_induct)
  case Nil
  then show ?case using n by simp
next
  case (Cons xs)
  show ?case
  proof (cases "length xs \<le> n")
    case True
    then have "length xs + (n - 1) = (length xs - 1) + n" "(length xs - 1) div n = 0"
      using Cons.hyps n by (cases xs; simp)+
    then have "(length xs + (n - 1)) div n = 1" using n by (simp only: div_add_self2)
    with True Cons.hyps n show ?thesis by (simp add: chunks_Cons)
  next
    case False
    then have "length xs + (n - 1) = (length (drop n xs) + (n - 1)) + n" by simp
    then have "(length xs + (n - 1)) div n = Suc ((length (drop n xs) + (n - 1)) div n)"
      using n by (simp only: div_add_self2)
    then show ?thesis using Cons n by (simp only: chunks_Cons [OF n Cons.hyps] list.size)
  qed
qed

text \<open>Fewer than two chunks per executor.\<close>

lemma chunks_per_executor:
  assumes "e > 0"
  shows "length (partition_chunks pc e) < 2 * e"
proof (cases "pc div e = 0")
  case True
  then have "pc < e" using assms by (simp add: div_eq_0_iff)
  with True show ?thesis by (simp add: partition_chunks_def length_chunks)
next
  case False
  define c where "c = pc div e"
  have c: "c \<ge> 1" using False by (simp add: c_def)
  have "pc = e * c + pc mod e" by (simp add: c_def)
  moreover have "pc mod e \<le> e - 1" using assms by (simp add: less_Suc_eq_le [symmetric])
  ultimately have "pc + (c - 1) \<le> e * c + ((e - 1) + (c - 1))" by simp
  also have "\<dots> \<le> e * c + ((e - 1) * c + (c - 1))" using c mult_le_mono2 [of 1 c "e - 1"] by linarith
  finally have "(pc + (c - 1)) div c \<le> (e * c + ((e - 1) * c + (c - 1))) div c" by (rule div_le_mono)
  also have "e * c + ((e - 1) * c + (c - 1)) = (c - 1) + (e + (e - 1)) * c"
    by (simp only: add_mult_distrib add.commute add.left_commute)
  also have "\<dots> div c = e + (e - 1)" using c by (subst div_mult_self1) simp_all
  finally show ?thesis using assms c by (simp add: partition_chunks_def length_chunks c_def)
qed

lemma concat_partition_chunks: "concat (partition_chunks pc e) = [0..<pc]"
  unfolding partition_chunks_def by (rule concat_chunks) simp

section \<open>Running a stage\<close>

lemma check_execution_Ok: "check_execution stage_id r = Ok () \<longleftrightarrow> (\<exists>x. r = Ok (Ok x))"
  by (auto simp: check_execution_def result_simps split: result.splits)

text \<open>Chunk \<open>i\<close> ran on executor \<open>i mod executors.len()\<close>.\<close>

definition chunk_ran ::
  "'r runner \<Rightarrow> string \<Rightarrow> nat \<Rightarrow> exec_plan \<Rightarrow> executor_meta \<Rightarrow> nat list \<Rightarrow> bool" where
  "chunk_ran run job_id stage_id plan e chunk \<longleftrightarrow> (\<exists>x. run e job_id stage_id chunk plan = Ok (Ok x))"

lemma map_nth_concat: "concat (map (\<lambda>i. map f (xss ! i)) [0..<length xss]) = map f (concat xss)"
  by (simp add: map_concat map_nth [of xss, symmetric, THEN arg_cong [of _ _ "map (map f)"]] comp_def)

lemma execute_query_stage_chunks:
  assumes "execute_query_stage df rd run job sid plan executors = Ok locs"
  shows "executors \<noteq> []"
    and "locs = concat (map (\<lambda>i. map (\<lambda>part.
                \<lparr>pl_partition_id = PartitionId_new job sid part,
                 pl_executor_meta = executors ! (i mod length executors)\<rparr>)
                (partition_chunks (partition_count df plan) (length executors) ! i))
              [0..<length (partition_chunks (partition_count df plan) (length executors))])"
    and "\<And>i. i < length (partition_chunks (partition_count df plan) (length executors)) \<Longrightarrow>
           chunk_ran run job sid plan (executors ! (i mod length executors))
             (partition_chunks (partition_count df plan) (length executors) ! i)"
proof -
  show "executors \<noteq> []"
    using assms by (auto simp: execute_query_stage_def result_simps split: if_splits)
  then show "locs = concat (map (\<lambda>i. map (\<lambda>part.
                \<lparr>pl_partition_id = PartitionId_new job sid part,
                 pl_executor_meta = executors ! (i mod length executors)\<rparr>)
                (partition_chunks (partition_count df plan) (length executors) ! i))
              [0..<length (partition_chunks (partition_count df plan) (length executors))])"
    using assms by (auto simp: execute_query_stage_def rbind_eq_Ok Let_def)
  fix i assume i: "i < length (partition_chunks (partition_count df plan) (length executors))"
  with \<open>executors \<noteq> []\<close> show "chunk_ran run job sid plan (executors ! (i mod length executors))
             (partition_chunks (partition_count df plan) (length executors) ! i)"
    using assms unfolding chunk_ran_def check_execution_Ok [symmetric, of _ sid]
    by (auto simp: execute_query_stage_def rbind_eq_Ok Let_def dest!: mapM_nth [of _ _ _ i])
qed

lemma execute_query_stage_pids:
  assumes "execute_query_stage df rd run job sid plan executors = Ok locs"
  shows "map pl_partition_id locs = map (PartitionId_new job sid) [0..<partition_count df plan]"
  unfolding execute_query_stage_chunks(2) [OF assms]
  by (simp add: map_concat comp_def map_nth_concat concat_partition_chunks)

lemma execute_query_stage_located:
  assumes ok: "execute_query_stage df rd run job sid plan executors = Ok locs" and l: "l \<in> set locs"
  shows "pl_executor_meta l \<in> set executors \<and>
    (\<exists>chunk. pid_partition (pl_partition_id l) \<in> set chunk \<and> chunk_ran run job sid plan (pl_executor_meta l) chunk)"
proof -
  let ?cs = "partition_chunks (partition_count df plan) (length executors)"
  note facts = execute_query_stage_chunks [OF ok]
  from l obtain i part where i: "i < length ?cs" "part \<in> set (?cs ! i)"
      "l = \<lparr>pl_partition_id = PartitionId_new job sid part, pl_executor_meta = executors ! (i mod length executors)\<rparr>"
    unfolding facts(2) by auto
  with facts(1) have "pl_executor_meta l \<in> set executors" by simp
  with i facts(3) [OF i(1)] show ?thesis by (auto simp: PartitionId_new_def)
qed

lemma execute_query_stage_total:
  assumes "executors \<noteq> []" "log_plan df rd plan = Ok ()"
    and "\<And>e chunk. e \<in> set executors \<Longrightarrow> chunk_ran run job sid plan e chunk"
  shows "\<exists>locs. execute_query_stage df rd run job sid plan executors = Ok locs"
proof -
  have "check_execution sid (run (executors ! (i mod length executors)) job sid chunk plan) = Ok ()" for i chunk
    using assms by (simp add: check_execution_Ok chunk_ran_def)
  then show ?thesis
    using assms(1,2) by (simp add: execute_query_stage_def Let_def)
qed

section \<open>Running the list of stages\<close>

text \<open>The log statements succeed, and no executor fails.\<close>

definition logs_ok :: "df_ops \<Rightarrow> rendering \<Rightarrow> bool" where
  "logs_ok df rd \<longleftrightarrow> (\<forall>q. log_plan df rd q = Ok () \<and> log_stage rd q = Ok ())"

definition runs_ok :: "'r runner \<Rightarrow> executor_meta list \<Rightarrow> bool" where
  "runs_ok run executors \<longleftrightarrow>
     (\<forall>e \<in> set executors. \<forall>job sid chunk plan. chunk_ran run job sid plan e chunk)"

text \<open>The locations of a stage are its partitions, in order, on the given executors.\<close>

definition stage_locations :: "string \<Rightarrow> executor_meta list \<Rightarrow> nat \<Rightarrow> partition_location list \<Rightarrow> bool" where
  "stage_locations job executors sid ls \<longleftrightarrow>
     map pl_partition_id ls = map (PartitionId_new job sid) [0..<length ls] \<and>
     pl_executor_meta ` set ls \<subseteq> set executors"

lemma refs_in_located:
  assumes "refs_in df known p" "qs_stage_id ` set known \<subseteq> dom locs"
  shows "located locs p"
  using assms by (fastforce simp: located_def refs_in_def shuffle_of_def)

lemma execute_query_stage_ok:
  assumes "executors \<noteq> []" "logs_ok df rd" "runs_ok run executors"
  shows "\<exists>ls. execute_query_stage df rd run job sid plan executors = Ok ls \<and> stage_locations job executors sid ls"
proof -
  obtain ls where ls: "execute_query_stage df rd run job sid plan executors = Ok ls"
    using execute_query_stage_total [of executors df rd plan run job sid] assms
    by (auto simp: logs_ok_def runs_ok_def)
  have "length ls = partition_count df plan"
    using execute_query_stage_pids [OF ls] by (metis length_map length_upt diff_zero)
  with ls execute_query_stage_pids [OF ls] execute_query_stage_located [OF ls] show ?thesis
    by (auto simp: stage_locations_def)
qed

lemma execute_stages_ok:
  assumes "df_replaces df" "executors \<noteq> []" "logs_ok df rd" "runs_ok run executors"
    and "stages_ok df job known ss" "qs_stage_id ` set known \<subseteq> dom locs"
  shows "\<exists>ls'. execute_stages df rd run executors ss locs ls = Ok ls' \<and>
    (if ss = [] then ls' = ls else stage_locations job executors (qs_stage_id (last ss)) ls')"
  using assms(5,6)
proof (induction ss arbitrary: known locs ls)
  case (Cons s ss)
  let ?p = "resolve locs (qs_child s)"
  from Cons.prems have s: "qs_job_id s = job" "staged_plan (qs_child s)" "located locs (qs_child s)"
    by (auto intro: refs_in_located)
  obtain ms where ms: "execute_query_stage df rd run job (qs_stage_id s) ?p executors = Ok ms"
      "stage_locations job executors (qs_stage_id s) ms"
    using execute_query_stage_ok [OF assms(2-4)] by blast
  have step: "execute_stages df rd run executors (s # ss) locs ls =
      execute_stages df rd run executors ss (locs(qs_stage_id s \<mapsto> ms)) ms"
    using assms(3) s ms(1) remove_unresolved_stage [OF assms(1) s(2), of locs]
    by (simp add: logs_ok_def stage_plan_def)
  from Cons.prems have "stages_ok df job (known @ [s]) ss"
      "qs_stage_id ` set (known @ [s]) \<subseteq> dom (locs(qs_stage_id s \<mapsto> ms))" by auto
  from Cons.IH [OF this, of ms] obtain ls' where "execute_stages df rd run executors ss (locs(qs_stage_id s \<mapsto> ms)) ms = Ok ls'"
      "if ss = [] then ls' = ms else stage_locations job executors (qs_stage_id (last ss)) ls'"
    by blast
  with ms(2) show ?case unfolding step by (cases "ss = []") auto
qed simp

section \<open>Properties\<close>

definition example_executor :: executor_meta where
  "example_executor = \<lparr>em_id = ''e1'', em_host = ''localhost'', em_port = 50050\<rparr>"

definition quiet_rendering :: rendering where
  "quiet_rendering = \<lparr>rd_debug_plan = (\<lambda>_. ''plan''), rd_debug_strings = concat, rd_debug_join_type = (\<lambda>_. ''join''),
     rd_debug_on = (\<lambda>_. ''on''), rd_display_expr = (\<lambda>_. ''expr''), rd_display_op = debug_operator,
     rd_log_info = False, rd_log_debug = False\<rparr>"



text \<open>
  C27. The locations of an executed stage are truthful.  When \<open>execute_query_stage\<close> returns,
  its locations list every partition of the stage exactly once and in order, each on one of the
  executors, and the executor it names did successfully run a chunk containing that partition.
\<close>

theorem execute_query_stage_locations:
  assumes "execute_query_stage df rd run job sid plan executors = Ok locs"
  shows "map pl_partition_id locs = map (PartitionId_new job sid) [0..<partition_count df plan] \<and>
    (\<forall>l \<in> set locs. pl_executor_meta l \<in> set executors \<and>
      (\<exists>chunk. pid_partition (pl_partition_id l) \<in> set chunk \<and> chunk_ran run job sid plan (pl_executor_meta l) chunk))"
  using execute_query_stage_pids [OF assms] execute_query_stage_located [OF assms] by blast

theorem execute_query_stage_locations_witness:
  "\<exists>locs. execute_query_stage df_plain quiet_rendering (\<lambda>_ _ _ _ _. Ok (Ok ())) ''job'' 1 example_scan
      [example_executor] = Ok locs \<and>
    map pl_partition_id locs = map (PartitionId_new ''job'' 1) [0..<partition_count df_plain example_scan]"
proof -
  obtain locs where "execute_query_stage df_plain quiet_rendering (\<lambda>_ _ _ _ _. Ok (Ok ())) ''job'' 1 example_scan
      [example_executor] = Ok locs"
    using execute_query_stage_total [of "[example_executor]" df_plain quiet_rendering example_scan
        "\<lambda>_ _ _ _ _. Ok (Ok ())" "''job''" 1]
    by (auto simp: chunk_ran_def quiet_rendering_def)
  with execute_query_stage_locations [OF this] show ?thesis by blast
qed

text \<open>
  C28. The load of a stage is bounded: the partitions are cut into fewer than twice as many chunks
  as there are executors, whatever the counts, so the round robin gives no executor more than two.
\<close>

theorem partition_chunks_bound:
  assumes "0 < num_executors"
  shows "length (partition_chunks pc num_executors) < 2 * num_executors \<and>
    concat (partition_chunks pc num_executors) = [0..<pc]"
  using chunks_per_executor [OF assms] concat_partition_chunks by simp

theorem partition_chunks_bound_witness:
  "length (partition_chunks 7 3) < 2 * 3 \<and> concat (partition_chunks 7 3) = [0..<7]"
  using partition_chunks_bound [of 3 7] by simp

text \<open>
  With info logging on, a plan with an operator \<open>format_plan\<close> does not know and whose \<open>Debug\<close> text
  is shorter than 120 bytes makes the log statement panic, so the query is not run at all.
\<close>

lemma short_debug_text_panics:
  assumes "rd_log_info rd" "length (rd_debug_plan rd (EmptyExec b sch)) < 120"
  shows "is_panic (execute_distributed_query df rd run planner job (EmptyExec b sch))"
proof -
  have leaf: "format_plan df rd (EmptyExec b sch) 1 = Panic ''byte index is out of bounds''"
    using assms by (subst format_plan.simps) (simp add: str_prefix_def)
  have "log_plan df rd (stage_plan \<lparr>qs_job_id = job, qs_stage_id = i, qs_child = EmptyExec b sch\<rparr>) =
      Panic ''byte index is out of bounds''" for i
    using assms leaf unfolding log_plan_def stage_plan_def by (subst format_plan.simps) simp
  moreover have "plan_query_stages_internal df job (EmptyExec b sch) n = Ok ((EmptyExec b sch, []), n)" for n
    by (subst plan_query_stages_internal.simps) simp
  ultimately show ?thesis
    by (simp add: execute_distributed_query_def plan_query_stages_def next_stage_id_def create_query_stage_def QueryStageExec_try_new_def is_panic_def)
qed

end
