(* ===== verification/Ballista_Io.thy ===== *)
theory Ballista_Io
  imports Ballista_Prelude
begin

text \<open>
  Computations that change a state and may fail: what an \<open>async\<close> method that returns \<open>Result\<close>
  becomes.  The state is whatever the method can reach, a key-value store, a disk, the network.
\<close>

type_synonym ('s, 'a, 'e) io = "'s \<Rightarrow> ('a, 'e) result \<times> 's"

definition sret :: "'a \<Rightarrow> ('s, 'a, 'e) io" where
  "sret x s = (Ok x, s)"

text \<open>A pure step, and \<open>?\<close> after an asynchronous one.\<close>

definition slift :: "('a, 'e) result \<Rightarrow> ('s, 'a, 'e) io" where
  "slift r s = (r, s)"

definition sbind :: "('s, 'a, 'e) io \<Rightarrow> ('a \<Rightarrow> ('s, 'b, 'e) io) \<Rightarrow> ('s, 'b, 'e) io" where
  "sbind c f s =
     (case c s of
        (Ok x, s') \<Rightarrow> f x s'
      | (Err e, s') \<Rightarrow> (Err e, s')
      | (Panic p, s') \<Rightarrow> (Panic p, s'))"

definition smap_err :: "('e \<Rightarrow> 'f) \<Rightarrow> ('s, 'a, 'e) io \<Rightarrow> ('s, 'a, 'f) io" where
  "smap_err g c s = (case c s of (r, s') \<Rightarrow> (map_err g r, s'))"

text \<open>\<open>for x in xs { c(x).await?; }\<close>\<close>

fun sfor :: "('a \<Rightarrow> ('s, unit, 'e) io) \<Rightarrow> 'a list \<Rightarrow> ('s, unit, 'e) io" where
  "sfor c [] = sret ()"
| "sfor c (x # xs) = sbind (c x) (\<lambda>_. sfor c xs)"

lemma sbind_simps [simp]:
  "sbind (sret x) f = f x"
  "sbind (slift (Ok x)) f = f x"
  "sbind (slift (Err e)) f = slift (Err e)"
  "sbind (slift (Panic p)) f = slift (Panic p)"
  by (simp_all add: fun_eq_iff sbind_def sret_def slift_def)

lemma sbind_assoc: "sbind (sbind c f) g = sbind c (\<lambda>x. sbind (f x) g)"
  by (auto simp: fun_eq_iff sbind_def split: prod.split result.split)

lemma sfor_append: "sfor c (xs @ ys) = sbind (sfor c xs) (\<lambda>_. sfor c ys)"
  by (induction xs) (simp_all add: sbind_assoc)

text \<open>\<open>Result::unwrap\<close>\<close>

fun unwrap_result :: "('a, 'e) result \<Rightarrow> ('a, 'f) result" where
  "unwrap_result (Ok x) = Ok x"
| "unwrap_result (Err e) = Panic ''called `Result::unwrap()` on an `Err` value''"
| "unwrap_result (Panic p) = Panic p"

text \<open>\<open>if let Err(e) = c.await { warn!(..) }\<close>, and \<open>c.await.unwrap()\<close>\<close>

definition swarn :: "('s, unit, 'e) io \<Rightarrow> ('s, unit, 'f) io" where
  "swarn c s = (case c s of (r, s') \<Rightarrow> (case r of Ok u \<Rightarrow> Ok () | Err e \<Rightarrow> Ok () | Panic p \<Rightarrow> Panic p, s'))"

definition sunwrap :: "('s, 'a, 'e) io \<Rightarrow> ('s, 'a, 'f) io" where
  "sunwrap c s = (case c s of (r, s') \<Rightarrow> (unwrap_result r, s'))"

lemma sfor_map: "sfor c (map f xs) = sfor (\<lambda>x. c (f x)) xs"
  by (induction xs) simp_all

lemma sbind_sret [simp]: "sbind c sret = c" "sbind c (\<lambda>u. slift (Ok u)) = c"
  "sbind d (\<lambda>_. slift (Ok ())) = d"
  by (auto simp: fun_eq_iff sbind_def sret_def slift_def split: prod.split result.split)

lemma sfor_concat: "sfor c (concat xss) = sfor (sfor c) xss"
  by (induction xss) (simp_all add: sfor_append)

section \<open>gRPC statuses\<close>

text \<open>The codes of \<open>tonic::Status\<close> the code makes, with their message.\<close>

datatype tonic_status = St_Internal string | St_InvalidArgument string | St_Unimplemented string

end
