(* ===== verification/Config_Backend.thy ===== *)
theory Config_Backend
  imports Df_Types Ballista_Io
begin

text \<open>
  The scheduler's key-value store: the trait \<open>ConfigBackendClient\<close> of \<open>scheduler/src/state/mod.rs\<close>
  and its two implementations, \<open>standalone.rs\<close> over \<open>sled\<close> and \<open>etcd.rs\<close> over an etcd server.

  \<^item> An asynchronous method of a client is a function from the client's state to a result and a new
    state.  The records \<open>sled_db\<close> and \<open>etcd_client\<close> are the library calls the clients make.
  \<^item> The bytes of a stored value are of an arbitrary type \<open>'b\<close>: no client looks inside a value.
  \<^item> \<open>bk_lock\<close> answers \<open>None\<close> when the future is not ready, because another guard is held.
    \<open>bk_drop\<close> is what dropping the guard does, \<open>bk_unlock\<close> is \<open>Lock::unlock\<close>.
  \<^item> The locale \<open>config_backend\<close> is the contract of the trait over the map a client stores, for a
    store without I/O errors, and holds the reasoning rules its users need.
\<close>

section \<open>Text and bytes\<close>

text \<open>
  The UTF-8 form of a \<open>str\<close>, and \<open>std::str::from_utf8\<close>.  Characters are those of the model's
  strings, the code points below 256; a byte sequence that encodes any other one is rejected like an
  invalid one.
\<close>

definition utf8_of_char :: "char \<Rightarrow> u8 list" where
  "utf8_of_char c = (let n = of_char c in
     if n < 128 then [word_of_nat n] else [word_of_nat (192 + n div 64), word_of_nat (128 + n mod 64)])"

definition as_bytes :: "string \<Rightarrow> u8 list" where
  "as_bytes s = concat (map utf8_of_char s)"

fun from_utf8 :: "u8 list \<Rightarrow> (string, string) result" where
  "from_utf8 [] = Ok []"
| "from_utf8 (b # bs) =
     (if unat b < 128 then rbind (from_utf8 bs) (\<lambda>s. Ok (char_of (unat b) # s))
      else case bs of
        [] \<Rightarrow> Err ''incomplete utf-8 byte sequence''
      | b' # bs' \<Rightarrow>
          if unat b \<in> {194, 195} \<and> 128 \<le> unat b' \<and> unat b' < 192
          then rbind (from_utf8 bs') (\<lambda>s. Ok (char_of (64 * (unat b - 192) + (unat b' - 128)) # s))
          else Err ''invalid utf-8 sequence'')"

lemma unat_u8: "n < 256 \<Longrightarrow> unat (word_of_nat n :: u8) = n"
  by (simp add: unat_of_nat)

lemma utf8_of_char_cases:
  obtains (one) b where "utf8_of_char c = [b]" "unat b = of_char c" "unat b < 128"
  | (two) b b' where "utf8_of_char c = [b, b']" "unat b \<in> {194, 195}" "128 \<le> unat b'" "unat b' < 192"
      "of_char c = 64 * (unat b - 192) + (unat b' - 128)"
proof (cases "of_char c < (128 :: nat)")
  case True
  then show ?thesis
    by (intro one [of "word_of_nat (of_char c)"]) (simp_all add: utf8_of_char_def Let_def unat_of_nat)
next
  case False
  let ?n = "of_char c :: nat"
  have n: "?n < 256" by simp
  have "2 \<le> ?n div 64" "?n div 64 < 4"
    using False div_le_mono [of 128 ?n 64] less_mult_imp_div_less [of ?n 4 64] n by simp_all
  then have d: "?n div 64 \<in> {2, 3}" by auto
  have e: "64 * q + ?n mod 64 = ?n" if "?n div 64 = q" for q
    using that mult_div_mod_eq [of 64 ?n] by metis
  show ?thesis
  proof (rule two)
    show "utf8_of_char c = [word_of_nat (192 + ?n div 64), word_of_nat (128 + ?n mod 64)]"
      using False by (simp add: utf8_of_char_def Let_def del: of_nat_add)
    show "unat (word_of_nat (192 + ?n div 64) :: u8) \<in> {194, 195}"
      using d by (auto simp: unat_u8 simp del: of_nat_add)
    have "64 * (unat (word_of_nat (192 + ?n div 64) :: u8) - 192) +
        (unat (word_of_nat (128 + ?n mod 64) :: u8) - 128) = ?n"
      using d e [of 2] e [of 3] by (auto simp: unat_u8 simp del: of_nat_add)
    then show "?n = 64 * (unat (word_of_nat (192 + ?n div 64) :: u8) - 192) +
        (unat (word_of_nat (128 + ?n mod 64) :: u8) - 128)" by (rule sym)
  qed (simp_all add: unat_u8 del: of_nat_add)
qed

lemma from_utf8_append: "from_utf8 (utf8_of_char c @ bs) = rbind (from_utf8 bs) (\<lambda>s. Ok (c # s))"
proof (cases c rule: utf8_of_char_cases)
  case (one b)
  then show ?thesis by simp
next
  case (two b b')
  have "char_of (64 * (unat b - 192) + (unat b' - 128)) = c"
    using two(5) [symmetric] by simp
  with two show ?thesis by auto
qed

lemma from_utf8_as_bytes [simp]: "from_utf8 (as_bytes s) = Ok s"
  by (induction s) (simp_all add: as_bytes_def from_utf8_append)

lemma as_bytes_inj [simp]: "as_bytes s = as_bytes t \<longleftrightarrow> s = t"
  by (metis from_utf8_as_bytes result.inject(1))

lemma as_bytes_Cons: "as_bytes (c # s) = utf8_of_char c @ as_bytes s"
  by (simp add: as_bytes_def)

lemma utf8_prefix_code:
  assumes "utf8_of_char c @ xs = utf8_of_char d @ ys"
  shows "c = d"
proof (cases c rule: utf8_of_char_cases)
  case c: (one b)
  then have "of_char c = (of_char d :: nat)"
    using assms by (cases d rule: utf8_of_char_cases) auto
  then show ?thesis by simp
next
  case c: (two b b')
  then have "of_char c = (of_char d :: nat)"
    using assms by (cases d rule: utf8_of_char_cases) auto
  then show ?thesis by simp
qed

lemma as_bytes_prefix [simp]: "prefix (as_bytes p) (as_bytes k) \<longleftrightarrow> prefix p k"
proof
  assume "prefix p k"
  then show "prefix (as_bytes p) (as_bytes k)"
    by (auto simp: prefix_def as_bytes_def)
next
  show "prefix (as_bytes p) (as_bytes k) \<Longrightarrow> prefix p k"
  proof (induction p arbitrary: k)
    case (Cons c p)
    show ?case
    proof (cases k)
      case Nil
      with Cons.prems show ?thesis
        by (cases c rule: utf8_of_char_cases) (auto simp: as_bytes_def)
    next
      case (Cons d k')
      with Cons.prems obtain ys where "utf8_of_char d @ as_bytes k' = utf8_of_char c @ as_bytes p @ ys"
        by (auto simp: prefix_def as_bytes_Cons)
      moreover from this have "d = c" by (rule utf8_prefix_code)
      ultimately show ?thesis using Cons Cons.IH by (auto simp: prefix_def)
    qed
  qed simp
qed

section \<open>The trait ConfigBackendClient\<close>

record ('s, 'g, 'b) config_backend_client =
  bk_get :: "string \<Rightarrow> ('s, 'b list, BallistaError) io"
  bk_get_from_prefix :: "string \<Rightarrow> ('s, (string \<times> 'b list) list, BallistaError) io"
  bk_put :: "string \<Rightarrow> 'b list \<Rightarrow> nat option \<Rightarrow> ('s, unit, BallistaError) io"
  bk_lock :: "'s \<Rightarrow> ('g bresult \<times> 's) option"
  bk_unlock :: "'g \<Rightarrow> ('s, unit, BallistaError) io"
  bk_drop :: "'g \<Rightarrow> 's \<Rightarrow> 's"

text \<open>\<open>LEASE_TIME\<close>, in seconds.\<close>

definition LEASE_TIME :: nat where
  "LEASE_TIME = 60"

text \<open>A call keeps the store usable and the lock with its holder.\<close>

definition keeps :: "('s \<Rightarrow> bool) \<Rightarrow> ('s \<Rightarrow> 'g option) \<Rightarrow> 's \<Rightarrow> 's \<Rightarrow> bool" where
  "keeps healthy holder s s' \<longleftrightarrow> healthy s' \<and> holder s' = holder s"

definition stored :: "('k \<rightharpoonup> 'b list) \<Rightarrow> 'k \<Rightarrow> 'b list" where
  "stored m k = (case m k of None \<Rightarrow> [] | Some v \<Rightarrow> v)"

text \<open>\<open>kvs\<close> lists the entries of \<open>m\<close> whose key starts with \<open>p\<close>, each once.\<close>

definition lists_prefix :: "('k list \<rightharpoonup> 'v) \<Rightarrow> 'k list \<Rightarrow> ('k list \<times> 'v) list \<Rightarrow> bool" where
  "lists_prefix m p kvs \<longleftrightarrow>
     distinct (map fst kvs) \<and> (\<forall>k v. (k, v) \<in> set kvs \<longleftrightarrow> m k = Some v \<and> prefix p k)"

text \<open>The keys of the scheduler; an etcd server keeps the entries of its locks elsewhere.\<close>

definition own_key :: "string \<Rightarrow> bool" where
  "own_key k \<longleftrightarrow> prefix ''/ballista/'' k"

locale config_backend =
  fixes bk :: "('s, 'g, 'b) config_backend_client"
    and kv :: "'s \<Rightarrow> string \<rightharpoonup> 'b list"
    and healthy :: "'s \<Rightarrow> bool"
    and holder :: "'s \<Rightarrow> 'g option"
  assumes get_ok: "healthy s \<Longrightarrow> own_key k \<Longrightarrow>
      \<exists>s'. bk_get bk k s = (Ok (stored (kv s) k), s') \<and> kv s' = kv s \<and> keeps healthy holder s s'"
    and get_from_prefix_ok: "healthy s \<Longrightarrow> own_key p \<Longrightarrow>
      \<exists>kvs s'. bk_get_from_prefix bk p s = (Ok kvs, s') \<and> lists_prefix (kv s) p kvs \<and> kv s' = kv s \<and>
        keeps healthy holder s s'"
    and put_ok: "healthy s \<Longrightarrow> own_key k \<Longrightarrow>
      \<exists>s'. bk_put bk k v lease s = (Ok (), s') \<and> kv s' = (kv s)(k \<mapsto> v) \<and> keeps healthy holder s s'"
    and lock_waits: "holder s \<noteq> None \<Longrightarrow> bk_lock bk s = None"
    and lock_ok: "healthy s \<Longrightarrow> holder s = None \<Longrightarrow>
      \<exists>g s'. bk_lock bk s = Some (Ok g, s') \<and> kv s' = kv s \<and> healthy s' \<and> holder s' = Some g"
    and unlock_ok: "healthy s \<Longrightarrow> holder s = Some g \<Longrightarrow>
      \<exists>s'. bk_unlock bk g s = (Ok (), s') \<and> kv s' = kv s \<and> healthy s' \<and> holder (bk_drop bk g s') = None"
    and drop_ok: "healthy s \<Longrightarrow> healthy (bk_drop bk g s) \<and> kv (bk_drop bk g s) = kv s"
begin

text \<open>
  \<open>valid m c Q\<close>: started on a store that holds \<open>m\<close>, the computation \<open>c\<close> ends in a result and a
  store content related by \<open>Q\<close>, leaves the store usable and does not touch the lock.
\<close>

definition valid ::
  "(string \<rightharpoonup> 'b list) \<Rightarrow> ('s, 'a, 'e) io \<Rightarrow> (('a, 'e) result \<Rightarrow> (string \<rightharpoonup> 'b list) \<Rightarrow> bool) \<Rightarrow> bool" where
  "valid m c Q \<longleftrightarrow>
     (\<forall>s. healthy s \<and> kv s = m \<longrightarrow>
        (case c s of (r, s') \<Rightarrow> Q r (kv s') \<and> keeps healthy holder s s'))"

lemma validD:
  assumes "valid m c Q" "healthy s" "kv s = m"
  obtains r s' where "c s = (r, s')" "Q r (kv s')" "healthy s'" "holder s' = holder s"
proof (cases "c s")
  case (Pair r s')
  with assms have "Q r (kv s') \<and> keeps healthy holder s s'"
    unfolding valid_def by (metis (no_types, lifting) case_prod_conv)
  with Pair show ?thesis using that by (simp add: keeps_def)
qed

lemma validI:
  assumes "\<And>s r s'. healthy s \<Longrightarrow> kv s = m \<Longrightarrow> c s = (r, s') \<Longrightarrow> Q r (kv s') \<and> keeps healthy holder s s'"
  shows "valid m c Q"
  using assms by (auto simp: valid_def split: prod.split)

lemma valid_weaken: "valid m c Q \<Longrightarrow> (\<And>r m'. Q r m' \<Longrightarrow> R r m') \<Longrightarrow> valid m c R"
  by (rule validI) (auto elim!: validD simp: keeps_def)

lemma valid_conj: "valid m c Q \<Longrightarrow> valid m c R \<Longrightarrow> valid m c (\<lambda>r m'. Q r m' \<and> R r m')"
  by (rule validI) (auto elim!: validD simp: keeps_def)

lemma valid_sret [intro]: "Q (Ok x) m \<Longrightarrow> valid m (sret x) Q"
  by (simp add: valid_def sret_def keeps_def)

lemma valid_slift [intro]: "Q r m \<Longrightarrow> valid m (slift r) Q"
  by (simp add: valid_def slift_def keeps_def)

lemma valid_smap_err: "valid m c (\<lambda>r. Q (map_err g r)) \<Longrightarrow> valid m (smap_err g c) Q"
  by (rule validI) (auto elim!: validD simp: keeps_def smap_err_def)

text \<open>The rule of sequence; a failure of the first part is the failure of the whole.\<close>

lemma valid_sbind:
  assumes c: "valid m c R"
    and f: "\<And>x m'. R (Ok x) m' \<Longrightarrow> valid m' (f x) Q"
    and err: "\<And>e m'. R (Err e) m' \<Longrightarrow> Q (Err e) m'" "\<And>p m'. R (Panic p) m' \<Longrightarrow> Q (Panic p) m'"
  shows "valid m (sbind c f) Q"
proof -
  have "case sbind c f s of (r, s') \<Rightarrow> Q r (kv s') \<and> keeps healthy holder s s'"
    if s: "healthy s" "kv s = m" for s
  proof -
    obtain r s1 where 1: "c s = (r, s1)" "R r (kv s1)" "healthy s1" "holder s1 = holder s"
      using c s by (rule validD)
    show ?thesis
    proof (cases r)
      case (Ok x)
      with 1 f [of x "kv s1"] have "valid (kv s1) (f x) Q" by simp
      from this \<open>healthy s1\<close> refl obtain r2 s2
        where "f x s1 = (r2, s2)" "Q r2 (kv s2)" "healthy s2" "holder s2 = holder s1" by (rule validD)
      with 1 Ok show ?thesis by (simp add: sbind_def keeps_def)
    qed (use 1 err in \<open>auto simp: sbind_def keeps_def\<close>)
  qed
  then show ?thesis by (simp add: valid_def)
qed

text \<open>The same when the first part cannot fail.\<close>

lemma valid_sbind_Ok:
  assumes "valid m c (\<lambda>r m'. \<exists>x. r = Ok x \<and> R x m')" "\<And>x m'. R x m' \<Longrightarrow> valid m' (f x) Q"
  shows "valid m (sbind c f) Q"
  by (rule valid_sbind [OF assms(1)]) (use assms(2) in auto)

lemma valid_get: "own_key k \<Longrightarrow> Q (Ok (stored m k)) m \<Longrightarrow> valid m (bk_get bk k) Q"
  unfolding valid_def by (auto dest!: get_ok [of _ k])

lemma valid_get_from_prefix:
  "own_key p \<Longrightarrow> (\<And>kvs. lists_prefix m p kvs \<Longrightarrow> Q (Ok kvs) m) \<Longrightarrow> valid m (bk_get_from_prefix bk p) Q"
  unfolding valid_def by (auto dest!: get_from_prefix_ok [of _ p])

lemma valid_put: "own_key k \<Longrightarrow> Q (Ok ()) (m(k \<mapsto> v)) \<Longrightarrow> valid m (bk_put bk k v lease) Q"
  unfolding valid_def by (auto dest!: put_ok [of _ k v lease])

lemma valid_sbind_get: "own_key k \<Longrightarrow> valid m (f (stored m k)) Q \<Longrightarrow> valid m (sbind (bk_get bk k) f) Q"
  by (rule valid_sbind_Ok [OF valid_get]) auto

lemma valid_sbind_prefix:
  "own_key p \<Longrightarrow> (\<And>kvs. lists_prefix m p kvs \<Longrightarrow> valid m (f kvs) Q) \<Longrightarrow> valid m (sbind (bk_get_from_prefix bk p) f) Q"
  by (rule valid_sbind_Ok [where R = "\<lambda>kvs m'. m' = m \<and> lists_prefix m p kvs"], rule valid_get_from_prefix) auto

lemma valid_sbind_put: "own_key k \<Longrightarrow> valid (m(k \<mapsto> v)) (f ()) Q \<Longrightarrow> valid m (sbind (bk_put bk k v lease) f) Q"
  by (rule valid_sbind_Ok [where R = "\<lambda>_ m'. m' = m(k \<mapsto> v)"], rule valid_put) auto

text \<open>A loop whose body cannot fail, by an invariant on the part done.\<close>

lemma valid_sfor:
  assumes "I [] m"
    and "\<And>done x todo m'. xs = done @ x # todo \<Longrightarrow> I done m' \<Longrightarrow>
      valid m' (c x) (\<lambda>r m''. r = Ok () \<and> I (done @ [x]) m'')"
  shows "valid m (sfor c xs) (\<lambda>r m'. r = Ok () \<and> I xs m')"
proof -
  have "valid m (sfor c ys) (\<lambda>r m'. r = Ok () \<and> I xs m')" if "I zs m" "xs = zs @ ys" for ys zs
    using that
  proof (induction ys arbitrary: zs m)
    case (Cons y ys)
    have "valid m (c y) (\<lambda>r m''. \<exists>u. r = Ok u \<and> I (zs @ [y]) m'')"
      by (rule valid_weaken [OF assms(2) [OF Cons.prems(2,1)]]) simp
    then show ?case
      unfolding sfor.simps by (rule valid_sbind_Ok) (use Cons in auto)
  qed (auto)
  then show ?thesis using assms(1) by (metis append_Nil)
qed

end

text \<open>A backend whose guard releases the lock when it is dropped.\<close>

locale releasing_backend = config_backend +
  assumes drop_releases: "holder (bk_drop bk g s) = None"

section \<open>scheduler/src/state/standalone.rs\<close>

text \<open>The variants of \<open>sled::Error\<close> the code tells apart, with the text they print.\<close>

datatype sled_error = Sled_Io string | Sled_Other string

text \<open>
  The calls on a \<open>sled::Db\<close>: \<open>open\<close> of a file or of a temporary store, \<open>get\<close>, the iterator of
  \<open>scan_prefix\<close> and \<open>insert\<close>.
\<close>

record ('d, 'b) sled_db =
  sl_open :: "string \<Rightarrow> ('d, sled_error) result"
  sl_open_temporary :: "('d, sled_error) result"
  sl_get :: "u8 list \<Rightarrow> ('d, 'b list option, sled_error) io"
  sl_scan_prefix :: "u8 list \<Rightarrow> 'd \<Rightarrow> (u8 list \<times> 'b list, sled_error) result list \<times> 'd"
  sl_insert :: "u8 list \<Rightarrow> 'b list \<Rightarrow> ('d, 'b list option, sled_error) io"

record 'd standalone_client =
  sc_db :: 'd
  sc_lock :: bool

definition sled_to_ballista_error :: "sled_error \<Rightarrow> BallistaError" where
  "sled_to_ballista_error e = (case e of Sled_Io io \<Rightarrow> IoError io | Sled_Other d \<Rightarrow> General d)"

definition StandaloneClient_try_new :: "('d, 'b) sled_db \<Rightarrow> string \<Rightarrow> 'd standalone_client bresult" where
  "StandaloneClient_try_new sl path =
     rbind (map_err sled_to_ballista_error (sl_open sl path)) (\<lambda>db. Ok \<lparr>sc_db = db, sc_lock = False\<rparr>)"

definition StandaloneClient_try_new_temporary :: "('d, 'b) sled_db \<Rightarrow> 'd standalone_client bresult" where
  "StandaloneClient_try_new_temporary sl =
     rbind (map_err sled_to_ballista_error (sl_open_temporary sl)) (\<lambda>db. Ok \<lparr>sc_db = db, sc_lock = False\<rparr>)"

text \<open>A call on the database inside the client.\<close>

definition on_db :: "('d \<Rightarrow> 'a \<times> 'd) \<Rightarrow> 'd standalone_client \<Rightarrow> 'a \<times> 'd standalone_client" where
  "on_db c s = (case c (sc_db s) of (x, d) \<Rightarrow> (x, s\<lparr>sc_db := d\<rparr>))"

definition standalone_get :: "('d, 'b) sled_db \<Rightarrow> string \<Rightarrow> ('d standalone_client, 'b list, BallistaError) io" where
  "standalone_get sl key =
     sbind (smap_err (\<lambda>e. ballista_error ''sled error '') (on_db (sl_get sl (as_bytes key))))
       (\<lambda>v. sret (case v of None \<Rightarrow> [] | Some bytes \<Rightarrow> bytes))"

definition text_entry ::
  "(u8 list \<times> 'b list, sled_error) result \<Rightarrow> (string \<times> 'b list, sled_error) result" where
  "text_entry v = rbind v (\<lambda>(key, value). rbind (unwrap_result (from_utf8 key)) (\<lambda>k. Ok (k, value)))"

definition standalone_get_from_prefix ::
  "('d, 'b) sled_db \<Rightarrow> string \<Rightarrow> ('d standalone_client, (string \<times> 'b list) list, BallistaError) io" where
  "standalone_get_from_prefix sl p s =
     (case on_db (sl_scan_prefix sl (as_bytes p)) s of (items, s') \<Rightarrow>
        (map_err (\<lambda>e. ballista_error ''sled error '') (mapM text_entry items), s'))"

definition standalone_put ::
  "('d, 'b) sled_db \<Rightarrow> string \<Rightarrow> 'b list \<Rightarrow> nat option \<Rightarrow> ('d standalone_client, unit, BallistaError) io" where
  "standalone_put sl key value lease_time =
     sbind (smap_err (\<lambda>e. ballista_error ''sled insert failed'') (on_db (sl_insert sl (as_bytes key) value)))
       (\<lambda>_. sret ())"

text \<open>The mutex: \<open>lock_owned\<close> waits while a guard is alive; \<open>unlock\<close> does nothing, dropping releases.\<close>

definition standalone_lock :: "'d standalone_client \<Rightarrow> (unit bresult \<times> 'd standalone_client) option" where
  "standalone_lock s = (if sc_lock s then None else Some (Ok (), s\<lparr>sc_lock := True\<rparr>))"

definition owned_guard_unlock :: "unit \<Rightarrow> ('d standalone_client, unit, BallistaError) io" where
  "owned_guard_unlock guard = sret ()"

definition standalone_backend ::
  "('d, 'b) sled_db \<Rightarrow> ('d standalone_client, unit, 'b) config_backend_client" where
  "standalone_backend sl = \<lparr>
     bk_get = standalone_get sl,
     bk_get_from_prefix = standalone_get_from_prefix sl,
     bk_put = standalone_put sl,
     bk_lock = standalone_lock,
     bk_unlock = owned_guard_unlock,
     bk_drop = (\<lambda>_ s. s\<lparr>sc_lock := False\<rparr>)\<rparr>"

text \<open>
  What \<open>sled\<close> documents, for a database without I/O errors (\<open>fine\<close>) that holds the map \<open>cont\<close>:
  a lookup and a scan do not change it, a scan yields the entries under the prefix, an insertion
  stores the value.
\<close>

definition sled_ok :: "('d, 'b) sled_db \<Rightarrow> ('d \<Rightarrow> u8 list \<rightharpoonup> 'b list) \<Rightarrow> ('d \<Rightarrow> bool) \<Rightarrow> bool" where
  "sled_ok sl cont fine \<longleftrightarrow>
     (\<forall>d k. fine d \<longrightarrow> (\<exists>d'. sl_get sl k d = (Ok (cont d k), d') \<and> cont d' = cont d \<and> fine d')) \<and>
     (\<forall>d p. fine d \<longrightarrow> (\<exists>kvs d'. sl_scan_prefix sl p d = (map Ok kvs, d') \<and> lists_prefix (cont d) p kvs \<and>
        cont d' = cont d \<and> fine d')) \<and>
     (\<forall>d k v. fine d \<longrightarrow> (\<exists>d'. sl_insert sl k v d = (Ok (cont d k), d') \<and> cont d' = (cont d)(k \<mapsto> v) \<and> fine d'))"

text \<open>The client's view: the same map by text keys, with every key a text.\<close>

definition client_kv :: "('d \<Rightarrow> u8 list \<rightharpoonup> 'b list) \<Rightarrow> 'd standalone_client \<Rightarrow> string \<rightharpoonup> 'b list" where
  "client_kv cont s k = cont (sc_db s) (as_bytes k)"

definition client_healthy :: "('d \<Rightarrow> u8 list \<rightharpoonup> 'b list) \<Rightarrow> ('d \<Rightarrow> bool) \<Rightarrow> 'd standalone_client \<Rightarrow> bool" where
  "client_healthy cont fine s \<longleftrightarrow> fine (sc_db s) \<and> dom (cont (sc_db s)) \<subseteq> range as_bytes"

definition client_holder :: "'d standalone_client \<Rightarrow> unit option" where
  "client_holder s = (if sc_lock s then Some () else None)"

lemma client_healthy_update [simp]:
  "client_healthy cont fine (s\<lparr>sc_lock := l\<rparr>) = client_healthy cont fine s"
  "client_kv cont (s\<lparr>sc_lock := l\<rparr>) = client_kv cont s"
  "client_holder (s\<lparr>sc_db := d\<rparr>) = client_holder s"
  by (simp_all add: client_healthy_def client_kv_def client_holder_def fun_eq_iff)

lemma text_entry_Ok [simp]: "text_entry (Ok (as_bytes k, v)) = Ok (k, v)"
  by (simp add: text_entry_def)

lemma mapM_text_entry: "mapM text_entry (map Ok (map (\<lambda>(k, v). (as_bytes k, v)) kvs)) = Ok kvs"
  by (induction kvs) auto

lemma text_keys:
  "fst ` set kvs \<subseteq> range as_bytes \<Longrightarrow> \<exists>kvs'. kvs = map (\<lambda>(k, v). (as_bytes k, v)) kvs'"
proof (induction kvs)
  case (Cons kv kvs)
  then obtain kvs' where "kvs = map (\<lambda>(k, v). (as_bytes k, v)) kvs'" by auto
  moreover from Cons.prems obtain k where "kv = (as_bytes k, snd kv)" by (cases kv) auto
  ultimately have "kv # kvs = map (\<lambda>(k, v). (as_bytes k, v)) ((k, snd kv) # kvs')" by simp
  then show ?case ..
qed simp

lemma lists_prefix_text:
  assumes "lists_prefix m (as_bytes p) (map (\<lambda>(k, v). (as_bytes k, v)) kvs)"
  shows "lists_prefix (\<lambda>k. m (as_bytes k)) p kvs"
proof -
  have "map fst (map (\<lambda>(k, v). (as_bytes k, v)) kvs) = map as_bytes (map fst kvs)"
    by (induction kvs) auto
  with assms have "distinct (map as_bytes (map fst kvs))" unfolding lists_prefix_def by metis
  then have "distinct (map fst kvs)" by (simp only: distinct_map)
  moreover have "(k, v) \<in> set kvs \<longleftrightarrow> (as_bytes k, v) \<in> set (map (\<lambda>(k, v). (as_bytes k, v)) kvs)" for k v
    by auto
  ultimately show ?thesis
    using assms by (simp add: lists_prefix_def)
qed

lemma standalone_scan:
  assumes "sled_ok sl cont fine" "client_healthy cont fine s"
  shows "\<exists>kvs s'. standalone_get_from_prefix sl p s = (Ok kvs, s') \<and> lists_prefix (client_kv cont s) p kvs \<and>
    client_kv cont s' = client_kv cont s \<and> keeps (client_healthy cont fine) client_holder s s'"
proof -
  from assms obtain kvs d where scan: "sl_scan_prefix sl (as_bytes p) (sc_db s) = (map Ok kvs, d)"
      "lists_prefix (cont (sc_db s)) (as_bytes p) kvs" "cont d = cont (sc_db s)" "fine d"
    unfolding sled_ok_def client_healthy_def by meson
  then have "fst ` set kvs \<subseteq> range as_bytes"
    using assms(2) by (auto simp: client_healthy_def lists_prefix_def)
  then obtain kvs' where kvs': "kvs = map (\<lambda>(k, v). (as_bytes k, v)) kvs'"
    using text_keys by blast
  with scan have "lists_prefix (client_kv cont s) p kvs'"
    by (auto simp: client_kv_def [abs_def] intro: lists_prefix_text)
  moreover have "standalone_get_from_prefix sl p s = (Ok kvs', s\<lparr>sc_db := d\<rparr>)"
    unfolding standalone_get_from_prefix_def on_db_def scan(1) kvs'
    by (simp add: mapM_text_entry del: mapM_map map_map)
  ultimately show ?thesis
    using scan assms(2) by (auto simp: keeps_def client_healthy_def client_kv_def fun_eq_iff)
qed

lemma standalone_contract:
  assumes "sled_ok sl cont fine"
  shows "releasing_backend (standalone_backend sl) (client_kv cont) (client_healthy cont fine) client_holder"
proof unfold_locales
  fix s k assume s: "client_healthy cont fine s"
  then obtain d where "sl_get sl (as_bytes k) (sc_db s) = (Ok (cont (sc_db s) (as_bytes k)), d)"
      "cont d = cont (sc_db s)" "fine d"
    using assms unfolding sled_ok_def client_healthy_def by meson
  with s show "\<exists>s'. bk_get (standalone_backend sl) k s = (Ok (stored (client_kv cont s) k), s') \<and>
      client_kv cont s' = client_kv cont s \<and> keeps (client_healthy cont fine) client_holder s s'"
    by (auto simp: standalone_backend_def standalone_get_def sbind_def smap_err_def on_db_def sret_def stored_def
        keeps_def client_healthy_def client_kv_def client_holder_def fun_eq_iff)
next
  fix s k v lease assume s: "client_healthy cont fine s"
  then obtain d where "sl_insert sl (as_bytes k) v (sc_db s) = (Ok (cont (sc_db s) (as_bytes k)), d)"
      "cont d = (cont (sc_db s))(as_bytes k \<mapsto> v)" "fine d"
    using assms unfolding sled_ok_def client_healthy_def by meson
  moreover from this s have "dom (cont d) \<subseteq> range as_bytes" by (simp add: client_healthy_def)
  ultimately show "\<exists>s'. bk_put (standalone_backend sl) k v lease s = (Ok (), s') \<and>
      client_kv cont s' = (client_kv cont s)(k \<mapsto> v) \<and> keeps (client_healthy cont fine) client_holder s s'"
    by (auto simp: standalone_backend_def standalone_put_def sbind_def smap_err_def on_db_def sret_def
        keeps_def client_healthy_def client_kv_def client_holder_def fun_eq_iff)
qed (use standalone_scan [OF assms] in \<open>auto simp: standalone_backend_def standalone_lock_def
    owned_guard_unlock_def sret_def client_holder_def split: if_splits\<close>)

text \<open>A database in memory with these properties.\<close>

definition mem_sled :: "((u8 list \<times> 'b list) list, 'b) sled_db" where
  "mem_sled = \<lparr>
     sl_open = (\<lambda>_. Ok []),
     sl_open_temporary = Ok [],
     sl_get = (\<lambda>k d. (Ok (map_of d k), d)),
     sl_scan_prefix = (\<lambda>p d. (map Ok (filter (\<lambda>(k, _). prefix p k) d), d)),
     sl_insert = (\<lambda>k v d. (Ok (map_of d k), (k, v) # filter (\<lambda>(k', _). k' \<noteq> k) d))\<rparr>"

abbreviation mem_fine :: "(u8 list \<times> 'b list) list \<Rightarrow> bool" where
  "mem_fine d \<equiv> distinct (map fst d)"

lemma map_of_filter_other: "map_of ((k, v) # filter (\<lambda>(k', _). k' \<noteq> k) d) = (map_of d)(k \<mapsto> v)"
proof (rule ext)
  fix x show "map_of ((k, v) # filter (\<lambda>(k', _). k' \<noteq> k) d) x = ((map_of d)(k \<mapsto> v)) x"
    by (induction d) (auto split: if_splits)
qed

lemma distinct_fst_filter: "distinct (map fst d) \<Longrightarrow> distinct (map fst (filter P d))"
  by (induction d) auto

lemma lists_prefix_filter:
  "distinct (map fst d) \<Longrightarrow> lists_prefix (map_of d) p (filter (\<lambda>(k, _). prefix p k) d)"
  by (auto simp: lists_prefix_def distinct_fst_filter dest: map_of_SomeD)

lemma mem_sled_ok: "sled_ok mem_sled map_of mem_fine"
  unfolding sled_ok_def mem_sled_def
  by (auto simp: lists_prefix_filter map_of_filter_other distinct_fst_filter simp del: map_of.simps)

interpretation standalone: releasing_backend "standalone_backend mem_sled" "client_kv map_of"
    "client_healthy map_of mem_fine" client_holder
  by (rule standalone_contract [OF mem_sled_ok])

section \<open>scheduler/src/state/etcd.rs\<close>

text \<open>
  The calls on an \<open>etcd_client::Client\<close>: \<open>get\<close> with or without the prefix option, \<open>lease_grant\<close>,
  \<open>put\<close> with an optional lease, \<open>lock\<close> (\<open>None\<close>: not granted yet) and \<open>unlock\<close>.  A \<open>KeyValue\<close>
  answers \<open>key_str\<close> and \<open>value\<close>; errors are their text.
\<close>

record 'b etcd_key_value =
  ek_key_str :: "(string, string) result"
  ek_value :: "'b list"

record ('d, 'b) etcd_client =
  et_get :: "string \<Rightarrow> bool \<Rightarrow> ('d, 'b etcd_key_value list, string) io"
  et_lease_grant :: "int \<Rightarrow> ('d, int, string) io"
  et_put :: "string \<Rightarrow> 'b list \<Rightarrow> int option \<Rightarrow> ('d, unit, string) io"
  et_lock :: "string \<Rightarrow> 'd \<Rightarrow> ((string, string) result \<times> 'd) option"
  et_unlock :: "string \<Rightarrow> ('d, unit, string) io"

definition etcd_get :: "('d, 'b) etcd_client \<Rightarrow> string \<Rightarrow> ('d, 'b list, BallistaError) io" where
  "etcd_get et key =
     sbind (smap_err (\<lambda>e. ballista_error ''etcd error '') (et_get et key False)) (\<lambda>kvs.
       sret (case kvs of [] \<Rightarrow> [] | kv # _ \<Rightarrow> ek_value kv))"

definition etcd_get_from_prefix ::
  "('d, 'b) etcd_client \<Rightarrow> string \<Rightarrow> ('d, (string \<times> 'b list) list, BallistaError) io" where
  "etcd_get_from_prefix et p =
     sbind (smap_err (\<lambda>e. ballista_error ''etcd error '') (et_get et p True)) (\<lambda>kvs.
       slift (mapM (\<lambda>kv. rbind (unwrap_result (ek_key_str kv)) (\<lambda>k. Ok (k, ek_value kv))) kvs))"

text \<open>\<open>Duration::as_secs() as i64\<close>\<close>

definition secs_as_i64 :: "nat \<Rightarrow> int" where
  "secs_as_i64 n = sint (word_of_nat n :: u64)"

definition etcd_put ::
  "('d, 'b) etcd_client \<Rightarrow> string \<Rightarrow> 'b list \<Rightarrow> nat option \<Rightarrow> ('d, unit, BallistaError) io" where
  "etcd_put et key value lease_time =
     sbind (case lease_time of
              Some secs \<Rightarrow>
                smap_err (\<lambda>e. ballista_error ''etcd lease grant failed'')
                  (sbind (et_lease_grant et (secs_as_i64 secs)) (\<lambda>lease. sret (Some lease)))
            | None \<Rightarrow> sret None) (\<lambda>put_options.
       smap_err (\<lambda>e. ballista_error ''etcd put failed'') (et_put et key value put_options))"

definition etcd_lock :: "('d, 'b) etcd_client \<Rightarrow> 'd \<Rightarrow> (string bresult \<times> 'd) option" where
  "etcd_lock et d =
     map_option (\<lambda>(r, d'). (map_err (\<lambda>e. ballista_error ''etcd lock failed'') r, d'))
       (et_lock et ''/ballista_global_lock'' d)"

definition etcd_guard_unlock :: "('d, 'b) etcd_client \<Rightarrow> string \<Rightarrow> ('d, unit, BallistaError) io" where
  "etcd_guard_unlock et key d =
     (case et_unlock et key d of (r, d') \<Rightarrow> (unwrap_result r, d'))"

text \<open>The guard has no \<open>Drop\<close>: dropping it leaves the lock as it is.\<close>

definition etcd_backend :: "('d, 'b) etcd_client \<Rightarrow> ('d, string, 'b) config_backend_client" where
  "etcd_backend et = \<lparr>
     bk_get = etcd_get et,
     bk_get_from_prefix = etcd_get_from_prefix et,
     bk_put = etcd_put et,
     bk_lock = etcd_lock et,
     bk_unlock = etcd_guard_unlock et,
     bk_drop = (\<lambda>_ d. d)\<rparr>"

text \<open>
  What etcd documents, for a server that is reachable (\<open>fine\<close>), stores \<open>cont\<close> under the scheduler's
  keys and has given the global lock to \<open>hold\<close>.
\<close>

definition etcd_keeps ::
  "('d \<Rightarrow> string \<rightharpoonup> 'b list) \<Rightarrow> ('d \<Rightarrow> bool) \<Rightarrow> ('d \<Rightarrow> string option) \<Rightarrow> 'd \<Rightarrow> 'd \<Rightarrow> bool" where
  "etcd_keeps cont fine hold d d' \<longleftrightarrow> cont d' = cont d \<and> fine d' \<and> hold d' = hold d"

definition etcd_ok ::
  "('d, 'b) etcd_client \<Rightarrow> ('d \<Rightarrow> string \<rightharpoonup> 'b list) \<Rightarrow> ('d \<Rightarrow> bool) \<Rightarrow> ('d \<Rightarrow> string option) \<Rightarrow> bool" where
  "etcd_ok et cont fine hold \<longleftrightarrow>
     (\<forall>d k. fine d \<and> own_key k \<longrightarrow> (\<exists>kvs d'. et_get et k False d = (Ok kvs, d') \<and>
        map ek_value kvs = (case cont d k of None \<Rightarrow> [] | Some v \<Rightarrow> [v]) \<and> etcd_keeps cont fine hold d d')) \<and>
     (\<forall>d p. fine d \<and> own_key p \<longrightarrow> (\<exists>kvs d'. et_get et p True d =
        (Ok (map (\<lambda>(k, v). \<lparr>ek_key_str = Ok k, ek_value = v\<rparr>) kvs), d') \<and> lists_prefix (cont d) p kvs \<and>
        etcd_keeps cont fine hold d d')) \<and>
     (\<forall>d n. fine d \<longrightarrow> (\<exists>lease d'. et_lease_grant et n d = (Ok lease, d') \<and> etcd_keeps cont fine hold d d')) \<and>
     (\<forall>d k v lease. fine d \<and> own_key k \<longrightarrow> (\<exists>d'. et_put et k v lease d = (Ok (), d') \<and>
        cont d' = (cont d)(k \<mapsto> v) \<and> fine d' \<and> hold d' = hold d)) \<and>
     (\<forall>d. hold d \<noteq> None \<longrightarrow> et_lock et ''/ballista_global_lock'' d = None) \<and>
     (\<forall>d. fine d \<and> hold d = None \<longrightarrow> (\<exists>g d'. et_lock et ''/ballista_global_lock'' d = Some (Ok g, d') \<and>
        cont d' = cont d \<and> fine d' \<and> hold d' = Some g)) \<and>
     (\<forall>d g. fine d \<and> hold d = Some g \<longrightarrow> (\<exists>d'. et_unlock et g d = (Ok (), d') \<and>
        cont d' = cont d \<and> fine d' \<and> hold d' = None))"

lemma mapM_etcd_entries:
  "mapM (\<lambda>kv. rbind (unwrap_result (ek_key_str kv)) (\<lambda>k. Ok (k, ek_value kv)))
     (map (\<lambda>(k, v). \<lparr>ek_key_str = Ok k, ek_value = v\<rparr>) kvs) = Ok kvs"
  by (induction kvs) auto

lemma etcd_contract:
  assumes "etcd_ok et cont fine hold"
  shows "config_backend (etcd_backend et) cont fine hold"
proof unfold_locales
  fix d k assume "fine d" "own_key k"
  with assms obtain kvs d' where "et_get et k False d = (Ok kvs, d')"
      "map ek_value kvs = (case cont d k of None \<Rightarrow> [] | Some v \<Rightarrow> [v])" "etcd_keeps cont fine hold d d'"
    unfolding etcd_ok_def by meson
  then show "\<exists>s'. bk_get (etcd_backend et) k d = (Ok (stored (cont d) k), s') \<and> cont s' = cont d \<and>
      keeps fine hold d s'"
    by (auto simp: etcd_backend_def etcd_get_def sbind_def smap_err_def sret_def stored_def keeps_def
        etcd_keeps_def split: option.splits)
next
  fix d p assume "fine d" "own_key p"
  with assms obtain kvs d' where
      "et_get et p True d = (Ok (map (\<lambda>(k, v). \<lparr>ek_key_str = Ok k, ek_value = v\<rparr>) kvs), d')"
      "lists_prefix (cont d) p kvs" "etcd_keeps cont fine hold d d'"
    unfolding etcd_ok_def by meson
  then show "\<exists>kvs s'. bk_get_from_prefix (etcd_backend et) p d = (Ok kvs, s') \<and> lists_prefix (cont d) p kvs \<and>
      cont s' = cont d \<and> keeps fine hold d s'"
    by (auto simp: etcd_backend_def etcd_get_from_prefix_def sbind_def smap_err_def slift_def keeps_def
        etcd_keeps_def mapM_etcd_entries simp del: mapM_map)
next
  fix d k v and lease :: "nat option" assume d: "fine d" "own_key k"
  obtain l d1 where 1: "(case lease of
        Some secs \<Rightarrow> smap_err (\<lambda>e. ballista_error ''etcd lease grant failed'')
          (sbind (et_lease_grant et (secs_as_i64 secs)) (\<lambda>lease. sret (Some lease)))
      | None \<Rightarrow> sret None) d = (Ok l, d1)" "etcd_keeps cont fine hold d d1"
  proof (cases lease)
    case (Some secs)
    from assms d(1) obtain i d' where "et_lease_grant et (secs_as_i64 secs) d = (Ok i, d')" "etcd_keeps cont fine hold d d'"
      unfolding etcd_ok_def by meson
    with Some show ?thesis using that [of "Some i" d'] by (simp add: smap_err_def sbind_def sret_def)
  qed (use that d(1) in \<open>simp add: sret_def etcd_keeps_def\<close>)
  then have "fine d1" by (simp add: etcd_keeps_def)
  with assms d(2) obtain d2 where "et_put et k v l d1 = (Ok (), d2)" "cont d2 = (cont d1)(k \<mapsto> v)" "fine d2"
      "hold d2 = hold d1"
    unfolding etcd_ok_def by meson
  with 1 show "\<exists>s'. bk_put (etcd_backend et) k v lease d = (Ok (), s') \<and> cont s' = (cont d)(k \<mapsto> v) \<and>
      keeps fine hold d s'"
    by (simp add: etcd_backend_def etcd_put_def sbind_def smap_err_def keeps_def etcd_keeps_def)
next
  fix d assume "fine d" "hold d = None"
  with assms obtain g d' where "et_lock et ''/ballista_global_lock'' d = Some (Ok g, d')"
      "cont d' = cont d" "fine d'" "hold d' = Some g"
    unfolding etcd_ok_def by meson
  then show "\<exists>g s'. bk_lock (etcd_backend et) d = Some (Ok g, s') \<and> cont s' = cont d \<and> fine s' \<and> hold s' = Some g"
    by (simp add: etcd_backend_def etcd_lock_def)
next
  fix d g assume "fine d" "hold d = Some g"
  with assms obtain d' where "et_unlock et g d = (Ok (), d')" "cont d' = cont d" "fine d'" "hold d' = None"
    unfolding etcd_ok_def by meson
  then show "\<exists>s'. bk_unlock (etcd_backend et) g d = (Ok (), s') \<and> cont s' = cont d \<and> fine s' \<and>
      hold (bk_drop (etcd_backend et) g s') = None"
    by (simp add: etcd_backend_def etcd_guard_unlock_def)
qed (use assms in \<open>auto simp: etcd_ok_def etcd_backend_def etcd_lock_def\<close>)

text \<open>A server in memory with these properties: its entries, and the holder of the lock.\<close>

definition mem_etcd :: "((string \<times> 'b list) list \<times> string option, 'b) etcd_client" where
  "mem_etcd = \<lparr>
     et_get = (\<lambda>k pre (d, h).
       (Ok (map (\<lambda>(k, v). \<lparr>ek_key_str = Ok k, ek_value = v\<rparr>)
          (filter (\<lambda>(k', _). if pre then prefix k k' else k' = k) d)), (d, h))),
     et_lease_grant = (\<lambda>n d. (Ok 1, d)),
     et_put = (\<lambda>k v lease (d, h). (Ok (), ((k, v) # filter (\<lambda>(k', _). k' \<noteq> k) d, h))),
     et_lock = (\<lambda>name (d, h). case h of None \<Rightarrow> Some (Ok name, (d, Some name)) | Some _ \<Rightarrow> None),
     et_unlock = (\<lambda>key (d, h). if h = Some key then (Ok (), (d, None)) else (Err ''lock not found'', (d, h)))\<rparr>"

abbreviation mem_etcd_kv :: "(string \<times> 'b list) list \<times> string option \<Rightarrow> string \<rightharpoonup> 'b list" where
  "mem_etcd_kv d \<equiv> map_of (fst d)"

abbreviation mem_etcd_fine :: "(string \<times> 'b list) list \<times> string option \<Rightarrow> bool" where
  "mem_etcd_fine d \<equiv> distinct (map fst (fst d))"

lemma filter_key:
  "distinct (map fst d) \<Longrightarrow>
     map snd (filter (\<lambda>(k', _). k' = k) d) = (case map_of d k of None \<Rightarrow> [] | Some v \<Rightarrow> [v])"
proof (induction d)
  case (Cons kv d)
  from Cons.prems have "fst kv \<notin> fst ` set d" by simp
  then have "filter (\<lambda>(k', _). k' = fst kv) d = []"
    by (induction d) auto
  with Cons show ?case by (cases kv) auto
qed simp

lemma etcd_values: "map ek_value (map (\<lambda>(k, v). \<lparr>ek_key_str = Ok k, ek_value = v\<rparr>) kvs) = map snd kvs"
  by (induction kvs) auto

lemma mem_etcd_ok: "etcd_ok mem_etcd mem_etcd_kv mem_etcd_fine snd"
  unfolding etcd_ok_def etcd_keeps_def mem_etcd_def
  by (auto simp: lists_prefix_filter map_of_filter_other distinct_fst_filter etcd_values filter_key
      simp del: map_of.simps map_map split: option.splits)

interpretation etcd: config_backend "etcd_backend mem_etcd" mem_etcd_kv mem_etcd_fine snd
  by (rule etcd_contract [OF mem_etcd_ok])

section \<open>Failures of the stores\<close>

lemma standalone_get_error:
  "sl_get sl (as_bytes k) (sc_db s) = (Err e, d) \<Longrightarrow>
     standalone_get sl k s = (Err (General ''sled error ''), s\<lparr>sc_db := d\<rparr>)"
  by (simp add: standalone_get_def sbind_def smap_err_def on_db_def ballista_error_def)

lemma standalone_put_error:
  "sl_insert sl (as_bytes k) v (sc_db s) = (Err e, d) \<Longrightarrow>
     standalone_put sl k v lease s = (Err (General ''sled insert failed''), s\<lparr>sc_db := d\<rparr>)"
  by (simp add: standalone_put_def sbind_def smap_err_def on_db_def ballista_error_def)

lemma etcd_put_lease_error:
  "et_lease_grant et (secs_as_i64 secs) d = (Err e, d') \<Longrightarrow>
     etcd_put et k v (Some secs) d = (Err (General ''etcd lease grant failed''), d')"
  by (simp add: etcd_put_def sbind_def smap_err_def ballista_error_def)

section \<open>Properties\<close>

text \<open>
  C24. The file-based client implements \<open>ConfigBackendClient\<close>.  Over a \<open>sled\<close> database that behaves
  as documented and reports no I/O error, \<open>get\<close> returns the last value put under the key or an empty
  vector, \<open>get_from_prefix\<close> lists exactly the entries under the prefix, \<open>put\<close> changes that entry
  alone, none of them touches the lock, and the lock excludes a second holder until its guard is
  dropped.
\<close>

theorem standalone_implements_config_backend:
  assumes "sled_ok sl cont fine"
  shows "releasing_backend (standalone_backend sl) (client_kv cont) (client_healthy cont fine) client_holder"
  using assms by (rule standalone_contract)

theorem standalone_implements_config_backend_witness:
  "releasing_backend (standalone_backend mem_sled) (client_kv map_of) (client_healthy map_of mem_fine) client_holder"
  by (rule standalone_implements_config_backend [OF mem_sled_ok])

text \<open>
  C25. The etcd client implements \<open>ConfigBackendClient\<close> on the scheduler's keys, over a reachable
  server that behaves as documented; its lock is released by \<open>unlock\<close>.
\<close>

theorem etcd_implements_config_backend:
  assumes "etcd_ok et cont fine hold"
  shows "config_backend (etcd_backend et) cont fine hold"
  using assms by (rule etcd_contract)

theorem etcd_implements_config_backend_witness:
  "config_backend (etcd_backend mem_etcd) mem_etcd_kv mem_etcd_fine snd"
  by (rule etcd_implements_config_backend [OF mem_etcd_ok])

end
