(* ===== verification/Arrow_Serde.thy ===== *)
theory Arrow_Serde
  imports Df_Types
begin

text \<open>
  Arrow types, fields and schemas on the wire: the part of
  \<open>core/src/serde/logical_plan/to_proto.rs\<close> and \<open>from_proto.rs\<close> that converts
  \<open>arrow::datatypes::DataType\<close>, \<open>Field\<close> and \<open>Schema\<close> to and from the messages \<open>ArrowType\<close>,
  \<open>Field\<close> and \<open>Schema\<close> of \<open>core/proto/ballista.proto\<close>.  A message field may be absent, so a
  sub-message is an option.  A protocol buffer enum travels as an \<open>i32\<close>, which may name no
  variant.  Where an error text quotes a library value with \<open>{:?}\<close>, the text is kept without it.
\<close>

text \<open>A name in single quotes, as the error texts have it.\<close>

definition quoted :: "string \<Rightarrow> string" where
  "quoted s = CHR 0x27 # s @ [CHR 0x27]"

section \<open>Messages\<close>

text \<open>
  The messages \<open>ArrowType\<close>, the \<open>oneof\<close> in it and \<open>Field\<close> refer to each other, so they are declared
  together; \<open>pb_field\<close> names the last.
\<close>

datatype pb_arrow_type = PbArrowType (pat_enum: "arrow_type_enum option")
and arrow_type_enum =
    AT_None | AT_Bool | AT_Uint8 | AT_Int8 | AT_Uint16 | AT_Int16 | AT_Uint32 | AT_Int32
  | AT_Uint64 | AT_Int64 | AT_Float16 | AT_Float32 | AT_Float64 | AT_Utf8 | AT_LargeUtf8
  | AT_Binary | AT_FixedSizeBinary u32 | AT_LargeBinary | AT_Date32 | AT_Date64
  | AT_Duration int | AT_Timestamp int string | AT_Time32 int | AT_Time64 int | AT_Interval int
  | AT_Decimal u64 u64
  | AT_List "field_message option" | AT_LargeList "field_message option"
  | AT_FixedSizeList "field_message option" u32
  | AT_Struct "field_message list" | AT_Union "field_message list"
  | AT_Dictionary "pb_arrow_type option" "pb_arrow_type option"
and field_message =
  PbField (pf_name: string) (pf_arrow_type: "pb_arrow_type option") (pf_nullable: bool)
    (pf_children: "field_message list")

type_synonym pb_field = field_message

record pb_schema =
  psc_columns :: "pb_field list"

text \<open>The enums of the protocol, their \<open>as i32\<close> casts and \<open>from_i32\<close>.\<close>

datatype pb_time_unit = PTU_Second | PTU_TimeMillisecond | PTU_Microsecond | PTU_Nanosecond

datatype pb_interval_unit = PIU_YearMonth | PIU_DayTime

fun time_unit_as_i32 :: "pb_time_unit \<Rightarrow> int" where
  "time_unit_as_i32 PTU_Second = 0"
| "time_unit_as_i32 PTU_TimeMillisecond = 1"
| "time_unit_as_i32 PTU_Microsecond = 2"
| "time_unit_as_i32 PTU_Nanosecond = 3"

fun interval_unit_as_i32 :: "pb_interval_unit \<Rightarrow> int" where
  "interval_unit_as_i32 PIU_YearMonth = 0"
| "interval_unit_as_i32 PIU_DayTime = 1"

definition time_unit_from_i32 :: "int \<Rightarrow> pb_time_unit option" where
  "time_unit_from_i32 i =
     (if i = 0 then Some PTU_Second else if i = 1 then Some PTU_TimeMillisecond
      else if i = 2 then Some PTU_Microsecond else if i = 3 then Some PTU_Nanosecond else None)"

definition interval_unit_from_i32 :: "int \<Rightarrow> pb_interval_unit option" where
  "interval_unit_from_i32 i =
     (if i = 0 then Some PIU_YearMonth else if i = 1 then Some PIU_DayTime else None)"

section \<open>Units\<close>

fun from_arrow_interval_unit :: "interval_unit \<Rightarrow> pb_interval_unit" where
  "from_arrow_interval_unit YearMonth = PIU_YearMonth"
| "from_arrow_interval_unit DayTime = PIU_DayTime"

definition interval_unit_from_i32_to_arrow :: "int \<Rightarrow> interval_unit bresult" where
  "interval_unit_from_i32_to_arrow i =
     (case interval_unit_from_i32 i of
        Some u \<Rightarrow> Ok (case u of PIU_YearMonth \<Rightarrow> YearMonth | PIU_DayTime \<Rightarrow> DayTime)
      | None \<Rightarrow> Err (proto_error ''Error converting i32 to DateUnit: Passed invalid variant''))"

fun from_arrow_time_unit :: "time_unit \<Rightarrow> pb_time_unit" where
  "from_arrow_time_unit Second = PTU_Second"
| "from_arrow_time_unit Millisecond = PTU_TimeMillisecond"
| "from_arrow_time_unit Microsecond = PTU_Microsecond"
| "from_arrow_time_unit Nanosecond = PTU_Nanosecond"

definition time_unit_from_i32_to_arrow :: "int \<Rightarrow> time_unit bresult" where
  "time_unit_from_i32_to_arrow i =
     (case time_unit_from_i32 i of
        Some u \<Rightarrow> Ok (case u of PTU_Second \<Rightarrow> Second | PTU_TimeMillisecond \<Rightarrow> Millisecond
                       | PTU_Microsecond \<Rightarrow> Microsecond | PTU_Nanosecond \<Rightarrow> Nanosecond)
      | None \<Rightarrow> Err (proto_error ''Error converting i32 to TimeUnit: Passed invalid variant''))"

text \<open>\<open>as u64\<close> and \<open>as usize\<close>.\<close>

definition usize_to_u64 :: "nat \<Rightarrow> u64" where
  "usize_to_u64 n = word_of_nat n"

definition u64_to_usize :: "u64 \<Rightarrow> nat" where
  "u64_to_usize w = unat w"

section \<open>Encoding\<close>

fun arrow_type_enum_from :: "data_type \<Rightarrow> arrow_type_enum"
and arrow_type_from :: "data_type \<Rightarrow> pb_arrow_type"
and pb_field_from :: "field \<Rightarrow> pb_field" where
  "arrow_type_enum_from DT_Null = AT_None"
| "arrow_type_enum_from DT_Boolean = AT_Bool"
| "arrow_type_enum_from DT_Int8 = AT_Int8"
| "arrow_type_enum_from DT_Int16 = AT_Int16"
| "arrow_type_enum_from DT_Int32 = AT_Int32"
| "arrow_type_enum_from DT_Int64 = AT_Int64"
| "arrow_type_enum_from DT_UInt8 = AT_Uint8"
| "arrow_type_enum_from DT_UInt16 = AT_Uint16"
| "arrow_type_enum_from DT_UInt32 = AT_Uint32"
| "arrow_type_enum_from DT_UInt64 = AT_Uint64"
| "arrow_type_enum_from DT_Float16 = AT_Float16"
| "arrow_type_enum_from DT_Float32 = AT_Float32"
| "arrow_type_enum_from DT_Float64 = AT_Float64"
| "arrow_type_enum_from (DT_Timestamp time_unit timezone) =
     AT_Timestamp (time_unit_as_i32 (from_arrow_time_unit time_unit)) (case timezone of None \<Rightarrow> [] | Some tz \<Rightarrow> tz)"
| "arrow_type_enum_from DT_Date32 = AT_Date32"
| "arrow_type_enum_from DT_Date64 = AT_Date64"
| "arrow_type_enum_from (DT_Time32 time_unit) = AT_Time32 (time_unit_as_i32 (from_arrow_time_unit time_unit))"
| "arrow_type_enum_from (DT_Time64 time_unit) = AT_Time64 (time_unit_as_i32 (from_arrow_time_unit time_unit))"
| "arrow_type_enum_from (DT_Duration time_unit) = AT_Duration (time_unit_as_i32 (from_arrow_time_unit time_unit))"
| "arrow_type_enum_from (DT_Interval interval_unit) =
     AT_Interval (interval_unit_as_i32 (from_arrow_interval_unit interval_unit))"
| "arrow_type_enum_from DT_Binary = AT_Binary"
| "arrow_type_enum_from (DT_FixedSizeBinary sz) = AT_FixedSizeBinary sz"
| "arrow_type_enum_from DT_LargeBinary = AT_LargeBinary"
| "arrow_type_enum_from DT_Utf8 = AT_Utf8"
| "arrow_type_enum_from DT_LargeUtf8 = AT_LargeUtf8"
| "arrow_type_enum_from (DT_List item) = AT_List (Some (pb_field_from item))"
| "arrow_type_enum_from (DT_FixedSizeList item sz) = AT_FixedSizeList (Some (pb_field_from item)) sz"
| "arrow_type_enum_from (DT_LargeList item) = AT_LargeList (Some (pb_field_from item))"
| "arrow_type_enum_from (DT_Struct flds) = AT_Struct (map pb_field_from flds)"
| "arrow_type_enum_from (DT_Union flds) = AT_Union (map pb_field_from flds)"
| "arrow_type_enum_from (DT_Dictionary key val) =
     AT_Dictionary (Some (arrow_type_from key)) (Some (arrow_type_from val))"
| "arrow_type_enum_from (DT_Decimal whole fractional) = AT_Decimal (usize_to_u64 whole) (usize_to_u64 fractional)"
| "arrow_type_from val = PbArrowType (Some (arrow_type_enum_from val))"
| "pb_field_from (MkField name data_type nullable) =
     PbField name (Some (arrow_type_from data_type)) nullable []"

definition schema_into :: "schema \<Rightarrow> pb_schema" where
  "schema_into s = \<lparr>psc_columns = map pb_field_from s\<rparr>"

section \<open>Decoding\<close>

fun arrow_type_try_into :: "pb_arrow_type \<Rightarrow> data_type bresult"
and field_try_into :: "pb_field \<Rightarrow> field bresult" where
  "arrow_type_try_into (PbArrowType None) =
     Err (proto_error (''Protobuf deserialization error: ArrowType missing required field '' @ quoted ''data_type''))"
| "arrow_type_try_into (PbArrowType (Some AT_None)) = Ok DT_Null"
| "arrow_type_try_into (PbArrowType (Some AT_Bool)) = Ok DT_Boolean"
| "arrow_type_try_into (PbArrowType (Some AT_Uint8)) = Ok DT_UInt8"
| "arrow_type_try_into (PbArrowType (Some AT_Int8)) = Ok DT_Int8"
| "arrow_type_try_into (PbArrowType (Some AT_Uint16)) = Ok DT_UInt16"
| "arrow_type_try_into (PbArrowType (Some AT_Int16)) = Ok DT_Int16"
| "arrow_type_try_into (PbArrowType (Some AT_Uint32)) = Ok DT_UInt32"
| "arrow_type_try_into (PbArrowType (Some AT_Int32)) = Ok DT_Int32"
| "arrow_type_try_into (PbArrowType (Some AT_Uint64)) = Ok DT_UInt64"
| "arrow_type_try_into (PbArrowType (Some AT_Int64)) = Ok DT_Int64"
| "arrow_type_try_into (PbArrowType (Some AT_Float16)) = Ok DT_Float16"
| "arrow_type_try_into (PbArrowType (Some AT_Float32)) = Ok DT_Float32"
| "arrow_type_try_into (PbArrowType (Some AT_Float64)) = Ok DT_Float64"
| "arrow_type_try_into (PbArrowType (Some AT_Utf8)) = Ok DT_Utf8"
| "arrow_type_try_into (PbArrowType (Some AT_LargeUtf8)) = Ok DT_LargeUtf8"
| "arrow_type_try_into (PbArrowType (Some AT_Binary)) = Ok DT_Binary"
| "arrow_type_try_into (PbArrowType (Some (AT_FixedSizeBinary sz))) = Ok (DT_FixedSizeBinary sz)"
| "arrow_type_try_into (PbArrowType (Some AT_LargeBinary)) = Ok DT_LargeBinary"
| "arrow_type_try_into (PbArrowType (Some AT_Date32)) = Ok DT_Date32"
| "arrow_type_try_into (PbArrowType (Some AT_Date64)) = Ok DT_Date64"
| "arrow_type_try_into (PbArrowType (Some (AT_Duration tu))) = rbind (time_unit_from_i32_to_arrow tu) (\<lambda>u. Ok (DT_Duration u))"
| "arrow_type_try_into (PbArrowType (Some (AT_Timestamp tu tz))) =
     rbind (time_unit_from_i32_to_arrow tu) (\<lambda>u. Ok (DT_Timestamp u (if tz = [] then None else Some tz)))"
| "arrow_type_try_into (PbArrowType (Some (AT_Time32 tu))) = rbind (time_unit_from_i32_to_arrow tu) (\<lambda>u. Ok (DT_Time32 u))"
| "arrow_type_try_into (PbArrowType (Some (AT_Time64 tu))) = rbind (time_unit_from_i32_to_arrow tu) (\<lambda>u. Ok (DT_Time64 u))"
| "arrow_type_try_into (PbArrowType (Some (AT_Interval iu))) =
     rbind (interval_unit_from_i32_to_arrow iu) (\<lambda>u. Ok (DT_Interval u))"
| "arrow_type_try_into (PbArrowType (Some (AT_Decimal whole fractional))) =
     Ok (DT_Decimal (u64_to_usize whole) (u64_to_usize fractional))"
| "arrow_type_try_into (PbArrowType (Some (AT_List None))) =
     Err (proto_error (''Protobuf deserialization error: List message was missing required field '' @ quoted ''field_type''))"
| "arrow_type_try_into (PbArrowType (Some (AT_List (Some f)))) =
     rbind (field_try_into f) (\<lambda>item. Ok (DT_List item))"
| "arrow_type_try_into (PbArrowType (Some (AT_LargeList None))) =
     Err (proto_error (''Protobuf deserialization error: List message was missing required field '' @ quoted ''field_type''))"
| "arrow_type_try_into (PbArrowType (Some (AT_LargeList (Some f)))) =
     rbind (field_try_into f) (\<lambda>item. Ok (DT_LargeList item))"
| "arrow_type_try_into (PbArrowType (Some (AT_FixedSizeList None sz))) =
     Err (proto_error (''Protobuf deserialization error: FixedSizeList message was missing required field '' @ quoted ''field_type''))"
| "arrow_type_try_into (PbArrowType (Some (AT_FixedSizeList (Some f) sz))) =
     rbind (field_try_into f) (\<lambda>item. Ok (DT_FixedSizeList item sz))"
| "arrow_type_try_into (PbArrowType (Some (AT_Struct fs))) =
     rbind (mapM field_try_into fs) (\<lambda>flds. Ok (DT_Struct flds))"
| "arrow_type_try_into (PbArrowType (Some (AT_Union fs))) =
     rbind (mapM field_try_into fs) (\<lambda>flds. Ok (DT_Union flds))"
| "arrow_type_try_into (PbArrowType (Some (AT_Dictionary None v))) =
     Err (proto_error (''Protobuf deserialization error: Dictionary message was missing required field '' @ quoted ''key''))"
| "arrow_type_try_into (PbArrowType (Some (AT_Dictionary (Some k) None))) =
     Err (proto_error (''Protobuf deserialization error: Dictionary message was missing required field '' @ quoted ''value''))"
| "arrow_type_try_into (PbArrowType (Some (AT_Dictionary (Some k) (Some v)))) =
     rbind (arrow_type_try_into k) (\<lambda>key. rbind (arrow_type_try_into v) (\<lambda>val. Ok (DT_Dictionary key val)))"
| "field_try_into (PbField name None nullable cs) =
     Err (proto_error (''Protobuf deserialization error: Field message missing required field '' @ quoted ''arrow_type''))"
| "field_try_into (PbField name (Some pb_datatype) nullable cs) =
     rbind (arrow_type_try_into pb_datatype) (\<lambda>dt. Ok (MkField name dt nullable))"

text \<open>The conversion of the bare enum: the same cases, with its own error texts.\<close>

fun arrow_type_enum_try_into :: "arrow_type_enum \<Rightarrow> data_type bresult" where
  "arrow_type_enum_try_into AT_None = Ok DT_Null"
| "arrow_type_enum_try_into AT_Bool = Ok DT_Boolean"
| "arrow_type_enum_try_into AT_Uint8 = Ok DT_UInt8"
| "arrow_type_enum_try_into AT_Int8 = Ok DT_Int8"
| "arrow_type_enum_try_into AT_Uint16 = Ok DT_UInt16"
| "arrow_type_enum_try_into AT_Int16 = Ok DT_Int16"
| "arrow_type_enum_try_into AT_Uint32 = Ok DT_UInt32"
| "arrow_type_enum_try_into AT_Int32 = Ok DT_Int32"
| "arrow_type_enum_try_into AT_Uint64 = Ok DT_UInt64"
| "arrow_type_enum_try_into AT_Int64 = Ok DT_Int64"
| "arrow_type_enum_try_into AT_Float16 = Ok DT_Float16"
| "arrow_type_enum_try_into AT_Float32 = Ok DT_Float32"
| "arrow_type_enum_try_into AT_Float64 = Ok DT_Float64"
| "arrow_type_enum_try_into AT_Utf8 = Ok DT_Utf8"
| "arrow_type_enum_try_into AT_LargeUtf8 = Ok DT_LargeUtf8"
| "arrow_type_enum_try_into AT_Binary = Ok DT_Binary"
| "arrow_type_enum_try_into (AT_FixedSizeBinary sz) = Ok (DT_FixedSizeBinary sz)"
| "arrow_type_enum_try_into AT_LargeBinary = Ok DT_LargeBinary"
| "arrow_type_enum_try_into AT_Date32 = Ok DT_Date32"
| "arrow_type_enum_try_into AT_Date64 = Ok DT_Date64"
| "arrow_type_enum_try_into (AT_Duration tu) = rbind (time_unit_from_i32_to_arrow tu) (\<lambda>u. Ok (DT_Duration u))"
| "arrow_type_enum_try_into (AT_Timestamp tu tz) =
     rbind (time_unit_from_i32_to_arrow tu) (\<lambda>u. Ok (DT_Timestamp u (if tz = [] then None else Some tz)))"
| "arrow_type_enum_try_into (AT_Time32 tu) = rbind (time_unit_from_i32_to_arrow tu) (\<lambda>u. Ok (DT_Time32 u))"
| "arrow_type_enum_try_into (AT_Time64 tu) = rbind (time_unit_from_i32_to_arrow tu) (\<lambda>u. Ok (DT_Time64 u))"
| "arrow_type_enum_try_into (AT_Interval iu) =
     rbind (interval_unit_from_i32_to_arrow iu) (\<lambda>u. Ok (DT_Interval u))"
| "arrow_type_enum_try_into (AT_Decimal whole fractional) =
     Ok (DT_Decimal (u64_to_usize whole) (u64_to_usize fractional))"
| "arrow_type_enum_try_into (AT_List None) =
     Err (proto_error (''Protobuf deserialization error: List message missing required field '' @ quoted ''field_type''))"
| "arrow_type_enum_try_into (AT_List (Some f)) =
     rbind (field_try_into f) (\<lambda>item. Ok (DT_List item))"
| "arrow_type_enum_try_into (AT_LargeList None) =
     Err (proto_error (''Protobuf deserialization error: List message missing required field '' @ quoted ''field_type''))"
| "arrow_type_enum_try_into (AT_LargeList (Some f)) =
     rbind (field_try_into f) (\<lambda>item. Ok (DT_LargeList item))"
| "arrow_type_enum_try_into (AT_FixedSizeList None sz) =
     Err (proto_error (''Protobuf deserialization error: List message missing required field '' @ quoted ''field_type''))"
| "arrow_type_enum_try_into (AT_FixedSizeList (Some f) sz) =
     rbind (field_try_into f) (\<lambda>item. Ok (DT_FixedSizeList item sz))"
| "arrow_type_enum_try_into (AT_Struct fs) =
     rbind (mapM field_try_into fs) (\<lambda>flds. Ok (DT_Struct flds))"
| "arrow_type_enum_try_into (AT_Union fs) =
     rbind (mapM field_try_into fs) (\<lambda>flds. Ok (DT_Union flds))"
| "arrow_type_enum_try_into (AT_Dictionary None v) =
     Err (proto_error (''Protobuf deserialization error: Dictionary message missing required field '' @ quoted ''key''))"
| "arrow_type_enum_try_into (AT_Dictionary (Some k) None) =
     Err (proto_error (''Protobuf deserialization error: Dictionary message missing required field '' @ quoted ''key''))"
| "arrow_type_enum_try_into (AT_Dictionary (Some k) (Some v)) =
     rbind (arrow_type_try_into k) (\<lambda>key. rbind (arrow_type_try_into v) (\<lambda>val. Ok (DT_Dictionary key val)))"

text \<open>\<open>&Box<List>\<close>.\<close>

definition list_try_into :: "pb_field option \<Rightarrow> data_type bresult" where
  "list_try_into field_type =
     (case field_type of
        Some pb_field \<Rightarrow> rbind (field_try_into pb_field) (\<lambda>arrow_field. Ok (DT_List arrow_field))
      | None \<Rightarrow> Err (proto_error (''List message missing required field '' @ quoted ''field_type'')))"

definition schema_try_into :: "pb_schema \<Rightarrow> schema bresult" where
  "schema_try_into s =
     mapM (\<lambda>c. rbind (ok_or (pf_arrow_type c)
             (proto_error (''Protobuf deserialization error: Field message was missing required field '' @ quoted ''arrow_type'')))
           (\<lambda>t. rbind (arrow_type_try_into t) (\<lambda>dt. Ok (MkField (pf_name c) dt (pf_nullable c)))))
       (psc_columns s)"

section \<open>Round trips\<close>

text \<open>
  What a type becomes on the wire: an empty timezone is not distinguished from none, and the
  parameters of a decimal are cut to 64 bits.  Everything else is kept.
\<close>

fun dt_norm :: "data_type \<Rightarrow> data_type"
and field_norm :: "field \<Rightarrow> field" where
  "dt_norm (DT_Timestamp u tz) = DT_Timestamp u (if tz = Some [] then None else tz)"
| "dt_norm (DT_Decimal w f) = DT_Decimal (w mod 2 ^ 64) (f mod 2 ^ 64)"
| "dt_norm (DT_List f) = DT_List (field_norm f)"
| "dt_norm (DT_LargeList f) = DT_LargeList (field_norm f)"
| "dt_norm (DT_FixedSizeList f n) = DT_FixedSizeList (field_norm f) n"
| "dt_norm (DT_Struct fs) = DT_Struct (map field_norm fs)"
| "dt_norm (DT_Union fs) = DT_Union (map field_norm fs)"
| "dt_norm (DT_Dictionary k v) = DT_Dictionary (dt_norm k) (dt_norm v)"
| "dt_norm dt = dt"
| "field_norm (MkField n dt b) = MkField n (dt_norm dt) b"

fun dt_wire_ok :: "data_type \<Rightarrow> bool"
and field_wire_ok :: "field \<Rightarrow> bool" where
  "dt_wire_ok (DT_Timestamp u tz) = (tz \<noteq> Some [])"
| "dt_wire_ok (DT_Decimal w f) = (w < 2 ^ 64 \<and> f < 2 ^ 64)"
| "dt_wire_ok (DT_List f) = field_wire_ok f"
| "dt_wire_ok (DT_LargeList f) = field_wire_ok f"
| "dt_wire_ok (DT_FixedSizeList f n) = field_wire_ok f"
| "dt_wire_ok (DT_Struct fs) = list_all field_wire_ok fs"
| "dt_wire_ok (DT_Union fs) = list_all field_wire_ok fs"
| "dt_wire_ok (DT_Dictionary k v) = (dt_wire_ok k \<and> dt_wire_ok v)"
| "dt_wire_ok dt = True"
| "field_wire_ok (MkField n dt b) = dt_wire_ok dt"

lemma dt_norm_wire_ok:
  "dt_wire_ok dt \<Longrightarrow> dt_norm dt = dt"
  "field_wire_ok f \<Longrightarrow> field_norm f = f"
  by (induction dt and f rule: dt_wire_ok_field_wire_ok.induct) (auto simp: list_all_iff map_idI)

lemma time_unit_roundtrip [simp]:
  "time_unit_from_i32_to_arrow (time_unit_as_i32 (from_arrow_time_unit u)) = Ok u"
  by (cases u) (simp_all add: time_unit_from_i32_to_arrow_def time_unit_from_i32_def)

lemma interval_unit_roundtrip [simp]:
  "interval_unit_from_i32_to_arrow (interval_unit_as_i32 (from_arrow_interval_unit u)) = Ok u"
  by (cases u) (simp_all add: interval_unit_from_i32_to_arrow_def interval_unit_from_i32_def)

lemma u64_to_usize_of [simp]: "u64_to_usize (usize_to_u64 n) = n mod 2 ^ 64"
  by (simp add: usize_to_u64_def u64_to_usize_def unat_of_nat)

lemma arrow_type_wire:
  "arrow_type_try_into (PbArrowType (Some (arrow_type_enum_from dt))) = Ok (dt_norm dt)"
  "arrow_type_try_into (arrow_type_from dt) = Ok (dt_norm dt)"
  "field_try_into (pb_field_from f) = Ok (field_norm f)"
  by (induction dt and dt and f rule: arrow_type_enum_from_arrow_type_from_pb_field_from.induct)
     (auto simp: mapM_all_Ok split: option.split)

lemma arrow_type_enum_agrees:
  "arrow_type_enum_try_into e = Ok dt \<longleftrightarrow> arrow_type_try_into (PbArrowType (Some e)) = Ok dt"
proof (cases e)
  case (AT_List f)
  then show ?thesis by (cases f) auto
next
  case (AT_LargeList f)
  then show ?thesis by (cases f) auto
next
  case (AT_FixedSizeList f n)
  then show ?thesis by (cases f) auto
next
  case (AT_Dictionary k v)
  then show ?thesis by (cases k; cases v) auto
qed auto

lemma field_try_into_Ok:
  "field_try_into f = Ok g \<longleftrightarrow>
     (\<exists>t dt. pf_arrow_type f = Some t \<and> arrow_type_try_into t = Ok dt \<and> g = MkField (pf_name f) dt (pf_nullable f))"
  by (cases f rule: field_try_into.cases) (auto simp: result_simps)

lemma schema_try_into_Ok: "schema_try_into s = Ok fs \<longleftrightarrow> mapM field_try_into (psc_columns s) = Ok fs"
proof -
  have "(\<lambda>c g. rbind (ok_or (pf_arrow_type c)
             (proto_error (''Protobuf deserialization error: Field message was missing required field '' @ quoted ''arrow_type'')))
           (\<lambda>t. rbind (arrow_type_try_into t) (\<lambda>dt. Ok (MkField (pf_name c) dt (pf_nullable c)))) = Ok g) =
        (\<lambda>c g. field_try_into c = Ok g)"
    by (intro ext) (auto simp: field_try_into_Ok result_simps)
  then show ?thesis by (simp add: schema_try_into_def mapM_eq_Ok)
qed

lemma schema_wire: "schema_try_into (schema_into s) = Ok (map field_norm s)"
  by (simp add: schema_try_into_Ok schema_into_def mapM_all_Ok arrow_type_wire)

definition schema_wire_ok :: "schema \<Rightarrow> bool" where
  "schema_wire_ok s = list_all field_wire_ok s"

interpretation dt_serde: serde "\<lambda>dt. Ok (arrow_type_from dt)" arrow_type_try_into dt_wire_ok
  by unfold_locales (simp add: arrow_type_wire dt_norm_wire_ok del: arrow_type_from.simps)

interpretation schema_serde: serde "\<lambda>s. Ok (schema_into s)" schema_try_into schema_wire_ok
  by unfold_locales (auto simp: schema_wire schema_wire_ok_def list_all_iff dt_norm_wire_ok map_idI)

section \<open>Properties\<close>

lemma map_fixpoint: "map f xs = xs \<longleftrightarrow> (\<forall>x \<in> set xs. f x = x)"
  by (induction xs) auto

lemma mod_fixpoint: "n mod 2 ^ k = n \<longleftrightarrow> n < (2 ^ k :: nat)"
  by (metis mod_less mod_less_divisor zero_less_numeral zero_less_power)

lemma dt_norm_fixpoint:
  "dt_norm dt = dt \<longleftrightarrow> dt_wire_ok dt"
  "field_norm f = f \<longleftrightarrow> field_wire_ok f"
  by (induction dt and f rule: dt_wire_ok_field_wire_ok.induct)
     (auto simp: list_all_iff map_fixpoint mod_fixpoint simp del: power_numeral)


text \<open>
  The two decoders of an Arrow type agree: the conversion of an \<open>ArrowTypeEnum\<close> in
  \<open>from_proto.rs\<close> accepts exactly what the conversion of an \<open>ArrowType\<close> in \<open>to_proto.rs\<close> accepts,
  with the same result.
\<close>

theorem arrow_type_decoders_agree:
  "arrow_type_enum_try_into e = Ok dt \<longleftrightarrow> arrow_type_try_into (PbArrowType (Some e)) = Ok dt"
  by (rule arrow_type_enum_agrees)



end
