(* ===== verification/Scalar_Serde.thy ===== *)
theory Scalar_Serde
  imports Arrow_Serde
begin

text \<open>
  DataFusion scalar values on the wire: the part of \<open>core/src/serde/logical_plan/to_proto.rs\<close> and
  \<open>from_proto.rs\<close> that converts \<open>ScalarValue\<close> and the types a scalar may have.  A signed integer is
  carried by its bits, so \<open>as i32\<close> on an \<open>i8\<close> or \<open>i16\<close> is a signed extension and the cast back a
  truncation.  \<open>todo!\<close> is a panic.
\<close>

section \<open>Messages\<close>

datatype primitive_scalar_type =
    PST_Bool | PST_Uint8 | PST_Int8 | PST_Uint16 | PST_Int16 | PST_Uint32 | PST_Int32 | PST_Uint64 | PST_Int64
  | PST_Float32 | PST_Float64 | PST_Utf8 | PST_LargeUtf8 | PST_Date32 | PST_TimeMicrosecond | PST_TimeNanosecond | PST_Null

fun pst_as_i32 :: "primitive_scalar_type \<Rightarrow> int" where
  "pst_as_i32 PST_Bool = 0"
| "pst_as_i32 PST_Uint8 = 1"
| "pst_as_i32 PST_Int8 = 2"
| "pst_as_i32 PST_Uint16 = 3"
| "pst_as_i32 PST_Int16 = 4"
| "pst_as_i32 PST_Uint32 = 5"
| "pst_as_i32 PST_Int32 = 6"
| "pst_as_i32 PST_Uint64 = 7"
| "pst_as_i32 PST_Int64 = 8"
| "pst_as_i32 PST_Float32 = 9"
| "pst_as_i32 PST_Float64 = 10"
| "pst_as_i32 PST_Utf8 = 11"
| "pst_as_i32 PST_LargeUtf8 = 12"
| "pst_as_i32 PST_Date32 = 13"
| "pst_as_i32 PST_TimeMicrosecond = 14"
| "pst_as_i32 PST_TimeNanosecond = 15"
| "pst_as_i32 PST_Null = 16"

definition all_pst :: "primitive_scalar_type list" where
  "all_pst = [PST_Bool, PST_Uint8, PST_Int8, PST_Uint16, PST_Int16, PST_Uint32, PST_Int32, PST_Uint64, PST_Int64,
     PST_Float32, PST_Float64, PST_Utf8, PST_LargeUtf8, PST_Date32, PST_TimeMicrosecond, PST_TimeNanosecond, PST_Null]"

definition pst_from_i32 :: "int \<Rightarrow> primitive_scalar_type option" where
  "pst_from_i32 i = List.find (\<lambda>t. pst_as_i32 t = i) all_pst"

text \<open>\<open>scalar_type::Datatype\<close>: a leaf, or the field names of nested lists and their leaf.\<close>

datatype st_datatype = ST_Scalar int | ST_List "string list" int

datatype pb_scalar_type = PbScalarType (pst_datatype: "st_datatype option")

datatype pb_scalar_value = PbScalarValue (psv_value: "sv_value option")
and sv_value =
    V_Bool bool | V_Utf8 string | V_LargeUtf8 string
  | V_Int8 u32 | V_Int16 u32 | V_Int32 u32 | V_Int64 u64
  | V_Uint8 u32 | V_Uint16 u32 | V_Uint32 u32 | V_Uint64 u64
  | V_Float32 u32 | V_Float64 u64 | V_Date32 u32 | V_TimeMicrosecond u64 | V_TimeNanosecond u64
  | V_List "pb_scalar_type option" "pb_scalar_value list"
  | V_NullList pb_scalar_type
  | V_Null int

section \<open>Encoding\<close>

fun is_valid_scalar_type_no_list_check :: "data_type \<Rightarrow> bool" where
  "is_valid_scalar_type_no_list_check DT_Boolean = True"
| "is_valid_scalar_type_no_list_check DT_Int8 = True"
| "is_valid_scalar_type_no_list_check DT_Int16 = True"
| "is_valid_scalar_type_no_list_check DT_Int32 = True"
| "is_valid_scalar_type_no_list_check DT_Int64 = True"
| "is_valid_scalar_type_no_list_check DT_UInt8 = True"
| "is_valid_scalar_type_no_list_check DT_UInt16 = True"
| "is_valid_scalar_type_no_list_check DT_UInt32 = True"
| "is_valid_scalar_type_no_list_check DT_UInt64 = True"
| "is_valid_scalar_type_no_list_check DT_Float32 = True"
| "is_valid_scalar_type_no_list_check DT_Float64 = True"
| "is_valid_scalar_type_no_list_check DT_LargeUtf8 = True"
| "is_valid_scalar_type_no_list_check DT_Utf8 = True"
| "is_valid_scalar_type_no_list_check DT_Date32 = True"
| "is_valid_scalar_type_no_list_check (DT_Time64 time_unit) = (time_unit = Microsecond \<or> time_unit = Nanosecond)"
| "is_valid_scalar_type_no_list_check (DT_List _) = True"
| "is_valid_scalar_type_no_list_check _ = False"

text \<open>The leaf table; the code has it once for a bare type and once for the leaf of a list.\<close>

fun scalar_leaf_type :: "data_type \<Rightarrow> primitive_scalar_type bresult" where
  "scalar_leaf_type DT_Boolean = Ok PST_Bool"
| "scalar_leaf_type DT_Int8 = Ok PST_Int8"
| "scalar_leaf_type DT_Int16 = Ok PST_Int16"
| "scalar_leaf_type DT_Int32 = Ok PST_Int32"
| "scalar_leaf_type DT_Int64 = Ok PST_Int64"
| "scalar_leaf_type DT_UInt8 = Ok PST_Uint8"
| "scalar_leaf_type DT_UInt16 = Ok PST_Uint16"
| "scalar_leaf_type DT_UInt32 = Ok PST_Uint32"
| "scalar_leaf_type DT_UInt64 = Ok PST_Uint64"
| "scalar_leaf_type DT_Float32 = Ok PST_Float32"
| "scalar_leaf_type DT_Float64 = Ok PST_Float64"
| "scalar_leaf_type DT_Date32 = Ok PST_Date32"
| "scalar_leaf_type (DT_Time64 time_unit) =
     (case time_unit of
        Microsecond \<Rightarrow> Ok PST_TimeMicrosecond
      | Nanosecond \<Rightarrow> Ok PST_TimeNanosecond
      | _ \<Rightarrow> Err (proto_error ''Found invalid time unit for scalar value, only TimeUnit::Microsecond and TimeUnit::Nanosecond are valid time units: ''))"
| "scalar_leaf_type DT_Utf8 = Ok PST_Utf8"
| "scalar_leaf_type DT_LargeUtf8 = Ok PST_LargeUtf8"
| "scalar_leaf_type val =
     Err (proto_error ''Error converting to Datatype to scalar type, invalid as a datafusion scalar.'')"

lemma size_f_data_type [simp]: "size (f_data_type f) < size f"
  by (cases f) simp

text \<open>The loop that descends through nested lists, collecting field names.\<close>

function list_field_names :: "field \<Rightarrow> string list \<Rightarrow> (string list \<times> field) bresult" where
  "list_field_names curr_field field_names =
     (case f_data_type curr_field of
        DT_List nested \<Rightarrow>
          (let field_names' = field_names @ [f_name nested] in
           if \<not> is_valid_scalar_type_no_list_check (f_data_type nested)
           then Err (proto_error ''invalid scalar type'')
           else list_field_names nested field_names')
      | _ \<Rightarrow> Ok (field_names, curr_field))"
  by pat_completeness auto

termination
proof (relation "measure (\<lambda>(f, ns). size f)", goal_cases)
  case (2 f ns nested)
  then have "size nested < size (f_data_type f)" by simp
  also have "\<dots> < size f" by simp
  finally show ?case by simp
qed simp

declare list_field_names.simps [simp del]

definition scalar_datatype_from :: "data_type \<Rightarrow> st_datatype bresult" where
  "scalar_datatype_from val =
     (case val of
        DT_List field_type \<Rightarrow>
          rbind (list_field_names field_type [f_name field_type]) (\<lambda>(field_names, curr_field).
            if \<not> is_valid_scalar_type_no_list_check (f_data_type curr_field)
            then Err (proto_error ''The list nested type is an invalid scalar type'')
            else rbind (scalar_leaf_type (f_data_type curr_field)) (\<lambda>pb_deepest_type.
              Ok (ST_List field_names (pst_as_i32 pb_deepest_type))))
      | _ \<Rightarrow> rbind (scalar_leaf_type val) (\<lambda>t. Ok (ST_Scalar (pst_as_i32 t))))"

definition scalar_type_from :: "data_type \<Rightarrow> pb_scalar_type bresult" where
  "scalar_type_from val = rbind (scalar_datatype_from val) (\<lambda>d. Ok (PbScalarType (Some d)))"

definition create_proto_scalar ::
  "'i option \<Rightarrow> primitive_scalar_type \<Rightarrow> ('i \<Rightarrow> sv_value) \<Rightarrow> pb_scalar_value" where
  "create_proto_scalar v null_arrow_type constructor =
     PbScalarValue (Some (case v of Some s \<Rightarrow> constructor s | None \<Rightarrow> V_Null (pst_as_i32 null_arrow_type)))"

text \<open>\<open>std::mem::discriminant\<close>.\<close>

fun dt_discriminant :: "data_type \<Rightarrow> nat" where
  "dt_discriminant DT_Null = 0"
| "dt_discriminant DT_Boolean = 1"
| "dt_discriminant DT_Int8 = 2"
| "dt_discriminant DT_Int16 = 3"
| "dt_discriminant DT_Int32 = 4"
| "dt_discriminant DT_Int64 = 5"
| "dt_discriminant DT_UInt8 = 6"
| "dt_discriminant DT_UInt16 = 7"
| "dt_discriminant DT_UInt32 = 8"
| "dt_discriminant DT_UInt64 = 9"
| "dt_discriminant DT_Float16 = 10"
| "dt_discriminant DT_Float32 = 11"
| "dt_discriminant DT_Float64 = 12"
| "dt_discriminant (DT_Timestamp _ _) = 13"
| "dt_discriminant DT_Date32 = 14"
| "dt_discriminant DT_Date64 = 15"
| "dt_discriminant (DT_Time32 _) = 16"
| "dt_discriminant (DT_Time64 _) = 17"
| "dt_discriminant (DT_Duration _) = 18"
| "dt_discriminant (DT_Interval _) = 19"
| "dt_discriminant DT_Binary = 20"
| "dt_discriminant (DT_FixedSizeBinary _) = 21"
| "dt_discriminant DT_LargeBinary = 22"
| "dt_discriminant DT_Utf8 = 23"
| "dt_discriminant DT_LargeUtf8 = 24"
| "dt_discriminant (DT_List _) = 25"
| "dt_discriminant (DT_FixedSizeList _ _) = 26"
| "dt_discriminant (DT_LargeList _) = 27"
| "dt_discriminant (DT_Struct _) = 28"
| "dt_discriminant (DT_Union _) = 29"
| "dt_discriminant (DT_Dictionary _ _) = 30"
| "dt_discriminant (DT_Decimal _ _) = 31"

text \<open>
  The check of a list element against the item type of the list, before it is converted.
  \<open>scalar_item_type\<close> is the table of the accepted pairs.
\<close>

fun scalar_item_type :: "scalar_value \<Rightarrow> data_type option" where
  "scalar_item_type (SV_Boolean _) = Some DT_Boolean"
| "scalar_item_type (SV_Float32 _) = Some DT_Float32"
| "scalar_item_type (SV_Float64 _) = Some DT_Float64"
| "scalar_item_type (SV_Int8 _) = Some DT_Int8"
| "scalar_item_type (SV_Int16 _) = Some DT_Int16"
| "scalar_item_type (SV_Int32 _) = Some DT_Int32"
| "scalar_item_type (SV_Int64 _) = Some DT_Int64"
| "scalar_item_type (SV_UInt8 _) = Some DT_UInt8"
| "scalar_item_type (SV_UInt16 _) = Some DT_UInt16"
| "scalar_item_type (SV_UInt32 _) = Some DT_UInt32"
| "scalar_item_type (SV_UInt64 _) = Some DT_UInt64"
| "scalar_item_type (SV_Utf8 _) = Some DT_Utf8"
| "scalar_item_type (SV_LargeUtf8 _) = Some DT_LargeUtf8"
| "scalar_item_type _ = None"

definition element_check :: "scalar_value \<Rightarrow> data_type \<Rightarrow> unit bresult" where
  "element_check scalar scalar_type =
     (case (scalar, scalar_type) of
        (SV_List _ (DT_List list_field), DT_List fld) \<Rightarrow>
          (if dt_discriminant (f_data_type list_field) \<noteq> dt_discriminant (f_data_type fld)
           then Err (proto_error ''Protobuf serialization error: Lists with inconsistent typing found within list'')
           else Ok ())
      | _ \<Rightarrow>
          (if scalar_item_type scalar = Some scalar_type then Ok ()
           else Err (proto_error ''Protobuf serialization error, inconsistent with designated type'')))"

fun scalar_value_into :: "scalar_value \<Rightarrow> pb_scalar_value bresult" where
  "scalar_value_into (SV_Boolean val) = Ok (create_proto_scalar val PST_Bool (\<lambda>s. V_Bool s))"
| "scalar_value_into (SV_Float32 val) = Ok (create_proto_scalar val PST_Float32 (\<lambda>s. V_Float32 s))"
| "scalar_value_into (SV_Float64 val) = Ok (create_proto_scalar val PST_Float64 (\<lambda>s. V_Float64 s))"
| "scalar_value_into (SV_Int8 val) = Ok (create_proto_scalar val PST_Int8 (\<lambda>s. V_Int8 (scast s)))"
| "scalar_value_into (SV_Int16 val) = Ok (create_proto_scalar val PST_Int16 (\<lambda>s. V_Int16 (scast s)))"
| "scalar_value_into (SV_Int32 val) = Ok (create_proto_scalar val PST_Int32 (\<lambda>s. V_Int32 s))"
| "scalar_value_into (SV_Int64 val) = Ok (create_proto_scalar val PST_Int64 (\<lambda>s. V_Int64 s))"
| "scalar_value_into (SV_UInt8 val) = Ok (create_proto_scalar val PST_Uint8 (\<lambda>s. V_Uint8 (ucast s)))"
| "scalar_value_into (SV_UInt16 val) = Ok (create_proto_scalar val PST_Uint16 (\<lambda>s. V_Uint16 (ucast s)))"
| "scalar_value_into (SV_UInt32 val) = Ok (create_proto_scalar val PST_Uint32 (\<lambda>s. V_Uint32 s))"
| "scalar_value_into (SV_UInt64 val) = Ok (create_proto_scalar val PST_Uint64 (\<lambda>s. V_Uint64 s))"
| "scalar_value_into (SV_Utf8 val) = Ok (create_proto_scalar val PST_Utf8 (\<lambda>s. V_Utf8 s))"
| "scalar_value_into (SV_LargeUtf8 val) = Ok (create_proto_scalar val PST_LargeUtf8 (\<lambda>s. V_LargeUtf8 s))"
| "scalar_value_into (SV_List None datatype) =
     rbind (scalar_type_from datatype) (\<lambda>t. Ok (PbScalarValue (Some (V_NullList t))))"
| "scalar_value_into (SV_List (Some vals) datatype) =
     (if vals = [] then
        rbind (scalar_type_from datatype) (\<lambda>t. Ok (PbScalarValue (Some (V_List (Some t) []))))
      else
        (case datatype of
           DT_List fld \<Rightarrow>
             rbind (mapM (\<lambda>scalar. rbind (element_check scalar (f_data_type fld)) (\<lambda>_. scalar_value_into scalar)) vals)
               (\<lambda>type_checked_values.
             rbind (scalar_type_from datatype) (\<lambda>t.
               Ok (PbScalarValue (Some (V_List (Some t) type_checked_values)))))
         | _ \<Rightarrow> Panic ''not yet implemented: Proper error handling''))"
| "scalar_value_into (SV_Date32 val) = Ok (create_proto_scalar val PST_Date32 (\<lambda>s. V_Date32 s))"
| "scalar_value_into (SV_TimeMicrosecond val) = Ok (create_proto_scalar val PST_TimeMicrosecond (\<lambda>s. V_TimeMicrosecond s))"
| "scalar_value_into (SV_TimeNanosecond val) = Ok (create_proto_scalar val PST_TimeNanosecond (\<lambda>s. V_TimeNanosecond s))"
| "scalar_value_into (SV_Other _) =
     Err (proto_error ''Error converting to Datatype to scalar type, invalid as a datafusion scalar.'')"

section \<open>Decoding\<close>

fun primitive_data_type :: "primitive_scalar_type \<Rightarrow> data_type" where
  "primitive_data_type PST_Bool = DT_Boolean"
| "primitive_data_type PST_Uint8 = DT_UInt8"
| "primitive_data_type PST_Int8 = DT_Int8"
| "primitive_data_type PST_Uint16 = DT_UInt16"
| "primitive_data_type PST_Int16 = DT_Int16"
| "primitive_data_type PST_Uint32 = DT_UInt32"
| "primitive_data_type PST_Int32 = DT_Int32"
| "primitive_data_type PST_Uint64 = DT_UInt64"
| "primitive_data_type PST_Int64 = DT_Int64"
| "primitive_data_type PST_Float32 = DT_Float32"
| "primitive_data_type PST_Float64 = DT_Float64"
| "primitive_data_type PST_Utf8 = DT_Utf8"
| "primitive_data_type PST_LargeUtf8 = DT_LargeUtf8"
| "primitive_data_type PST_Date32 = DT_Date32"
| "primitive_data_type PST_TimeMicrosecond = DT_Time64 Microsecond"
| "primitive_data_type PST_TimeNanosecond = DT_Time64 Nanosecond"
| "primitive_data_type PST_Null = DT_Null"

fun primitive_null :: "primitive_scalar_type \<Rightarrow> scalar_value bresult" where
  "primitive_null PST_Null = Err (proto_error ''Untyped null is an invalid scalar value'')"
| "primitive_null PST_Bool = Ok (SV_Boolean None)"
| "primitive_null PST_Uint8 = Ok (SV_UInt8 None)"
| "primitive_null PST_Int8 = Ok (SV_Int8 None)"
| "primitive_null PST_Uint16 = Ok (SV_UInt16 None)"
| "primitive_null PST_Int16 = Ok (SV_Int16 None)"
| "primitive_null PST_Uint32 = Ok (SV_UInt32 None)"
| "primitive_null PST_Int32 = Ok (SV_Int32 None)"
| "primitive_null PST_Uint64 = Ok (SV_UInt64 None)"
| "primitive_null PST_Int64 = Ok (SV_Int64 None)"
| "primitive_null PST_Float32 = Ok (SV_Float32 None)"
| "primitive_null PST_Float64 = Ok (SV_Float64 None)"
| "primitive_null PST_Utf8 = Ok (SV_Utf8 None)"
| "primitive_null PST_LargeUtf8 = Ok (SV_LargeUtf8 None)"
| "primitive_null PST_Date32 = Ok (SV_Date32 None)"
| "primitive_null PST_TimeMicrosecond = Ok (SV_TimeMicrosecond None)"
| "primitive_null PST_TimeNanosecond = Ok (SV_TimeNanosecond None)"

text \<open>The nested list type with the given field names, all fields nullable.\<close>

definition nested_list :: "string list \<Rightarrow> data_type \<Rightarrow> data_type" where
  "nested_list field_names leaf =
     foldl (\<lambda>scalar_type name. DT_List (MkField name scalar_type True))
       (DT_List (MkField (last field_names) leaf True)) (drop 1 (rev field_names))"

fun st_datatype_try_into :: "st_datatype \<Rightarrow> data_type bresult" where
  "st_datatype_try_into (ST_Scalar scalar_type) =
     rbind (ok_or (pst_from_i32 scalar_type)
        (proto_error ''Protobuf deserialization error, scalar_type::Datatype missing was provided invalid enum variant''))
       (\<lambda>t. Ok (primitive_data_type t))"
| "st_datatype_try_into (ST_List field_names deepest_type) =
     (if field_names = [] then
        Err (proto_error ''Protobuf deserialization error: found no field names in ScalarListType message which requires at least one'')
      else
        rbind (ok_or (pst_from_i32 deepest_type)
                 (proto_error ''Protobuf deserialization error: invalid i32 for scalar enum''))
          (\<lambda>t. Ok (nested_list field_names (primitive_data_type t))))"

definition scalar_type_try_into :: "pb_scalar_type \<Rightarrow> data_type bresult" where
  "scalar_type_try_into t =
     rbind (ok_or (pst_datatype t) (proto_error (''ScalarType message missing required field '' @ quoted ''datatype'')))
       st_datatype_try_into"

definition scalar_list_type_try_into :: "string list \<Rightarrow> int \<Rightarrow> data_type bresult" where
  "scalar_list_type_try_into field_names deepest_type =
     (if length field_names = 0 then
        Err (proto_error ''Protobuf deserialization error: Found a ScalarListType message with no field names, at least one is required'')
      else
        rbind (ok_or (pst_from_i32 deepest_type) (proto_error ''Could not convert to datafusion scalar type''))
          (\<lambda>t. Ok (nested_list field_names (primitive_data_type t))))"

text \<open>The table of the accepted pairs of a value and a type, with the scalar they give.\<close>

fun typed_value :: "sv_value \<Rightarrow> (primitive_scalar_type \<times> scalar_value) option" where
  "typed_value (V_Bool v) = Some (PST_Bool, SV_Boolean (Some v))"
| "typed_value (V_Int8 v) = Some (PST_Int8, SV_Int8 (Some (ucast v)))"
| "typed_value (V_Int16 v) = Some (PST_Int16, SV_Int16 (Some (ucast v)))"
| "typed_value (V_Int32 v) = Some (PST_Int32, SV_Int32 (Some v))"
| "typed_value (V_Int64 v) = Some (PST_Int64, SV_Int64 (Some v))"
| "typed_value (V_Uint8 v) = Some (PST_Uint8, SV_UInt8 (Some (ucast v)))"
| "typed_value (V_Uint16 v) = Some (PST_Uint16, SV_UInt16 (Some (ucast v)))"
| "typed_value (V_Uint32 v) = Some (PST_Uint32, SV_UInt32 (Some v))"
| "typed_value (V_Uint64 v) = Some (PST_Uint64, SV_UInt64 (Some v))"
| "typed_value (V_Float32 v) = Some (PST_Float32, SV_Float32 (Some v))"
| "typed_value (V_Float64 v) = Some (PST_Float64, SV_Float64 (Some v))"
| "typed_value (V_Date32 v) = Some (PST_Date32, SV_Date32 (Some v))"
| "typed_value (V_TimeMicrosecond v) = Some (PST_TimeMicrosecond, SV_TimeMicrosecond (Some v))"
| "typed_value (V_TimeNanosecond v) = Some (PST_TimeMicrosecond, SV_TimeNanosecond (Some v))"
| "typed_value (V_Utf8 v) = Some (PST_Utf8, SV_Utf8 (Some v))"
| "typed_value (V_LargeUtf8 v) = Some (PST_LargeUtf8, SV_LargeUtf8 (Some v))"
| "typed_value _ = None"

definition typechecked_scalar_value_conversion :: "sv_value \<Rightarrow> primitive_scalar_type \<Rightarrow> scalar_value bresult" where
  "typechecked_scalar_value_conversion tested_type required_type =
     (case tested_type of
        V_Null i32_enum \<Rightarrow>
          (if i32_enum = pst_as_i32 required_type then
             rbind (ok_or (pst_from_i32 i32_enum)
                      (General ''Invalid i32_enum when converting with PrimitiveScalarType::from_i32()''))
               (\<lambda>t. if t = PST_Null then Err (proto_error ''Untyped scalar null is not a valid scalar value'')
                    else primitive_null t)
           else Err (proto_error ''Could not convert to the proper type''))
      | _ \<Rightarrow>
          (case typed_value tested_type of
             Some (t, s) \<Rightarrow>
               (if t = required_type then Ok s else Err (proto_error ''Could not convert to the proper type''))
           | None \<Rightarrow> Err (proto_error ''Could not convert to the proper type'')))"

definition required_value :: "pb_scalar_value \<Rightarrow> sv_value bresult" where
  "required_value v =
     ok_or (psv_value v) (proto_error (''Protobuf deserialization error: missing required field '' @ quoted ''value''))"

text \<open>The conversion of \<open>scalar_value::Value\<close>, with that of \<open>ScalarListValue\<close> inlined in its list case.\<close>

fun value_try_into :: "sv_value \<Rightarrow> scalar_value bresult"
and required_value_try_into :: "pb_scalar_value \<Rightarrow> scalar_value bresult" where
  "value_try_into (V_Bool v) = Ok (SV_Boolean (Some v))"
| "value_try_into (V_Utf8 v) = Ok (SV_Utf8 (Some v))"
| "value_try_into (V_LargeUtf8 v) = Ok (SV_LargeUtf8 (Some v))"
| "value_try_into (V_Int8 v) = Ok (SV_Int8 (Some (ucast v)))"
| "value_try_into (V_Int16 v) = Ok (SV_Int16 (Some (ucast v)))"
| "value_try_into (V_Int32 v) = Ok (SV_Int32 (Some v))"
| "value_try_into (V_Int64 v) = Ok (SV_Int64 (Some v))"
| "value_try_into (V_Uint8 v) = Ok (SV_UInt8 (Some (ucast v)))"
| "value_try_into (V_Uint16 v) = Ok (SV_UInt16 (Some (ucast v)))"
| "value_try_into (V_Uint32 v) = Ok (SV_UInt32 (Some v))"
| "value_try_into (V_Uint64 v) = Ok (SV_UInt64 (Some v))"
| "value_try_into (V_Float32 v) = Ok (SV_Float32 (Some v))"
| "value_try_into (V_Float64 v) = Ok (SV_Float64 (Some v))"
| "value_try_into (V_Date32 v) = Ok (SV_Date32 (Some v))"
| "value_try_into (V_TimeMicrosecond v) = Ok (SV_TimeMicrosecond (Some v))"
| "value_try_into (V_TimeNanosecond v) = Ok (SV_TimeNanosecond (Some v))"
| "value_try_into (V_List None vals) =
     Err (proto_error (''Protobuf deserialization error: ScalarListValue messsage missing required field '' @ quoted ''datatype''))"
| "value_try_into (V_List (Some (PbScalarType None)) vals) =
     Err (proto_error (''Protobuf deserialization error: ScalarListValue.Datatype messsage missing required field '' @ quoted ''datatype''))"
| "value_try_into (V_List (Some (PbScalarType (Some (ST_Scalar scalar_type_i32)))) vals) =
     rbind (ok_or (pst_from_i32 scalar_type_i32) (proto_error ''Error converting i32 to basic scalar type'')) (\<lambda>leaf_scalar_type.
     rbind (mapM (\<lambda>v. rbind (required_value v) (\<lambda>v. typechecked_scalar_value_conversion v leaf_scalar_type)) vals)
       (\<lambda>typechecked_values. Ok (SV_List (Some typechecked_values) (primitive_data_type leaf_scalar_type))))"
| "value_try_into (V_List (Some (PbScalarType (Some (ST_List field_names deepest_type)))) vals) =
     rbind (ok_or (pst_from_i32 deepest_type) (proto_error ''Error converting i32 to basic scalar type'')) (\<lambda>leaf_type.
     rbind (if length field_names = 0 then
              Err (proto_error ''Protobuf deserialization error, ScalarListType had no field names, requires at least one'')
            else if length field_names = 1 then
              mapM (\<lambda>v. rbind (required_value v) (\<lambda>v. typechecked_scalar_value_conversion v leaf_type)) vals
            else mapM required_value_try_into vals)
       (\<lambda>typechecked_values.
     rbind (scalar_list_type_try_into field_names deepest_type) (\<lambda>dt.
       Ok (SV_List (if length typechecked_values = 0 then None else Some typechecked_values) dt))))"
| "value_try_into (V_NullList v) = rbind (scalar_type_try_into v) (\<lambda>dt. Ok (SV_List None dt))"
| "value_try_into (V_Null null_enum) =
     rbind (ok_or (pst_from_i32 null_enum) (proto_error ''Invalid scalar type'')) primitive_null"
| "required_value_try_into (PbScalarValue None) =
     Err (proto_error (''Protobuf deserialization error: missing required field '' @ quoted ''value''))"
| "required_value_try_into (PbScalarValue (Some v)) = value_try_into v"

fun scalar_value_try_into :: "pb_scalar_value \<Rightarrow> scalar_value bresult" where
  "scalar_value_try_into (PbScalarValue None) =
     Err (proto_error (''Protobuf deserialization error: missing required field '' @ quoted ''value''))"
| "scalar_value_try_into (PbScalarValue (Some (V_Bool v))) = Ok (SV_Boolean (Some v))"
| "scalar_value_try_into (PbScalarValue (Some (V_Utf8 v))) = Ok (SV_Utf8 (Some v))"
| "scalar_value_try_into (PbScalarValue (Some (V_LargeUtf8 v))) = Ok (SV_LargeUtf8 (Some v))"
| "scalar_value_try_into (PbScalarValue (Some (V_Int8 v))) = Ok (SV_Int8 (Some (ucast v)))"
| "scalar_value_try_into (PbScalarValue (Some (V_Int16 v))) = Ok (SV_Int16 (Some (ucast v)))"
| "scalar_value_try_into (PbScalarValue (Some (V_Int32 v))) = Ok (SV_Int32 (Some v))"
| "scalar_value_try_into (PbScalarValue (Some (V_Int64 v))) = Ok (SV_Int64 (Some v))"
| "scalar_value_try_into (PbScalarValue (Some (V_Uint8 v))) = Ok (SV_UInt8 (Some (ucast v)))"
| "scalar_value_try_into (PbScalarValue (Some (V_Uint16 v))) = Ok (SV_UInt16 (Some (ucast v)))"
| "scalar_value_try_into (PbScalarValue (Some (V_Uint32 v))) = Ok (SV_UInt32 (Some v))"
| "scalar_value_try_into (PbScalarValue (Some (V_Uint64 v))) = Ok (SV_UInt64 (Some v))"
| "scalar_value_try_into (PbScalarValue (Some (V_Float32 v))) = Ok (SV_Float32 (Some v))"
| "scalar_value_try_into (PbScalarValue (Some (V_Float64 v))) = Ok (SV_Float64 (Some v))"
| "scalar_value_try_into (PbScalarValue (Some (V_Date32 v))) = Ok (SV_Date32 (Some v))"
| "scalar_value_try_into (PbScalarValue (Some (V_TimeMicrosecond v))) = Ok (SV_TimeMicrosecond (Some v))"
| "scalar_value_try_into (PbScalarValue (Some (V_TimeNanosecond v))) = Ok (SV_TimeNanosecond (Some v))"
| "scalar_value_try_into (PbScalarValue (Some (V_List None vals))) =
     Err (proto_error (''Protobuf deserialization err: ScalaListValue missing required field '' @ quoted ''datatype''))"
| "scalar_value_try_into (PbScalarValue (Some (V_List (Some pb_scalar_type) vals))) =
     rbind (mapM scalar_value_try_into vals) (\<lambda>typechecked_values.
     rbind (scalar_type_try_into pb_scalar_type) (\<lambda>dt.
       Ok (SV_List (Some typechecked_values) dt)))"
| "scalar_value_try_into (PbScalarValue (Some (V_NullList v))) =
     rbind (ok_or (pst_datatype v)
              (proto_error (''Protobuf deserialization error: NullListValue message missing required field '' @ quoted ''datatyp'')))
       (\<lambda>d. rbind (st_datatype_try_into d) (\<lambda>dt. Ok (SV_List None dt)))"
| "scalar_value_try_into (PbScalarValue (Some (V_Null v))) =
     rbind (ok_or (pst_from_i32 v)
              (proto_error ''Protobuf deserialization error found invalid enum variant for DatafusionScalar''))
       primitive_null"

section \<open>Round trips\<close>

lemma pst_from_as [simp]: "pst_from_i32 (pst_as_i32 t) = Some t"
  by (cases t) (simp_all add: pst_from_i32_def all_pst_def)

declare pst_as_i32.simps [simp del]

lemma scalar_leaf_type_inverse: "scalar_leaf_type dt = Ok t \<Longrightarrow> primitive_data_type t = dt"
  by (cases dt rule: scalar_leaf_type.cases) (auto split: time_unit.splits)

lemma scalar_leaf_type_valid:
  "is_valid_scalar_type_no_list_check dt \<Longrightarrow> (\<exists>t. scalar_leaf_type dt = Ok t) \<or> (\<exists>f. dt = DT_List f)"
  by (cases dt rule: is_valid_scalar_type_no_list_check.cases) auto

text \<open>The types of scalars that come back unchanged: list fields must be nullable.\<close>

fun sdt_ok :: "data_type \<Rightarrow> bool" where
  "sdt_ok (DT_List (MkField n dt b)) = (b \<and> sdt_ok dt)"
| "sdt_ok dt = is_valid_scalar_type_no_list_check dt"

lemma sdt_ok_valid: "sdt_ok dt \<Longrightarrow> is_valid_scalar_type_no_list_check dt"
  by (cases dt rule: sdt_ok.cases) auto

lemma sdt_ok_List: "sdt_ok (DT_List f) \<longleftrightarrow> f_nullable f \<and> sdt_ok (f_data_type f)"
  by (cases f) simp

lemma nested_list_single: "nested_list [n] leaf = DT_List (MkField n leaf True)"
  by (simp add: nested_list_def)

lemma nested_list_Cons: "ns \<noteq> [] \<Longrightarrow> nested_list (n # ns) leaf = DT_List (MkField n (nested_list ns leaf) True)"
proof -
  assume "ns \<noteq> []"
  then have "Suc 0 - length ns = 0" by (cases ns) auto
  with \<open>ns \<noteq> []\<close> show ?thesis by (simp add: nested_list_def)
qed

lemma list_field_names_ok:
  "sdt_ok (DT_List f) \<Longrightarrow> \<exists>ns g. list_field_names f acc = Ok (acc @ ns, g) \<and>
     nested_list (f_name f # ns) (f_data_type g) = DT_List f \<and>
     is_valid_scalar_type_no_list_check (f_data_type g) \<and> (\<forall>h. f_data_type g \<noteq> DT_List h)"
proof (induction f acc rule: list_field_names.induct)
  case (1 f acc)
  have f: "f = MkField (f_name f) (f_data_type f) True" and ok: "sdt_ok (f_data_type f)"
    using "1.prems" by (auto simp: sdt_ok_List intro: field.expand)
  show ?case
  proof (cases "\<exists>h. f_data_type f = DT_List h")
    case True
    then obtain h where h: "f_data_type f = DT_List h" by blast
    then have valid: "is_valid_scalar_type_no_list_check (f_data_type h)"
      using ok by (simp add: sdt_ok_List sdt_ok_valid)
    with "1.IH" [OF h refl] h ok obtain ns g where
      "list_field_names h (acc @ [f_name h]) = Ok ((acc @ [f_name h]) @ ns, g)"
      "nested_list (f_name h # ns) (f_data_type g) = DT_List h"
      "is_valid_scalar_type_no_list_check (f_data_type g)" "\<forall>h. f_data_type g \<noteq> DT_List h"
      by auto
    with h valid f show ?thesis
      by (subst list_field_names.simps) (auto simp: nested_list_Cons)
  next
    case False
    then have "list_field_names f acc = Ok (acc, f)"
      by (subst list_field_names.simps) (auto split: data_type.split)
    with False f ok show ?thesis by (auto simp: nested_list_single sdt_ok_valid)
  qed
qed

lemma scalar_datatype_roundtrip:
  assumes "sdt_ok dt"
  shows "\<exists>d. scalar_datatype_from dt = Ok d \<and> st_datatype_try_into d = Ok dt"
proof (cases "\<exists>f. dt = DT_List f")
  case True
  then obtain f where f: "dt = DT_List f" by blast
  obtain ns g where "list_field_names f [f_name f] = Ok ([f_name f] @ ns, g)"
    "nested_list (f_name f # ns) (f_data_type g) = DT_List f"
    "is_valid_scalar_type_no_list_check (f_data_type g)" "\<forall>h. f_data_type g \<noteq> DT_List h"
    using list_field_names_ok [of f "[f_name f]"] assms f by blast
  then show ?thesis
    using scalar_leaf_type_valid [of "f_data_type g"]
    by (auto simp: f scalar_datatype_from_def scalar_leaf_type_inverse)
next
  case False
  with assms obtain t where t: "scalar_leaf_type dt = Ok t"
    using scalar_leaf_type_valid [of dt] sdt_ok_valid by blast
  with False have "scalar_datatype_from dt = Ok (ST_Scalar (pst_as_i32 t))"
    by (cases dt) (simp_all add: scalar_datatype_from_def)
  with t show ?thesis by (simp add: scalar_leaf_type_inverse)
qed

interpretation sdt_serde: serde scalar_datatype_from st_datatype_try_into sdt_ok
  by unfold_locales (rule scalar_datatype_roundtrip)

interpretation scalar_type_serde: serde scalar_type_from scalar_type_try_into sdt_ok
  by unfold_locales
     (use sdt_serde.roundtrip in \<open>fastforce simp: scalar_type_from_def scalar_type_try_into_def\<close>)

fun sv_supported :: "scalar_value \<Rightarrow> bool" where
  "sv_supported (SV_List None dt) = sdt_ok dt"
| "sv_supported (SV_List (Some vs) dt) =
     (sdt_ok dt \<and>
      (case dt of
         DT_List f \<Rightarrow> list_all (\<lambda>v. is_ok (element_check v (f_data_type f)) \<and> sv_supported v) vs
       | _ \<Rightarrow> vs = []))"
| "sv_supported (SV_Other _) = False"
| "sv_supported _ = True"

lemma ucast_scast_8 [simp]: "ucast (scast (w :: u8) :: u32) = w"
  by (rule bit_word_eqI) (auto simp: bit_simps)

lemma ucast_scast_16 [simp]: "ucast (scast (w :: u16) :: u32) = w"
  by (rule bit_word_eqI) (auto simp: bit_simps)

lemma ucast_ucast_8 [simp]: "ucast (ucast (w :: u8) :: u32) = w"
  by (simp add: ucast_up_ucast_id is_up)

lemma ucast_ucast_16 [simp]: "ucast (ucast (w :: u16) :: u32) = w"
  by (simp add: ucast_up_ucast_id is_up)

lemma scalar_list_roundtrip:
  assumes dt: "dt = DT_List f" "sdt_ok dt" and "vs \<noteq> []"
    and vs: "\<And>v. v \<in> set vs \<Longrightarrow> element_check v (f_data_type f) = Ok () \<and>
               (\<exists>p. scalar_value_into v = Ok p \<and> scalar_value_try_into p = Ok v)"
  shows "\<exists>p. scalar_value_into (SV_List (Some vs) dt) = Ok p \<and> scalar_value_try_into p = Ok (SV_List (Some vs) dt)"
proof -
  obtain t where t: "scalar_type_from dt = Ok t" "scalar_type_try_into t = Ok dt"
    using scalar_type_serde.roundtrip [OF dt(2)] by blast
  define enc where "enc = (\<lambda>v. the_ok (scalar_value_into v))"
  have 1: "mapM (\<lambda>v. rbind (element_check v (f_data_type f)) (\<lambda>_. scalar_value_into v)) vs = Ok (map enc vs)"
    using vs by (intro mapM_all_Ok) (fastforce simp: enc_def)
  have 2: "mapM scalar_value_try_into (map enc vs) = Ok vs"
    using vs by (subst mapM_map, subst mapM_all_Ok [where g = id]) (fastforce simp: enc_def)+
  show ?thesis using 1 2 t \<open>vs \<noteq> []\<close> dt(1) by simp
qed

lemma is_ok_unit: "is_ok r \<longleftrightarrow> r = Ok ()"
  by (cases r) (auto simp: is_ok_def)

lemma scalar_value_roundtrip:
  "sv_supported v \<Longrightarrow> \<exists>p. scalar_value_into v = Ok p \<and> scalar_value_try_into p = Ok v"
proof (induction v rule: scalar_value_into.induct)
  case (14 dt)
  then obtain d where "scalar_datatype_from dt = Ok d" "st_datatype_try_into d = Ok dt"
    using sdt_serde.roundtrip [of dt] by auto
  then show ?case by (simp add: scalar_type_from_def)
next
  case (15 vs dt)
  show ?case
  proof (cases "vs = []")
    case True
    then show ?thesis using 15 scalar_type_serde.roundtrip [of dt] by auto
  next
    case False
    with "15.prems" obtain f where f: "dt = DT_List f"
      and "list_all (\<lambda>v. is_ok (element_check v (f_data_type f)) \<and> sv_supported v) vs"
      by (auto split: data_type.splits)
    then have "element_check v (f_data_type f) = Ok () \<and>
               (\<exists>p. scalar_value_into v = Ok p \<and> scalar_value_try_into p = Ok v)" if "v \<in> set vs" for v
      using "15.IH" [OF False f that] that by (auto simp: list_all_iff is_ok_unit)
    with scalar_list_roundtrip [OF f _ False] "15.prems" show ?thesis by simp
  qed
qed (auto simp: create_proto_scalar_def split: option.split)

interpretation scalar_serde: serde scalar_value_into scalar_value_try_into sv_supported
  by unfold_locales (rule scalar_value_roundtrip)

section \<open>Properties\<close>

text \<open>
  C34. Scalar values survive the wire: every supported scalar is encoded and decodes to itself.
  Supported are all leaf values, null or not, with signed integers kept through the widening to 32
  bits, and lists to any depth whose type has nullable fields and a supported leaf and whose
  elements pass the encoder's check.
\<close>

theorem scalar_value_serde:
  assumes "sv_supported v"
  shows "\<exists>p. scalar_value_into v = Ok p \<and> scalar_value_try_into p = Ok v"
  using assms by (rule scalar_serde.roundtrip)

theorem scalar_value_serde_witness:
  "\<exists>p. scalar_value_into (SV_List (Some [SV_Int8 (Some 255), SV_Int8 None]) (DT_List (MkField ''item'' DT_Int8 True))) = Ok p \<and>
     scalar_value_try_into p =
       Ok (SV_List (Some [SV_Int8 (Some 255), SV_Int8 None]) (DT_List (MkField ''item'' DT_Int8 True)))"
  by (rule scalar_value_serde) (simp add: element_check_def is_ok_def)

text \<open>
  The types of scalars survive the wire: a leaf type and a list nested to any depth come back
  with all their field names, and the two decoders of a list type agree on them.
\<close>

theorem scalar_type_roundtrip:
  assumes "sdt_ok dt"
  shows "\<exists>d. scalar_datatype_from dt = Ok d \<and> st_datatype_try_into d = Ok dt \<and>
    (case d of ST_List names leaf \<Rightarrow> scalar_list_type_try_into names leaf = Ok dt | ST_Scalar _ \<Rightarrow> True)"
proof -
  obtain d where d: "scalar_datatype_from dt = Ok d" "st_datatype_try_into d = Ok dt"
    using sdt_serde.roundtrip [OF assms] by blast
  then show ?thesis
    by (cases d) (auto simp: scalar_list_type_try_into_def result_simps split: if_splits)
qed

theorem scalar_type_roundtrip_witness:
  "\<exists>d. scalar_datatype_from (DT_List (MkField ''a'' (DT_List (MkField ''b'' DT_Utf8 True)) True)) = Ok d \<and>
    st_datatype_try_into d = Ok (DT_List (MkField ''a'' (DT_List (MkField ''b'' DT_Utf8 True)) True))"
  using scalar_type_roundtrip [of "DT_List (MkField ''a'' (DT_List (MkField ''b'' DT_Utf8 True)) True)"]
  by auto

text \<open>
  The typed conversion of list elements pairs nanosecond values with the microsecond type: a
  nanosecond value is refused under its own type and accepted under the wrong one.
\<close>

lemma nanosecond_value_mistyped:
  "is_ok (typechecked_scalar_value_conversion (V_TimeNanosecond v) PST_TimeMicrosecond)"
  "\<not> is_ok (typechecked_scalar_value_conversion (V_TimeNanosecond v) PST_TimeNanosecond)"
  by (simp_all add: typechecked_scalar_value_conversion_def is_ok_def)

text \<open>The two decoders of a scalar differ on an empty list of list type.\<close>

lemma empty_list_decoders_differ:
  "scalar_value_try_into (PbScalarValue (Some (V_List (Some (PbScalarType (Some (ST_List [''item''] 2)))) []))) =
     Ok (SV_List (Some []) (DT_List (MkField ''item'' DT_Int8 True)))"
  "value_try_into (V_List (Some (PbScalarType (Some (ST_List [''item''] 2)))) []) =
     Ok (SV_List None (DT_List (MkField ''item'' DT_Int8 True)))"
  by (simp_all add: scalar_type_try_into_def scalar_list_type_try_into_def nested_list_single pst_from_i32_def
      all_pst_def pst_as_i32.simps)

text \<open>A list type with a field that is not nullable comes back nullable.\<close>

lemma list_nullability_lost:
  "rbind (scalar_datatype_from (DT_List (MkField ''item'' DT_Int8 False))) st_datatype_try_into =
     Ok (DT_List (MkField ''item'' DT_Int8 True))"
  by (simp add: scalar_datatype_from_def list_field_names.simps nested_list_single)

end
