(* ===== verification/Expr_Serde.thy ===== *)
theory Expr_Serde
  imports Scalar_Serde
begin

text \<open>
  DataFusion logical expressions on the wire: the conversions between \<open>Expr\<close> and
  \<open>LogicalExprNode\<close> of \<open>core/src/serde/logical_plan/to_proto.rs\<close> and \<open>from_proto.rs\<close>, with the
  tables of operators and functions.  \<open>unimplemented!\<close> and indexing an empty vector are panics.  The
  parser builds a scalar function call with DataFusion's helper of that name (\<open>sqrt(e)\<close>,
  \<open>lower(e)\<close>, \dots); the helpers are the parameter \<open>mk\<close>, and \<open>unary_helpers\<close> is what they are
  documented to build.
\<close>

section \<open>Messages\<close>

datatype pb_scalar_function =
    SF_Sqrt | SF_Sin | SF_Cos | SF_Tan | SF_Asin | SF_Acos | SF_Atan | SF_Exp
  | SF_Log | SF_Log2 | SF_Log10 | SF_Floor | SF_Ceil | SF_Round | SF_Trunc | SF_Abs
  | SF_Signum | SF_Length | SF_Concat | SF_Lower | SF_Upper | SF_Trim | SF_Ltrim | SF_Rtrim
  | SF_Totimestamp | SF_Array | SF_Nullif | SF_Datetrunc | SF_Md5 | SF_Sha224 | SF_Sha256 | SF_Sha384
  | SF_Sha512

fun scalar_function_as_i32 :: "pb_scalar_function \<Rightarrow> int" where
  "scalar_function_as_i32 SF_Sqrt = 0"
| "scalar_function_as_i32 SF_Sin = 1"
| "scalar_function_as_i32 SF_Cos = 2"
| "scalar_function_as_i32 SF_Tan = 3"
| "scalar_function_as_i32 SF_Asin = 4"
| "scalar_function_as_i32 SF_Acos = 5"
| "scalar_function_as_i32 SF_Atan = 6"
| "scalar_function_as_i32 SF_Exp = 7"
| "scalar_function_as_i32 SF_Log = 8"
| "scalar_function_as_i32 SF_Log2 = 9"
| "scalar_function_as_i32 SF_Log10 = 10"
| "scalar_function_as_i32 SF_Floor = 11"
| "scalar_function_as_i32 SF_Ceil = 12"
| "scalar_function_as_i32 SF_Round = 13"
| "scalar_function_as_i32 SF_Trunc = 14"
| "scalar_function_as_i32 SF_Abs = 15"
| "scalar_function_as_i32 SF_Signum = 16"
| "scalar_function_as_i32 SF_Length = 17"
| "scalar_function_as_i32 SF_Concat = 18"
| "scalar_function_as_i32 SF_Lower = 19"
| "scalar_function_as_i32 SF_Upper = 20"
| "scalar_function_as_i32 SF_Trim = 21"
| "scalar_function_as_i32 SF_Ltrim = 22"
| "scalar_function_as_i32 SF_Rtrim = 23"
| "scalar_function_as_i32 SF_Totimestamp = 24"
| "scalar_function_as_i32 SF_Array = 25"
| "scalar_function_as_i32 SF_Nullif = 26"
| "scalar_function_as_i32 SF_Datetrunc = 27"
| "scalar_function_as_i32 SF_Md5 = 28"
| "scalar_function_as_i32 SF_Sha224 = 29"
| "scalar_function_as_i32 SF_Sha256 = 30"
| "scalar_function_as_i32 SF_Sha384 = 31"
| "scalar_function_as_i32 SF_Sha512 = 32"

definition all_scalar_functions :: "pb_scalar_function list" where
  "all_scalar_functions =
    [SF_Sqrt, SF_Sin, SF_Cos, SF_Tan, SF_Asin, SF_Acos, SF_Atan, SF_Exp,
     SF_Log, SF_Log2, SF_Log10, SF_Floor, SF_Ceil, SF_Round, SF_Trunc, SF_Abs,
     SF_Signum, SF_Length, SF_Concat, SF_Lower, SF_Upper, SF_Trim, SF_Ltrim, SF_Rtrim,
     SF_Totimestamp, SF_Array, SF_Nullif, SF_Datetrunc, SF_Md5, SF_Sha224, SF_Sha256, SF_Sha384,
     SF_Sha512]"

definition scalar_function_from_i32 :: "int \<Rightarrow> pb_scalar_function option" where
  "scalar_function_from_i32 i = List.find (\<lambda>f. scalar_function_as_i32 f = i) all_scalar_functions"

datatype pb_aggregate_function = AF_Min | AF_Max | AF_Sum | AF_Avg | AF_Count

fun aggregate_function_as_i32 :: "pb_aggregate_function \<Rightarrow> int" where
  "aggregate_function_as_i32 AF_Min = 0"
| "aggregate_function_as_i32 AF_Max = 1"
| "aggregate_function_as_i32 AF_Sum = 2"
| "aggregate_function_as_i32 AF_Avg = 3"
| "aggregate_function_as_i32 AF_Count = 4"

definition aggregate_function_from_i32 :: "int \<Rightarrow> pb_aggregate_function option" where
  "aggregate_function_from_i32 i =
     List.find (\<lambda>f. aggregate_function_as_i32 f = i) [AF_Min, AF_Max, AF_Sum, AF_Avg, AF_Count]"

datatype logical_expr_node = LEN (len_expr_type: "expr_type option")
and expr_type =
    ET_ColumnName string
  | ET_Alias "logical_expr_node option" string
  | ET_Literal pb_scalar_value
  | ET_BinaryExpr "logical_expr_node option" "logical_expr_node option" string
  | ET_AggregateExpr int "logical_expr_node option"
  | ET_IsNullExpr "logical_expr_node option"
  | ET_IsNotNullExpr "logical_expr_node option"
  | ET_NotExpr "logical_expr_node option"
  | ET_Between "logical_expr_node option" bool "logical_expr_node option" "logical_expr_node option"
  | ET_Case "logical_expr_node option" "(logical_expr_node option \<times> logical_expr_node option) list"
      "logical_expr_node option"
  | ET_Cast "logical_expr_node option" "pb_arrow_type option"
  | ET_Sort "logical_expr_node option" bool bool
  | ET_Negative "logical_expr_node option"
  | ET_InList "logical_expr_node option" "logical_expr_node list" bool
  | ET_Wildcard bool
  | ET_ScalarFunction int "logical_expr_node list"

section \<open>Encoding\<close>

fun scalar_function_into :: "builtin_scalar_function \<Rightarrow> pb_scalar_function bresult" where
  "scalar_function_into F_Sqrt = Ok SF_Sqrt"
| "scalar_function_into F_Sin = Ok SF_Sin"
| "scalar_function_into F_Cos = Ok SF_Cos"
| "scalar_function_into F_Tan = Ok SF_Tan"
| "scalar_function_into F_Asin = Ok SF_Asin"
| "scalar_function_into F_Acos = Ok SF_Acos"
| "scalar_function_into F_Atan = Ok SF_Atan"
| "scalar_function_into F_Exp = Ok SF_Exp"
| "scalar_function_into F_Log = Ok SF_Log"
| "scalar_function_into F_Log10 = Ok SF_Log10"
| "scalar_function_into F_Floor = Ok SF_Floor"
| "scalar_function_into F_Ceil = Ok SF_Ceil"
| "scalar_function_into F_Round = Ok SF_Round"
| "scalar_function_into F_Trunc = Ok SF_Trunc"
| "scalar_function_into F_Abs = Ok SF_Abs"
| "scalar_function_into F_Length = Ok SF_Length"
| "scalar_function_into F_Concat = Ok SF_Concat"
| "scalar_function_into F_Lower = Ok SF_Lower"
| "scalar_function_into F_Upper = Ok SF_Upper"
| "scalar_function_into F_Trim = Ok SF_Trim"
| "scalar_function_into F_Ltrim = Ok SF_Ltrim"
| "scalar_function_into F_Rtrim = Ok SF_Rtrim"
| "scalar_function_into F_ToTimestamp = Ok SF_Totimestamp"
| "scalar_function_into F_Array = Ok SF_Array"
| "scalar_function_into F_NullIf = Ok SF_Nullif"
| "scalar_function_into F_DateTrunc = Ok SF_Datetrunc"
| "scalar_function_into F_MD5 = Ok SF_Md5"
| "scalar_function_into F_SHA224 = Ok SF_Sha224"
| "scalar_function_into F_SHA256 = Ok SF_Sha256"
| "scalar_function_into F_SHA384 = Ok SF_Sha384"
| "scalar_function_into F_SHA512 = Ok SF_Sha512"
| "scalar_function_into f = Err (General ''logical_plan::to_proto() unsupported scalar function'')"

fun aggregate_function_into :: "aggregate_function \<Rightarrow> pb_aggregate_function" where
  "aggregate_function_into Agg_Min = AF_Min"
| "aggregate_function_into Agg_Max = AF_Max"
| "aggregate_function_into Agg_Sum = AF_Sum"
| "aggregate_function_into Agg_Avg = AF_Avg"
| "aggregate_function_into Agg_Count = AF_Count"

abbreviation ok_node :: "expr_type \<Rightarrow> logical_expr_node bresult" where
  "ok_node e \<equiv> Ok (LEN (Some e))"

lemma size_pair_list:
  assumes "x \<in> set xs"
  shows "f (fst x) < Suc (size_list (size_prod f g) xs)" "g (snd x) < Suc (size_list (size_prod f g) xs)"
proof -
  have "size_prod f g x < Suc (size_list (size_prod f g) xs)"
    using assms by (metis less_Suc_eq_le order_refl size_list_estimation')
  then show "f (fst x) < Suc (size_list (size_prod f g) xs)" "g (snd x) < Suc (size_list (size_prod f g) xs)"
    by (cases x; simp)+
qed

lemma size_elem_list: "x \<in> set xs \<Longrightarrow> f x \<le> size_list f xs"
  by (simp add: size_list_estimation')

function expr_into :: "expr \<Rightarrow> logical_expr_node bresult" where
  "expr_into (E_Column name) = ok_node (ET_ColumnName name)"
| "expr_into (E_Alias e alias) = rbind (expr_into e) (\<lambda>n. ok_node (ET_Alias (Some n) alias))"
| "expr_into (E_Literal v) = rbind (scalar_value_into v) (\<lambda>pb_value. ok_node (ET_Literal pb_value))"
| "expr_into (E_BinaryExpr l op r) =
     rbind (expr_into l) (\<lambda>l'. rbind (expr_into r) (\<lambda>r'.
       ok_node (ET_BinaryExpr (Some l') (Some r') (debug_operator op))))"
| "expr_into (E_AggregateFunction f args distnct) =
     (case args of
        [] \<Rightarrow> Panic ''index out of bounds''
      | arg # _ \<Rightarrow> rbind (expr_into arg) (\<lambda>n.
          ok_node (ET_AggregateExpr (aggregate_function_as_i32 (aggregate_function_into f)) (Some n))))"
| "expr_into (E_ScalarVariable _) = Panic ''not implemented''"
| "expr_into (E_ScalarFunction f args) =
     rbind (scalar_function_into f) (\<lambda>f'. rbind (mapM expr_into args) (\<lambda>ns.
       ok_node (ET_ScalarFunction (scalar_function_as_i32 f') ns)))"
| "expr_into (E_ScalarUDF _ _) = Panic ''not implemented''"
| "expr_into (E_AggregateUDF _ _) = Panic ''not implemented''"
| "expr_into (E_Not e) = rbind (expr_into e) (\<lambda>n. ok_node (ET_NotExpr (Some n)))"
| "expr_into (E_IsNull e) = rbind (expr_into e) (\<lambda>n. ok_node (ET_IsNullExpr (Some n)))"
| "expr_into (E_IsNotNull e) = rbind (expr_into e) (\<lambda>n. ok_node (ET_IsNotNullExpr (Some n)))"
| "expr_into (E_Between e negated low high) =
     rbind (expr_into e) (\<lambda>e'. rbind (expr_into low) (\<lambda>l. rbind (expr_into high) (\<lambda>h.
       ok_node (ET_Between (Some e') negated (Some l) (Some h)))))"
| "expr_into (E_Case e when_then else_expr) =
     rbind (mapM (\<lambda>wt. rbind (expr_into (fst wt)) (\<lambda>w. rbind (expr_into (snd wt)) (\<lambda>t. Ok (Some w, Some t)))) when_then)
       (\<lambda>wts. rbind (map_optM expr_into e) (\<lambda>e'. rbind (map_optM expr_into else_expr) (\<lambda>el.
         ok_node (ET_Case e' wts el))))"
| "expr_into (E_Cast e data_type) =
     rbind (expr_into e) (\<lambda>n. ok_node (ET_Cast (Some n) (Some (arrow_type_from data_type))))"
| "expr_into (E_Sort e asc nulls_first) = rbind (expr_into e) (\<lambda>n. ok_node (ET_Sort (Some n) asc nulls_first))"
| "expr_into (E_Negative e) = rbind (expr_into e) (\<lambda>n. ok_node (ET_Negative (Some n)))"
| "expr_into (E_InList e es negated) =
     rbind (expr_into e) (\<lambda>n. rbind (mapM expr_into es) (\<lambda>ns. ok_node (ET_InList (Some n) ns negated)))"
| "expr_into E_Wildcard = ok_node (ET_Wildcard True)"
  by pat_completeness auto
termination
  by (relation "measure size")
     (auto simp: less_Suc_eq_le size_list_estimation' dest: size_elem_list [where f = size] size_pair_list [where f = size and g = size])

section \<open>Decoding\<close>

text \<open>The macros \<open>convert_required!\<close> and \<open>convert_box_required!\<close>.\<close>

definition convert_required :: "('p \<Rightarrow> 'a bresult) \<Rightarrow> 'p option \<Rightarrow> 'a bresult" where
  "convert_required conv pb =
     (case pb of Some x \<Rightarrow> conv x | None \<Rightarrow> Err (proto_error ''Missing required field in protobuf''))"

lemma convert_required_simps [simp]:
  "convert_required f (Some x) = f x"
  "convert_required f None = Err (proto_error ''Missing required field in protobuf'')"
  by (simp_all add: convert_required_def)

lemma convert_required_cong [fundef_cong]:
  "p = q \<Longrightarrow> (\<And>x. q = Some x \<Longrightarrow> f x = g x) \<Longrightarrow> convert_required f p = convert_required g q"
  by (cases q) auto

definition from_proto_binary_op :: "string \<Rightarrow> operator bresult" where
  "from_proto_binary_op op =
     (if op = ''And'' then Ok Op_And
      else if op = ''Or'' then Ok Op_Or
      else if op = ''Eq'' then Ok Op_Eq
      else if op = ''NotEq'' then Ok Op_NotEq
      else if op = ''LtEq'' then Ok Op_LtEq
      else if op = ''Lt'' then Ok Op_Lt
      else if op = ''Gt'' then Ok Op_Gt
      else if op = ''GtEq'' then Ok Op_GtEq
      else if op = ''Plus'' then Ok Op_Plus
      else if op = ''Minus'' then Ok Op_Minus
      else if op = ''Multiply'' then Ok Op_Multiply
      else if op = ''Divide'' then Ok Op_Divide
      else if op = ''Like'' then Ok Op_Like
      else Err (proto_error (''Unsupported binary operator '' @ quoted op)))"

fun aggregate_function_from :: "pb_aggregate_function \<Rightarrow> aggregate_function" where
  "aggregate_function_from AF_Min = Agg_Min"
| "aggregate_function_from AF_Max = Agg_Max"
| "aggregate_function_from AF_Sum = Agg_Sum"
| "aggregate_function_from AF_Avg = Agg_Avg"
| "aggregate_function_from AF_Count = Agg_Count"

text \<open>The functions the parser knows, with the helper it calls.\<close>

fun parsed_function :: "pb_scalar_function \<Rightarrow> builtin_scalar_function option" where
  "parsed_function SF_Sqrt = Some F_Sqrt"
| "parsed_function SF_Sin = Some F_Sin"
| "parsed_function SF_Cos = Some F_Cos"
| "parsed_function SF_Tan = Some F_Tan"
| "parsed_function SF_Atan = Some F_Atan"
| "parsed_function SF_Exp = Some F_Exp"
| "parsed_function SF_Log2 = Some F_Log2"
| "parsed_function SF_Log10 = Some F_Log10"
| "parsed_function SF_Floor = Some F_Floor"
| "parsed_function SF_Ceil = Some F_Ceil"
| "parsed_function SF_Round = Some F_Round"
| "parsed_function SF_Trunc = Some F_Trunc"
| "parsed_function SF_Abs = Some F_Abs"
| "parsed_function SF_Signum = Some F_Signum"
| "parsed_function SF_Length = Some F_Length"
| "parsed_function SF_Lower = Some F_Lower"
| "parsed_function SF_Upper = Some F_Upper"
| "parsed_function SF_Trim = Some F_Trim"
| "parsed_function SF_Ltrim = Some F_Ltrim"
| "parsed_function SF_Rtrim = Some F_Rtrim"
| "parsed_function SF_Sha224 = Some F_SHA224"
| "parsed_function SF_Sha256 = Some F_SHA256"
| "parsed_function SF_Sha384 = Some F_SHA384"
| "parsed_function SF_Sha512 = Some F_SHA512"
| "parsed_function _ = None"

type_synonym fn_helpers = "builtin_scalar_function \<Rightarrow> expr \<Rightarrow> expr"

definition unary_helpers :: "fn_helpers \<Rightarrow> bool" where
  "unary_helpers mk \<longleftrightarrow> (\<forall>f e. mk f e = E_ScalarFunction f [e])"

text \<open>\<open>parse_required_expr\<close> and \<open>parse_optional_expr\<close>, over the parser of a node.\<close>

definition parse_required_expr :: "('n \<Rightarrow> 'e bresult) \<Rightarrow> 'n option \<Rightarrow> 'e bresult" where
  "parse_required_expr parse p =
     (case p of Some e \<Rightarrow> parse e | None \<Rightarrow> Err (proto_error ''Missing required expression''))"

definition parse_optional_expr :: "('n \<Rightarrow> 'e bresult) \<Rightarrow> 'n option \<Rightarrow> 'e option bresult" where
  "parse_optional_expr parse p =
     (case p of Some e \<Rightarrow> rbind (parse e) (\<lambda>x. Ok (Some x)) | None \<Rightarrow> Ok None)"

lemma parse_required_simps [simp]:
  "parse_required_expr f (Some e) = f e"
  "parse_required_expr f None = Err (proto_error ''Missing required expression'')"
  by (simp_all add: parse_required_expr_def)

lemma parse_optional_eq [simp]: "parse_optional_expr f p = map_optM f p"
  by (simp add: parse_optional_expr_def map_optM_def)

lemma parse_required_cong [fundef_cong]:
  "p = q \<Longrightarrow> (\<And>e. q = Some e \<Longrightarrow> f e = g e) \<Longrightarrow> parse_required_expr f p = parse_required_expr g q"
  by (cases q) auto

lemma parse_optional_cong [fundef_cong]:
  "p = q \<Longrightarrow> (\<And>e. q = Some e \<Longrightarrow> f e = g e) \<Longrightarrow> parse_optional_expr f p = parse_optional_expr g q"
  by (cases q) (auto simp: parse_optional_expr_def)

function expr_try_into :: "fn_helpers \<Rightarrow> logical_expr_node \<Rightarrow> expr bresult" where
  "expr_try_into mk (LEN None) = Err (proto_error ''Unexpected empty logical expression'')"
| "expr_try_into mk (LEN (Some (ET_BinaryExpr l r op))) =
     rbind (parse_required_expr (expr_try_into mk) l) (\<lambda>l'. rbind (from_proto_binary_op op) (\<lambda>op'.
     rbind (parse_required_expr (expr_try_into mk) r) (\<lambda>r'. Ok (E_BinaryExpr l' op' r'))))"
| "expr_try_into mk (LEN (Some (ET_ColumnName column_name))) = Ok (E_Column column_name)"
| "expr_try_into mk (LEN (Some (ET_Literal literal))) =
     rbind (scalar_value_try_into literal) (\<lambda>v. Ok (E_Literal v))"
| "expr_try_into mk (LEN (Some (ET_AggregateExpr aggr_function e))) =
     rbind (ok_or (aggregate_function_from_i32 aggr_function)
              (proto_error (''Received an unknown aggregate function: '' @ show_int aggr_function))) (\<lambda>f.
     rbind (parse_required_expr (expr_try_into mk) e) (\<lambda>arg.
       Ok (E_AggregateFunction (aggregate_function_from f) [arg] False)))"
| "expr_try_into mk (LEN (Some (ET_Alias e alias))) =
     rbind (parse_required_expr (expr_try_into mk) e) (\<lambda>e'. Ok (E_Alias e' alias))"
| "expr_try_into mk (LEN (Some (ET_IsNullExpr e))) =
     rbind (parse_required_expr (expr_try_into mk) e) (\<lambda>e'. Ok (E_IsNull e'))"
| "expr_try_into mk (LEN (Some (ET_IsNotNullExpr e))) =
     rbind (parse_required_expr (expr_try_into mk) e) (\<lambda>e'. Ok (E_IsNotNull e'))"
| "expr_try_into mk (LEN (Some (ET_NotExpr e))) =
     rbind (parse_required_expr (expr_try_into mk) e) (\<lambda>e'. Ok (E_Not e'))"
| "expr_try_into mk (LEN (Some (ET_Between e negated low high))) =
     rbind (parse_required_expr (expr_try_into mk) e) (\<lambda>e'.
     rbind (parse_required_expr (expr_try_into mk) low) (\<lambda>l.
     rbind (parse_required_expr (expr_try_into mk) high) (\<lambda>h. Ok (E_Between e' negated l h))))"
| "expr_try_into mk (LEN (Some (ET_Case e when_then else_expr))) =
     rbind (mapM (\<lambda>wt. rbind (parse_required_expr (expr_try_into mk) (fst wt)) (\<lambda>w.
                       rbind (parse_required_expr (expr_try_into mk) (snd wt)) (\<lambda>t. Ok (w, t)))) when_then) (\<lambda>wts.
     rbind (parse_optional_expr (expr_try_into mk) e) (\<lambda>e'.
     rbind (parse_optional_expr (expr_try_into mk) else_expr) (\<lambda>el. Ok (E_Case e' wts el))))"
| "expr_try_into mk (LEN (Some (ET_Cast e arrow_type))) =
     rbind (parse_required_expr (expr_try_into mk) e) (\<lambda>e'.
     rbind (ok_or arrow_type (proto_error
              (''Protobuf deserialization error: CastNode message missing required field '' @ quoted ''arrow_type''))) (\<lambda>t.
     rbind (arrow_type_try_into t) (\<lambda>dt. Ok (E_Cast e' dt))))"
| "expr_try_into mk (LEN (Some (ET_Sort e asc nulls_first))) =
     rbind (parse_required_expr (expr_try_into mk) e) (\<lambda>e'. Ok (E_Sort e' asc nulls_first))"
| "expr_try_into mk (LEN (Some (ET_Negative e))) =
     rbind (parse_required_expr (expr_try_into mk) e) (\<lambda>e'. Ok (E_Negative e'))"
| "expr_try_into mk (LEN (Some (ET_InList e es negated))) =
     rbind (parse_required_expr (expr_try_into mk) e) (\<lambda>e'.
     rbind (mapM (expr_try_into mk) es) (\<lambda>es'. Ok (E_InList e' es' negated)))"
| "expr_try_into mk (LEN (Some (ET_Wildcard _))) = Ok E_Wildcard"
| "expr_try_into mk (LEN (Some (ET_ScalarFunction f es))) =
     rbind (ok_or (scalar_function_from_i32 f)
              (proto_error (''Received an unknown scalar function: '' @ show_int f))) (\<lambda>scalar_function.
     (case parsed_function scalar_function of
        Some g \<Rightarrow>
          (case es of
             [] \<Rightarrow> Panic ''index out of bounds''
           | e # _ \<Rightarrow> rbind (expr_try_into mk e) (\<lambda>e'. Ok (mk g e')))
      | None \<Rightarrow> Err (proto_error ''Protobuf deserialization error: Unsupported scalar function'')))"
  by pat_completeness auto
termination
  by (relation "measure (\<lambda>(mk, n). size n)")
     (auto simp: less_Suc_eq_le size_list_estimation'
       dest: size_elem_list [where f = size] size_pair_list [where f = "size_option size" and g = "size_option size"])

section \<open>Round trips\<close>

lemma aggregate_function_roundtrip [simp]:
  "aggregate_function_from_i32 (aggregate_function_as_i32 f) = Some f"
  "aggregate_function_from (aggregate_function_into g) = g"
  by (cases f; simp add: aggregate_function_from_i32_def) (cases g; simp)

lemma scalar_function_from_as [simp]: "scalar_function_from_i32 (scalar_function_as_i32 f) = Some f"
  by (cases f) (simp_all add: scalar_function_from_i32_def all_scalar_functions_def)

declare scalar_function_as_i32.simps [simp del] aggregate_function_as_i32.simps [simp del]

lemma binary_op_roundtrip: "(\<forall>n. op \<noteq> Op_Other n) \<Longrightarrow> from_proto_binary_op (debug_operator op) = Ok op"
  by (cases op) (simp_all add: from_proto_binary_op_def)

text \<open>The functions that are both written and read.\<close>

definition fn_supported :: "builtin_scalar_function \<Rightarrow> bool" where
  "fn_supported f \<longleftrightarrow> (case scalar_function_into f of Ok g \<Rightarrow> parsed_function g = Some f | _ \<Rightarrow> False)"

lemma fn_supportedD: "fn_supported f \<Longrightarrow> \<exists>g. scalar_function_into f = Ok g \<and> parsed_function g = Some f"
  by (auto simp: fn_supported_def split: result.splits)

fun is_other_op :: "operator \<Rightarrow> bool" where
  "is_other_op (Op_Other _) = True"
| "is_other_op _ = False"

text \<open>The expressions that come back unchanged.\<close>

function expr_supported :: "expr \<Rightarrow> bool" where
  "expr_supported (E_Column _) = True"
| "expr_supported (E_Alias e _) = expr_supported e"
| "expr_supported (E_Literal v) = sv_supported v"
| "expr_supported (E_BinaryExpr l op r) = (expr_supported l \<and> expr_supported r \<and> \<not> is_other_op op)"
| "expr_supported (E_AggregateFunction _ args distnct) =
     (\<not> distnct \<and> length args = 1 \<and> list_all expr_supported args)"
| "expr_supported (E_ScalarVariable _) = False"
| "expr_supported (E_ScalarFunction f args) =
     (fn_supported f \<and> length args = 1 \<and> list_all expr_supported args)"
| "expr_supported (E_ScalarUDF _ _) = False"
| "expr_supported (E_AggregateUDF _ _) = False"
| "expr_supported (E_Not e) = expr_supported e"
| "expr_supported (E_IsNull e) = expr_supported e"
| "expr_supported (E_IsNotNull e) = expr_supported e"
| "expr_supported (E_Between e _ low high) = (expr_supported e \<and> expr_supported low \<and> expr_supported high)"
| "expr_supported (E_Case e wts el) =
     (pred_option expr_supported e \<and> list_all (\<lambda>wt. expr_supported (fst wt) \<and> expr_supported (snd wt)) wts \<and>
      pred_option expr_supported el)"
| "expr_supported (E_Cast e dt) = (expr_supported e \<and> dt_wire_ok dt)"
| "expr_supported (E_Sort e _ _) = expr_supported e"
| "expr_supported (E_Negative e) = expr_supported e"
| "expr_supported (E_InList e es _) = (expr_supported e \<and> list_all expr_supported es)"
| "expr_supported E_Wildcard = True"
  by pat_completeness auto
termination
  by (relation "measure size")
     (auto simp: less_Suc_eq_le size_list_estimation'
       dest: size_elem_list [where f = size] size_pair_list [where f = size and g = size])

text \<open>One expression comes back; the cases below combine these.\<close>

definition expr_rt :: "fn_helpers \<Rightarrow> expr \<Rightarrow> bool" where
  "expr_rt mk e \<longleftrightarrow> (\<exists>n. expr_into e = Ok n \<and> expr_try_into mk n = Ok e)"

lemma expr_rt_list:
  assumes "\<And>e. e \<in> set es \<Longrightarrow> expr_rt mk e"
  shows "\<exists>ns. mapM expr_into es = Ok ns \<and> mapM (expr_try_into mk) ns = Ok es"
  by (rule mapM_roundtrip) (use assms in \<open>simp add: expr_rt_def\<close>)

lemma expr_rt_option:
  assumes "\<And>x. e = Some x \<Longrightarrow> expr_rt mk x"
  shows "\<exists>p. map_optM expr_into e = Ok p \<and> map_optM (expr_try_into mk) p = Ok e"
  using assms by (cases e) (auto simp: expr_rt_def)

lemma expr_rt_when_then:
  assumes "\<And>wt. wt \<in> set wts \<Longrightarrow> expr_rt mk (fst wt) \<and> expr_rt mk (snd wt)"
  shows "\<exists>ps. mapM (\<lambda>wt. rbind (expr_into (fst wt)) (\<lambda>w. rbind (expr_into (snd wt)) (\<lambda>t. Ok (Some w, Some t)))) wts = Ok ps \<and>
    mapM (\<lambda>wt. rbind (parse_required_expr (expr_try_into mk) (fst wt)) (\<lambda>w.
            rbind (parse_required_expr (expr_try_into mk) (snd wt)) (\<lambda>t. Ok (w, t)))) ps = Ok wts"
proof (rule mapM_roundtrip)
  fix wt
  assume "wt \<in> set wts"
  then obtain n m where "expr_into (fst wt) = Ok n" "expr_try_into mk n = Ok (fst wt)"
      "expr_into (snd wt) = Ok m" "expr_try_into mk m = Ok (snd wt)"
    using assms [of wt] unfolding expr_rt_def by blast
  then show "\<exists>p. rbind (expr_into (fst wt)) (\<lambda>w. rbind (expr_into (snd wt)) (\<lambda>t. Ok (Some w, Some t))) = Ok p \<and>
      rbind (parse_required_expr (expr_try_into mk) (fst p)) (\<lambda>w.
        rbind (parse_required_expr (expr_try_into mk) (snd p)) (\<lambda>t. Ok (w, t))) = Ok wt"
    by simp
qed

lemma expr_roundtrip:
  assumes "unary_helpers mk"
  shows "expr_supported e \<Longrightarrow> expr_rt mk e"
proof (induction e rule: expr_supported.induct)
  case (3 v)
  then obtain p where "scalar_value_into v = Ok p" "scalar_value_try_into p = Ok v"
    using scalar_serde.roundtrip [of v] by auto
  then show ?case by (simp add: expr_rt_def)
next
  case (4 l op r)
  then have "from_proto_binary_op (debug_operator op) = Ok op"
    by (intro binary_op_roundtrip) (cases op; simp)
  with 4 show ?case by (auto simp: expr_rt_def)
next
  case (5 f args d)
  then obtain a where a: "args = [a]" by (auto simp: length_Suc_conv)
  from 5 a have "expr_rt mk a" by simp
  with 5 a show ?case by (auto simp: expr_rt_def)
next
  case (7 f args)
  then obtain a g where a: "args = [a]" "scalar_function_into f = Ok g" "parsed_function g = Some f"
    using fn_supportedD [of f] by (auto simp: length_Suc_conv)
  then have "expr_rt mk a" using 7 by simp
  moreover have "mk f a = E_ScalarFunction f [a]" using assms by (simp add: unary_helpers_def)
  ultimately show ?case using a by (auto simp: expr_rt_def)
next
  case (14 e wts el)
  have "\<And>wt. wt \<in> set wts \<Longrightarrow> expr_rt mk (fst wt) \<and> expr_rt mk (snd wt)"
      "\<And>x. e = Some x \<Longrightarrow> expr_rt mk x" "\<And>x. el = Some x \<Longrightarrow> expr_rt mk x"
    using 14 by (auto simp: list_all_iff)
  then show ?case
    using expr_rt_when_then [of wts mk] expr_rt_option [of e mk] expr_rt_option [of el mk]
    by (fastforce simp: expr_rt_def)
next
  case (15 e dt)
  then show ?case using dt_serde.dec_enc [of dt] by (auto simp: expr_rt_def)
next
  case (18 e es b)
  then have "\<exists>ns. mapM expr_into es = Ok ns \<and> mapM (expr_try_into mk) ns = Ok es"
    by (intro expr_rt_list) (auto simp: list_all_iff)
  with 18 show ?case by (auto simp: expr_rt_def)
qed (auto simp: expr_rt_def)

lemma expr_serde_helpers: "unary_helpers mk \<Longrightarrow> serde expr_into (expr_try_into mk) expr_supported"
  by unfold_locales (use expr_roundtrip in \<open>simp add: expr_rt_def\<close>)

definition plain_helpers :: fn_helpers where
  "plain_helpers f e = E_ScalarFunction f [e]"

lemma unary_plain_helpers: "unary_helpers plain_helpers"
  by (simp add: unary_helpers_def plain_helpers_def)

interpretation expr_serde: serde expr_into "expr_try_into plain_helpers" expr_supported
  by (rule expr_serde_helpers [OF unary_plain_helpers])

section \<open>Shared by the conversions of plans\<close>

fun join_type_as_i32 :: "join_type \<Rightarrow> int" where
  "join_type_as_i32 J_Inner = 0"
| "join_type_as_i32 J_Left = 1"
| "join_type_as_i32 J_Right = 2"

definition join_type_from_i32 :: "int \<Rightarrow> join_type option" where
  "join_type_from_i32 i = List.find (\<lambda>j. join_type_as_i32 j = i) [J_Inner, J_Left, J_Right]"

lemma join_type_roundtrip [simp]: "join_type_from_i32 (join_type_as_i32 j) = Some j"
  by (cases j) (simp_all add: join_type_from_i32_def)

declare join_type_as_i32.simps [simp del]

lemma map_u32_roundtrip: "list_all (\<lambda>n. n < 2 ^ 32) ns \<Longrightarrow> map (u32_to_usize \<circ> usize_to_u32) ns = ns"
  by (induction ns) auto

lemma of_char_delimiter: "of_char (char_of (unat d)) = (d :: u8)"
proof -
  have "unat d < 256" using unsigned_less [of d, where ?'a = nat] by simp
  then have "of_nat (of_char (char_of (unat d) :: char)) = (of_nat (unat d) :: u8)" by simp
  then show ?thesis by (simp only: of_nat_of_char of_nat_unat ucast_id)
qed

section \<open>Properties\<close>

text \<open>
  C33. Expressions survive the wire: every supported expression is encoded and decodes to itself.
  Supported are all expressions built from columns, supported literals, the thirteen operators,
  aggregates of one argument without \<open>DISTINCT\<close>, the functions that are both written and read,
  casts to types that survive, and every other constructor the encoder implements, to any depth.
\<close>

theorem expr_serde_roundtrip:
  assumes "unary_helpers mk" "expr_supported e"
  shows "\<exists>n. expr_into e = Ok n \<and> expr_try_into mk n = Ok e"
  using serde.roundtrip [OF expr_serde_helpers [OF assms(1)] assms(2)] .

theorem expr_serde_roundtrip_witness:
  "\<exists>n. expr_into (E_Case None [(E_IsNull (E_Column ''a''), E_Literal (SV_Int64 (Some 1)))]
            (Some (E_BinaryExpr (E_Column ''b'') Op_Plus (E_ScalarFunction F_Sqrt [E_Column ''c''])))) = Ok n \<and>
     expr_try_into plain_helpers n =
       Ok (E_Case None [(E_IsNull (E_Column ''a''), E_Literal (SV_Int64 (Some 1)))]
            (Some (E_BinaryExpr (E_Column ''b'') Op_Plus (E_ScalarFunction F_Sqrt [E_Column ''c'']))))"
  by (rule expr_serde_roundtrip [OF unary_plain_helpers]) (simp add: fn_supported_def)

text \<open>
  \<open>DISTINCT\<close> and further arguments of an aggregate do not survive the wire: whatever the flag
  and the arguments after the first, the decoder returns the aggregate of the first argument alone
  with \<open>distinct\<close> false.
\<close>

theorem aggregate_distinct_dropped:
  assumes "unary_helpers mk" "expr_supported a"
  shows "rbind (expr_into (E_AggregateFunction f (a # rest) distnct)) (expr_try_into mk) =
    Ok (E_AggregateFunction f [a] False)"
  using expr_roundtrip [OF assms] by (auto simp: expr_rt_def)

theorem aggregate_distinct_dropped_witness:
  "rbind (expr_into (E_AggregateFunction Agg_Count [E_Column ''a''] True)) (expr_try_into plain_helpers) =
    Ok (E_AggregateFunction Agg_Count [E_Column ''a''] False)"
  by (rule aggregate_distinct_dropped [OF unary_plain_helpers]) simp

text \<open>
  The tables of scalar functions do not match.  Nine functions are written but refused when
  read back, and the parser knows two that are never written.
\<close>

theorem scalar_function_tables:
  "{f. is_ok (scalar_function_into f) \<and> \<not> fn_supported f} =
     {F_Asin, F_Acos, F_Log, F_Concat, F_ToTimestamp, F_Array, F_NullIf, F_DateTrunc, F_MD5} \<and>
   {f. (\<exists>g. parsed_function g = Some f) \<and> \<not> is_ok (scalar_function_into f)} = {F_Log2, F_Signum}"
proof (intro conjI set_eqI iffI)
  fix f
  assume "f \<in> {f. is_ok (scalar_function_into f) \<and> \<not> fn_supported f}"
  then show "f \<in> {F_Asin, F_Acos, F_Log, F_Concat, F_ToTimestamp, F_Array, F_NullIf, F_DateTrunc, F_MD5}"
    by (cases f) (auto simp: is_ok_def fn_supported_def)
next
  fix f
  assume "f \<in> {f. (\<exists>g. parsed_function g = Some f) \<and> \<not> is_ok (scalar_function_into f)}"
  then obtain g where "parsed_function g = Some f" "\<not> is_ok (scalar_function_into f)" by auto
  then show "f \<in> {F_Log2, F_Signum}" by (cases g) (auto simp: is_ok_def)
next
  fix f
  assume "f \<in> {F_Log2, F_Signum}"
  then show "f \<in> {f. (\<exists>g. parsed_function g = Some f) \<and> \<not> is_ok (scalar_function_into f)}"
    by (auto simp: is_ok_def intro: exI [of _ SF_Log2] exI [of _ SF_Signum])
qed (auto simp: is_ok_def fn_supported_def)

end
