(* ===== verification/Physical_Serde.thy ===== *)
theory Physical_Serde
  imports Expr_Serde Exec_Plans
begin

text \<open>
  Physical plans on the wire: \<open>core/src/serde/physical_plan/to_proto.rs\<close> and \<open>from_proto.rs\<close>.  A
  physical expression travels as the node of a logical one and is compiled again by DataFusion's
  planner when it is read; an operator is rebuilt with DataFusion's constructor.  The planner, the
  constructors that can fail and \<open>BuiltinScalarFunction::from_str\<close> are the parameters \<open>df_builders\<close>.
  An infallible constructor is the constructor of \<open>exec_plan\<close>.
\<close>

section \<open>Messages\<close>

record csv_scan_node =
  csn_path :: string
  csn_projection :: "u32 list"
  csn_schema :: "pb_schema option"
  csn_file_extension :: string
  csn_has_header :: bool
  csn_batch_size :: u32
  csn_delimiter :: string
  csn_filename :: "string list"

record parquet_scan_node =
  psn_filename :: "string list"
  psn_projection :: "u32 list"
  psn_num_partitions :: u32
  psn_batch_size :: u32

datatype physical_plan_node = PPN (ppn_type: "physical_plan_type option")
and physical_plan_type =
    PPT_ParquetScan parquet_scan_node
  | PPT_CsvScan csv_scan_node
  | PPT_Empty bool "pb_schema option"
  | PPT_Projection "physical_plan_node option" "logical_expr_node list" "string list"
  | PPT_GlobalLimit "physical_plan_node option" u32
  | PPT_LocalLimit "physical_plan_node option" u32
  | PPT_HashAggregate "logical_expr_node list" "string list" "logical_expr_node list" "string list" int
      "physical_plan_node option" "pb_schema option"
  | PPT_HashJoin "physical_plan_node option" "physical_plan_node option" "(string \<times> string) list" int
  | PPT_ShuffleReader "pb_partition_location list" "pb_schema option"
  | PPT_Sort "physical_plan_node option" "logical_expr_node list"
  | PPT_CoalesceBatches "physical_plan_node option" u32
  | PPT_Filter "physical_plan_node option" "logical_expr_node option"
  | PPT_Merge "physical_plan_node option"
  | PPT_Unresolved "u32 list" "pb_schema option" u32

fun aggregate_mode_as_i32 :: "aggregate_mode \<Rightarrow> int" where
  "aggregate_mode_as_i32 Partial = 0"
| "aggregate_mode_as_i32 Final = 1"

definition aggregate_mode_from_i32 :: "int \<Rightarrow> aggregate_mode option" where
  "aggregate_mode_from_i32 i = List.find (\<lambda>m. aggregate_mode_as_i32 m = i) [Partial, Final]"

section \<open>What DataFusion provides\<close>

record df_builders =
  db_from_str :: "string \<Rightarrow> builtin_scalar_function bresult"
  db_helpers :: fn_helpers
  db_create_physical_expr :: "expr \<Rightarrow> schema \<Rightarrow> (physical_expr, string) result"
  db_create_aggregate_expr ::
    "aggregate_function \<Rightarrow> bool \<Rightarrow> physical_expr list \<Rightarrow> schema \<Rightarrow> string \<Rightarrow> agg_expr bresult"
  db_projection :: "(physical_expr \<times> string) list \<Rightarrow> exec_plan \<Rightarrow> exec_plan bresult"
  db_filter :: "physical_expr \<Rightarrow> exec_plan \<Rightarrow> exec_plan bresult"
  db_csv :: "string \<Rightarrow> bool \<Rightarrow> string \<Rightarrow> u8 \<Rightarrow> schema \<Rightarrow> nat list option \<Rightarrow> nat \<Rightarrow> exec_plan bresult"
  db_parquet :: "string list \<Rightarrow> nat list option \<Rightarrow> nat \<Rightarrow> nat \<Rightarrow> exec_plan bresult"
  db_hash_aggregate ::
    "aggregate_mode \<Rightarrow> (physical_expr \<times> string) list \<Rightarrow> agg_expr list \<Rightarrow> exec_plan \<Rightarrow> schema \<Rightarrow> exec_plan bresult"
  db_hash_join :: "exec_plan \<Rightarrow> exec_plan \<Rightarrow> (string \<times> string) list \<Rightarrow> join_type \<Rightarrow> exec_plan bresult"
  db_sort :: "sort_expr list \<Rightarrow> exec_plan \<Rightarrow> exec_plan bresult"

section \<open>Encoding\<close>

text \<open>\<open>try_parse_when_then_expr\<close>, over the encoder of an expression.\<close>

definition try_parse_when_then_expr ::
  "('p \<Rightarrow> 'n bresult) \<Rightarrow> 'p \<Rightarrow> 'p \<Rightarrow> ('n option \<times> 'n option) bresult" where
  "try_parse_when_then_expr into when_expr then_expr =
     rbind (into when_expr) (\<lambda>w. rbind (into then_expr) (\<lambda>t. Ok (Some w, Some t)))"

lemma try_parse_when_then_cong [fundef_cong]:
  "w = w' \<Longrightarrow> t = t' \<Longrightarrow> f w' = g w' \<Longrightarrow> f t' = g t' \<Longrightarrow>
     try_parse_when_then_expr f w t = try_parse_when_then_expr g w' t'"
  by (simp add: try_parse_when_then_expr_def)

function physical_expr_into :: "df_builders \<Rightarrow> physical_expr \<Rightarrow> logical_expr_node bresult" where
  "physical_expr_into b (PE_Column name) = ok_node (ET_ColumnName name)"
| "physical_expr_into b (PE_BinaryExpr l op r) =
     rbind (physical_expr_into b l) (\<lambda>l'. rbind (physical_expr_into b r) (\<lambda>r'.
       ok_node (ET_BinaryExpr (Some l') (Some r') (debug_operator op))))"
| "physical_expr_into b (PE_CaseExpr e wts el) =
     rbind (map_optM (physical_expr_into b) e) (\<lambda>e'.
     rbind (mapM (\<lambda>wt. try_parse_when_then_expr (physical_expr_into b) (fst wt) (snd wt)) wts) (\<lambda>wts'.
     rbind (map_optM (physical_expr_into b) el) (\<lambda>el'. ok_node (ET_Case e' wts' el'))))"
| "physical_expr_into b (PE_NotExpr e) = rbind (physical_expr_into b e) (\<lambda>n. ok_node (ET_NotExpr (Some n)))"
| "physical_expr_into b (PE_IsNullExpr e) = rbind (physical_expr_into b e) (\<lambda>n. ok_node (ET_IsNullExpr (Some n)))"
| "physical_expr_into b (PE_IsNotNullExpr e) =
     rbind (physical_expr_into b e) (\<lambda>n. ok_node (ET_IsNotNullExpr (Some n)))"
| "physical_expr_into b (PE_InListExpr e es negated) =
     rbind (physical_expr_into b e) (\<lambda>n. rbind (mapM (physical_expr_into b) es) (\<lambda>ns.
       ok_node (ET_InList (Some n) ns negated)))"
| "physical_expr_into b (PE_NegativeExpr e) = rbind (physical_expr_into b e) (\<lambda>n. ok_node (ET_Negative (Some n)))"
| "physical_expr_into b (PE_Literal v) = rbind (scalar_value_into v) (\<lambda>p. ok_node (ET_Literal p))"
| "physical_expr_into b (PE_CastExpr e cast_type) =
     rbind (physical_expr_into b e) (\<lambda>n. ok_node (ET_Cast (Some n) (Some (arrow_type_from cast_type))))"
| "physical_expr_into b (PE_ScalarFunctionExpr name args) =
     rbind (db_from_str b name) (\<lambda>f. rbind (scalar_function_into f) (\<lambda>f'.
     rbind (mapM (physical_expr_into b) args) (\<lambda>ns.
       ok_node (ET_ScalarFunction (scalar_function_as_i32 f') ns))))"
| "physical_expr_into b (PE_Other _) = Err (General ''physical_plan::to_proto() unsupported expression'')"
  by pat_completeness auto
termination
  by (relation "measure (\<lambda>(b, e). size e)")
     (auto simp: less_Suc_eq_le size_list_estimation'
       dest: size_elem_list [where f = size] size_pair_list [where f = size and g = size])

fun agg_function_of :: "agg_kind \<Rightarrow> pb_aggregate_function bresult" where
  "agg_function_of AK_Avg = Ok AF_Avg"
| "agg_function_of AK_Sum = Ok AF_Sum"
| "agg_function_of AK_Count = Ok AF_Count"
| "agg_function_of (AK_Other _) = Err (NotImplemented ''Aggregate function not supported'')"

definition agg_expr_into :: "df_builders \<Rightarrow> agg_expr \<Rightarrow> logical_expr_node bresult" where
  "agg_expr_into b a =
     rbind (agg_function_of (ae_kind a)) (\<lambda>aggr_function.
     rbind (mapM (physical_expr_into b) (ae_expressions a)) (\<lambda>expressions.
     rbind (index_vec expressions 0) (\<lambda>e.
       ok_node (ET_AggregateExpr (aggregate_function_as_i32 aggr_function) (Some e)))))"

definition sort_expr_into :: "df_builders \<Rightarrow> sort_expr \<Rightarrow> logical_expr_node bresult" where
  "sort_expr_into b s =
     rbind (physical_expr_into b (se_expr s)) (\<lambda>n.
       ok_node (ET_Sort (Some n) (\<not> se_descending s) (se_nulls_first s)))"

abbreviation ok_plan :: "physical_plan_type \<Rightarrow> physical_plan_node bresult" where
  "ok_plan t \<equiv> Ok (PPN (Some t))"

definition csv_exec_into :: "csv_exec \<Rightarrow> physical_plan_node bresult" where
  "csv_exec_into c =
     rbind (ok_or (cx_delimiter c) (General ''Delimeter is not set for CsvExec'')) (\<lambda>d.
     rbind (if unat d < 128 then Ok [char_of (unat d)] else Err (General ''Invalid CSV delimiter'')) (\<lambda>delimiter.
     rbind (ok_or (cx_projection c) (General ''projection in CsvExec dosn not exist.'')) (\<lambda>projection.
       ok_plan (PPT_CsvScan \<lparr>csn_path = cx_path c, csn_projection = map usize_to_u32 projection,
         csn_schema = Some (schema_into (cx_file_schema c)), csn_file_extension = cx_file_extension c,
         csn_has_header = cx_has_header c, csn_batch_size = 32768, csn_delimiter = delimiter,
         csn_filename = cx_filenames c\<rparr>))))"

definition parquet_exec_into :: "parquet_exec \<Rightarrow> physical_plan_node bresult" where
  "parquet_exec_into x =
     ok_plan (PPT_ParquetScan \<lparr>psn_filename = concat (px_partitions x),
       psn_projection = map usize_to_u32 (px_projection x),
       psn_num_partitions = usize_to_u32 (length (px_partitions x)),
       psn_batch_size = usize_to_u32 (px_batch_size x)\<rparr>)"

text \<open>The node of an aggregate, around the node of its input.\<close>

definition hash_aggregate_into ::
  "df_builders \<Rightarrow> aggregate_mode \<Rightarrow> (physical_expr \<times> string) list \<Rightarrow> agg_expr list \<Rightarrow> schema
    \<Rightarrow> physical_plan_node bresult \<Rightarrow> physical_plan_node bresult" where
  "hash_aggregate_into b mode group_expr aggr_expr input_schema input =
     rbind (mapM (\<lambda>e. physical_expr_into b (fst e)) group_expr) (\<lambda>groups.
     rbind (mapM (agg_expr_into b) aggr_expr) (\<lambda>agg.
     rbind (mapM ae_field aggr_expr) (\<lambda>agg_names.
     rbind input (\<lambda>n.
       ok_plan (PPT_HashAggregate groups (map snd group_expr) agg agg_names (aggregate_mode_as_i32 mode)
         (Some n) (Some (schema_into input_schema)))))))"

fun plan_into :: "df_builders \<Rightarrow> exec_plan \<Rightarrow> physical_plan_node bresult" where
  "plan_into b (ProjectionExec exprs input) =
     rbind (plan_into b input) (\<lambda>n.
     rbind (mapM (\<lambda>e. physical_expr_into b (fst e)) exprs) (\<lambda>es.
       ok_plan (PPT_Projection (Some n) es (map snd exprs))))"
| "plan_into b (FilterExec predicate input) =
     rbind (plan_into b input) (\<lambda>n. rbind (physical_expr_into b predicate) (\<lambda>e.
       ok_plan (PPT_Filter (Some n) (Some e))))"
| "plan_into b (GlobalLimitExec input limit) =
     rbind (plan_into b input) (\<lambda>n. ok_plan (PPT_GlobalLimit (Some n) (usize_to_u32 limit)))"
| "plan_into b (LocalLimitExec input limit) =
     rbind (plan_into b input) (\<lambda>n. ok_plan (PPT_LocalLimit (Some n) (usize_to_u32 limit)))"
| "plan_into b (HashJoinExec left right on join_type) =
     rbind (plan_into b left) (\<lambda>l. rbind (plan_into b right) (\<lambda>r.
       ok_plan (PPT_HashJoin (Some l) (Some r) on (join_type_as_i32 join_type))))"
| "plan_into b (HashAggregateExec mode group_expr aggr_expr input input_schema) =
     hash_aggregate_into b mode group_expr aggr_expr input_schema (plan_into b input)"
| "plan_into b (EmptyExec produce_one_row sch) = ok_plan (PPT_Empty produce_one_row (Some (schema_into sch)))"
| "plan_into b (CoalesceBatchesExec input target_batch_size) =
     rbind (plan_into b input) (\<lambda>n. ok_plan (PPT_CoalesceBatches (Some n) (usize_to_u32 target_batch_size)))"
| "plan_into b (CsvExec c) = csv_exec_into c"
| "plan_into b (ParquetExec x) = parquet_exec_into x"
| "plan_into b (ShuffleReaderExec partition_location sch) =
     rbind (mapM partition_location_to_pb partition_location) (\<lambda>ls.
       ok_plan (PPT_ShuffleReader ls (Some (schema_into sch))))"
| "plan_into b (MergeExec input) = rbind (plan_into b input) (\<lambda>n. ok_plan (PPT_Merge (Some n)))"
| "plan_into b (SortExec exprs input) =
     rbind (plan_into b input) (\<lambda>n. rbind (mapM (sort_expr_into b) exprs) (\<lambda>es.
       ok_plan (PPT_Sort (Some n) es)))"
| "plan_into b (UnresolvedShuffleExec query_stage_ids sch pcount) =
     ok_plan (PPT_Unresolved (map usize_to_u32 query_stage_ids) (Some (schema_into sch)) (usize_to_u32 pcount))"
| "plan_into b _ = Err (General ''physical plan to_proto unsupported plan'')"

section \<open>Decoding\<close>

definition compile_expr :: "df_builders \<Rightarrow> logical_expr_node \<Rightarrow> schema \<Rightarrow> physical_expr bresult" where
  "compile_expr b n sch =
     rbind (expr_try_into (db_helpers b) n) (\<lambda>e. map_err General (db_create_physical_expr b e sch))"

text \<open>The zip of expressions and names that projections and aggregates share.\<close>

definition compile_named ::
  "df_builders \<Rightarrow> logical_expr_node list \<Rightarrow> string list \<Rightarrow> schema \<Rightarrow> (physical_expr \<times> string) list bresult" where
  "compile_named b ns names sch =
     mapM (\<lambda>(n, name). rbind (compile_expr b n sch) (\<lambda>e. Ok (e, name))) (zip ns names)"

definition csv_scan_from :: "df_builders \<Rightarrow> csv_scan_node \<Rightarrow> exec_plan bresult" where
  "csv_scan_from b scan =
     rbind (convert_required schema_try_into (csn_schema scan)) (\<lambda>sch.
     rbind (index_vec (csn_delimiter scan) 0) (\<lambda>d.
       db_csv b (csn_path scan) (csn_has_header scan) (csn_file_extension scan) (of_char d) sch
         (Some (map u32_to_usize (csn_projection scan))) 32768))"

definition parquet_scan_from :: "df_builders \<Rightarrow> parquet_scan_node \<Rightarrow> exec_plan bresult" where
  "parquet_scan_from b scan =
     db_parquet b (psn_filename scan) (Some (map u32_to_usize (psn_projection scan)))
       (u32_to_usize (psn_batch_size scan)) (u32_to_usize (psn_num_partitions scan))"

text \<open>One aggregate: only an aggregate function is accepted, and it is built without \<open>DISTINCT\<close>.\<close>

definition physical_aggr_expr :: "df_builders \<Rightarrow> schema \<Rightarrow> expr \<times> string \<Rightarrow> agg_expr bresult" where
  "physical_aggr_expr b sch en =
     (case fst en of
        E_AggregateFunction f args _ \<Rightarrow>
          rbind (index_vec args 0) (\<lambda>a.
          rbind (map_err General (db_create_physical_expr b a sch)) (\<lambda>arg.
            db_create_aggregate_expr b f False [arg] sch (snd en)))
      | _ \<Rightarrow> Err (General ''Invalid expression for HashAggregateExec''))"

definition hash_aggregate_from ::
  "df_ops \<Rightarrow> df_builders \<Rightarrow> exec_plan \<Rightarrow> logical_expr_node list \<Rightarrow> string list \<Rightarrow> logical_expr_node list
    \<Rightarrow> string list \<Rightarrow> int \<Rightarrow> pb_schema option \<Rightarrow> exec_plan bresult" where
  "hash_aggregate_from df b input group_expr group_names aggr_expr aggr_names mode input_schema =
     rbind (ok_or (aggregate_mode_from_i32 mode)
              (proto_error (''Received a HashAggregateNode message with unknown AggregateMode '' @ show_int mode))) (\<lambda>agg_mode.
     rbind (compile_named b group_expr group_names (plan_schema df input)) (\<lambda>group.
     rbind (mapM (\<lambda>(n, name). rbind (expr_try_into (db_helpers b) n) (\<lambda>e. Ok (e, name))) (zip aggr_expr aggr_names))
       (\<lambda>logical_agg_expr.
     rbind (ok_or input_schema (General ''input_schema in HashAggregateNode is missing.'')) (\<lambda>input_schema.
     rbind (schema_try_into input_schema) (\<lambda>physical_schema.
     rbind (mapM (physical_aggr_expr b physical_schema) logical_agg_expr) (\<lambda>aggrs.
       db_hash_aggregate b agg_mode group aggrs input physical_schema))))))"

definition sort_expr_from :: "df_ops \<Rightarrow> df_builders \<Rightarrow> exec_plan \<Rightarrow> logical_expr_node \<Rightarrow> sort_expr bresult" where
  "sort_expr_from df b input n =
     rbind (ok_or (len_expr_type n) (proto_error ''physical_plan::from_proto() Unexpected expr'')) (\<lambda>t.
       case t of
         ET_Sort e asc nulls_first \<Rightarrow>
           rbind (ok_or e (proto_error ''physical_plan::from_proto() Unexpected sort expr'')) (\<lambda>e.
           rbind (compile_expr b e (plan_schema df input)) (\<lambda>pe.
             Ok (MkSortExpr pe (\<not> asc) nulls_first)))
       | _ \<Rightarrow> Err (General ''physical_plan::from_proto()''))"

function plan_try_into :: "df_ops \<Rightarrow> df_builders \<Rightarrow> physical_plan_node \<Rightarrow> exec_plan bresult" where
  "plan_try_into df b (PPN None) = Err (proto_error ''physical_plan::from_proto() Unsupported physical plan'')"
| "plan_try_into df b (PPN (Some (PPT_Projection input exprs names))) =
     rbind (convert_required (plan_try_into df b) input) (\<lambda>i.
     rbind (compile_named b exprs names (plan_schema df i)) (\<lambda>es. db_projection b es i))"
| "plan_try_into df b (PPN (Some (PPT_Filter input e))) =
     rbind (convert_required (plan_try_into df b) input) (\<lambda>i.
     rbind (ok_or e (General ''filter (FilterExecNode) in PhysicalPlanNode is missing.'')) (\<lambda>e.
     rbind (compile_expr b e (plan_schema df i)) (\<lambda>predicate. db_filter b predicate i)))"
| "plan_try_into df b (PPN (Some (PPT_CsvScan scan))) = csv_scan_from b scan"
| "plan_try_into df b (PPN (Some (PPT_ParquetScan scan))) = parquet_scan_from b scan"
| "plan_try_into df b (PPN (Some (PPT_CoalesceBatches input target_batch_size))) =
     rbind (convert_required (plan_try_into df b) input) (\<lambda>i.
       Ok (CoalesceBatchesExec i (u32_to_usize target_batch_size)))"
| "plan_try_into df b (PPN (Some (PPT_Merge input))) =
     rbind (convert_required (plan_try_into df b) input) (\<lambda>i. Ok (MergeExec i))"
| "plan_try_into df b (PPN (Some (PPT_GlobalLimit input limit))) =
     rbind (convert_required (plan_try_into df b) input) (\<lambda>i. Ok (GlobalLimitExec i (u32_to_usize limit)))"
| "plan_try_into df b (PPN (Some (PPT_LocalLimit input limit))) =
     rbind (convert_required (plan_try_into df b) input) (\<lambda>i. Ok (LocalLimitExec i (u32_to_usize limit)))"
| "plan_try_into df b (PPN (Some (PPT_HashAggregate gs gns as ans mode input sch))) =
     rbind (convert_required (plan_try_into df b) input) (\<lambda>i. hash_aggregate_from df b i gs gns as ans mode sch)"
| "plan_try_into df b (PPN (Some (PPT_HashJoin left right on jt))) =
     rbind (convert_required (plan_try_into df b) left) (\<lambda>l.
     rbind (convert_required (plan_try_into df b) right) (\<lambda>r.
     rbind (ok_or (join_type_from_i32 jt)
              (proto_error (''Received a HashJoinNode message with unknown JoinType '' @ show_int jt))) (\<lambda>j.
       db_hash_join b l r on j)))"
| "plan_try_into df b (PPN (Some (PPT_ShuffleReader locs sch))) =
     rbind (convert_required schema_try_into sch) (\<lambda>s.
     rbind (mapM partition_location_from_pb locs) (\<lambda>ls. ShuffleReaderExec_try_new ls s))"
| "plan_try_into df b (PPN (Some (PPT_Empty produce_one_row sch))) =
     rbind (convert_required schema_try_into sch) (\<lambda>s. Ok (EmptyExec produce_one_row s))"
| "plan_try_into df b (PPN (Some (PPT_Sort input exprs))) =
     rbind (convert_required (plan_try_into df b) input) (\<lambda>i.
     rbind (mapM (sort_expr_from df b i) exprs) (\<lambda>es. db_sort b es i))"
| "plan_try_into df b (PPN (Some (PPT_Unresolved ids sch pcount))) =
     rbind (convert_required schema_try_into sch) (\<lambda>s.
       Ok (UnresolvedShuffleExec (map u32_to_usize ids) s (u32_to_usize pcount)))"
  by pat_completeness auto
termination by (relation "measure (\<lambda>(df, b, n). size n)") auto

section \<open>Physical expressions\<close>

text \<open>The logical expression a physical expression is written as.\<close>

function logical_of :: "df_builders \<Rightarrow> physical_expr \<Rightarrow> expr" where
  "logical_of b (PE_Column name) = E_Column name"
| "logical_of b (PE_BinaryExpr l op r) = E_BinaryExpr (logical_of b l) op (logical_of b r)"
| "logical_of b (PE_CaseExpr e wts el) =
     E_Case (map_option (logical_of b) e) (map (\<lambda>wt. (logical_of b (fst wt), logical_of b (snd wt))) wts)
       (map_option (logical_of b) el)"
| "logical_of b (PE_NotExpr e) = E_Not (logical_of b e)"
| "logical_of b (PE_IsNullExpr e) = E_IsNull (logical_of b e)"
| "logical_of b (PE_IsNotNullExpr e) = E_IsNotNull (logical_of b e)"
| "logical_of b (PE_InListExpr e es negated) = E_InList (logical_of b e) (map (logical_of b) es) negated"
| "logical_of b (PE_NegativeExpr e) = E_Negative (logical_of b e)"
| "logical_of b (PE_Literal v) = E_Literal v"
| "logical_of b (PE_CastExpr e dt) = E_Cast (logical_of b e) dt"
| "logical_of b (PE_ScalarFunctionExpr name args) =
     (case db_from_str b name of
        Ok f \<Rightarrow> E_ScalarFunction f (map (logical_of b) args)
      | _ \<Rightarrow> E_ScalarVariable [name])"
| "logical_of b (PE_Other name) = E_ScalarVariable [name]"
  by pat_completeness auto
termination
  by (relation "measure (\<lambda>(b, e). size e)")
     (auto simp: less_Suc_eq_le size_list_estimation' option.set_map
       dest: size_elem_list [where f = size] size_pair_list [where f = size and g = size]
       elim!: option.set_cases)

lemma mapM_mono:
  "mapM f xs = Ok ys \<Longrightarrow> (\<And>x y. x \<in> set xs \<Longrightarrow> f x = Ok y \<Longrightarrow> g x = Ok y) \<Longrightarrow> mapM g xs = Ok ys"
  by (auto simp: mapM_eq_Ok list_all2_conv_all_nth)

lemma physical_expr_into_logical:
  "expr_into (logical_of b pe) = Ok n \<Longrightarrow> physical_expr_into b pe = Ok n"
proof (induction pe arbitrary: n rule: logical_of.induct)
  case (3 b e wts el)
  from "3.prems" obtain e' wts' el' where
    e: "map_optM expr_into (map_option (logical_of b) e) = Ok e'" and
    el: "map_optM expr_into (map_option (logical_of b) el) = Ok el'" and
    wts: "mapM (\<lambda>wt. rbind (expr_into (logical_of b (fst wt))) (\<lambda>w.
            rbind (expr_into (logical_of b (snd wt))) (\<lambda>t. Ok (Some w, Some t)))) wts = Ok wts'" and
    n: "n = LEN (Some (ET_Case e' wts' el'))"
    by (auto simp: result_simps)
  have "map_optM (physical_expr_into b) e = Ok e'" "map_optM (physical_expr_into b) el = Ok el'"
    using e el "3.IH" by (cases e; cases el; fastforce simp: result_simps)+
  moreover have "mapM (\<lambda>wt. try_parse_when_then_expr (physical_expr_into b) (fst wt) (snd wt)) wts = Ok wts'"
    by (rule mapM_mono [OF wts]) (use "3.IH" in \<open>auto simp: try_parse_when_then_expr_def result_simps\<close>)
  ultimately show ?case by (simp add: n)
next
  case (7 b e es negated)
  then obtain e' ns where e: "expr_into (logical_of b e) = Ok e'"
      and es: "mapM (\<lambda>x. expr_into (logical_of b x)) es = Ok ns"
      and n: "n = LEN (Some (ET_InList (Some e') ns negated))"
    by (auto simp: rbind_eq_Ok)
  have "mapM (physical_expr_into b) es = Ok ns"
    by (rule mapM_mono [OF es]) (use "7.IH" in auto)
  with e n "7.IH" show ?case by auto
next
  case (11 b name args)
  then obtain f g ns where f: "db_from_str b name = Ok f" "scalar_function_into f = Ok g"
      and ns: "mapM (\<lambda>x. expr_into (logical_of b x)) args = Ok ns"
      and n: "n = LEN (Some (ET_ScalarFunction (scalar_function_as_i32 g) ns))"
    by (auto simp: rbind_eq_Ok split: result.splits)
  have "mapM (physical_expr_into b) args = Ok ns"
    by (rule mapM_mono [OF ns]) (use "11.IH" f in auto)
  with f n show ?case by simp
qed (auto simp: result_simps)

text \<open>An expression that is compiled back to itself over a schema.\<close>

definition pe_ok :: "df_builders \<Rightarrow> schema \<Rightarrow> physical_expr \<Rightarrow> bool" where
  "pe_ok b sch pe \<longleftrightarrow>
     expr_supported (logical_of b pe) \<and> db_create_physical_expr b (logical_of b pe) sch = Ok pe"

lemma pe_roundtrip:
  assumes "unary_helpers (db_helpers b)" "pe_ok b sch pe"
  shows "\<exists>n. physical_expr_into b pe = Ok n \<and> compile_expr b n sch = Ok pe"
proof -
  obtain n where "expr_into (logical_of b pe) = Ok n" "expr_try_into (db_helpers b) n = Ok (logical_of b pe)"
    using expr_roundtrip [OF assms(1)] assms(2) by (auto simp: pe_ok_def expr_rt_def)
  with physical_expr_into_logical assms(2) show ?thesis
    by (auto simp: compile_expr_def pe_ok_def)
qed

lemma named_roundtrip:
  assumes "unary_helpers (db_helpers b)" "list_all (\<lambda>e. pe_ok b sch (fst e)) es"
  shows "\<exists>ns. mapM (\<lambda>e. physical_expr_into b (fst e)) es = Ok ns \<and> compile_named b ns (map snd es) sch = Ok es"
  using assms(2)
proof (induction es)
  case Nil
  then show ?case by (simp add: compile_named_def)
next
  case (Cons e es)
  then obtain ns where "mapM (\<lambda>e. physical_expr_into b (fst e)) es = Ok ns"
      "compile_named b ns (map snd es) sch = Ok es" by auto
  moreover obtain n where "physical_expr_into b (fst e) = Ok n" "compile_expr b n sch = Ok (fst e)"
    using pe_roundtrip [OF assms(1)] Cons.prems by auto
  ultimately show ?case by (auto simp: compile_named_def)
qed

section \<open>Plans\<close>

lemma aggregate_mode_roundtrip [simp]: "aggregate_mode_from_i32 (aggregate_mode_as_i32 m) = Some m"
  by (cases m) (simp_all add: aggregate_mode_from_i32_def)

declare aggregate_mode_as_i32.simps [simp del]

text \<open>An aggregate that is built back to itself.\<close>

definition agg_ok :: "df_builders \<Rightarrow> schema \<Rightarrow> agg_expr \<Rightarrow> bool" where
  "agg_ok b sch a \<longleftrightarrow>
     (case (agg_function_of (ae_kind a), ae_expressions a, ae_field a) of
        (Ok f, [e], Ok name) \<Rightarrow>
          pe_ok b sch e \<and> db_create_aggregate_expr b (aggregate_function_from f) False [e] sch name = Ok a
      | _ \<Rightarrow> False)"

text \<open>
  A plan that survives the wire: numbers fit 32 bits, schemas come back, and DataFusion's
  constructors, given the parts of an operator, build that operator again.
\<close>

definition csv_ok :: "df_builders \<Rightarrow> csv_exec \<Rightarrow> bool" where
  "csv_ok b c \<longleftrightarrow>
     (case (cx_delimiter c, cx_projection c) of
        (Some d, Some projection) \<Rightarrow>
          unat d < 128 \<and> list_all (\<lambda>n. n < 2 ^ 32) projection \<and> schema_wire_ok (cx_file_schema c) \<and>
          db_csv b (cx_path c) (cx_has_header c) (cx_file_extension c) d (cx_file_schema c) (Some projection) 32768 =
            Ok (CsvExec c)
      | _ \<Rightarrow> False)"

definition parquet_ok :: "df_builders \<Rightarrow> parquet_exec \<Rightarrow> bool" where
  "parquet_ok b x \<longleftrightarrow>
     list_all (\<lambda>n. n < 2 ^ 32) (px_projection x) \<and> px_batch_size x < 2 ^ 32 \<and> length (px_partitions x) < 2 ^ 32 \<and>
     db_parquet b (concat (px_partitions x)) (Some (px_projection x)) (px_batch_size x) (length (px_partitions x)) =
       Ok (ParquetExec x)"

fun plan_ok :: "df_ops \<Rightarrow> df_builders \<Rightarrow> exec_plan \<Rightarrow> bool" where
  "plan_ok df b (ProjectionExec es i) =
     (plan_ok df b i \<and> list_all (\<lambda>e. pe_ok b (plan_schema df i) (fst e)) es \<and>
      db_projection b es i = Ok (ProjectionExec es i))"
| "plan_ok df b (FilterExec e i) =
     (plan_ok df b i \<and> pe_ok b (plan_schema df i) e \<and> db_filter b e i = Ok (FilterExec e i))"
| "plan_ok df b (GlobalLimitExec i n) = (plan_ok df b i \<and> n < 2 ^ 32)"
| "plan_ok df b (LocalLimitExec i n) = (plan_ok df b i \<and> n < 2 ^ 32)"
| "plan_ok df b (HashJoinExec l r on j) =
     (plan_ok df b l \<and> plan_ok df b r \<and> db_hash_join b l r on j = Ok (HashJoinExec l r on j))"
| "plan_ok df b (HashAggregateExec m g a i s) =
     (plan_ok df b i \<and> list_all (\<lambda>e. pe_ok b (plan_schema df i) (fst e)) g \<and> list_all (agg_ok b s) a \<and>
      schema_wire_ok s \<and> db_hash_aggregate b m g a i s = Ok (HashAggregateExec m g a i s))"
| "plan_ok df b (EmptyExec one s) = schema_wire_ok s"
| "plan_ok df b (CoalesceBatchesExec i n) = (plan_ok df b i \<and> n < 2 ^ 32)"
| "plan_ok df b (CsvExec c) = csv_ok b c"
| "plan_ok df b (ParquetExec x) = parquet_ok b x"
| "plan_ok df b (ShuffleReaderExec ls s) = (list_all location_fits ls \<and> schema_wire_ok s)"
| "plan_ok df b (MergeExec i) = plan_ok df b i"
| "plan_ok df b (SortExec es i) =
     (plan_ok df b i \<and> list_all (\<lambda>e. pe_ok b (plan_schema df i) (se_expr e)) es \<and> db_sort b es i = Ok (SortExec es i))"
| "plan_ok df b (UnresolvedShuffleExec ids s n) = (list_all (\<lambda>i. i < 2 ^ 32) ids \<and> schema_wire_ok s \<and> n < 2 ^ 32)"
| "plan_ok df b _ = False"

lemma agg_okE:
  assumes "agg_ok b sch a"
  obtains f e name where "agg_function_of (ae_kind a) = Ok f" "ae_expressions a = [e]" "ae_field a = Ok name"
    "pe_ok b sch e" "db_create_aggregate_expr b (aggregate_function_from f) False [e] sch name = Ok a"
  using assms by (auto simp: agg_ok_def split: result.splits list.splits)

lemma agg_roundtrip:
  assumes "unary_helpers (db_helpers b)" "agg_ok b sch a"
  shows "\<exists>n e name. agg_expr_into b a = Ok n \<and> ae_field a = Ok name \<and> expr_try_into (db_helpers b) n = Ok e \<and>
    physical_aggr_expr b sch (e, name) = Ok a"
proof -
  obtain f e name where a: "agg_function_of (ae_kind a) = Ok f" "ae_expressions a = [e]" "ae_field a = Ok name"
    "pe_ok b sch e" "db_create_aggregate_expr b (aggregate_function_from f) False [e] sch name = Ok a"
    using assms(2) by (rule agg_okE)
  obtain n where "expr_into (logical_of b e) = Ok n" "expr_try_into (db_helpers b) n = Ok (logical_of b e)"
    using expr_roundtrip [OF assms(1)] a(4) by (auto simp: pe_ok_def expr_rt_def)
  with a physical_expr_into_logical show ?thesis
    by (auto simp: agg_expr_into_def physical_aggr_expr_def pe_ok_def)
qed

lemma aggs_roundtrip:
  assumes "unary_helpers (db_helpers b)" "list_all (agg_ok b sch) as"
  shows "\<exists>ns names es. mapM (agg_expr_into b) as = Ok ns \<and> mapM ae_field as = Ok names \<and>
    mapM (\<lambda>(n, name). rbind (expr_try_into (db_helpers b) n) (\<lambda>e. Ok (e, name))) (zip ns names) = Ok es \<and>
    mapM (physical_aggr_expr b sch) es = Ok as"
  using assms(2)
proof (induction as)
  case (Cons a as)
  then obtain ns names es where "mapM (agg_expr_into b) as = Ok ns" "mapM ae_field as = Ok names"
    "mapM (\<lambda>(n, name). rbind (expr_try_into (db_helpers b) n) (\<lambda>e. Ok (e, name))) (zip ns names) = Ok es"
    "mapM (physical_aggr_expr b sch) es = Ok as" by auto
  moreover obtain n e name where "agg_expr_into b a = Ok n" "ae_field a = Ok name"
    "expr_try_into (db_helpers b) n = Ok e" "physical_aggr_expr b sch (e, name) = Ok a"
    using agg_roundtrip [OF assms(1), of sch a] Cons.prems by auto
  ultimately show ?case by auto
qed auto

lemma sort_roundtrip:
  assumes "unary_helpers (db_helpers b)" "list_all (\<lambda>e. pe_ok b (plan_schema df i) (se_expr e)) es"
  shows "\<exists>ns. mapM (sort_expr_into b) es = Ok ns \<and> mapM (sort_expr_from df b i) ns = Ok es"
proof (rule mapM_roundtrip)
  fix e
  assume "e \<in> set es"
  then obtain n where "physical_expr_into b (se_expr e) = Ok n" "compile_expr b n (plan_schema df i) = Ok (se_expr e)"
    using pe_roundtrip [OF assms(1), of "plan_schema df i" "se_expr e"] assms(2) by (auto simp: list_all_iff)
  then show "\<exists>p. sort_expr_into b e = Ok p \<and> sort_expr_from df b i p = Ok e"
    by (cases e) (simp add: sort_expr_into_def sort_expr_from_def)
qed

lemma hash_aggregate_roundtrip:
  assumes "unary_helpers (db_helpers b)" "plan_ok df b (HashAggregateExec m g a i s)" "input = Ok n"
  shows "\<exists>q. hash_aggregate_into b m g a s input = Ok q \<and>
    (plan_try_into df b n = Ok i \<longrightarrow> plan_try_into df b q = Ok (HashAggregateExec m g a i s))"
proof -
  obtain gs where "mapM (\<lambda>e. physical_expr_into b (fst e)) g = Ok gs"
      "compile_named b gs (map snd g) (plan_schema df i) = Ok g"
    using named_roundtrip [OF assms(1)] assms(2) by fastforce
  moreover obtain ns names es where "mapM (agg_expr_into b) a = Ok ns" "mapM ae_field a = Ok names"
    "mapM (\<lambda>(n, name). rbind (expr_try_into (db_helpers b) n) (\<lambda>e. Ok (e, name))) (zip ns names) = Ok es"
    "mapM (physical_aggr_expr b s) es = Ok a"
    using aggs_roundtrip [OF assms(1), of s a] assms(2) by auto
  moreover have "schema_try_into (schema_into s) = Ok s" using schema_serde.dec_enc [of s] assms(2) by simp
  ultimately show ?thesis
    using assms(2,3) by (simp add: hash_aggregate_into_def hash_aggregate_from_def)
qed

lemma csv_roundtrip: "csv_ok b c \<Longrightarrow> \<exists>n. csv_exec_into c = Ok n \<and> plan_try_into df b n = Ok (CsvExec c)"
  using schema_serde.dec_enc [of "cx_file_schema c"]
  by (auto simp: csv_ok_def csv_exec_into_def csv_scan_from_def map_u32_roundtrip of_char_delimiter split: option.splits)

lemma parquet_roundtrip:
  "parquet_ok b x \<Longrightarrow> \<exists>n. parquet_exec_into x = Ok n \<and> plan_try_into df b n = Ok (ParquetExec x)"
  by (simp add: parquet_ok_def parquet_exec_into_def parquet_scan_from_def map_u32_roundtrip)

lemma plan_roundtrip:
  assumes h: "unary_helpers (db_helpers b)"
  shows "plan_ok df b p \<Longrightarrow> \<exists>n. plan_into b p = Ok n \<and> plan_try_into df b n = Ok p"
proof (induction p)
  case (ProjectionExec es i)
  then obtain n where "plan_into b i = Ok n" "plan_try_into df b n = Ok i" by auto
  moreover obtain ns where "mapM (\<lambda>e. physical_expr_into b (fst e)) es = Ok ns"
      "compile_named b ns (map snd es) (plan_schema df i) = Ok es"
    using named_roundtrip [OF h, of "plan_schema df i" es] ProjectionExec by auto
  ultimately show ?case using ProjectionExec.prems by simp
next
  case (FilterExec e i)
  then obtain n where "plan_into b i = Ok n" "plan_try_into df b n = Ok i" by auto
  moreover obtain m where "physical_expr_into b e = Ok m" "compile_expr b m (plan_schema df i) = Ok e"
    using pe_roundtrip [OF h, of "plan_schema df i" e] FilterExec by auto
  ultimately show ?case using FilterExec.prems by simp
next
  case (HashAggregateExec m g a i s)
  then obtain n where "plan_into b i = Ok n" "plan_try_into df b n = Ok i" by auto
  with hash_aggregate_roundtrip [OF h HashAggregateExec.prems, of "plan_into b i" n] show ?case by auto
next
  case (CsvExec c)
  then show ?case using csv_roundtrip [of b c] by simp
next
  case (ParquetExec x)
  then show ?case using parquet_roundtrip [of b x] by simp
next
  case (SortExec es i)
  then obtain n where "plan_into b i = Ok n" "plan_try_into df b n = Ok i" by auto
  moreover obtain ns where "mapM (sort_expr_into b) es = Ok ns" "mapM (sort_expr_from df b i) ns = Ok es"
    using sort_roundtrip [OF h, of df i es] SortExec by auto
  ultimately show ?case using SortExec.prems by simp
next
  case (ShuffleReaderExec ls s)
  then show ?case
    using location_serde.list_roundtrip [of ls] schema_serde.dec_enc [of s]
    by (auto simp: ShuffleReaderExec_try_new_def)
next
  case (UnresolvedShuffleExec ids s n)
  then show ?case
    using schema_serde.dec_enc [of s] by (simp add: map_u32_roundtrip)
next
  case (EmptyExec one s)
  then show ?case using schema_serde.dec_enc [of s] by simp
qed auto

lemma plan_serde_helpers:
  "unary_helpers (db_helpers b) \<Longrightarrow> serde (plan_into b) (plan_try_into df b) (plan_ok df b)"
  by unfold_locales (rule plan_roundtrip)

text \<open>The constructors that never fail, used by the witnesses; only columns are compiled.\<close>

definition plain_builders :: df_builders where
  "plain_builders = \<lparr>
     db_from_str = (\<lambda>name. Err (DataFusionError name)),
     db_helpers = plain_helpers,
     db_create_physical_expr = (\<lambda>e _. case e of E_Column n \<Rightarrow> Ok (PE_Column n) | _ \<Rightarrow> Err ''unsupported''),
     db_create_aggregate_expr = (\<lambda>f _ args _ name.
       Ok (MkAggExpr (case f of Agg_Avg \<Rightarrow> AK_Avg | Agg_Sum \<Rightarrow> AK_Sum | Agg_Count \<Rightarrow> AK_Count | _ \<Rightarrow> AK_Other name)
             args (Ok name))),
     db_projection = (\<lambda>es i. Ok (ProjectionExec es i)),
     db_filter = (\<lambda>e i. Ok (FilterExec e i)),
     db_csv = (\<lambda>path header ext d sch projection _.
       Ok (CsvExec \<lparr>cx_path = path, cx_filenames = [path], cx_projection = projection, cx_file_extension = ext,
             cx_file_schema = sch, cx_has_header = header, cx_delimiter = Some d\<rparr>)),
     db_parquet = (\<lambda>files projection bs _.
       Ok (ParquetExec \<lparr>px_partitions = map (\<lambda>f. [f]) files, px_projection = the projection, px_batch_size = bs\<rparr>)),
     db_hash_aggregate = (\<lambda>m g a i s. Ok (HashAggregateExec m g a i s)),
     db_hash_join = (\<lambda>l r on j. Ok (HashJoinExec l r on j)),
     db_sort = (\<lambda>es i. Ok (SortExec es i))\<rparr>"

lemma plain_builders_helpers: "unary_helpers (db_helpers plain_builders)"
  by (simp add: plain_builders_def unary_plain_helpers)

interpretation plan_serde: serde "plan_into plain_builders" "plan_try_into df_plain plain_builders"
    "plan_ok df_plain plain_builders"
  by (rule plan_serde_helpers [OF plain_builders_helpers])

definition example_stage_plan :: exec_plan where
  "example_stage_plan =
     HashAggregateExec Final [(PE_Column ''k'', ''k'')] [MkAggExpr AK_Sum [PE_Column ''v''] (Ok ''sum_v'')]
       (UnresolvedShuffleExec [1] [MkField ''k'' DT_Utf8 False, MkField ''v'' DT_Int64 True] 4)
       [MkField ''k'' DT_Utf8 False, MkField ''v'' DT_Int64 True]"

lemma example_stage_plan_ok: "plan_ok df_plain plain_builders example_stage_plan"
  by (simp add: example_stage_plan_def plain_builders_def pe_ok_def agg_ok_def schema_wire_ok_def)

section \<open>Properties\<close>



text \<open>
  C36. A physical expression is written as the logical expression it stands for: whenever that
  logical expression can be encoded, the physical encoder produces exactly its node, so the two
  halves of the protocol agree on expressions.
\<close>

theorem physical_expr_as_logical:
  assumes "expr_into (logical_of b pe) = Ok n"
  shows "physical_expr_into b pe = Ok n"
  using assms by (rule physical_expr_into_logical)

theorem physical_expr_as_logical_witness:
  "physical_expr_into plain_builders (PE_BinaryExpr (PE_Column ''a'') Op_Lt (PE_Literal (SV_Int64 (Some 5)))) =
     Ok (LEN (Some (ET_BinaryExpr (Some (LEN (Some (ET_ColumnName ''a''))))
           (Some (LEN (Some (ET_Literal (PbScalarValue (Some (V_Int64 5))))))) ''Lt'')))"
  by (rule physical_expr_as_logical) (simp add: create_proto_scalar_def)

text \<open>
  The limits of the wire format: a row limit of \<open>2 ^ 32\<close> or more is written modulo \<open>2 ^ 32\<close>,
  so a plan that limits its output to \<open>2 ^ 32\<close> rows reaches the executor limited to none.
\<close>

theorem limit_truncated:
  assumes "plan_into b i = Ok n" "plan_try_into df b n = Ok i"
  shows "rbind (plan_into b (GlobalLimitExec i limit)) (plan_try_into df b) =
    Ok (GlobalLimitExec i (limit mod 2 ^ 32))"
  using assms by simp

theorem limit_truncated_witness:
  "rbind (plan_into plain_builders (GlobalLimitExec (EmptyExec True []) (2 ^ 32))) (plan_try_into df_plain plain_builders) =
    Ok (GlobalLimitExec (EmptyExec True []) (2 ^ 32 mod 2 ^ 32))"
  by (rule limit_truncated [where n = "PPN (Some (PPT_Empty True (Some (schema_into []))))"])
     (simp_all add: schema_into_def schema_try_into_def)

end
