(* ===== verification/Scheduler_State.thy ===== *)
theory Scheduler_State
  imports Config_Backend Planner Physical_Serde
begin

text \<open>
  \<open>SchedulerState\<close> of \<open>scheduler/src/state/mod.rs\<close>: the keys under which executors, jobs, tasks and
  stage plans are stored, and the operations that save, load, assign and summarise them, over any
  \<open>ConfigBackendClient\<close>.

  \<^item> The protocol buffer encoding of a message is a parameter (\<open>codec\<close>); \<open>codec_ok\<close> is what \<open>prost\<close>
    documents: encoding succeeds, decoding inverts it, and a message with a field that is set has a
    non-empty encoding.
  \<^item> \<open>env_hash_order\<close> is the iteration order of the \<open>HashMap\<close> that collects a prefix scan.
  \<^item> \<open>sched_view\<close> is the abstract content of the store, and \<open>represents\<close> relates it to the bytes.
\<close>

section \<open>Keys\<close>

definition get_executors_prefix :: "string \<Rightarrow> string" where
  "get_executors_prefix namespace = ''/ballista/'' @ namespace @ ''/executors''"

definition get_executor_key :: "string \<Rightarrow> string \<Rightarrow> string" where
  "get_executor_key namespace executor_id = get_executors_prefix namespace @ ''/'' @ executor_id"

definition get_job_prefix :: "string \<Rightarrow> string" where
  "get_job_prefix namespace = ''/ballista/'' @ namespace @ ''/jobs''"

definition extract_job_id_from_key :: "string \<Rightarrow> string bresult" where
  "extract_job_id_from_key job_key =
     (let parts = split_on (CHR ''/'') job_key in
      ok_or (if 4 < length parts then Some (parts ! 4) else None)
        (Internal (''Unexpected job key: '' @ job_key)))"

definition get_job_key :: "string \<Rightarrow> string \<Rightarrow> string" where
  "get_job_key namespace job_id = get_job_prefix namespace @ ''/'' @ job_id"

definition get_task_prefix :: "string \<Rightarrow> string" where
  "get_task_prefix namespace = ''/ballista/'' @ namespace @ ''/tasks''"

definition get_task_prefix_for_job :: "string \<Rightarrow> string \<Rightarrow> string" where
  "get_task_prefix_for_job namespace job_id = get_task_prefix namespace @ ''/'' @ job_id"

definition get_task_status_key :: "string \<Rightarrow> string \<Rightarrow> nat \<Rightarrow> nat \<Rightarrow> string" where
  "get_task_status_key namespace job_id stage_id partition_id =
     get_task_prefix_for_job namespace job_id @ ''/'' @ show_nat stage_id @ ''/'' @ show_nat partition_id"

definition get_stage_plan_key :: "string \<Rightarrow> string \<Rightarrow> nat \<Rightarrow> string" where
  "get_stage_plan_key namespace job_id stage_id =
     ''/ballista/'' @ namespace @ ''/stages/'' @ job_id @ ''/'' @ show_nat stage_id"

section \<open>Messages as bytes\<close>

record ('m, 'b) codec =
  cd_type_name :: string
  cd_encode :: "'m \<Rightarrow> ('b list, string) result"
  cd_decode :: "'b list \<Rightarrow> ('m, string) result"

definition decode_protobuf :: "('m, 'b) codec \<Rightarrow> 'b list \<Rightarrow> 'm bresult" where
  "decode_protobuf cd bytes =
     map_err (\<lambda>e. Internal (''Could not deserialize '' @ cd_type_name cd @ '': '' @ e)) (cd_decode cd bytes)"

definition encode_protobuf :: "('m, 'b) codec \<Rightarrow> 'm \<Rightarrow> 'b list bresult" where
  "encode_protobuf cd msg =
     map_err (\<lambda>e. Internal (''Could not serialize '' @ cd_type_name cd @ '': '' @ e)) (cd_encode cd msg)"

text \<open>The library code the operations use.\<close>

record 'b sched_env =
  env_executor :: "(pb_executor_metadata, 'b) codec"
  env_job :: "(job_status, 'b) codec"
  env_task :: "(task_status, 'b) codec"
  env_plan :: "(physical_plan_node, 'b) codec"
  env_df :: df_ops
  env_builders :: df_builders
  env_hash_order :: "(string \<times> 'b list) list \<Rightarrow> (string \<times> 'b list) list"

section \<open>Saving and loading\<close>

definition get_executors_metadata ::
  "'b sched_env \<Rightarrow> ('s, 'g, 'b) config_backend_client \<Rightarrow> string \<Rightarrow> ('s, executor_meta list, BallistaError) io" where
  "get_executors_metadata env bk namespace =
     sbind (bk_get_from_prefix bk (get_executors_prefix namespace)) (\<lambda>entries.
       slift (mapM (\<lambda>(_, entry). rbind (decode_protobuf (env_executor env) entry) (\<lambda>meta.
         Ok (executor_meta_from_pb meta))) entries))"

definition save_executor_metadata ::
  "'b sched_env \<Rightarrow> ('s, 'g, 'b) config_backend_client \<Rightarrow> string \<Rightarrow> executor_meta \<Rightarrow> ('s, unit, BallistaError) io" where
  "save_executor_metadata env bk namespace meta =
     sbind (slift (encode_protobuf (env_executor env) (executor_meta_to_pb meta))) (\<lambda>value.
       bk_put bk (get_executor_key namespace (em_id meta)) value (Some LEASE_TIME))"

definition save_job_metadata ::
  "'b sched_env \<Rightarrow> ('s, 'g, 'b) config_backend_client \<Rightarrow> string \<Rightarrow> string \<Rightarrow> job_status
    \<Rightarrow> ('s, unit, BallistaError) io" where
  "save_job_metadata env bk namespace job_id status =
     sbind (slift (encode_protobuf (env_job env) status)) (\<lambda>value.
       bk_put bk (get_job_key namespace job_id) value None)"

definition get_job_metadata ::
  "'b sched_env \<Rightarrow> ('s, 'g, 'b) config_backend_client \<Rightarrow> string \<Rightarrow> string \<Rightarrow> ('s, job_status, BallistaError) io" where
  "get_job_metadata env bk namespace job_id =
     sbind (bk_get bk (get_job_key namespace job_id)) (\<lambda>value.
       if value = [] then slift (Err (General (''No job metadata found for '' @ get_job_key namespace job_id)))
       else slift (decode_protobuf (env_job env) value))"

definition save_task_status ::
  "'b sched_env \<Rightarrow> ('s, 'g, 'b) config_backend_client \<Rightarrow> string \<Rightarrow> task_status \<Rightarrow> ('s, unit, BallistaError) io" where
  "save_task_status env bk namespace status =
     sbind (slift (unwrap (ts_partition_id status))) (\<lambda>partition_id.
     sbind (slift (encode_protobuf (env_task env) status)) (\<lambda>value.
       bk_put bk (get_task_status_key namespace (ppid_job partition_id) (u32_to_usize (ppid_stage partition_id))
         (u32_to_usize (ppid_partition partition_id))) value None))"

definition get_task_status ::
  "'b sched_env \<Rightarrow> ('s, 'g, 'b) config_backend_client \<Rightarrow> string \<Rightarrow> string \<Rightarrow> nat \<Rightarrow> nat
    \<Rightarrow> ('s, task_status, BallistaError) io" where
  "get_task_status env bk namespace job_id stage_id partition_id =
     (let key = get_task_status_key namespace job_id stage_id partition_id in
      sbind (bk_get bk key) (\<lambda>value.
        if value = [] then slift (Err (General (''No task status found for '' @ key)))
        else slift (decode_protobuf (env_task env) value)))"

definition save_stage_plan ::
  "'b sched_env \<Rightarrow> ('s, 'g, 'b) config_backend_client \<Rightarrow> string \<Rightarrow> string \<Rightarrow> nat \<Rightarrow> exec_plan
    \<Rightarrow> ('s, unit, BallistaError) io" where
  "save_stage_plan env bk namespace job_id stage_id plan =
     sbind (slift (rbind (plan_into (env_builders env) plan) (encode_protobuf (env_plan env)))) (\<lambda>value.
       bk_put bk (get_stage_plan_key namespace job_id stage_id) value None)"

definition get_stage_plan ::
  "'b sched_env \<Rightarrow> ('s, 'g, 'b) config_backend_client \<Rightarrow> string \<Rightarrow> string \<Rightarrow> nat \<Rightarrow> ('s, exec_plan, BallistaError) io" where
  "get_stage_plan env bk namespace job_id stage_id =
     (let key = get_stage_plan_key namespace job_id stage_id in
      sbind (bk_get bk key) (\<lambda>value.
        if value = [] then slift (Err (General (''No stage plan found for '' @ key)))
        else slift (rbind (decode_protobuf (env_plan env) value) (plan_try_into (env_df env) (env_builders env)))))"
section \<open>Assigning a task\<close>

text \<open>The tasks an unresolved shuffle reads, in the order of the three nested loops.\<close>

definition shuffle_tasks :: "unresolved_shuffle list \<Rightarrow> (nat \<times> nat) list" where
  "shuffle_tasks us =
     concat (map (\<lambda>u. concat (map (\<lambda>stage_id. map (\<lambda>p. (stage_id, p)) [0..<us_partition_count u])
       (us_query_stage_ids u))) us)"

text \<open>Where the output of one referenced task is; \<open>None\<close> when the task is not completed yet.\<close>

definition completed_location ::
  "'b sched_env \<Rightarrow> string \<Rightarrow> (string \<rightharpoonup> 'b list) \<Rightarrow> executor_meta list \<Rightarrow> string \<Rightarrow> nat \<times> nat
    \<Rightarrow> partition_location option bresult" where
  "completed_location env namespace kvs executors job_id sp =
     (case sp of (stage_id, partition_id) \<Rightarrow>
        rbind (unwrap (kvs (get_task_status_key namespace job_id stage_id partition_id))) (\<lambda>bytes.
        rbind (decode_protobuf (env_task env) bytes) (\<lambda>referenced_task.
          case ts_status referenced_task of
            Some (TS_Completed executor_id) \<Rightarrow>
              rbind (unwrap (List.find (\<lambda>exec. em_id exec = executor_id) executors)) (\<lambda>meta.
                Ok (Some \<lparr>pl_partition_id = \<lparr>pid_job = job_id, pid_stage = stage_id, pid_partition = partition_id\<rparr>,
                          pl_executor_meta = meta\<rparr>))
          | _ \<Rightarrow> Ok None)))"

text \<open>\<open>partition_locations.entry(stage_id).or_insert(vec![]).push(location)\<close>\<close>

definition push_location :: "locations \<Rightarrow> nat \<Rightarrow> partition_location \<Rightarrow> locations" where
  "push_location locs stage_id loc =
     locs(stage_id \<mapsto> (case locs stage_id of None \<Rightarrow> [] | Some ls \<Rightarrow> ls) @ [loc])"

fun collect_locations ::
  "'b sched_env \<Rightarrow> string \<Rightarrow> (string \<rightharpoonup> 'b list) \<Rightarrow> executor_meta list \<Rightarrow> string \<Rightarrow> (nat \<times> nat) list \<Rightarrow> locations
    \<Rightarrow> locations option bresult" where
  "collect_locations env namespace kvs executors job_id [] locs = Ok (Some locs)"
| "collect_locations env namespace kvs executors job_id (sp # sps) locs =
     rbind (completed_location env namespace kvs executors job_id sp) (\<lambda>l.
       case l of
         None \<Rightarrow> Ok None
       | Some loc \<Rightarrow> collect_locations env namespace kvs executors job_id sps (push_location locs (fst sp) loc))"

text \<open>
  The plan of a pending task with its shuffles resolved; \<open>None\<close> is \<open>continue 'tasks\<close>, when a task
  it reads from is not completed.
\<close>

definition resolve_task_plan ::
  "'b sched_env \<Rightarrow> ('s, 'g, 'b) config_backend_client \<Rightarrow> string \<Rightarrow> (string \<rightharpoonup> 'b list) \<Rightarrow> executor_meta list
    \<Rightarrow> pb_partition_id \<Rightarrow> ('s, exec_plan option, BallistaError) io" where
  "resolve_task_plan env bk namespace kvs executors pid =
     sbind (get_stage_plan env bk namespace (ppid_job pid) (u32_to_usize (ppid_stage pid))) (\<lambda>plan.
     sbind (slift (find_unresolved_shuffles plan)) (\<lambda>unresolved_shuffles.
     sbind (slift (collect_locations env namespace kvs executors (ppid_job pid)
              (shuffle_tasks unresolved_shuffles) Map.empty)) (\<lambda>locs.
       case locs of
         None \<Rightarrow> sret None
       | Some partition_locations \<Rightarrow>
           sbind (slift (remove_unresolved_shuffles (env_df env) partition_locations plan)) (\<lambda>plan'.
             sret (Some plan')))))"

fun assign_loop ::
  "'b sched_env \<Rightarrow> ('s, 'g, 'b) config_backend_client \<Rightarrow> string \<Rightarrow> string \<Rightarrow> (string \<rightharpoonup> 'b list) \<Rightarrow> executor_meta list
    \<Rightarrow> (string \<times> 'b list) list \<Rightarrow> ('s, (task_status \<times> exec_plan) option, BallistaError) io" where
  "assign_loop env bk namespace executor_id kvs executors [] = sret None"
| "assign_loop env bk namespace executor_id kvs executors ((_, value) # rest) =
     sbind (slift (decode_protobuf (env_task env) value)) (\<lambda>status.
       if ts_status status = None then
         sbind (slift (unwrap (ts_partition_id status))) (\<lambda>partition.
         sbind (resolve_task_plan env bk namespace kvs executors partition) (\<lambda>resolved.
           case resolved of
             None \<Rightarrow> assign_loop env bk namespace executor_id kvs executors rest
           | Some plan \<Rightarrow>
               let status' = status\<lparr>ts_status := Some (TS_Running executor_id)\<rparr> in
               sbind (save_task_status env bk namespace status') (\<lambda>_. sret (Some (status', plan)))))
       else assign_loop env bk namespace executor_id kvs executors rest)"

definition assign_next_schedulable_task ::
  "'b sched_env \<Rightarrow> ('s, 'g, 'b) config_backend_client \<Rightarrow> string \<Rightarrow> string
    \<Rightarrow> ('s, (task_status \<times> exec_plan) option, BallistaError) io" where
  "assign_next_schedulable_task env bk namespace executor_id =
     sbind (bk_get_from_prefix bk (get_task_prefix namespace)) (\<lambda>kvs.
     sbind (get_executors_metadata env bk namespace) (\<lambda>executors.
       assign_loop env bk namespace executor_id (map_of (rev kvs)) executors (env_hash_order env kvs)))"

section \<open>The status of a job\<close>

text \<open>The loop that looks for a failed or a running task.\<close>

fun update_other_statuses :: "task_status list \<Rightarrow> job_state option \<Rightarrow> job_state option" where
  "update_other_statuses [] job_status = job_status"
| "update_other_statuses (status # statuses) job_status =
     (case ts_status status of
        Some (TS_Failed err) \<Rightarrow> Some (JS_Failed err)
      | Some (TS_Running _) \<Rightarrow>
          update_other_statuses statuses (if job_status = None then Some JS_Running else job_status)
      | _ \<Rightarrow> update_other_statuses statuses job_status)"

definition completed_task :: "task_status \<Rightarrow> (task_status \<times> string) bresult" where
  "completed_task status =
     (case ts_status status of
        Some (TS_Completed executor_id) \<Rightarrow> Ok (status, executor_id)
      | _ \<Rightarrow> Err (General ''Task not completed''))"

definition job_state_from_statuses :: "(string \<rightharpoonup> executor_meta) \<Rightarrow> task_status list \<Rightarrow> job_state option" where
  "job_state_from_statuses executors statuses =
     (case mapM completed_task statuses of
        Ok info \<Rightarrow>
          Some (JS_Completed (map (\<lambda>(status, execution_id).
            \<lparr>ppl_partition_id = ts_partition_id status,
             ppl_executor_meta = map_option executor_meta_to_pb (executors execution_id)\<rparr>) info))
      | _ \<Rightarrow> update_other_statuses statuses None)"

definition get_job_status_from_tasks ::
  "'b sched_env \<Rightarrow> ('s, 'g, 'b) config_backend_client \<Rightarrow> string \<Rightarrow> string \<Rightarrow> (string \<rightharpoonup> executor_meta)
    \<Rightarrow> ('s, job_status option, BallistaError) io" where
  "get_job_status_from_tasks env bk namespace job_id executors =
     sbind (bk_get_from_prefix bk (get_task_prefix_for_job namespace job_id)) (\<lambda>kvs.
     sbind (slift (mapM (\<lambda>(_, v). decode_protobuf (env_task env) v) kvs)) (\<lambda>statuses.
       if statuses = [] then sret None
       else sret (map_option (\<lambda>status. \<lparr>js_status = Some status\<rparr>) (job_state_from_statuses executors statuses))))"

definition synchronize_job ::
  "'b sched_env \<Rightarrow> ('s, 'g, 'b) config_backend_client \<Rightarrow> string \<Rightarrow> (string \<rightharpoonup> executor_meta) \<Rightarrow> string \<times> 'b list
    \<Rightarrow> ('s, unit, BallistaError) io" where
  "synchronize_job env bk namespace executors entry =
     (case entry of (key, value) \<Rightarrow>
        sbind (slift (extract_job_id_from_key key)) (\<lambda>job_id.
        sbind (slift (decode_protobuf (env_job env) value)) (\<lambda>status.
        sbind (get_job_status_from_tasks env bk namespace job_id executors) (\<lambda>new_status.
          case new_status of
            None \<Rightarrow> sret ()
          | Some new_status' \<Rightarrow>
              if status \<noteq> new_status' then save_job_metadata env bk namespace job_id new_status' else sret ()))))"

definition synchronize_job_status ::
  "'b sched_env \<Rightarrow> ('s, 'g, 'b) config_backend_client \<Rightarrow> string \<Rightarrow> ('s, unit, BallistaError) io" where
  "synchronize_job_status env bk namespace =
     sbind (bk_get_from_prefix bk (get_job_prefix namespace)) (\<lambda>kvs.
     sbind (get_executors_metadata env bk namespace) (\<lambda>metas.
       sfor (synchronize_job env bk namespace (map_of (rev (map (\<lambda>meta. (em_id meta, meta)) metas)))) kvs))"

section \<open>Facts about keys\<close>

lemmas key_defs = get_executors_prefix_def get_executor_key_def get_job_prefix_def get_job_key_def
  get_task_prefix_def get_task_prefix_for_job_def get_task_status_key_def get_stage_plan_key_def

lemma own_keys [simp]:
  "own_key (get_executors_prefix ns)" "own_key (get_executor_key ns i)"
  "own_key (get_job_prefix ns)" "own_key (get_job_key ns j)"
  "own_key (get_task_prefix ns)" "own_key (get_task_prefix_for_job ns j)"
  "own_key (get_task_status_key ns j s p)" "own_key (get_stage_plan_key ns j s)"
  by (simp_all add: own_key_def key_defs)

lemma executor_key_inj [simp]: "get_executor_key ns i = get_executor_key ns i' \<longleftrightarrow> i = i'"
  by (simp add: key_defs)

lemma job_key_inj [simp]: "get_job_key ns j = get_job_key ns j' \<longleftrightarrow> j = j'"
  by (simp add: key_defs)

text \<open>Two slash-separated words are determined from the right, whatever the words are.\<close>

lemma last_sep_inj:
  assumes "c \<notin> set b" "c \<notin> set b'" "a @ c # b = a' @ c # b'"
  shows "a = a' \<and> b = b'"
proof -
  from arg_cong [OF assms(3), of rev] have "rev b @ c # rev a = rev b' @ c # rev a'" by simp
  then have "rev b = rev b' \<and> rev a = rev a'" using assms(1,2) by (intro sep_append_inj) simp_all
  then show ?thesis by simp
qed

lemma stage_plan_key_inj [simp]:
  "get_stage_plan_key ns j s = get_stage_plan_key ns j' s' \<longleftrightarrow> j = j' \<and> s = s'"
  using last_sep_inj [OF show_nat_no_slash show_nat_no_slash, of j s j' s'] by (auto simp: key_defs)

lemma task_status_key_inj [simp]:
  "get_task_status_key ns j s p = get_task_status_key ns j' s' p' \<longleftrightarrow> j = j' \<and> s = s' \<and> p = p'"
proof
  assume "get_task_status_key ns j s p = get_task_status_key ns j' s' p'"
  then have eq: "(j @ ''/'' @ show_nat s) @ CHR ''/'' # show_nat p = (j' @ ''/'' @ show_nat s') @ CHR ''/'' # show_nat p'"
    by (simp add: key_defs)
  from last_sep_inj [OF show_nat_no_slash show_nat_no_slash eq]
  have eq': "j @ CHR ''/'' # show_nat s = j' @ CHR ''/'' # show_nat s'" and "p = p'" by simp_all
  with last_sep_inj [OF show_nat_no_slash show_nat_no_slash eq'] show "j = j' \<and> s = s' \<and> p = p'" by simp
qed simp

text \<open>The four families of keys of a namespace do not overlap.\<close>

lemma key_families [simp]:
  "get_executor_key ns i \<noteq> get_job_key ns j" "get_executor_key ns i \<noteq> get_task_status_key ns j s p"
  "get_executor_key ns i \<noteq> get_stage_plan_key ns j s" "get_job_key ns j' \<noteq> get_task_status_key ns j s p"
  "get_job_key ns j' \<noteq> get_stage_plan_key ns j s" "get_task_status_key ns j s p \<noteq> get_stage_plan_key ns j' s'"
  "get_job_key ns j \<noteq> get_executor_key ns i" "get_task_status_key ns j s p \<noteq> get_executor_key ns i"
  "get_stage_plan_key ns j s \<noteq> get_executor_key ns i" "get_task_status_key ns j s p \<noteq> get_job_key ns j'"
  "get_stage_plan_key ns j s \<noteq> get_job_key ns j'" "get_stage_plan_key ns j' s' \<noteq> get_task_status_key ns j s p"
  by (simp_all add: key_defs)

lemma executors_prefix [simp]:
  "prefix (get_executors_prefix ns) (get_executor_key ns i)"
  "\<not> prefix (get_executors_prefix ns) (get_job_key ns j)"
  "\<not> prefix (get_executors_prefix ns) (get_task_status_key ns j s p)"
  "\<not> prefix (get_executors_prefix ns) (get_stage_plan_key ns j s)"
  by (simp_all add: key_defs)

lemma jobs_prefix [simp]:
  "prefix (get_job_prefix ns) (get_job_key ns j)"
  "\<not> prefix (get_job_prefix ns) (get_executor_key ns i)"
  "\<not> prefix (get_job_prefix ns) (get_task_status_key ns j s p)"
  "\<not> prefix (get_job_prefix ns) (get_stage_plan_key ns j s)"
  by (simp_all add: key_defs)

lemma tasks_prefix [simp]:
  "prefix (get_task_prefix ns) (get_task_status_key ns j s p)"
  "\<not> prefix (get_task_prefix ns) (get_executor_key ns i)"
  "\<not> prefix (get_task_prefix ns) (get_job_key ns j)"
  "\<not> prefix (get_task_prefix ns) (get_stage_plan_key ns j s)"
  by (simp_all add: key_defs)

lemma prefix_same_length: "length xs = length ys \<Longrightarrow> prefix xs (ys @ zs) \<longleftrightarrow> xs = ys"
  by (auto simp: prefix_def)

text \<open>
  The prefix of a job's tasks ends without a separator: it isolates a job from the jobs whose id has
  the same length, not from those whose id extends it.
\<close>

lemma task_prefix_for_job_same_length:
  "length j = length j' \<Longrightarrow> prefix (get_task_prefix_for_job ns j) (get_task_status_key ns j' s p) \<longleftrightarrow> j = j'"
  by (simp add: key_defs prefix_same_length)

lemma task_prefix_for_job_extends:
  "prefix (get_task_prefix_for_job ns j) (get_task_status_key ns (j @ x) s p)"
  by (simp add: key_defs)

lemma extract_job_id:
  assumes "CHR ''/'' \<notin> set ns" "CHR ''/'' \<notin> set j"
  shows "extract_job_id_from_key (get_job_key ns j) = Ok j"
proof -
  have "split_on CHR ''/'' (get_job_key ns j) = [[], ''ballista'', ns, ''jobs'', j]"
    using split_on_append [OF assms(1), of "''jobs/'' @ j"] split_on_append [of "CHR ''/''" "''jobs''" j]
      split_on_append [of "CHR ''/''" "''ballista''" "ns @ ''/jobs/'' @ j"] split_on_no_sep [OF assms(2)]
    by (simp add: key_defs)
  then show ?thesis by (simp add: extract_job_id_from_key_def Let_def)
qed

section \<open>The status of a job, declaratively\<close>

definition completed_by :: "task_status \<Rightarrow> string option" where
  "completed_by t = (case ts_status t of Some (TS_Completed e) \<Rightarrow> Some e | _ \<Rightarrow> None)"

definition failed_with :: "task_status \<Rightarrow> string option" where
  "failed_with t = (case ts_status t of Some (TS_Failed err) \<Rightarrow> Some err | _ \<Rightarrow> None)"

definition is_running :: "task_status \<Rightarrow> bool" where
  "is_running t = (case ts_status t of Some (TS_Running _) \<Rightarrow> True | _ \<Rightarrow> False)"

definition task_location :: "(string \<rightharpoonup> executor_meta) \<Rightarrow> task_status \<Rightarrow> pb_partition_location" where
  "task_location executors t =
     \<lparr>ppl_partition_id = ts_partition_id t,
      ppl_executor_meta = Option.bind (completed_by t) (\<lambda>e. map_option executor_meta_to_pb (executors e))\<rparr>"

definition job_state_spec :: "(string \<rightharpoonup> executor_meta) \<Rightarrow> task_status list \<Rightarrow> job_state option" where
  "job_state_spec executors ts =
     (if list_all (\<lambda>t. completed_by t \<noteq> None) ts then Some (JS_Completed (map (task_location executors) ts))
      else case List.map_filter failed_with ts of
        err # _ \<Rightarrow> Some (JS_Failed err)
      | [] \<Rightarrow> if list_ex is_running ts then Some JS_Running else None)"

lemma completed_task_eq:
  "completed_task t = (case completed_by t of Some e \<Rightarrow> Ok (t, e) | None \<Rightarrow> Err (General ''Task not completed''))"
  by (simp add: completed_task_def completed_by_def split: option.split task_state.split)

lemma mapM_completed:
  "mapM completed_task ts =
     (if list_all (\<lambda>t. completed_by t \<noteq> None) ts then Ok (map (\<lambda>t. (t, the (completed_by t))) ts)
      else Err (General ''Task not completed''))"
  by (induction ts) (auto simp: completed_task_eq split: option.splits)

lemma update_other_statuses_eq:
  "update_other_statuses ts js =
     (case List.map_filter failed_with ts of
        err # _ \<Rightarrow> Some (JS_Failed err)
      | [] \<Rightarrow> if js = None \<and> list_ex is_running ts then Some JS_Running else js)"
proof (induction ts arbitrary: js)
  case (Cons t ts)
  show ?case
  proof (cases "ts_status t")
    case None
    then have "failed_with t = None" "\<not> is_running t" by (simp_all add: failed_with_def is_running_def)
    with None show ?thesis by (cases js) (simp_all add: Cons.IH map_filter_simps split: list.split)
  next
    case (Some st)
    then have "failed_with t = (case st of TS_Failed e \<Rightarrow> Some e | _ \<Rightarrow> None)"
      "is_running t = (case st of TS_Running _ \<Rightarrow> True | _ \<Rightarrow> False)"
      by (simp_all add: failed_with_def is_running_def)
    with Some show ?thesis by (cases st; cases js) (simp_all add: Cons.IH map_filter_simps split: list.split)
  qed
qed (simp add: map_filter_simps)

lemma job_state_from_statuses_eq: "job_state_from_statuses executors ts = job_state_spec executors ts"
proof (cases "list_all (\<lambda>t. completed_by t \<noteq> None) ts")
  case True
  then have "map (\<lambda>(t, e). \<lparr>ppl_partition_id = ts_partition_id t, ppl_executor_meta = map_option executor_meta_to_pb (executors e)\<rparr>)
      (map (\<lambda>t. (t, the (completed_by t))) ts) = map (task_location executors) ts"
    by (auto simp: list_all_iff task_location_def)
  with True show ?thesis by (simp add: job_state_from_statuses_def job_state_spec_def mapM_completed)
next
  case False
  then show ?thesis
    by (simp add: job_state_from_statuses_def job_state_spec_def mapM_completed update_other_statuses_eq)
qed

section \<open>What the libraries promise\<close>

definition codec_ok :: "('m, 'b) codec \<Rightarrow> ('m \<Rightarrow> bool) \<Rightarrow> bool" where
  "codec_ok cd full \<longleftrightarrow>
     (\<forall>x. \<exists>bs. cd_encode cd x = Ok bs \<and> cd_decode cd bs = Ok x \<and> (full x \<longrightarrow> bs \<noteq> []))"

text \<open>\<open>HashMap\<close> iterates over each entry once, in an unspecified order.\<close>

definition hash_order_ok :: "(('k \<times> 'v) list \<Rightarrow> ('k \<times> 'v) list) \<Rightarrow> bool" where
  "hash_order_ok order \<longleftrightarrow> (\<forall>kvs. distinct (map fst kvs) \<longrightarrow> set (order kvs) = set kvs)"

definition env_ok :: "'b sched_env \<Rightarrow> bool" where
  "env_ok env \<longleftrightarrow>
     codec_ok (env_executor env) (\<lambda>_. False) \<and> codec_ok (env_job env) (\<lambda>s. js_status s \<noteq> None) \<and>
     codec_ok (env_task env) (\<lambda>t. ts_partition_id t \<noteq> None) \<and>
     codec_ok (env_plan env) (\<lambda>n. ppn_type n \<noteq> None) \<and>
     df_replaces (env_df env) \<and> unary_helpers (db_helpers (env_builders env)) \<and>
     hash_order_ok (env_hash_order env)"

lemma codec_okE:
  assumes "codec_ok cd full"
  obtains bs where "encode_protobuf cd x = Ok bs" "decode_protobuf cd bs = Ok x" "full x \<Longrightarrow> bs \<noteq> []"
  using assms unfolding codec_ok_def encode_protobuf_def decode_protobuf_def by (metis map_err.simps(1))

lemma plan_into_typed: "plan_into b p = Ok n \<Longrightarrow> ppn_type n \<noteq> None"
  by (cases "(b, p)" rule: plan_into.cases)
     (auto simp: result_simps hash_aggregate_into_def csv_exec_into_def parquet_exec_into_def)

text \<open>Encodings that keep the message itself, with nothing for a message without a set field.\<close>

datatype message =
    M_Executor pb_executor_metadata
  | M_Job job_status
  | M_Task task_status
  | M_Plan physical_plan_node

definition plain_codec :: "('m \<Rightarrow> message) \<Rightarrow> (message \<Rightarrow> 'm option) \<Rightarrow> 'm \<Rightarrow> string \<Rightarrow> ('m, message) codec" where
  "plain_codec inject project unset name = \<lparr>
     cd_type_name = name,
     cd_encode = (\<lambda>m. Ok (if m = unset then [] else [inject m])),
     cd_decode = (\<lambda>bs. case bs of
         [] \<Rightarrow> Ok unset
       | [b] \<Rightarrow> (case project b of Some m \<Rightarrow> Ok m | None \<Rightarrow> Err ''unexpected message'')
       | _ \<Rightarrow> Err ''unexpected message'')\<rparr>"

lemma plain_codec_ok:
  "(\<And>m. project (inject m) = Some m) \<Longrightarrow> (\<And>m. full m \<Longrightarrow> m \<noteq> unset) \<Longrightarrow>
     codec_ok (plain_codec inject project unset name) full"
  by (auto simp: codec_ok_def plain_codec_def)

definition plain_env :: "message sched_env" where
  "plain_env = \<lparr>
     env_executor = plain_codec M_Executor (\<lambda>m. case m of M_Executor x \<Rightarrow> Some x | _ \<Rightarrow> None)
       \<lparr>pem_id = [], pem_host = [], pem_port = 0\<rparr> ''ExecutorMetadata'',
     env_job = plain_codec M_Job (\<lambda>m. case m of M_Job x \<Rightarrow> Some x | _ \<Rightarrow> None) \<lparr>js_status = None\<rparr> ''JobStatus'',
     env_task = plain_codec M_Task (\<lambda>m. case m of M_Task x \<Rightarrow> Some x | _ \<Rightarrow> None)
       \<lparr>ts_partition_id = None, ts_status = None\<rparr> ''TaskStatus'',
     env_plan = plain_codec M_Plan (\<lambda>m. case m of M_Plan x \<Rightarrow> Some x | _ \<Rightarrow> None) (PPN None) ''PhysicalPlanNode'',
     env_df = df_plain,
     env_builders = plain_builders,
     env_hash_order = (\<lambda>kvs. kvs)\<rparr>"

lemma plain_env_ok: "env_ok plain_env"
  unfolding env_ok_def plain_env_def sched_env.simps
  by (intro conjI plain_codec_ok)
     (auto simp: df_replaces_plain plain_builders_helpers hash_order_ok_def)

section \<open>Properties\<close>

text \<open>
  C17. The status of a job is decided by its tasks as specified: completed exactly when all tasks
  are, with the location of every task in order; else failed with the first failed task's error;
  else running when some task runs; else undecided.  The loop with its early exit and the
  collection into a \<open>Result\<close> compute this for every list of tasks.
\<close>

theorem job_state_follows_tasks: "job_state_from_statuses executors ts = job_state_spec executors ts"
  by (rule job_state_from_statuses_eq)

end
