(* ===== verification/Scheduler_View.thy ===== *)
theory Scheduler_View
  imports Scheduler_State
begin

text \<open>
  The abstract content of the scheduler's store and what each operation of \<open>SchedulerState\<close> does to
  it.  \<open>sched_view\<close> holds the executors, jobs, tasks and stage plans of one namespace;
  \<open>represents env ns m w\<close> says that the bytes \<open>m\<close> decode to \<open>w\<close>.  The operations refine the
  obvious functions on \<open>sched_view\<close>, for every backend that keeps the contract \<open>config_backend\<close>.
\<close>

section \<open>The abstract store\<close>

record sched_view =
  vw_executors :: "string \<rightharpoonup> executor_meta"
  vw_jobs :: "string \<rightharpoonup> job_status"
  vw_tasks :: "partition_id \<rightharpoonup> task_state option"
  vw_plans :: "string \<times> nat \<rightharpoonup> exec_plan"

definition pid_key :: "string \<Rightarrow> partition_id \<Rightarrow> string" where
  "pid_key ns p = get_task_status_key ns (pid_job p) (pid_stage p) (pid_partition p)"

definition task_of :: "partition_id \<Rightarrow> task_state option \<Rightarrow> task_status" where
  "task_of p st = \<lparr>ts_partition_id = Some (partition_id_to_pb p), ts_status = st\<rparr>"

lemma task_of_simps [simp]:
  "ts_partition_id (task_of p st) = Some (partition_id_to_pb p)" "ts_status (task_of p st) = st"
  "(task_of p st)\<lparr>ts_status := st'\<rparr> = task_of p st'"
  by (simp_all add: task_of_def)

definition executor_entry :: "'b sched_env \<Rightarrow> string \<Rightarrow> 'b list \<Rightarrow> executor_meta \<Rightarrow> bool" where
  "executor_entry env i v e \<longleftrightarrow> em_id e = i \<and> decode_protobuf (env_executor env) v = Ok (executor_meta_to_pb e)"

definition job_entry :: "'b sched_env \<Rightarrow> 'b list \<Rightarrow> job_status \<Rightarrow> bool" where
  "job_entry env v st \<longleftrightarrow> v \<noteq> [] \<and> decode_protobuf (env_job env) v = Ok st"

definition task_entry :: "'b sched_env \<Rightarrow> partition_id \<Rightarrow> 'b list \<Rightarrow> task_state option \<Rightarrow> bool" where
  "task_entry env p v st \<longleftrightarrow> pid_fits p \<and> v \<noteq> [] \<and> decode_protobuf (env_task env) v = Ok (task_of p st)"

definition plan_entry :: "'b sched_env \<Rightarrow> 'b list \<Rightarrow> exec_plan \<Rightarrow> bool" where
  "plan_entry env v plan \<longleftrightarrow>
     v \<noteq> [] \<and> rbind (decode_protobuf (env_plan env) v) (plan_try_into (env_df env) (env_builders env)) = Ok plan"

definition slash_free :: "string \<Rightarrow> bool" where
  "slash_free s \<longleftrightarrow> CHR ''/'' \<notin> set s"

definition represents :: "'b sched_env \<Rightarrow> string \<Rightarrow> (string \<rightharpoonup> 'b list) \<Rightarrow> sched_view \<Rightarrow> bool" where
  "represents env ns m w \<longleftrightarrow>
     (\<forall>i. rel_option (executor_entry env i) (m (get_executor_key ns i)) (vw_executors w i)) \<and>
     (\<forall>j. rel_option (job_entry env) (m (get_job_key ns j)) (vw_jobs w j)) \<and>
     (\<forall>p. rel_option (task_entry env p) (m (pid_key ns p)) (vw_tasks w p)) \<and>
     (\<forall>j s. rel_option (plan_entry env) (m (get_stage_plan_key ns j s)) (vw_plans w (j, s))) \<and>
     (\<forall>k v. m k = Some v \<longrightarrow>
        (prefix (get_executors_prefix ns) k \<longrightarrow> k \<in> range (get_executor_key ns)) \<and>
        (prefix (get_job_prefix ns) k \<longrightarrow> k \<in> get_job_key ns ` {j. slash_free j}) \<and>
        (prefix (get_task_prefix ns) k \<longrightarrow> k \<in> range (pid_key ns)))"

lemma pid_key_simps [simp]:
  "pid_key ns p = pid_key ns q \<longleftrightarrow> p = q" "own_key (pid_key ns p)"
  "pid_key ns p \<noteq> get_executor_key ns i" "pid_key ns p \<noteq> get_job_key ns j" "pid_key ns p \<noteq> get_stage_plan_key ns j s"
  "get_executor_key ns i \<noteq> pid_key ns p" "get_job_key ns j \<noteq> pid_key ns p" "get_stage_plan_key ns j s \<noteq> pid_key ns p"
  "prefix (get_task_prefix ns) (pid_key ns p)" "\<not> prefix (get_executors_prefix ns) (pid_key ns p)"
  "\<not> prefix (get_job_prefix ns) (pid_key ns p)"
  by (auto simp: pid_key_def)

lemma pid_key_wire [simp]:
  "pid_fits p \<Longrightarrow> get_task_status_key ns (ppid_job (partition_id_to_pb p)) (u32_to_usize (ppid_stage (partition_id_to_pb p)))
     (u32_to_usize (ppid_partition (partition_id_to_pb p))) = pid_key ns p"
  by (simp add: pid_key_def partition_id_to_pb_def pid_fits_def)

lemma represents_put_executor:
  assumes "represents env ns m w" "executor_entry env i v e"
  shows "represents env ns (m(get_executor_key ns i \<mapsto> v)) (w\<lparr>vw_executors := (vw_executors w)(i \<mapsto> e)\<rparr>)"
  using assms unfolding represents_def by auto

lemma represents_put_job:
  assumes "represents env ns m w" "job_entry env v st" "slash_free j"
  shows "represents env ns (m(get_job_key ns j \<mapsto> v)) (w\<lparr>vw_jobs := (vw_jobs w)(j \<mapsto> st)\<rparr>)"
  using assms unfolding represents_def by auto

lemma represents_put_task:
  assumes "represents env ns m w" "task_entry env p v st"
  shows "represents env ns (m(pid_key ns p \<mapsto> v)) (w\<lparr>vw_tasks := (vw_tasks w)(p \<mapsto> st)\<rparr>)"
  using assms unfolding represents_def by auto

lemma represents_put_plan:
  assumes "represents env ns m w" "plan_entry env v plan"
  shows "represents env ns (m(get_stage_plan_key ns j s \<mapsto> v)) (w\<lparr>vw_plans := (vw_plans w)((j, s) \<mapsto> plan)\<rparr>)"
  using assms unfolding represents_def by auto

lemma represents_empty: "represents env ns Map.empty
    \<lparr>vw_executors = Map.empty, vw_jobs = Map.empty, vw_tasks = Map.empty, vw_plans = Map.empty\<rparr>"
  by (simp add: represents_def)

section \<open>Looking up entries\<close>

lemma represents_executor: "represents env ns m w \<Longrightarrow> rel_option (executor_entry env i) (m (get_executor_key ns i)) (vw_executors w i)"
  by (simp add: represents_def)

lemma represents_job: "represents env ns m w \<Longrightarrow> rel_option (job_entry env) (m (get_job_key ns j)) (vw_jobs w j)"
  by (simp add: represents_def)

lemma represents_task: "represents env ns m w \<Longrightarrow> rel_option (task_entry env p) (m (pid_key ns p)) (vw_tasks w p)"
  by (simp add: represents_def)

lemma represents_plan:
  "represents env ns m w \<Longrightarrow> rel_option (plan_entry env) (m (get_stage_plan_key ns j s)) (vw_plans w (j, s))"
  by (simp add: represents_def)

lemma rel_option_SomeE:
  "rel_option R x (Some b) \<Longrightarrow> (\<And>a. x = Some a \<Longrightarrow> R a b \<Longrightarrow> thesis) \<Longrightarrow> thesis"
  "rel_option R (Some a) y \<Longrightarrow> (\<And>b. y = Some b \<Longrightarrow> R a b \<Longrightarrow> thesis) \<Longrightarrow> thesis"
  by (auto simp: option_rel_Some1 option_rel_Some2)

text \<open>Decoding a list of entries that are identified by their keys.\<close>

lemma entries_decoded:
  assumes "\<And>k v. (k, v) \<in> set kvs \<Longrightarrow> \<exists>i. k = key i \<and> P i \<and> f (k, v) = Ok (x i)"
  shows "\<exists>ids. map fst kvs = map key ids \<and> list_all P ids \<and> mapM f kvs = Ok (map x ids)"
  using assms
proof (induction kvs)
  case (Cons entry kvs)
  then obtain ids where "map fst kvs = map key ids" "list_all P ids" "mapM f kvs = Ok (map x ids)" by auto
  moreover obtain i where "fst entry = key i" "P i" "f entry = Ok (x i)"
    using Cons.prems [of "fst entry" "snd entry"] by auto
  ultimately show ?case by (intro exI [of _ "i # ids"]) simp
qed simp

lemma listed_decoded:
  assumes kvs: "distinct (map fst kvs)" "\<And>k v. (k, v) \<in> set kvs \<Longrightarrow> \<exists>i. k = key i \<and> P i \<and> f (k, v) = Ok (x i)"
    and all: "\<And>i. P i \<Longrightarrow> \<exists>v. (key i, v) \<in> set kvs" and inj: "inj key" "inj_on x (Collect P)"
  shows "\<exists>xs. mapM f kvs = Ok xs \<and> distinct xs \<and> set xs = x ` Collect P"
proof -
  obtain ids where ids: "map fst kvs = map key ids" "list_all P ids" "mapM f kvs = Ok (map x ids)"
    using entries_decoded [OF kvs(2)] by blast
  have "i \<in> set ids" if "P i" for i
  proof -
    from all [OF that] have "key i \<in> set (map key ids)" unfolding ids(1) [symmetric] by force
    then show ?thesis using inj(1) by (auto dest: injD)
  qed
  with ids(2) have set_ids: "set ids = Collect P" by (auto simp: list_all_iff)
  have "distinct ids" using kvs(1) unfolding ids(1) by (simp add: distinct_map)
  with set_ids inj(2) have "distinct (map x ids)" by (simp add: distinct_map)
  with ids(3) set_ids show ?thesis by auto
qed

text \<open>A prefix scan of the tasks is the list of the tasks of the view.\<close>

lemma tasks_listed:
  assumes "represents env ns m w" "lists_prefix m (get_task_prefix ns) kvs"
  shows "(k, v) \<in> set kvs \<longleftrightarrow> (\<exists>p st. k = pid_key ns p \<and> m k = Some v \<and> vw_tasks w p = Some st \<and> task_entry env p v st)"
proof
  assume "(k, v) \<in> set kvs"
  then have k: "m k = Some v" "prefix (get_task_prefix ns) k" using assms(2) by (auto simp: lists_prefix_def)
  with assms(1) obtain p where p: "k = pid_key ns p" by (auto simp: represents_def)
  with k represents_task [OF assms(1), of p] show "\<exists>p st. k = pid_key ns p \<and> m k = Some v \<and> vw_tasks w p = Some st \<and> task_entry env p v st"
    by (auto elim: rel_option_SomeE)
qed (use assms(2) in \<open>auto simp: lists_prefix_def\<close>)

lemma task_map_of:
  assumes "represents env ns m w" "lists_prefix m (get_task_prefix ns) kvs"
  shows "map_of (rev kvs) (pid_key ns p) = m (pid_key ns p)"
proof (cases "m (pid_key ns p)")
  case None
  then have "pid_key ns p \<notin> fst ` set kvs" using assms(2) by (auto simp: lists_prefix_def)
  with None show ?thesis by (simp add: map_of_eq_None_iff)
next
  case (Some v)
  then have "(pid_key ns p, v) \<in> set kvs" using assms(2) by (simp add: lists_prefix_def)
  moreover have "distinct (map fst (rev kvs))" using assms(2) by (simp add: lists_prefix_def rev_map [symmetric])
  ultimately show ?thesis using Some by simp
qed

text \<open>The executors read from the store, as a list.\<close>

definition lists_executors :: "sched_view \<Rightarrow> executor_meta list \<Rightarrow> bool" where
  "lists_executors w es \<longleftrightarrow> distinct (map em_id es) \<and> set es = ran (vw_executors w)"

definition executors_by_id :: "sched_view \<Rightarrow> bool" where
  "executors_by_id w \<longleftrightarrow> (\<forall>i e. vw_executors w i = Some e \<longrightarrow> em_id e = i)"

lemma represents_executors_by_id:
  assumes "represents env ns m w"
  shows "executors_by_id w"
  unfolding executors_by_id_def
proof (intro allI impI)
  fix i e assume "vw_executors w i = Some e"
  with represents_executor [OF assms, of i] show "em_id e = i"
    by (auto elim: rel_option_SomeE simp: executor_entry_def)
qed

lemma find_executor:
  assumes "lists_executors w es" "executors_by_id w"
  shows "List.find (\<lambda>e. em_id e = i) es = vw_executors w i"
proof (cases "vw_executors w i")
  case None
  then have "\<forall>e \<in> set es. em_id e \<noteq> i"
    using assms by (auto simp: lists_executors_def executors_by_id_def ran_def)
  with None show ?thesis by (simp add: find_None_iff)
next
  case (Some e)
  then have e: "e \<in> set es" "em_id e = i"
    using assms by (auto simp: lists_executors_def executors_by_id_def ran_def)
  then obtain e' where "List.find (\<lambda>e. em_id e = i) es = Some e'"
    by (cases "List.find (\<lambda>e. em_id e = i) es") (auto simp: find_None_iff)
  moreover from find_Some_iff_in [OF this] e assms(1) have "e' = e"
    by (auto simp: lists_executors_def distinct_map dest: inj_onD)
  ultimately show ?thesis using Some by simp
qed

lemma executor_map_of:
  assumes "lists_executors w es" "executors_by_id w"
  shows "map_of (rev (map (\<lambda>e. (em_id e, e)) es)) = vw_executors w"
proof
  fix i
  have d: "distinct (map fst (rev (map (\<lambda>e. (em_id e, e)) es)))"
    using assms(1) by (simp add: lists_executors_def rev_map [symmetric] comp_def)
  show "map_of (rev (map (\<lambda>e. (em_id e, e)) es)) i = vw_executors w i"
  proof (cases "vw_executors w i")
    case None
    then show ?thesis
      using assms by (auto simp: map_of_eq_None_iff lists_executors_def executors_by_id_def ran_def)
  next
    case (Some e)
    then have "(i, e) \<in> set (rev (map (\<lambda>e. (em_id e, e)) es))"
      using assms by (auto simp: lists_executors_def executors_by_id_def ran_def image_iff)
    with d Some show ?thesis by (simp only: map_of_eq_Some_iff)
  qed
qed

section \<open>Saving and loading on the view\<close>

lemma codec_ok_full:
  assumes "codec_ok cd full" "full x"
  obtains bs where "encode_protobuf cd x = Ok bs" "decode_protobuf cd bs = Ok x" "bs \<noteq> []"
  using codec_okE [OF assms(1), of x] assms(2) by metis

context config_backend
begin

lemma valid_save_executor:
  assumes env: "env_ok env" and rep: "represents env ns m w"
  shows "valid m (save_executor_metadata env bk ns e)
    (\<lambda>r m'. r = Ok () \<and> represents env ns m' (w\<lparr>vw_executors := (vw_executors w)(em_id e \<mapsto> e)\<rparr>))"
proof -
  from env have "codec_ok (env_executor env) (\<lambda>_. False)" by (simp add: env_ok_def)
  then obtain v where v: "encode_protobuf (env_executor env) (executor_meta_to_pb e) = Ok v"
      "decode_protobuf (env_executor env) v = Ok (executor_meta_to_pb e)" by (rule codec_okE)
  with represents_put_executor [OF rep, of "em_id e" v e] show ?thesis
    by (auto simp: save_executor_metadata_def executor_entry_def intro!: valid_put)
qed

lemma valid_save_job:
  assumes env: "env_ok env" and rep: "represents env ns m w" and st: "js_status st \<noteq> None" "slash_free j"
  shows "valid m (save_job_metadata env bk ns j st)
    (\<lambda>r m'. r = Ok () \<and> represents env ns m' (w\<lparr>vw_jobs := (vw_jobs w)(j \<mapsto> st)\<rparr>))"
proof -
  from env have "codec_ok (env_job env) (\<lambda>s. js_status s \<noteq> None)" by (simp add: env_ok_def)
  then obtain v where "encode_protobuf (env_job env) st = Ok v" "decode_protobuf (env_job env) v = Ok st" "v \<noteq> []"
    using st(1) by (rule codec_ok_full)
  with represents_put_job [OF rep, of v st j] st show ?thesis
    by (auto simp: save_job_metadata_def job_entry_def intro!: valid_put)
qed

lemma valid_get_job:
  assumes rep: "represents env ns m w"
  shows "valid m (get_job_metadata env bk ns j)
    (\<lambda>r m'. m' = m \<and> r = (case vw_jobs w j of
        Some st \<Rightarrow> Ok st | None \<Rightarrow> Err (General (''No job metadata found for '' @ get_job_key ns j))))"
  using represents_job [OF rep, of j] unfolding get_job_metadata_def
  by (cases "vw_jobs w j")
     (auto simp: stored_def job_entry_def elim!: rel_option_SomeE intro!: valid_sbind_get)

lemma valid_save_task:
  assumes env: "env_ok env" and rep: "represents env ns m w" and p: "pid_fits p"
  shows "valid m (save_task_status env bk ns (task_of p st))
    (\<lambda>r m'. r = Ok () \<and> represents env ns m' (w\<lparr>vw_tasks := (vw_tasks w)(p \<mapsto> st)\<rparr>))"
proof -
  from env have "codec_ok (env_task env) (\<lambda>t. ts_partition_id t \<noteq> None)" by (simp add: env_ok_def)
  then obtain v where "encode_protobuf (env_task env) (task_of p st) = Ok v"
      "decode_protobuf (env_task env) v = Ok (task_of p st)" "v \<noteq> []"
    by (rule codec_ok_full [where x = "task_of p st"]) (simp add: task_of_def)
  with represents_put_task [OF rep, of p v st] p show ?thesis
    by (auto simp: save_task_status_def task_entry_def intro!: valid_put)
qed

lemma valid_save_plan:
  assumes env: "env_ok env" and rep: "represents env ns m w" and plan: "plan_ok (env_df env) (env_builders env) plan"
  shows "valid m (save_stage_plan env bk ns j s plan)
    (\<lambda>r m'. r = Ok () \<and> represents env ns m' (w\<lparr>vw_plans := (vw_plans w)((j, s) \<mapsto> plan)\<rparr>))"
proof -
  from env have "unary_helpers (db_helpers (env_builders env))" by (simp add: env_ok_def)
  then obtain n where n: "plan_into (env_builders env) plan = Ok n" "plan_try_into (env_df env) (env_builders env) n = Ok plan"
    using serde.roundtrip [OF plan_serde_helpers, of "env_builders env" "env_df env" plan] plan by blast
  from env have "codec_ok (env_plan env) (\<lambda>n. ppn_type n \<noteq> None)" by (simp add: env_ok_def)
  then obtain v where "encode_protobuf (env_plan env) n = Ok v" "decode_protobuf (env_plan env) v = Ok n" "v \<noteq> []"
    using plan_into_typed [OF n(1)] by (rule codec_ok_full)
  with represents_put_plan [OF rep, of v plan j s] n show ?thesis
    by (auto simp: save_stage_plan_def plan_entry_def intro!: valid_put)
qed

lemma valid_get_plan:
  assumes rep: "represents env ns m w"
  shows "valid m (get_stage_plan env bk ns j s)
    (\<lambda>r m'. m' = m \<and> r = (case vw_plans w (j, s) of
        Some plan \<Rightarrow> Ok plan | None \<Rightarrow> Err (General (''No stage plan found for '' @ get_stage_plan_key ns j s))))"
  using represents_plan [OF rep, of j s] unfolding get_stage_plan_def Let_def
  by (cases "vw_plans w (j, s)")
     (auto simp: stored_def plan_entry_def elim!: rel_option_SomeE intro!: valid_sbind_get)

lemma executors_decoded:
  assumes rep: "represents env ns m w" and kvs: "lists_prefix m (get_executors_prefix ns) kvs"
  shows "\<exists>es. mapM (\<lambda>(_, entry). rbind (decode_protobuf (env_executor env) entry) (\<lambda>meta.
      Ok (executor_meta_from_pb meta))) kvs = Ok es \<and> lists_executors w es"
proof -
  let ?f = "\<lambda>(k :: string, entry). rbind (decode_protobuf (env_executor env) entry) (\<lambda>meta. Ok (executor_meta_from_pb meta))"
  let ?x = "\<lambda>i. the (vw_executors w i)"
  have by_id: "em_id (?x i) = i" if "vw_executors w i \<noteq> None" for i
    using that represents_executors_by_id [OF rep] by (auto simp: executors_by_id_def)
  have "\<exists>es. mapM ?f kvs = Ok es \<and> distinct es \<and> set es = ?x ` {i. vw_executors w i \<noteq> None}"
  proof (rule listed_decoded [where key = "get_executor_key ns"])
    fix k v assume "(k, v) \<in> set kvs"
    then have k: "m k = Some v" "prefix (get_executors_prefix ns) k" using kvs by (auto simp: lists_prefix_def)
    with rep obtain i where "k = get_executor_key ns i" by (auto simp: represents_def)
    with k represents_executor [OF rep, of i]
    show "\<exists>i. k = get_executor_key ns i \<and> vw_executors w i \<noteq> None \<and> ?f (k, v) = Ok (?x i)"
      by (auto elim!: rel_option_SomeE simp: executor_entry_def)
  next
    fix i assume "vw_executors w i \<noteq> None"
    with represents_executor [OF rep, of i] show "\<exists>v. (get_executor_key ns i, v) \<in> set kvs"
      using kvs by (auto simp: lists_prefix_def elim!: rel_option_SomeE)
  qed (use kvs by_id in \<open>auto simp: lists_prefix_def inj_on_def\<close>, metis option.sel)
  moreover have "?x ` {i. vw_executors w i \<noteq> None} = ran (vw_executors w)" by (force simp: ran_def)
  moreover have "inj_on em_id (ran (vw_executors w))"
    using represents_executors_by_id [OF rep] by (auto simp: inj_on_def ran_def executors_by_id_def)
  ultimately show ?thesis by (auto simp: lists_executors_def distinct_map)
qed

lemma valid_get_executors:
  assumes "represents env ns m w"
  shows "valid m (get_executors_metadata env bk ns) (\<lambda>r m'. m' = m \<and> (\<exists>es. r = Ok es \<and> lists_executors w es))"
  unfolding get_executors_metadata_def
  by (rule valid_sbind_prefix) (use executors_decoded [OF assms] in \<open>fastforce\<close>)+

end

section \<open>Assignment on the view\<close>

text \<open>The tasks a plan reads from, and where a completed one is.\<close>

abbreviation plan_deps :: "exec_plan \<Rightarrow> (nat \<times> nat) list" where
  "plan_deps plan \<equiv> shuffle_tasks (plan_shuffles plan)"

definition dep_pid :: "string \<Rightarrow> nat \<times> nat \<Rightarrow> partition_id" where
  "dep_pid j sp = \<lparr>pid_job = j, pid_stage = fst sp, pid_partition = snd sp\<rparr>"

definition completed_at :: "sched_view \<Rightarrow> string \<Rightarrow> nat \<times> nat \<Rightarrow> string option" where
  "completed_at w j sp = (case vw_tasks w (dep_pid j sp) of Some (Some (TS_Completed e)) \<Rightarrow> Some e | _ \<Rightarrow> None)"

definition dep_location :: "sched_view \<Rightarrow> string \<Rightarrow> nat \<times> nat \<Rightarrow> partition_location" where
  "dep_location w j sp =
     \<lparr>pl_partition_id = dep_pid j sp, pl_executor_meta = the (vw_executors w (the (completed_at w j sp)))\<rparr>"

definition push_deps :: "sched_view \<Rightarrow> string \<Rightarrow> (nat \<times> nat) list \<Rightarrow> locations \<Rightarrow> locations" where
  "push_deps w j sps locs = fold (\<lambda>sp locs. push_location locs (fst sp) (dep_location w j sp)) sps locs"

text \<open>A task may start: it is pending, its plan is known and all it reads is completed.\<close>

definition schedulable :: "sched_view \<Rightarrow> partition_id \<Rightarrow> exec_plan \<Rightarrow> bool" where
  "schedulable w p plan \<longleftrightarrow>
     vw_tasks w p = Some None \<and> vw_plans w (pid_job p, pid_stage p) = Some plan \<and>
     list_all (\<lambda>sp. completed_at w (pid_job p) sp \<noteq> None) (plan_deps plan)"

text \<open>The plan that is sent: every shuffle reads the completed tasks it refers to.\<close>

definition assigned_plan :: "sched_view \<Rightarrow> partition_id \<Rightarrow> exec_plan \<Rightarrow> exec_plan" where
  "assigned_plan w p plan = resolve (push_deps w (pid_job p) (plan_deps plan) Map.empty) plan"

text \<open>
  The invariant of the store: a pending task has a plan, the tasks it reads exist and the shuffles
  are not empty; the executor of a completed task is registered.
\<close>

definition pending_ok :: "sched_view \<Rightarrow> partition_id \<Rightarrow> bool" where
  "pending_ok w p \<longleftrightarrow>
     (\<exists>plan. vw_plans w (pid_job p, pid_stage p) = Some plan \<and> staged_plan plan \<and>
        (\<forall>sp \<in> set (plan_deps plan). vw_tasks w (dep_pid (pid_job p) sp) \<noteq> None) \<and>
        (\<forall>u \<in> set (plan_shuffles plan). 0 < us_partition_count u))"

definition tasks_ok :: "sched_view \<Rightarrow> bool" where
  "tasks_ok w \<longleftrightarrow>
     (\<forall>p. vw_tasks w p = Some None \<longrightarrow> pending_ok w p) \<and>
     (\<forall>p e. vw_tasks w p = Some (Some (TS_Completed e)) \<longrightarrow> vw_executors w e \<noteq> None)"

lemma push_location_dom [simp]: "dom (push_location locs i l) = insert i (dom locs)"
  by (auto simp: push_location_def)

lemma push_deps_dom: "dom (push_deps w j sps locs) = fst ` set sps \<union> dom locs"
  by (induction sps arbitrary: locs) (auto simp: push_deps_def)

lemma deps_located:
  assumes "\<forall>u \<in> set (plan_shuffles plan). 0 < us_partition_count u"
  shows "located (push_deps w j (plan_deps plan) locs) plan"
  unfolding located_def
proof (intro ballI subsetI)
  fix u i assume "u \<in> set (plan_shuffles plan)" "i \<in> set (us_query_stage_ids u)"
  with assms have "(i, 0) \<in> set (plan_deps plan)" by (auto simp: shuffle_tasks_def image_iff)
  then have "i \<in> fst ` set (plan_deps plan)" by (metis fst_conv image_eqI)
  then show "i \<in> dom (push_deps w j (plan_deps plan) locs)" by (simp add: push_deps_dom)
qed

lemma task_entryD: "task_entry env p v st \<Longrightarrow> decode_protobuf (env_task env) v = Ok (task_of p st) \<and> pid_fits p"
  by (simp add: task_entry_def)

lemma completed_location_view:
  assumes rep: "represents env ns m w" and kvs: "lists_prefix m (get_task_prefix ns) kvs"
    and es: "lists_executors w es" and ok: "tasks_ok w" and sp: "vw_tasks w (dep_pid j sp) \<noteq> None"
  shows "completed_location env ns (map_of (rev kvs)) es j sp =
    Ok (if completed_at w j sp \<noteq> None then Some (dep_location w j sp) else None)"
proof -
  have key: "get_task_status_key ns j (fst sp) (snd sp) = pid_key ns (dep_pid j sp)"
    by (simp add: pid_key_def dep_pid_def)
  obtain st where st: "vw_tasks w (dep_pid j sp) = Some st" using sp by auto
  with represents_task [OF rep, of "dep_pid j sp"] obtain v where
    v: "m (pid_key ns (dep_pid j sp)) = Some v" "task_entry env (dep_pid j sp) v st" by (auto elim: rel_option_SomeE)
  have find: "List.find (\<lambda>e. em_id e = i) es = vw_executors w i" for i
    using find_executor [OF es represents_executors_by_id [OF rep]] .
  have "completed_location env ns (map_of (rev kvs)) es j sp =
      (case st of
         Some (TS_Completed e) \<Rightarrow> rbind (unwrap (vw_executors w e)) (\<lambda>meta.
           Ok (Some \<lparr>pl_partition_id = dep_pid j sp, pl_executor_meta = meta\<rparr>))
       | _ \<Rightarrow> Ok None)"
    using v task_map_of [OF rep kvs, of "dep_pid j sp"] task_entryD [OF v(2)]
    by (auto simp: completed_location_def split_beta key find task_of_def split: option.split task_state.split)
       (simp_all add: dep_pid_def)
  moreover have "vw_executors w e \<noteq> None" if "st = Some (TS_Completed e)" for e
    using ok st that by (auto simp: tasks_ok_def)
  ultimately show ?thesis
    using st by (auto simp: completed_at_def dep_location_def split: option.splits task_state.splits)
qed

lemma collect_locations_view:
  assumes "represents env ns m w" "lists_prefix m (get_task_prefix ns) kvs" "lists_executors w es" "tasks_ok w"
    and "\<forall>sp \<in> set sps. vw_tasks w (dep_pid j sp) \<noteq> None"
  shows "collect_locations env ns (map_of (rev kvs)) es j sps locs =
    Ok (if list_all (\<lambda>sp. completed_at w j sp \<noteq> None) sps then Some (push_deps w j sps locs) else None)"
  using assms(5)
proof (induction sps arbitrary: locs)
  case (Cons sp sps)
  then show ?case
    using completed_location_view [OF assms(1-4), of j sp] by (simp add: push_deps_def)
qed (simp add: push_deps_def)

text \<open>The outcome of the loop over \<open>todo\<close>: no task of it can start, or one has been started.\<close>

definition assign_post ::
  "'b sched_env \<Rightarrow> string \<Rightarrow> (string \<rightharpoonup> 'b list) \<Rightarrow> sched_view \<Rightarrow> string \<Rightarrow> string set
    \<Rightarrow> ((task_status \<times> exec_plan) option, BallistaError) result \<Rightarrow> (string \<rightharpoonup> 'b list) \<Rightarrow> bool" where
  "assign_post env ns m w ex todo r m' \<longleftrightarrow>
     (r = Ok None \<and> m' = m \<and> (\<forall>p plan. pid_key ns p \<in> todo \<longrightarrow> \<not> schedulable w p plan)) \<or>
     (\<exists>p plan. schedulable w p plan \<and> r = Ok (Some (task_of p (Some (TS_Running ex)), assigned_plan w p plan)) \<and>
        represents env ns m' (w\<lparr>vw_tasks := (vw_tasks w)(p \<mapsto> Some (TS_Running ex))\<rparr>))"

lemma assign_post_all:
  assumes "assign_post env ns m w ex S r m'" "\<And>p plan. schedulable w p plan \<Longrightarrow> pid_key ns p \<in> S"
  shows "assign_post env ns m w ex (range (pid_key ns)) r m'"
  using assms unfolding assign_post_def by blast

context config_backend
begin

lemma valid_resolve_task_plan:
  assumes env: "env_ok env" and rep: "represents env ns m w" and kvs: "lists_prefix m (get_task_prefix ns) kvs"
    and es: "lists_executors w es" and ok: "tasks_ok w" and p: "vw_tasks w p = Some None" "pid_fits p"
  shows "valid m (resolve_task_plan env bk ns (map_of (rev kvs)) es (partition_id_to_pb p))
    (\<lambda>r m'. \<exists>x. r = Ok x \<and> m' = m \<and>
       (x = None \<and> (\<forall>plan. \<not> schedulable w p plan) \<or> (\<exists>plan. schedulable w p plan \<and> x = Some (assigned_plan w p plan))))"
proof -
  from ok p(1) obtain plan where plan: "vw_plans w (pid_job p, pid_stage p) = Some plan" "staged_plan plan"
      "\<forall>sp \<in> set (plan_deps plan). vw_tasks w (dep_pid (pid_job p) sp) \<noteq> None"
      "\<forall>u \<in> set (plan_shuffles plan). 0 < us_partition_count u"
    by (auto simp: tasks_ok_def pending_ok_def)
  have pb: "ppid_job (partition_id_to_pb p) = pid_job p" "u32_to_usize (ppid_stage (partition_id_to_pb p)) = pid_stage p"
    using p(2) by (simp_all add: partition_id_to_pb_def pid_fits_def)
  have remove: "remove_unresolved_shuffles (env_df env) (push_deps w (pid_job p) (plan_deps plan) Map.empty) plan =
      Ok (assigned_plan w p plan)"
    using remove_unresolved_staged [of "env_df env" plan] env plan(2) deps_located [OF plan(4)]
    by (simp add: env_ok_def assigned_plan_def)
  have "valid m (get_stage_plan env bk ns (pid_job p) (pid_stage p)) (\<lambda>r m'. \<exists>x. r = Ok x \<and> x = plan \<and> m' = m)"
    by (rule valid_weaken [OF valid_get_plan [OF rep, of "pid_job p" "pid_stage p"]]) (simp add: plan(1))
  then show ?thesis
    unfolding resolve_task_plan_def pb
    by (rule valid_sbind_Ok)
       (use collect_locations_view [OF rep kvs es ok plan(3), of Map.empty] remove plan(1) p(1)
         in \<open>auto simp: find_unresolved_shuffles_eq schedulable_def intro!: valid_sret\<close>)
qed

lemma valid_assign_loop:
  assumes env: "env_ok env" and rep: "represents env ns m w" and kvs: "lists_prefix m (get_task_prefix ns) kvs"
    and es: "lists_executors w es" and ok: "tasks_ok w" and todo: "set todo \<subseteq> set kvs"
  shows "valid m (assign_loop env bk ns ex (map_of (rev kvs)) es todo) (assign_post env ns m w ex (fst ` set todo))"
  using todo
proof (induction todo)
  case Nil
  then show ?case by (auto simp: assign_post_def intro: valid_sret)
next
  case (Cons entry todo)
  obtain k v where kv_eq: "entry = (k, v)" by (cases entry)
  with Cons.prems tasks_listed [OF rep kvs, of k v] obtain p st where
    p: "k = pid_key ns p" "vw_tasks w p = Some st" "decode_protobuf (env_task env) v = Ok (task_of p st)" "pid_fits p"
    by (auto dest!: task_entryD)
  have skip: "valid m (assign_loop env bk ns ex (map_of (rev kvs)) es todo) (assign_post env ns m w ex (fst ` set (entry # todo)))"
    if "\<And>plan. \<not> schedulable w p plan"
    by (rule valid_weaken [OF Cons.IH]) (use that p(1) kv_eq Cons.prems in \<open>auto simp: assign_post_def\<close>)
  show ?case
  proof (cases st)
    case (Some st')
    then have "\<not> schedulable w p plan" for plan using p(2) by (simp add: schedulable_def)
    from skip [OF this] show ?thesis by (simp add: kv_eq p(3) Some)
  next
    case None
    have start: "valid m (sbind (save_task_status env bk ns (task_of p (Some (TS_Running ex))))
        (\<lambda>_. sret (Some (task_of p (Some (TS_Running ex)), assigned_plan w p plan))))
        (assign_post env ns m w ex (fst ` set (entry # todo)))" if "schedulable w p plan" for plan
      by (rule valid_sbind_Ok [OF valid_weaken [OF valid_save_task [OF env rep p(4)]]])
         (use that in \<open>auto simp: assign_post_def intro!: valid_sret\<close>)
    have "valid m (sbind (resolve_task_plan env bk ns (map_of (rev kvs)) es (partition_id_to_pb p)) (\<lambda>resolved.
        case resolved of
          None \<Rightarrow> assign_loop env bk ns ex (map_of (rev kvs)) es todo
        | Some plan \<Rightarrow> sbind (save_task_status env bk ns (task_of p (Some (TS_Running ex))))
            (\<lambda>_. sret (Some (task_of p (Some (TS_Running ex)), plan)))))
        (assign_post env ns m w ex (fst ` set (entry # todo)))"
      by (rule valid_sbind_Ok [OF valid_resolve_task_plan [OF env rep kvs es ok p(2) [unfolded None] p(4)]])
         (use start skip in auto)
    then show ?thesis using None by (simp add: kv_eq p(3) Let_def)
  qed
qed

lemma valid_assign:
  assumes env: "env_ok env" and rep: "represents env ns m w" and ok: "tasks_ok w"
  shows "valid m (assign_next_schedulable_task env bk ns ex)
    (\<lambda>r m'. assign_post env ns m w ex (range (pid_key ns)) r m')"
  unfolding assign_next_schedulable_task_def
proof (rule valid_sbind_prefix)
  fix kvs assume kvs: "lists_prefix m (get_task_prefix ns) kvs"
  then have order: "set (env_hash_order env kvs) = set kvs"
    using env by (simp add: env_ok_def hash_order_ok_def lists_prefix_def)
  have all: "pid_key ns p \<in> fst ` set kvs" if "schedulable w p plan" for p plan
  proof -
    from that represents_task [OF rep, of p] obtain v where "m (pid_key ns p) = Some v"
      by (auto simp: schedulable_def elim!: rel_option_SomeE)
    then have "(pid_key ns p, v) \<in> set kvs" using kvs by (simp add: lists_prefix_def)
    then show ?thesis by force
  qed
  show "valid m (sbind (get_executors_metadata env bk ns) (\<lambda>executors.
      assign_loop env bk ns ex (map_of (rev kvs)) executors (env_hash_order env kvs)))
      (\<lambda>r m'. assign_post env ns m w ex (range (pid_key ns)) r m')"
  proof (rule valid_sbind_Ok [where R = "\<lambda>es m'. m' = m \<and> lists_executors w es"])
    fix es m' assume "m' = m \<and> lists_executors w es"
    then show "valid m' (assign_loop env bk ns ex (map_of (rev kvs)) es (env_hash_order env kvs))
        (\<lambda>r m'. assign_post env ns m w ex (range (pid_key ns)) r m')"
      using valid_assign_loop [OF env rep kvs _ ok, of es "env_hash_order env kvs" ex] assign_post_all [OF _ all] order
      by (auto elim!: valid_weaken)
  qed (rule valid_weaken [OF valid_get_executors [OF rep]], auto)
qed simp

end

section \<open>The status of a job on the view\<close>

text \<open>The tasks of a job, as messages, each once; the status they give the job.\<close>

definition lists_tasks :: "sched_view \<Rightarrow> string \<Rightarrow> task_status list \<Rightarrow> bool" where
  "lists_tasks w j ts \<longleftrightarrow>
     distinct ts \<and> set ts = {task_of p st |p st. vw_tasks w p = Some st \<and> pid_fits p \<and> pid_job p = j}"

definition tasks_status :: "(string \<rightharpoonup> executor_meta) \<Rightarrow> task_status list \<Rightarrow> job_status option" where
  "tasks_status executors ts =
     (if ts = [] then None else map_option (\<lambda>st. \<lparr>js_status = Some st\<rparr>) (job_state_spec executors ts))"

text \<open>All job ids have the same length, as the ids \<open>execute_query\<close> draws have.\<close>

definition uniform_ids :: "sched_view \<Rightarrow> bool" where
  "uniform_ids w \<longleftrightarrow> (\<exists>n. (\<forall>j \<in> dom (vw_jobs w). length j = n) \<and> (\<forall>p \<in> dom (vw_tasks w). length (pid_job p) = n))"

text \<open>Every job has the status its tasks give it, or keeps the one it had when they give none.\<close>

definition synced_job :: "sched_view \<Rightarrow> string \<Rightarrow> job_status \<Rightarrow> job_status \<Rightarrow> bool" where
  "synced_job w j old new \<longleftrightarrow>
     (\<exists>ts. lists_tasks w j ts \<and> new = (case tasks_status (vw_executors w) ts of None \<Rightarrow> old | Some st \<Rightarrow> st))"

definition synced :: "sched_view \<Rightarrow> sched_view \<Rightarrow> bool" where
  "synced w w' \<longleftrightarrow>
     w' = w\<lparr>vw_jobs := vw_jobs w'\<rparr> \<and> (\<forall>j. rel_option (synced_job w j) (vw_jobs w j) (vw_jobs w' j))"

lemma task_of_inj: "pid_fits p \<Longrightarrow> pid_fits q \<Longrightarrow> task_of p st = task_of q st' \<longleftrightarrow> p = q \<and> st = st'"
  using pid_serde.enc_inj [of p q] by (auto simp: task_of_def)

lemma job_tasks_decoded:
  assumes rep: "represents env ns m w" and kvs: "lists_prefix m (get_task_prefix_for_job ns j) kvs"
    and len: "\<forall>p \<in> dom (vw_tasks w). length (pid_job p) = length j"
  shows "\<exists>ts. mapM (\<lambda>(_, v). decode_protobuf (env_task env) v) kvs = Ok ts \<and> lists_tasks w j ts"
proof -
  let ?P = "\<lambda>p. vw_tasks w p \<noteq> None \<and> pid_fits p \<and> pid_job p = j" and ?x = "\<lambda>p. task_of p (the (vw_tasks w p))"
  have "\<exists>ts. mapM (\<lambda>(_, v). decode_protobuf (env_task env) v) kvs = Ok ts \<and> distinct ts \<and> set ts = ?x ` Collect ?P"
  proof (rule listed_decoded [where key = "pid_key ns"])
    fix k v assume "(k, v) \<in> set kvs"
    then have k: "m k = Some v" "prefix (get_task_prefix_for_job ns j) k" using kvs by (auto simp: lists_prefix_def)
    moreover have "prefix (get_task_prefix ns) (get_task_prefix_for_job ns j)" by (simp add: key_defs)
    ultimately have "prefix (get_task_prefix ns) k" using prefix_order.trans by blast
    with k(1) rep obtain p where p: "k = pid_key ns p" by (auto simp: represents_def)
    with k represents_task [OF rep, of p] obtain st where st: "vw_tasks w p = Some st" "task_entry env p v st"
      by (auto elim!: rel_option_SomeE)
    with len have "length (pid_job p) = length j" by auto
    with k(2) p have "pid_job p = j" using task_prefix_for_job_same_length [of j "pid_job p" ns] by (simp add: pid_key_def)
    with p st show "\<exists>p. k = pid_key ns p \<and> ?P p \<and> (\<lambda>(_, v). decode_protobuf (env_task env) v) (k, v) = Ok (?x p)"
      by (auto dest!: task_entryD)
  next
    fix p assume "?P p"
    with represents_task [OF rep, of p] show "\<exists>v. (pid_key ns p, v) \<in> set kvs"
      using kvs by (auto simp: lists_prefix_def pid_key_def task_prefix_for_job_same_length elim!: rel_option_SomeE)
  qed (use kvs in \<open>auto simp: lists_prefix_def inj_on_def task_of_inj\<close>)
  moreover have "?x ` Collect ?P = {task_of p st |p st. vw_tasks w p = Some st \<and> pid_fits p \<and> pid_job p = j}" by force
  ultimately show ?thesis by (auto simp: lists_tasks_def)
qed

context config_backend
begin

lemma valid_get_job_status:
  assumes rep: "represents env ns m w" and len: "\<forall>p \<in> dom (vw_tasks w). length (pid_job p) = length j"
  shows "valid m (get_job_status_from_tasks env bk ns j executors)
    (\<lambda>r m'. \<exists>x. r = Ok x \<and> m' = m \<and> (\<exists>ts. lists_tasks w j ts \<and> x = tasks_status executors ts))"
  unfolding get_job_status_from_tasks_def
proof (rule valid_sbind_prefix)
  fix kvs assume "lists_prefix m (get_task_prefix_for_job ns j) kvs"
  from job_tasks_decoded [OF rep this len] obtain ts where
    "mapM (\<lambda>(_, v). decode_protobuf (env_task env) v) kvs = Ok ts" "lists_tasks w j ts" by blast
  then show "valid m (sbind (slift (mapM (\<lambda>(_, v). decode_protobuf (env_task env) v) kvs)) (\<lambda>statuses.
       if statuses = [] then sret None
       else sret (map_option (\<lambda>status. \<lparr>js_status = Some status\<rparr>) (job_state_from_statuses executors statuses))))
      (\<lambda>r m'. \<exists>x. r = Ok x \<and> m' = m \<and> (\<exists>ts. lists_tasks w j ts \<and> x = tasks_status executors ts))"
    by (auto simp: tasks_status_def job_state_from_statuses_eq intro!: valid_sret)
qed simp

end

lemma synced_refl_other: "synced_job w j old new \<Longrightarrow> w' = w\<lparr>vw_jobs := jobs\<rparr> \<Longrightarrow> synced_job w' j old new"
  by (simp add: synced_job_def lists_tasks_def)

text \<open>The state of the loop over the jobs: those seen are up to date, the others untouched.\<close>

definition sync_inv :: "sched_view \<Rightarrow> string set \<Rightarrow> sched_view \<Rightarrow> bool" where
  "sync_inv w seen w' \<longleftrightarrow>
     w' = w\<lparr>vw_jobs := vw_jobs w'\<rparr> \<and>
     (\<forall>j \<in> seen. rel_option (synced_job w j) (vw_jobs w j) (vw_jobs w' j)) \<and>
     (\<forall>j. j \<notin> seen \<longrightarrow> vw_jobs w' j = vw_jobs w j)"

lemma sync_inv_step:
  assumes "sync_inv w seen w'" "vw_jobs w j = Some old" "synced_job w j old new" "j \<notin> seen"
  shows "sync_inv w (insert j seen) (w'\<lparr>vw_jobs := (vw_jobs w')(j \<mapsto> new)\<rparr>)"
proof -
  have w': "w' = w\<lparr>vw_jobs := vw_jobs w'\<rparr>" using assms(1) by (simp add: sync_inv_def)
  have "w'\<lparr>vw_jobs := (vw_jobs w')(j \<mapsto> new)\<rparr> = w\<lparr>vw_jobs := (vw_jobs w')(j \<mapsto> new)\<rparr>"
    by (subst w') simp
  with assms show ?thesis by (auto simp: sync_inv_def)
qed

lemma sync_inv_keep:
  assumes "sync_inv w seen w'" "vw_jobs w j = Some old" "synced_job w j old old" "j \<notin> seen"
  shows "sync_inv w (insert j seen) w'"
  using assms by (auto simp: sync_inv_def)

context config_backend
begin

lemma valid_synchronize_job:
  assumes env: "env_ok env" and ns: "slash_free ns" and rep: "represents env ns m' w'"
    and w: "sync_inv w seen w'" "uniform_ids w"
    and j: "vw_jobs w j = Some old" "job_entry env v old" "slash_free j" "j \<notin> seen"
  shows "valid m' (synchronize_job env bk ns (vw_executors w) (get_job_key ns j, v))
    (\<lambda>r m''. r = Ok () \<and> (\<exists>w''. represents env ns m'' w'' \<and> sync_inv w (insert j seen) w''))"
proof -
  from w(1) obtain jobs where "w' = w\<lparr>vw_jobs := jobs\<rparr>" unfolding sync_inv_def by blast
  then have w': "vw_tasks w' = vw_tasks w" "lists_tasks w' j = lists_tasks w j"
    by (simp_all add: fun_eq_iff lists_tasks_def)
  from w(2) j(1) have len: "\<forall>p \<in> dom (vw_tasks w'). length (pid_job p) = length j"
    unfolding uniform_ids_def w'(1) by (force simp: dom_def)
  have status: "valid m' (get_job_status_from_tasks env bk ns j (vw_executors w))
      (\<lambda>r m''. \<exists>x. r = Ok x \<and> m'' = m' \<and> (\<exists>ts. lists_tasks w j ts \<and> x = tasks_status (vw_executors w) ts))"
    using valid_get_job_status [OF rep len] unfolding w'(2) .
  have some: "js_status st \<noteq> None" if "tasks_status (vw_executors w) ts = Some st" for ts st
    using that by (auto simp: tasks_status_def split: if_splits)
  have ids: "extract_job_id_from_key (get_job_key ns j) = Ok j"
    using ns j(3) by (simp add: extract_job_id slash_free_def)
  have "valid m'' (case x of
            None \<Rightarrow> sret ()
          | Some new \<Rightarrow> if old \<noteq> new then save_job_metadata env bk ns j new else sret ())
      (\<lambda>r m''. r = Ok () \<and> (\<exists>w''. represents env ns m'' w'' \<and> sync_inv w (insert j seen) w''))"
    if x: "m'' = m' \<and> (\<exists>ts. lists_tasks w j ts \<and> x = tasks_status (vw_executors w) ts)" for x m''
  proof (cases "x = None \<or> x = Some old")
    case True
    with x have "synced_job w j old old" by (force simp: synced_job_def)
    with True x rep show ?thesis using sync_inv_keep [OF w(1) j(1) _ j(4)] by (auto intro!: valid_sret)
  next
    case False
    then obtain new where new: "x = Some new" "old \<noteq> new" by auto
    with x obtain ts where ts: "lists_tasks w j ts" "tasks_status (vw_executors w) ts = Some new" by auto
    then have "synced_job w j old new" unfolding synced_job_def by (intro exI [of _ ts]) simp
    moreover have "js_status new \<noteq> None" using some [OF ts(2)] .
    ultimately show ?thesis
      using new x sync_inv_step [OF w(1) j(1) _ j(4)]
      by (auto intro!: valid_weaken [OF valid_save_job [OF env rep _ j(3)]])
  qed
  then show ?thesis
    using ids j(2) unfolding synchronize_job_def
    by (auto simp: job_entry_def intro!: valid_sbind_Ok [OF status])
qed

lemma valid_synchronize:
  assumes env: "env_ok env" and ns: "slash_free ns" and rep: "represents env ns m w" and w: "uniform_ids w"
  shows "valid m (synchronize_job_status env bk ns)
    (\<lambda>r m'. r = Ok () \<and> (\<exists>w'. represents env ns m' w' \<and> synced w w'))"
  unfolding synchronize_job_status_def
proof (rule valid_sbind_prefix)
  fix kvs assume kvs: "lists_prefix m (get_job_prefix ns) kvs"
  have entry: "\<exists>j old. k = get_job_key ns j \<and> slash_free j \<and> vw_jobs w j = Some old \<and> job_entry env v old"
    if "(k, v) \<in> set kvs" for k v
  proof -
    from that have "m k = Some v" "prefix (get_job_prefix ns) k" using kvs by (auto simp: lists_prefix_def)
    moreover from this rep obtain j where "k = get_job_key ns j" "slash_free j" by (auto simp: represents_def)
    ultimately show ?thesis using represents_job [OF rep, of j] by (auto elim!: rel_option_SomeE)
  qed
  let ?seen = "\<lambda>done :: (string \<times> 'b list) list. {j. get_job_key ns j \<in> fst ` set done}"
  have "valid m (sfor (synchronize_job env bk ns (vw_executors w)) kvs)
      (\<lambda>r m'. r = Ok () \<and> (\<exists>w'. represents env ns m' w' \<and> sync_inv w (?seen kvs) w'))"
  proof (rule valid_sfor)
    show "\<exists>w'. represents env ns m w' \<and> sync_inv w (?seen []) w'" using rep by (auto simp: sync_inv_def)
  next
    fix "done" x todo m' assume split: "kvs = done @ x # todo"
      and I: "\<exists>w'. represents env ns m' w' \<and> sync_inv w (?seen done) w'"
    then obtain j old v where x: "x = (get_job_key ns j, v)" "slash_free j" "vw_jobs w j = Some old" "job_entry env v old"
      using entry [of "fst x" "snd x"] by (metis in_set_conv_decomp prod.collapse)
    have "j \<notin> ?seen done" using kvs split x(1) by (auto simp: lists_prefix_def)
    moreover have "?seen (done @ [x]) = insert j (?seen done)" using x(1) by auto
    moreover from I obtain w' where "represents env ns m' w'" "sync_inv w (?seen done) w'" by blast
    ultimately show "valid m' (synchronize_job env bk ns (vw_executors w) x)
        (\<lambda>r m''. r = Ok () \<and> (\<exists>w'. represents env ns m'' w' \<and> sync_inv w (?seen (done @ [x])) w'))"
      using valid_synchronize_job [OF env ns _ _ w x(3,4,2), of m' w' "?seen done"] unfolding x(1) by simp
  qed
  moreover have "synced w w'" if "sync_inv w (?seen kvs) w'" for w'
    unfolding synced_def
  proof (intro conjI allI)
    fix j show "rel_option (synced_job w j) (vw_jobs w j) (vw_jobs w' j)"
    proof (cases "j \<in> ?seen kvs")
      case False
      then have "vw_jobs w j = None"
        using represents_job [OF rep, of j] kvs by (force simp: lists_prefix_def elim!: rel_option_SomeE)
      with False that show ?thesis by (simp add: sync_inv_def)
    qed (use that in \<open>simp add: sync_inv_def\<close>)
  qed (use that in \<open>simp add: sync_inv_def\<close>)
  ultimately have loop: "valid m (sfor (synchronize_job env bk ns (vw_executors w)) kvs)
      (\<lambda>r m'. r = Ok () \<and> (\<exists>w'. represents env ns m' w' \<and> synced w w'))"
    by (auto elim!: valid_weaken)
  show "valid m (sbind (get_executors_metadata env bk ns) (\<lambda>metas.
      sfor (synchronize_job env bk ns (map_of (rev (map (\<lambda>meta. (em_id meta, meta)) metas)))) kvs))
      (\<lambda>r m'. r = Ok () \<and> (\<exists>w'. represents env ns m' w' \<and> synced w w'))"
    by (rule valid_sbind_Ok [where R = "\<lambda>es m'. m' = m \<and> lists_executors w es"],
        rule valid_weaken [OF valid_get_executors [OF rep]])
       (use loop in \<open>auto simp: executor_map_of represents_executors_by_id [OF rep]\<close>)
qed simp

end

section \<open>Keeping the invariant\<close>

lemma tasks_ok_update:
  assumes "tasks_ok w" "vw_tasks w p \<noteq> None"
    and "\<And>e. st = TS_Completed e \<Longrightarrow> vw_executors w e \<noteq> None"
  shows "tasks_ok (w\<lparr>vw_tasks := (vw_tasks w)(p \<mapsto> Some st)\<rparr>)"
  using assms by (fastforce simp: tasks_ok_def pending_ok_def)

lemma tasks_ok_executor: "tasks_ok w \<Longrightarrow> tasks_ok (w\<lparr>vw_executors := (vw_executors w)(i \<mapsto> e)\<rparr>)"
  by (fastforce simp: tasks_ok_def pending_ok_def)

lemma tasks_ok_jobs [simp]: "tasks_ok (w\<lparr>vw_jobs := jobs\<rparr>) = tasks_ok w"
  by (simp add: tasks_ok_def pending_ok_def)

lemma uniform_ids_update: "uniform_ids w \<Longrightarrow> vw_tasks w p \<noteq> None \<Longrightarrow> uniform_ids (w\<lparr>vw_tasks := (vw_tasks w)(p \<mapsto> st)\<rparr>)"
  unfolding uniform_ids_def by (auto simp: dom_def)

lemma uniform_ids_executors [simp]: "uniform_ids (w\<lparr>vw_executors := x\<rparr>) = uniform_ids w"
  by (simp add: uniform_ids_def)

lemma schedulable_task: "schedulable w p plan \<Longrightarrow> vw_tasks w p = Some None"
  by (simp add: schedulable_def)

text \<open>The locations of a stage are those of its tasks, in order.\<close>

lemma push_deps_at:
  "push_deps w j sps locs i =
     (if i \<in> fst ` set sps
      then Some ((case locs i of None \<Rightarrow> [] | Some ls \<Rightarrow> ls) @ map (dep_location w j) (filter (\<lambda>sp. fst sp = i) sps))
      else locs i)"
proof (induction sps arbitrary: locs)
  case (Cons sp sps)
  have "push_deps w j (sp # sps) locs = push_deps w j sps (push_location locs (fst sp) (dep_location w j sp))"
    by (simp add: push_deps_def)
  then show ?case by (auto simp: Cons.IH push_location_def filter_empty_conv image_iff)
qed (simp add: push_deps_def)

section \<open>Properties\<close>

definition example_view :: sched_view where
  "example_view = \<lparr>vw_executors = Map.empty, vw_jobs = Map.empty, vw_tasks = Map.empty, vw_plans = Map.empty\<rparr>"

definition example_client :: "(u8 list \<times> message list) list standalone_client" where
  "example_client = \<lparr>sc_db = [], sc_lock = False\<rparr>"

lemma example_client_ok:
  "client_healthy map_of mem_fine example_client" "represents plain_env ns (client_kv map_of example_client) example_view"
  using represents_empty [of plain_env ns]
  by (simp_all add: example_client_def client_healthy_def client_kv_def [abs_def] example_view_def)

text \<open>A store with one job: a stage of two tasks that read nothing.\<close>

definition example_pid :: "nat \<Rightarrow> partition_id" where
  "example_pid n = \<lparr>pid_job = ''job0001'', pid_stage = 1, pid_partition = n\<rparr>"

definition example_job_view :: sched_view where
  "example_job_view =
     \<lparr>vw_executors = [''e1'' \<mapsto> \<lparr>em_id = ''e1'', em_host = ''h'', em_port = 50051\<rparr>],
      vw_jobs = [''job0001'' \<mapsto> \<lparr>js_status = Some JS_Running\<rparr>],
      vw_tasks = [example_pid 0 \<mapsto> None, example_pid 1 \<mapsto> None],
      vw_plans = [(''job0001'', 1) \<mapsto> EmptyExec True []]\<rparr>"

lemma example_job_view_ok: "tasks_ok example_job_view" "uniform_ids example_job_view"
  "schedulable example_job_view (example_pid 0) (EmptyExec True [])"
proof -
  have "staged_plan (EmptyExec True [])" by (subst staged_plan.simps) simp
  moreover have "plan_shuffles (EmptyExec True []) = []" by (simp add: shuffles_children)
  ultimately show "tasks_ok example_job_view" "uniform_ids example_job_view"
    "schedulable example_job_view (example_pid 0) (EmptyExec True [])"
    by (auto simp: example_job_view_def tasks_ok_def uniform_ids_def schedulable_def example_pid_def pending_ok_def
        shuffle_tasks_def split: if_splits)
qed

lemma example_job_client:
  "\<exists>s. client_healthy map_of mem_fine s \<and> client_holder s = None \<and>
     represents plain_env ''default'' (client_kv map_of s) example_job_view"
proof -
  let ?P = "\<lambda>s w. client_healthy map_of mem_fine s \<and> client_holder s = None \<and>
     represents plain_env ''default'' (client_kv map_of s) w"
  have step: "\<exists>s'. ?P s' w'"
    if "?P s w" "\<And>m. represents plain_env ''default'' m w \<Longrightarrow>
      standalone.valid m c (\<lambda>r m'. r = Ok () \<and> represents plain_env ''default'' m' w')" for s w c w'
  proof -
    from that(1) have s: "represents plain_env ''default'' (client_kv map_of s) w" "client_healthy map_of mem_fine s"
      "client_holder s = None" by simp_all
    show ?thesis by (rule standalone.validD [OF that(2) [OF s(1)] s(2) refl]) (use s(3) in auto)
  qed
  let ?e = "\<lparr>em_id = ''e1'', em_host = ''h'', em_port = 50051\<rparr>"
  let ?w1 = "example_view\<lparr>vw_executors := [''e1'' \<mapsto> ?e]\<rparr>"
  let ?w2 = "?w1\<lparr>vw_jobs := [''job0001'' \<mapsto> \<lparr>js_status = Some JS_Running\<rparr>]\<rparr>"
  let ?w3 = "?w2\<lparr>vw_plans := [(''job0001'', 1) \<mapsto> EmptyExec True []]\<rparr>"
  let ?w4 = "?w3\<lparr>vw_tasks := [example_pid 0 \<mapsto> None]\<rparr>"
  have fits: "pid_fits (example_pid n)" if "n < 2" for n using that by (simp add: pid_fits_def example_pid_def)
  have "?P example_client example_view"
    using example_client_ok by (simp add: client_holder_def example_client_def)
  from step [OF this standalone.valid_save_executor [OF plain_env_ok, where w = example_view and e = ?e]]
  obtain s1 where "?P s1 ?w1" by (auto simp: example_view_def)
  from step [OF this standalone.valid_save_job [OF plain_env_ok, where w = ?w1 and j = "''job0001''"
      and st = "\<lparr>js_status = Some JS_Running\<rparr>"]]
  obtain s2 where "?P s2 ?w2" by (auto simp: example_view_def slash_free_def)
  from step [OF this standalone.valid_save_plan [OF plain_env_ok, where w = ?w2 and j = "''job0001''" and s = 1
      and plan = "EmptyExec True []"]]
  obtain s3 where "?P s3 ?w3" by (auto simp: example_view_def schema_wire_ok_def)
  from step [OF this standalone.valid_save_task [OF plain_env_ok, where w = ?w3 and p = "example_pid 0" and st = None]]
  obtain s4 where "?P s4 ?w4" by (auto simp: example_view_def fits)
  from step [OF this standalone.valid_save_task [OF plain_env_ok, where w = ?w4 and p = "example_pid 1" and st = None]]
  show ?thesis by (auto simp: example_view_def example_job_view_def fits)
qed

text \<open>
  C15. Assignment is correct and complete.  On a store that satisfies the invariant, over any
  backend, \<open>assign_next_schedulable_task\<close> never fails: either no pending task has all its inputs
  completed, and then it returns \<open>None\<close> and writes nothing; or it returns one such task, marks
  exactly that task as running on the asking executor, and the plan it sends is the stage's plan
  with every shuffle replaced by a reader of the completed tasks' locations, with none left
  unresolved.
\<close>

theorem assign_next_schedulable_task_correct:
  assumes "config_backend bk kv healthy holder" "env_ok env" "represents env ns (kv s) w" "tasks_ok w" "healthy s"
    and "assign_next_schedulable_task env bk ns ex s = (r, s')"
  shows "(r = Ok None \<and> kv s' = kv s \<and> (\<forall>p plan. \<not> schedulable w p plan)) \<or>
    (\<exists>p plan. schedulable w p plan \<and> r = Ok (Some (task_of p (Some (TS_Running ex)), assigned_plan w p plan)) \<and>
       represents env ns (kv s') (w\<lparr>vw_tasks := (vw_tasks w)(p \<mapsto> Some (TS_Running ex))\<rparr>) \<and>
       find_unresolved_shuffles (assigned_plan w p plan) = Ok [])"
proof -
  from config_backend.validD [OF assms(1) config_backend.valid_assign [OF assms(1,2,3,4)] assms(5) refl, of ex] assms(6)
  have "assign_post env ns (kv s) w ex (range (pid_key ns)) r (kv s')" by auto
  then show ?thesis
    by (auto simp: assign_post_def find_unresolved_shuffles_eq assigned_plan_def resolve_no_shuffles)
qed

theorem assign_next_schedulable_task_correct_witness:
  "\<exists>r s'. assign_next_schedulable_task plain_env (standalone_backend mem_sled) ''default'' ''e1'' example_client = (r, s') \<and>
     r = Ok None \<and> client_kv map_of s' = client_kv map_of example_client"
proof -
  obtain r s' where run: "assign_next_schedulable_task plain_env (standalone_backend mem_sled) ''default'' ''e1'' example_client = (r, s')"
    by (metis surj_pair)
  have "\<not> schedulable example_view p plan" for p plan by (simp add: schedulable_def example_view_def)
  with assign_next_schedulable_task_correct [OF standalone.config_backend_axioms plain_env_ok
      example_client_ok(2) _ example_client_ok(1) run] run show ?thesis
    by (simp add: tasks_ok_def example_view_def)
qed



text \<open>
  C16. Job statuses follow the tasks.  \<open>synchronize_job_status\<close> succeeds on every well-formed store
  and gives each known job the status of its tasks: completed with one location per task when all of
  them are, failed with the error of a failed task, running when one runs, and otherwise the status
  it had; executors, tasks and plans stay as they were.
\<close>

theorem synchronize_job_status_correct:
  assumes "config_backend bk kv healthy holder" "env_ok env" "slash_free ns" "represents env ns (kv s) w" "uniform_ids w"
    and "healthy s" "synchronize_job_status env bk ns s = (r, s')"
  shows "r = Ok () \<and> (\<exists>w'. represents env ns (kv s') w' \<and> synced w w')"
  using config_backend.validD [OF assms(1) config_backend.valid_synchronize [OF assms(1-5)] assms(6) refl] assms(7)
  by auto

theorem synchronize_job_status_correct_witness:
  "\<exists>s s' w'. synchronize_job_status plain_env (standalone_backend mem_sled) ''default'' s = (Ok (), s') \<and>
     represents plain_env ''default'' (client_kv map_of s') w' \<and> synced example_job_view w'"
proof -
  obtain s where s: "client_healthy map_of mem_fine s" "represents plain_env ''default'' (client_kv map_of s) example_job_view"
    using example_job_client by blast
  obtain r s' where run: "synchronize_job_status plain_env (standalone_backend mem_sled) ''default'' s = (r, s')"
    by (metis surj_pair)
  show ?thesis
    using synchronize_job_status_correct [OF standalone.config_backend_axioms plain_env_ok _ s(2) example_job_view_ok(2) s(1) run] run
    by (auto simp: slash_free_def)
qed

text \<open>
  A job's status is read back.  After saving a status for job \<open>j\<close>, loading job \<open>j'\<close> gives that
  status when \<open>j' = j\<close> and what was stored before otherwise; a job that was never saved is reported
  as missing.
\<close>

theorem job_metadata_read_back:
  assumes "config_backend bk kv healthy holder" "env_ok env" "represents env ns (kv s) w" "healthy s"
    and "js_status st \<noteq> None" "slash_free j"
    and "save_job_metadata env bk ns j st s = (r, s1)" "get_job_metadata env bk ns j' s1 = (r', s2)"
  shows "r = Ok () \<and> r' = (if j' = j then Ok st else
    (case vw_jobs w j' of Some x \<Rightarrow> Ok x | None \<Rightarrow> Err (General (''No job metadata found for '' @ get_job_key ns j'))))"
proof -
  from config_backend.validD [OF assms(1) config_backend.valid_save_job [OF assms(1,2,3,5,6)] assms(4) refl] assms(7)
  have 1: "r = Ok ()" "represents env ns (kv s1) (w\<lparr>vw_jobs := (vw_jobs w)(j \<mapsto> st)\<rparr>)" "healthy s1" by auto
  show ?thesis
    by (rule config_backend.validD [OF assms(1) config_backend.valid_get_job [OF assms(1) 1(2), of j'] 1(3) refl])
       (use assms(8) 1(1) in \<open>simp split: if_splits\<close>)
qed

theorem job_metadata_read_back_witness:
  "\<exists>s1 s2. save_job_metadata plain_env (standalone_backend mem_sled) ''default'' ''job0001'' \<lparr>js_status = Some JS_Queued\<rparr>
      example_client = (Ok (), s1) \<and>
    get_job_metadata plain_env (standalone_backend mem_sled) ''default'' ''job0002'' s1 =
      (Err (General ''No job metadata found for /ballista/default/jobs/job0002''), s2)"
proof -
  let ?st = "\<lparr>js_status = Some JS_Queued\<rparr>"
  obtain r s1 where 1: "save_job_metadata plain_env (standalone_backend mem_sled) ''default'' ''job0001'' ?st example_client = (r, s1)"
    by (metis surj_pair)
  obtain r' s2 where 2: "get_job_metadata plain_env (standalone_backend mem_sled) ''default'' ''job0002'' s1 = (r', s2)"
    by (metis surj_pair)
  from job_metadata_read_back [OF standalone.config_backend_axioms plain_env_ok example_client_ok(2,1) _ _ 1 2] 1 2
  show ?thesis by (simp add: slash_free_def example_view_def key_defs)
qed

end
