(* ===== verification/Logical_Serde.thy ===== *)
theory Logical_Serde
  imports Expr_Serde
begin

text \<open>
  Logical plans on the wire: the conversions between \<open>LogicalPlan\<close> and \<open>LogicalPlanNode\<close> of
  \<open>core/src/serde/logical_plan/to_proto.rs\<close> and \<open>from_proto.rs\<close>.  A plan is read back through
  DataFusion's \<open>LogicalPlanBuilder\<close>; its methods, \<open>Schema::index_of\<close> and the conversion to
  \<open>DFSchema\<close> are the parameters \<open>lp_builders\<close>.  Fields of \<open>LogicalPlan\<close> that the encoder skips
  (the derived schemas) are not part of the model; what a table provider answers is in
  \<open>table_source\<close>, where \<open>DFTableAdapter\<close> of \<open>core/src/datasource.rs\<close> wraps a plan.
\<close>

section \<open>Plans\<close>

datatype partitioning = Hash "expr list" nat | RoundRobinBatch nat

datatype file_type = FT_NdJson | FT_Parquet | FT_CSV

datatype table_source =
    ParquetTable string schema
  | CsvFile string schema bool u8 string
  | DFTableAdapter logical_plan schema
  | OtherTable string schema
and logical_plan =
    LP_TableScan string table_source "nat list option" "expr list"
  | LP_Projection "expr list" logical_plan
  | LP_Filter expr logical_plan
  | LP_Aggregate logical_plan "expr list" "expr list"
  | LP_Join logical_plan logical_plan "(string \<times> string) list" join_type
  | LP_Limit nat logical_plan
  | LP_Sort "expr list" logical_plan
  | LP_Repartition logical_plan partitioning
  | LP_EmptyRelation bool
  | LP_CreateExternalTable schema string string file_type bool
  | LP_Explain bool logical_plan
  | LP_Extension string

text \<open>\<open>TableProvider::schema\<close>; the adapter answers with the schema of its physical plan.\<close>

fun source_schema :: "table_source \<Rightarrow> schema" where
  "source_schema (ParquetTable _ s) = s"
| "source_schema (CsvFile _ s _ _ _) = s"
| "source_schema (DFTableAdapter _ s) = s"
| "source_schema (OtherTable _ s) = s"

section \<open>Messages\<close>

record csv_table_scan_node =
  ctn_table_name :: string
  ctn_path :: string
  ctn_has_header :: bool
  ctn_delimiter :: string
  ctn_file_extension :: string
  ctn_projection :: "string list option"
  ctn_schema :: "pb_schema option"
  ctn_filters :: "logical_expr_node list"

record parquet_table_scan_node =
  ptn_table_name :: string
  ptn_path :: string
  ptn_projection :: "string list option"
  ptn_schema :: "pb_schema option"
  ptn_filters :: "logical_expr_node list"

record create_external_table_node =
  cet_name :: string
  cet_location :: string
  cet_file_type :: int
  cet_has_header :: bool
  cet_schema :: "pb_schema option"

datatype partition_method = PM_RoundRobin u64 | PM_Hash "logical_expr_node list" u64

datatype logical_plan_node = LPN (lpn_type: "logical_plan_type option")
and logical_plan_type =
    LPT_CsvScan csv_table_scan_node
  | LPT_ParquetScan parquet_table_scan_node
  | LPT_Projection "logical_plan_node option" "logical_expr_node list"
  | LPT_Selection "logical_plan_node option" "logical_expr_node option"
  | LPT_Limit "logical_plan_node option" u32
  | LPT_Aggregate "logical_plan_node option" "logical_expr_node list" "logical_expr_node list"
  | LPT_Join "logical_plan_node option" "logical_plan_node option" int "string list" "string list"
  | LPT_Sort "logical_plan_node option" "logical_expr_node list"
  | LPT_Repartition "logical_plan_node option" "partition_method option"
  | LPT_EmptyRelation bool
  | LPT_CreateExternalTable create_external_table_node
  | LPT_Explain "logical_plan_node option" bool

fun file_type_i32 :: "file_type \<Rightarrow> int" where
  "file_type_i32 FT_NdJson = 0"
| "file_type_i32 FT_Parquet = 1"
| "file_type_i32 FT_CSV = 2"

section \<open>Encoding\<close>

abbreviation ok_lplan :: "logical_plan_type \<Rightarrow> logical_plan_node bresult" where
  "ok_lplan t \<equiv> Ok (LPN (Some t))"

definition table_scan_into ::
  "string \<Rightarrow> table_source \<Rightarrow> nat list option \<Rightarrow> expr list \<Rightarrow> logical_plan_node bresult" where
  "table_scan_into table_name source projection filters =
     rbind (case source of
              DFTableAdapter plan _ \<Rightarrow>
                (case plan of
                   LP_TableScan _ inner _ _ \<Rightarrow> Ok inner
                 | _ \<Rightarrow> Err (General ''Invalid LogicalPlan::TableScan''))
            | _ \<Rightarrow> Ok source) (\<lambda>provider.
     rbind (map_optM (mapM (\<lambda>i. rbind (index_vec (source_schema source) i) (\<lambda>f. Ok (f_name f)))) projection) (\<lambda>columns.
     rbind (mapM expr_into filters) (\<lambda>filters'.
       case provider of
         ParquetTable path _ \<Rightarrow>
           ok_lplan (LPT_ParquetScan \<lparr>ptn_table_name = table_name, ptn_path = path, ptn_projection = columns,
             ptn_schema = Some (schema_into (source_schema source)), ptn_filters = filters'\<rparr>)
       | CsvFile path _ has_header delimiter file_extension \<Rightarrow>
           rbind (if unat delimiter < 128 then Ok [char_of (unat delimiter)]
                  else Err (General ''Invalid CSV delimiter'')) (\<lambda>d.
             ok_lplan (LPT_CsvScan \<lparr>ctn_table_name = table_name, ctn_path = path, ctn_has_header = has_header,
               ctn_delimiter = d, ctn_file_extension = file_extension, ctn_projection = columns,
               ctn_schema = Some (schema_into (source_schema source)), ctn_filters = filters'\<rparr>))
       | _ \<Rightarrow> Err (General ''logical plan to_proto unsupported table provider''))))"

fun partitioning_into :: "partitioning \<Rightarrow> partition_method bresult" where
  "partitioning_into (Hash exprs batch_size) =
     rbind (mapM expr_into exprs) (\<lambda>es. Ok (PM_Hash es (usize_to_u64 batch_size)))"
| "partitioning_into (RoundRobinBatch batch_size) = Ok (PM_RoundRobin (usize_to_u64 batch_size))"

fun logical_plan_into :: "logical_plan \<Rightarrow> logical_plan_node bresult" where
  "logical_plan_into (LP_TableScan table_name source projection filters) =
     table_scan_into table_name source projection filters"
| "logical_plan_into (LP_Projection exprs input) =
     rbind (logical_plan_into input) (\<lambda>n. rbind (mapM expr_into exprs) (\<lambda>es.
       ok_lplan (LPT_Projection (Some n) es)))"
| "logical_plan_into (LP_Filter predicate input) =
     rbind (logical_plan_into input) (\<lambda>n. rbind (expr_into predicate) (\<lambda>e.
       ok_lplan (LPT_Selection (Some n) (Some e))))"
| "logical_plan_into (LP_Aggregate input group_expr aggr_expr) =
     rbind (logical_plan_into input) (\<lambda>n. rbind (mapM expr_into group_expr) (\<lambda>gs.
     rbind (mapM expr_into aggr_expr) (\<lambda>as. ok_lplan (LPT_Aggregate (Some n) gs as))))"
| "logical_plan_into (LP_Join left right on join_type) =
     rbind (logical_plan_into left) (\<lambda>l. rbind (logical_plan_into right) (\<lambda>r.
       ok_lplan (LPT_Join (Some l) (Some r) (join_type_as_i32 join_type) (map fst on) (map snd on))))"
| "logical_plan_into (LP_Limit n input) =
     rbind (logical_plan_into input) (\<lambda>i. ok_lplan (LPT_Limit (Some i) (usize_to_u32 n)))"
| "logical_plan_into (LP_Sort exprs input) =
     rbind (logical_plan_into input) (\<lambda>n. rbind (mapM expr_into exprs) (\<lambda>es. ok_lplan (LPT_Sort (Some n) es)))"
| "logical_plan_into (LP_Repartition input scheme) =
     rbind (logical_plan_into input) (\<lambda>n. rbind (partitioning_into scheme) (\<lambda>m.
       ok_lplan (LPT_Repartition (Some n) (Some m))))"
| "logical_plan_into (LP_EmptyRelation produce_one_row) = ok_lplan (LPT_EmptyRelation produce_one_row)"
| "logical_plan_into (LP_CreateExternalTable sch name location ft has_header) =
     ok_lplan (LPT_CreateExternalTable \<lparr>cet_name = name, cet_location = location, cet_file_type = file_type_i32 ft,
       cet_has_header = has_header, cet_schema = Some (schema_into sch)\<rparr>)"
| "logical_plan_into (LP_Explain verbose plan) =
     rbind (logical_plan_into plan) (\<lambda>n. ok_lplan (LPT_Explain (Some n) verbose))"
| "logical_plan_into (LP_Extension _) = Panic ''not implemented''"

section \<open>Decoding\<close>

record lp_builders =
  lb_helpers :: fn_helpers
  lb_project :: "expr list \<Rightarrow> logical_plan \<Rightarrow> logical_plan bresult"
  lb_filter :: "expr \<Rightarrow> logical_plan \<Rightarrow> logical_plan bresult"
  lb_aggregate :: "expr list \<Rightarrow> expr list \<Rightarrow> logical_plan \<Rightarrow> logical_plan bresult"
  lb_scan_csv :: "string \<Rightarrow> schema \<Rightarrow> u8 \<Rightarrow> string \<Rightarrow> bool \<Rightarrow> nat list option \<Rightarrow> logical_plan bresult"
  lb_scan_parquet :: "string \<Rightarrow> nat list option \<Rightarrow> nat \<Rightarrow> logical_plan bresult"
  lb_sort :: "expr list \<Rightarrow> logical_plan \<Rightarrow> logical_plan bresult"
  lb_repartition :: "partitioning \<Rightarrow> logical_plan \<Rightarrow> logical_plan bresult"
  lb_empty :: "bool \<Rightarrow> logical_plan bresult"
  lb_explain :: "bool \<Rightarrow> logical_plan \<Rightarrow> logical_plan bresult"
  lb_limit :: "nat \<Rightarrow> logical_plan \<Rightarrow> logical_plan bresult"
  lb_join :: "logical_plan \<Rightarrow> logical_plan \<Rightarrow> join_type \<Rightarrow> string list \<Rightarrow> string list \<Rightarrow> logical_plan bresult"
  lb_index_of :: "schema \<Rightarrow> string \<Rightarrow> nat bresult"
  lb_to_dfschema :: "schema \<Rightarrow> (schema, string) result"

text \<open>\<open>TryFrom<i32> for protobuf::FileType\<close>, and the conversion of the schema of an external table.\<close>

definition file_type_try_from :: "int \<Rightarrow> file_type bresult" where
  "file_type_try_from value =
     (if value = file_type_i32 FT_NdJson then Ok FT_NdJson
      else if value = file_type_i32 FT_Parquet then Ok FT_Parquet
      else if value = file_type_i32 FT_CSV then Ok FT_CSV
      else Err (General (''Attempted to convert invalid i32 to protobuf::Filetype: '' @ show_int value)))"

definition dfschema_try_into :: "lp_builders \<Rightarrow> pb_schema \<Rightarrow> schema bresult" where
  "dfschema_try_into b s = rbind (schema_try_into s) (\<lambda>sch. map_err DataFusionError (lb_to_dfschema b sch))"

definition csv_table_scan_from :: "lp_builders \<Rightarrow> csv_table_scan_node \<Rightarrow> logical_plan bresult" where
  "csv_table_scan_from b scan =
     rbind (convert_required schema_try_into (ctn_schema scan)) (\<lambda>sch.
     rbind (index_vec (ctn_delimiter scan) 0) (\<lambda>d.
     rbind (map_optM (mapM (lb_index_of b sch)) (ctn_projection scan)) (\<lambda>projection.
       lb_scan_csv b (ctn_path scan) sch (of_char d) (ctn_file_extension scan) (ctn_has_header scan) projection)))"

text \<open>\<open>Iterator::position\<close>.\<close>

fun position :: "('a \<Rightarrow> bool) \<Rightarrow> 'a list \<Rightarrow> nat option" where
  "position P [] = None"
| "position P (x # xs) = (if P x then Some 0 else map_option Suc (position P xs))"

definition parquet_table_scan_from :: "lp_builders \<Rightarrow> parquet_table_scan_node \<Rightarrow> logical_plan bresult" where
  "parquet_table_scan_from b scan =
     rbind (map_optM (\<lambda>columns.
              rbind (convert_required schema_try_into (ptn_schema scan)) (\<lambda>sch.
                mapM (\<lambda>col_name. ok_or (position (\<lambda>f. f_name f = col_name) sch)
                  (proto_error ''Parquet projection contains column name that is not present in schema.'')) columns))
              (ptn_projection scan)) (\<lambda>projection.
       lb_scan_parquet b (ptn_path scan) projection 24)"

fun partition_method_from :: "lp_builders \<Rightarrow> partition_method \<Rightarrow> partitioning bresult" where
  "partition_method_from b (PM_Hash es batch_size) =
     rbind (mapM (expr_try_into (lb_helpers b)) es) (\<lambda>exprs. Ok (Hash exprs (u64_to_usize batch_size)))"
| "partition_method_from b (PM_RoundRobin batch_size) = Ok (RoundRobinBatch (u64_to_usize batch_size))"

definition create_external_table_from :: "lp_builders \<Rightarrow> create_external_table_node \<Rightarrow> logical_plan bresult" where
  "create_external_table_from b c =
     rbind (ok_or (cet_schema c)
              (General ''Protobuf deserialization error, CreateExternalTableNode was missing required field schema.'')) (\<lambda>s.
     rbind (file_type_try_from (cet_file_type c)) (\<lambda>ft.
     rbind (dfschema_try_into b s) (\<lambda>sch.
       Ok (LP_CreateExternalTable sch (cet_name c) (cet_location c) ft (cet_has_header c)))))"

function logical_plan_try_into :: "lp_builders \<Rightarrow> logical_plan_node \<Rightarrow> logical_plan bresult" where
  "logical_plan_try_into b (LPN None) = Err (proto_error ''logical_plan::from_proto() Unsupported logical plan'')"
| "logical_plan_try_into b (LPN (Some (LPT_Projection input es))) =
     rbind (convert_required (logical_plan_try_into b) input) (\<lambda>i.
     rbind (mapM (expr_try_into (lb_helpers b)) es) (\<lambda>exprs. lb_project b exprs i))"
| "logical_plan_try_into b (LPN (Some (LPT_Selection input e))) =
     rbind (convert_required (logical_plan_try_into b) input) (\<lambda>i.
     (case e of
        None \<Rightarrow> Panic ''expression required''
      | Some n \<Rightarrow> rbind (expr_try_into (lb_helpers b) n) (\<lambda>predicate. lb_filter b predicate i)))"
| "logical_plan_try_into b (LPN (Some (LPT_Aggregate input gs as))) =
     rbind (convert_required (logical_plan_try_into b) input) (\<lambda>i.
     rbind (mapM (expr_try_into (lb_helpers b)) gs) (\<lambda>group_expr.
     rbind (mapM (expr_try_into (lb_helpers b)) as) (\<lambda>aggr_expr. lb_aggregate b group_expr aggr_expr i)))"
| "logical_plan_try_into b (LPN (Some (LPT_CsvScan scan))) = csv_table_scan_from b scan"
| "logical_plan_try_into b (LPN (Some (LPT_ParquetScan scan))) = parquet_table_scan_from b scan"
| "logical_plan_try_into b (LPN (Some (LPT_Sort input es))) =
     rbind (convert_required (logical_plan_try_into b) input) (\<lambda>i.
     rbind (mapM (expr_try_into (lb_helpers b)) es) (\<lambda>exprs. lb_sort b exprs i))"
| "logical_plan_try_into b (LPN (Some (LPT_Repartition input pmethod))) =
     rbind (convert_required (logical_plan_try_into b) input) (\<lambda>i.
     rbind (ok_or pmethod (General (''Protobuf deserialization error, RepartitionNode was missing required field '' @
              quoted ''partition_method''))) (\<lambda>m.
     rbind (partition_method_from b m) (\<lambda>scheme. lb_repartition b scheme i)))"
| "logical_plan_try_into b (LPN (Some (LPT_EmptyRelation produce_one_row))) = lb_empty b produce_one_row"
| "logical_plan_try_into b (LPN (Some (LPT_CreateExternalTable c))) = create_external_table_from b c"
| "logical_plan_try_into b (LPN (Some (LPT_Explain input verbose))) =
     rbind (convert_required (logical_plan_try_into b) input) (\<lambda>i. lb_explain b verbose i)"
| "logical_plan_try_into b (LPN (Some (LPT_Limit input limit))) =
     rbind (convert_required (logical_plan_try_into b) input) (\<lambda>i. lb_limit b (u32_to_usize limit) i)"
| "logical_plan_try_into b (LPN (Some (LPT_Join left right jt left_keys right_keys))) =
     rbind (ok_or (join_type_from_i32 jt)
              (proto_error (''Received a JoinNode message with unknown JoinType '' @ show_int jt))) (\<lambda>j.
     rbind (convert_required (logical_plan_try_into b) left) (\<lambda>l.
     rbind (convert_required (logical_plan_try_into b) right) (\<lambda>r. lb_join b l r j left_keys right_keys)))"
  by pat_completeness auto
termination by (relation "measure (\<lambda>(b, n). size n)") auto

section \<open>Round trips\<close>

lemma file_type_roundtrip [simp]: "file_type_try_from (file_type_i32 ft) = Ok ft"
  by (cases ft) (simp_all add: file_type_try_from_def)

declare file_type_i32.simps [simp del]

lemma position_nth:
  assumes "i < length xs" "distinct (map f xs)"
  shows "position (\<lambda>x. f x = f (xs ! i)) xs = Some i"
  using assms
proof (induction xs arbitrary: i)
  case (Cons x xs)
  show ?case
  proof (cases i)
    case (Suc j)
    with Cons.prems have "f x \<noteq> f (xs ! j)" by auto
    with Cons Suc show ?thesis by simp
  qed simp
qed simp

text \<open>
  The builder gives back what it is asked for: each method, given the parts of a plan node, returns
  that node; a column is found at its index when names are distinct.
\<close>

definition index_of_finds :: "lp_builders \<Rightarrow> schema \<Rightarrow> bool" where
  "index_of_finds b s \<longleftrightarrow> (\<forall>i < length s. lb_index_of b s (f_name (s ! i)) = Ok i)"

definition projection_ok :: "schema \<Rightarrow> nat list option \<Rightarrow> bool" where
  "projection_ok s p \<longleftrightarrow> distinct (map f_name s) \<and> (case p of None \<Rightarrow> True | Some ixs \<Rightarrow> list_all (\<lambda>i. i < length s) ixs)"

fun scan_ok :: "lp_builders \<Rightarrow> string \<Rightarrow> table_source \<Rightarrow> nat list option \<Rightarrow> bool" where
  "scan_ok b name (CsvFile path s header d ext) p =
     (unat d < 128 \<and> schema_wire_ok s \<and> projection_ok s p \<and> index_of_finds b s \<and>
      lb_scan_csv b path s d ext header p = Ok (LP_TableScan name (CsvFile path s header d ext) p []))"
| "scan_ok b name (ParquetTable path s) p =
     (schema_wire_ok s \<and> projection_ok s p \<and>
      lb_scan_parquet b path p 24 = Ok (LP_TableScan name (ParquetTable path s) p []))"
| "scan_ok b name _ p = False"

fun partitioning_ok :: "partitioning \<Rightarrow> bool" where
  "partitioning_ok (Hash es n) = (list_all expr_supported es \<and> n < 2 ^ 64)"
| "partitioning_ok (RoundRobinBatch n) = (n < 2 ^ 64)"

text \<open>A logical plan that survives the wire.\<close>

fun lplan_ok :: "lp_builders \<Rightarrow> logical_plan \<Rightarrow> bool" where
  "lplan_ok b (LP_TableScan name source p filters) = (filters = [] \<and> scan_ok b name source p)"
| "lplan_ok b (LP_Projection es i) =
     (lplan_ok b i \<and> list_all expr_supported es \<and> lb_project b es i = Ok (LP_Projection es i))"
| "lplan_ok b (LP_Filter e i) = (lplan_ok b i \<and> expr_supported e \<and> lb_filter b e i = Ok (LP_Filter e i))"
| "lplan_ok b (LP_Aggregate i gs as) =
     (lplan_ok b i \<and> list_all expr_supported gs \<and> list_all expr_supported as \<and>
      lb_aggregate b gs as i = Ok (LP_Aggregate i gs as))"
| "lplan_ok b (LP_Join l r on j) =
     (lplan_ok b l \<and> lplan_ok b r \<and> lb_join b l r j (map fst on) (map snd on) = Ok (LP_Join l r on j))"
| "lplan_ok b (LP_Limit n i) = (lplan_ok b i \<and> n < 2 ^ 32 \<and> lb_limit b n i = Ok (LP_Limit n i))"
| "lplan_ok b (LP_Sort es i) = (lplan_ok b i \<and> list_all expr_supported es \<and> lb_sort b es i = Ok (LP_Sort es i))"
| "lplan_ok b (LP_Repartition i p) =
     (lplan_ok b i \<and> partitioning_ok p \<and> lb_repartition b p i = Ok (LP_Repartition i p))"
| "lplan_ok b (LP_EmptyRelation one) = (lb_empty b one = Ok (LP_EmptyRelation one))"
| "lplan_ok b (LP_CreateExternalTable s name location ft header) = (schema_wire_ok s \<and> lb_to_dfschema b s = Ok s)"
| "lplan_ok b (LP_Explain v i) = (lplan_ok b i \<and> lb_explain b v i = Ok (LP_Explain v i))"
| "lplan_ok b (LP_Extension _) = False"

lemma exprs_roundtrip:
  assumes "unary_helpers mk" "list_all expr_supported es"
  shows "\<exists>ns. mapM expr_into es = Ok ns \<and> mapM (expr_try_into mk) ns = Ok es"
  using serde.list_roundtrip [OF expr_serde_helpers [OF assms(1)] assms(2)] .

lemma projection_names:
  assumes "projection_ok s p"
  shows "map_optM (mapM (\<lambda>i. rbind (index_vec s i) (\<lambda>f. Ok (f_name f)))) p =
    (Ok (map_option (map (\<lambda>i. f_name (s ! i))) p) :: string list option bresult)"
proof (cases p)
  case (Some ixs)
  have "mapM (\<lambda>i. rbind (index_vec s i) (\<lambda>f. Ok (f_name f))) ixs =
    (Ok (map (\<lambda>i. f_name (s ! i)) ixs) :: string list bresult)"
    by (rule mapM_all_Ok) (use assms Some in \<open>auto simp: projection_ok_def list_all_iff index_vec_def\<close>)
  then show ?thesis by (simp add: Some)
qed simp

lemma projection_indices:
  assumes "projection_ok s p" "\<And>i. i < length s \<Longrightarrow> lookup (f_name (s ! i)) = Ok i"
  shows "map_optM (mapM lookup) (map_option (map (\<lambda>i. f_name (s ! i))) p) = Ok p"
proof (cases p)
  case (Some ixs)
  have "mapM (\<lambda>i. lookup (f_name (s ! i))) ixs = Ok (map id ixs)"
    by (rule mapM_all_Ok) (use assms Some in \<open>auto simp: projection_ok_def list_all_iff\<close>)
  then show ?thesis by (simp add: Some)
qed simp

lemma csv_scan_roundtrip:
  assumes "scan_ok b name (CsvFile path s header d ext) p"
  shows "\<exists>n. table_scan_into name (CsvFile path s header d ext) p [] = Ok n \<and>
    logical_plan_try_into b n = Ok (LP_TableScan name (CsvFile path s header d ext) p [])"
proof -
  have "map_optM (mapM (lb_index_of b s)) (map_option (map (\<lambda>i. f_name (s ! i))) p) = Ok p"
    using assms by (intro projection_indices) (auto simp: index_of_finds_def)
  then show ?thesis
    using assms schema_serde.dec_enc [of s]
    by (simp add: table_scan_into_def projection_names csv_table_scan_from_def of_char_delimiter)
qed

lemma parquet_scan_roundtrip:
  assumes "scan_ok b name (ParquetTable path s) p"
  shows "\<exists>n. table_scan_into name (ParquetTable path s) p [] = Ok n \<and>
    logical_plan_try_into b n = Ok (LP_TableScan name (ParquetTable path s) p [])"
proof -
  let ?find = "\<lambda>col_name. ok_or (position (\<lambda>f. f_name f = col_name) s)
                  (proto_error ''Parquet projection contains column name that is not present in schema.'')"
  have "map_optM (mapM ?find) (map_option (map (\<lambda>i. f_name (s ! i))) p) = Ok p"
    using assms by (intro projection_indices) (auto simp: projection_ok_def position_nth)
  then show ?thesis
    using assms schema_serde.dec_enc [of s] projection_names [of s p]
    by (cases p) (simp_all add: table_scan_into_def parquet_table_scan_from_def)
qed

lemma partitioning_roundtrip:
  assumes "unary_helpers (lb_helpers b)" "partitioning_ok p"
  shows "\<exists>m. partitioning_into p = Ok m \<and> partition_method_from b m = Ok p"
  using exprs_roundtrip [OF assms(1)] assms(2) by (cases p) fastforce+

lemma logical_plan_rt:
  assumes "unary_helpers (lb_helpers b)" "lplan_ok b p"
  shows "\<exists>n. logical_plan_into p = Ok n \<and> logical_plan_try_into b n = Ok p"
  using assms
proof (induction b p rule: lplan_ok.induct)
  case (1 b name source p filters)
  then show ?case
    by (cases source) (use csv_scan_roundtrip parquet_scan_roundtrip in \<open>simp_all del: scan_ok.simps(1,2)\<close>)
next
  case (2 b es i)
  with exprs_roundtrip [of "lb_helpers b" es] show ?case by fastforce
next
  case (3 b e i)
  with serde.roundtrip [OF expr_serde_helpers, of "lb_helpers b" e] show ?case by fastforce
next
  case (4 b i gs as)
  with exprs_roundtrip [of "lb_helpers b" gs] exprs_roundtrip [of "lb_helpers b" as] show ?case by fastforce
next
  case (7 b es i)
  with exprs_roundtrip [of "lb_helpers b" es] show ?case by fastforce
next
  case (8 b i p)
  with partitioning_roundtrip [of b p] show ?case by fastforce
next
  case (10 b s name location ft header)
  then show ?case
    using schema_serde.dec_enc [of s] by (simp add: create_external_table_from_def dfschema_try_into_def)
qed auto

lemma lplan_serde_helpers:
  "unary_helpers (lb_helpers b) \<Longrightarrow> serde logical_plan_into (logical_plan_try_into b) (lplan_ok b)"
  by unfold_locales (rule logical_plan_rt)

text \<open>A builder that constructs what it is asked for, used by the witness.\<close>

definition plain_lp_builders :: lp_builders where
  "plain_lp_builders = \<lparr>
     lb_helpers = plain_helpers,
     lb_project = (\<lambda>es i. Ok (LP_Projection es i)),
     lb_filter = (\<lambda>e i. Ok (LP_Filter e i)),
     lb_aggregate = (\<lambda>gs as i. Ok (LP_Aggregate i gs as)),
     lb_scan_csv = (\<lambda>path s d ext header p. Ok (LP_TableScan [] (CsvFile path s header d ext) p [])),
     lb_scan_parquet = (\<lambda>path _ _. Err (DataFusionError path)),
     lb_sort = (\<lambda>es i. Ok (LP_Sort es i)),
     lb_repartition = (\<lambda>p i. Ok (LP_Repartition i p)),
     lb_empty = (\<lambda>one. Ok (LP_EmptyRelation one)),
     lb_explain = (\<lambda>v i. Ok (LP_Explain v i)),
     lb_limit = (\<lambda>n i. Ok (LP_Limit n i)),
     lb_join = (\<lambda>l r j ls rs. Ok (LP_Join l r (zip ls rs) j)),
     lb_index_of = (\<lambda>s name. ok_or (position (\<lambda>f. f_name f = name) s) (ArrowError name)),
     lb_to_dfschema = Ok\<rparr>"

interpretation lplan_serde: serde logical_plan_into "logical_plan_try_into plain_lp_builders"
    "lplan_ok plain_lp_builders"
  by (rule lplan_serde_helpers) (simp add: plain_lp_builders_def unary_plain_helpers)

definition example_logical_plan :: logical_plan where
  "example_logical_plan =
     LP_Limit 10 (LP_Sort [E_Sort (E_Column ''v'') True False] (LP_Filter (E_IsNotNull (E_Column ''v''))
       (LP_TableScan [] (CsvFile ''/data/t.csv'' [MkField ''k'' DT_Utf8 False, MkField ''v'' DT_Int64 True] True 44 ''csv'')
          (Some [1]) [])))"

lemma example_logical_plan_ok: "lplan_ok plain_lp_builders example_logical_plan"
  by (simp add: example_logical_plan_def plain_lp_builders_def projection_ok_def index_of_finds_def
      schema_wire_ok_def less_Suc_eq all_conj_distrib)

text \<open>
  What a table scan loses: the table name and the pushed-down filters are written, but no decoder
  reads them.
\<close>

lemma csv_scan_ignores_name_and_filters:
  "logical_plan_try_into b (LPN (Some (LPT_CsvScan (scan\<lparr>ctn_table_name := name, ctn_filters := fs\<rparr>)))) =
   logical_plan_try_into b (LPN (Some (LPT_CsvScan scan)))"
  by (simp add: csv_table_scan_from_def)

lemma parquet_scan_ignores_name_and_filters:
  "logical_plan_try_into b (LPN (Some (LPT_ParquetScan (scan\<lparr>ptn_table_name := name, ptn_filters := fs\<rparr>)))) =
   logical_plan_try_into b (LPN (Some (LPT_ParquetScan scan)))"
  by (simp add: parquet_table_scan_from_def)

section \<open>Properties\<close>



end
