(* ===== verification/Scheduler_Server.thy ===== *)
theory Scheduler_Server
  imports Scheduler_View Logical_Serde
begin

text \<open>
  The gRPC handlers of \<open>scheduler/src/lib.rs\<close>.  \<open>poll_work\<close> waits for the global lock, so it answers
  \<open>None\<close> while another request holds it; the guard is dropped on every way out.  \<open>execute_query\<close>
  answers with the job id and starts a task of its own, \<open>run_submission\<close>, whose writes interleave
  with other requests; \<open>job_writes\<close> lists them one by one.

  The libraries behind the handlers are in \<open>server_env\<close>: the SQL front end, optimizer and physical
  planner of DataFusion, opening a Parquet file, and the text of a \<open>tonic::Status\<close>.
\<close>

section \<open>Requests and responses\<close>

record poll_work_params =
  pw_metadata :: "pb_executor_metadata option"
  pw_can_accept_task :: bool
  pw_task_status :: "task_status list"

record task_definition =
  td_task_id :: "pb_partition_id option"
  td_plan :: "physical_plan_node option"

record poll_work_result =
  pr_task :: "task_definition option"

datatype query = Q_LogicalPlan logical_plan_node | Q_Sql string

record get_file_metadata_result =
  fm_schema :: "pb_schema option"
  fm_partitions :: "string list list"

record 'b server_env =
  sv_env :: "'b sched_env"
  sv_dbg :: "string \<Rightarrow> string"
  sv_lp :: lp_builders
  sv_sql :: "string \<Rightarrow> (logical_plan, string) result"
  sv_optimize :: "logical_plan \<Rightarrow> (logical_plan, string) result"
  sv_create_physical_plan :: "logical_plan \<Rightarrow> (exec_plan, string) result"
  sv_parquet :: "string \<Rightarrow> (schema \<times> string list list, string) result"
  sv_show_status :: "tonic_status \<Rightarrow> string"

text \<open>\<open>tonic::Status::internal(format!("...: {}", e))\<close>\<close>

definition internal :: "'b server_env \<Rightarrow> string \<Rightarrow> BallistaError \<Rightarrow> tonic_status" where
  "internal sv msg e = St_Internal (msg @ '': '' @ display_error (sv_dbg sv) e)"

definition internal_df :: "string \<Rightarrow> string \<Rightarrow> tonic_status" where
  "internal_df msg e = St_Internal (msg @ '': '' @ e)"

section \<open>Reading handlers\<close>

definition get_executors_metadata_handler ::
  "'b server_env \<Rightarrow> ('s, 'g, 'b) config_backend_client \<Rightarrow> string \<Rightarrow> ('s, pb_executor_metadata list, tonic_status) io" where
  "get_executors_metadata_handler sv bk namespace =
     sbind (smap_err (internal sv ''Error reading executors metadata'') (get_executors_metadata (sv_env sv) bk namespace))
       (\<lambda>metas. sret (map executor_meta_to_pb metas))"

definition get_job_status_handler ::
  "'b server_env \<Rightarrow> ('s, 'g, 'b) config_backend_client \<Rightarrow> string \<Rightarrow> string \<Rightarrow> ('s, job_status option, tonic_status) io" where
  "get_job_status_handler sv bk namespace job_id =
     sbind (smap_err (internal sv ''Error reading job metadata'') (get_job_metadata (sv_env sv) bk namespace job_id))
       (\<lambda>job_meta. sret (Some job_meta))"

definition get_file_metadata_handler ::
  "'b server_env \<Rightarrow> string \<Rightarrow> int \<Rightarrow> (get_file_metadata_result, tonic_status) result" where
  "get_file_metadata_handler sv path file_type =
     rbind (map_err (internal sv ''Error reading request'') (file_type_try_from file_type)) (\<lambda>ft.
       case ft of
         FT_Parquet \<Rightarrow>
           rbind (map_err (internal_df ''Error opening parquet files'') (sv_parquet sv path)) (\<lambda>(sch, parts).
             Ok \<lparr>fm_schema = Some (schema_into sch), fm_partitions = parts\<rparr>)
       | _ \<Rightarrow> Err (St_Unimplemented ''get_file_metadata unsupported file type''))"

section \<open>poll_work\<close>

text \<open>The task definition of an assignment; its plan must convert, or the handler panics.\<close>

definition task_definition_of ::
  "'b server_env \<Rightarrow> (task_status \<times> exec_plan) option \<Rightarrow> (task_definition option, tonic_status) result" where
  "task_definition_of sv plan =
     (case plan of
        None \<Rightarrow> Ok None
      | Some (status, p) \<Rightarrow>
          rbind (unwrap (ts_partition_id status)) (\<lambda>_.
          rbind (unwrap_result (plan_into (env_builders (sv_env sv)) p)) (\<lambda>node.
            Ok (Some \<lparr>td_task_id = ts_partition_id status, td_plan = Some node\<rparr>))))"

text \<open>What happens between acquiring and releasing the lock.\<close>

definition poll_work_tasks ::
  "'b server_env \<Rightarrow> ('s, 'g, 'b) config_backend_client \<Rightarrow> string \<Rightarrow> executor_meta \<Rightarrow> bool \<Rightarrow> task_status list
    \<Rightarrow> ('s, task_definition option, tonic_status) io" where
  "poll_work_tasks sv bk namespace metadata can_accept_task statuses =
     sbind (smap_err (internal sv ''Could not save executor metadata'')
              (save_executor_metadata (sv_env sv) bk namespace metadata)) (\<lambda>_.
     sbind (sfor (\<lambda>t. smap_err (internal sv ''Could not save task status'')
              (save_task_status (sv_env sv) bk namespace t)) statuses) (\<lambda>_.
     sbind (if can_accept_task then
              sbind (smap_err (internal sv ''Error finding next assignable task'')
                (assign_next_schedulable_task (sv_env sv) bk namespace (em_id metadata))) (\<lambda>plan.
                slift (task_definition_of sv plan))
            else sret None) (\<lambda>task.
     sbind (if statuses \<noteq> [] then swarn (synchronize_job_status (sv_env sv) bk namespace) else sret ()) (\<lambda>_.
       sret task))))"

definition poll_work_locked ::
  "'b server_env \<Rightarrow> ('s, 'g, 'b) config_backend_client \<Rightarrow> string \<Rightarrow> executor_meta \<Rightarrow> bool \<Rightarrow> task_status list \<Rightarrow> 'g
    \<Rightarrow> ('s, poll_work_result, tonic_status) io" where
  "poll_work_locked sv bk namespace metadata can_accept_task statuses lock =
     sbind (poll_work_tasks sv bk namespace metadata can_accept_task statuses) (\<lambda>task.
     sbind (sunwrap (bk_unlock bk lock)) (\<lambda>_. sret \<lparr>pr_task = task\<rparr>))"

definition poll_work ::
  "'b server_env \<Rightarrow> ('s, 'g, 'b) config_backend_client \<Rightarrow> string \<Rightarrow> poll_work_params
    \<Rightarrow> 's \<Rightarrow> ((poll_work_result, tonic_status) result \<times> 's) option" where
  "poll_work sv bk namespace request s =
     (case pw_metadata request of
        None \<Rightarrow> Some (Err (St_InvalidArgument ''Missing metadata in request''), s)
      | Some metadata \<Rightarrow>
          (case bk_lock bk s of
             None \<Rightarrow> None
           | Some (Ok lock, s') \<Rightarrow>
               (case poll_work_locked sv bk namespace (executor_meta_from_pb metadata)
                       (pw_can_accept_task request) (pw_task_status request) lock s' of
                  (r, s'') \<Rightarrow> Some (r, bk_drop bk lock s''))
           | Some (Err e, s') \<Rightarrow> Some (Err (internal sv ''Could not lock the state'' e), s')
           | Some (Panic p, s') \<Rightarrow> Some (Panic p, s')))"

section \<open>execute_query\<close>

text \<open>What the spawned task gets: the job's id, the executors known when it was submitted, the plan.\<close>

record job_submission =
  sub_job_id :: string
  sub_executors :: "executor_meta list"
  sub_plan :: logical_plan

text \<open>\<open>job_id\<close> is the id drawn at random; the result carries the spawned task's arguments.\<close>

definition execute_query ::
  "'b server_env \<Rightarrow> ('s, 'g, 'b) config_backend_client \<Rightarrow> string \<Rightarrow> string \<Rightarrow> query option
    \<Rightarrow> ('s, string \<times> job_submission, tonic_status) io" where
  "execute_query sv bk namespace job_id request =
     (case request of
        None \<Rightarrow> slift (Err (St_Internal ''Error parsing request''))
      | Some q \<Rightarrow>
          sbind (slift (case q of
              Q_LogicalPlan node \<Rightarrow>
                map_err (internal sv ''Could not parse logical plan protobuf'') (logical_plan_try_into (sv_lp sv) node)
            | Q_Sql sql \<Rightarrow> map_err (internal_df ''Error parsing SQL'') (sv_sql sv sql))) (\<lambda>plan.
          sbind (smap_err (internal sv ''Error reading executors metadata'')
                   (get_executors_metadata (sv_env sv) bk namespace)) (\<lambda>executors.
          sbind (smap_err (internal sv ''Could not save job metadata'')
                   (save_job_metadata (sv_env sv) bk namespace job_id \<lparr>js_status = Some JS_Queued\<rparr>)) (\<lambda>_.
            sret (job_id, \<lparr>sub_job_id = job_id, sub_executors = executors, sub_plan = plan\<rparr>)))))"

text \<open>Saving a stage: its plan, then one pending task per output partition.\<close>

definition pending_task :: "string \<Rightarrow> nat \<Rightarrow> nat \<Rightarrow> task_status" where
  "pending_task job_id stage_id partition_id =
     \<lparr>ts_partition_id = Some \<lparr>ppid_job = job_id, ppid_stage = usize_to_u32 stage_id,
        ppid_partition = usize_to_u32 partition_id\<rparr>, ts_status = None\<rparr>"

definition save_stage ::
  "'b server_env \<Rightarrow> ('s, 'g, 'b) config_backend_client \<Rightarrow> string \<Rightarrow> string \<Rightarrow> query_stage \<Rightarrow> ('s, unit, tonic_status) io" where
  "save_stage sv bk namespace job_id stage =
     sbind (smap_err (internal sv ''Could not save stage plan'')
              (save_stage_plan (sv_env sv) bk namespace job_id (qs_stage_id stage) (qs_child stage))) (\<lambda>_.
       sfor (\<lambda>partition_id. smap_err (internal sv ''Could not save task status'')
               (save_task_status (sv_env sv) bk namespace (pending_task job_id (qs_stage_id stage) partition_id)))
         [0..<partition_count (env_df (sv_env sv)) (stage_plan stage)])"

text \<open>The spawned task up to its first failure, and the macro \<open>fail_job!\<close> that records it.\<close>

definition submission_stages :: "'b server_env \<Rightarrow> job_submission \<Rightarrow> exec_plan \<Rightarrow> (query_stage list, tonic_status) result" where
  "submission_stages sv sub plan =
     rbind (map_err (internal sv ''Could not create distributed planner'')
              (DistributedPlanner_try_new (sub_executors sub))) (\<lambda>planner.
     rbind (map_err (internal sv ''Could not plan query stages'')
              (plan_query_stages (env_df (sv_env sv)) planner (sub_job_id sub) plan)) (\<lambda>(stages, _). Ok stages))"

definition submission_plan :: "'b server_env \<Rightarrow> job_submission \<Rightarrow> (exec_plan, tonic_status) result" where
  "submission_plan sv sub =
     rbind (map_err (internal_df ''Could not create optimized logical plan'') (sv_optimize sv (sub_plan sub))) (\<lambda>optimized.
       map_err (internal_df ''Could not create physical plan'') (sv_create_physical_plan sv optimized))"

definition submission_body ::
  "'b server_env \<Rightarrow> ('s, 'g, 'b) config_backend_client \<Rightarrow> string \<Rightarrow> job_submission \<Rightarrow> ('s, unit, tonic_status) io" where
  "submission_body sv bk namespace sub =
     sbind (slift (submission_plan sv sub)) (\<lambda>plan.
     sbind (swarn (save_job_metadata (sv_env sv) bk namespace (sub_job_id sub) \<lparr>js_status = Some JS_Running\<rparr>)) (\<lambda>_.
     sbind (slift (submission_stages sv sub plan)) (\<lambda>stages.
       sfor (save_stage sv bk namespace (sub_job_id sub)) stages)))"

definition fail_job ::
  "'b server_env \<Rightarrow> ('s, 'g, 'b) config_backend_client \<Rightarrow> string \<Rightarrow> string \<Rightarrow> ('s, unit, tonic_status) io
    \<Rightarrow> ('s, unit, BallistaError) io" where
  "fail_job sv bk namespace job_id code s =
     (case code s of
        (Ok u, s') \<Rightarrow> (Ok u, s')
      | (Err status, s') \<Rightarrow>
          sunwrap (save_job_metadata (sv_env sv) bk namespace job_id
            \<lparr>js_status = Some (JS_Failed (sv_show_status sv status))\<rparr>) s'
      | (Panic p, s') \<Rightarrow> (Panic p, s'))"

definition run_submission ::
  "'b server_env \<Rightarrow> ('s, 'g, 'b) config_backend_client \<Rightarrow> string \<Rightarrow> job_submission \<Rightarrow> ('s, unit, BallistaError) io" where
  "run_submission sv bk namespace sub =
     fail_job sv bk namespace (sub_job_id sub) (submission_body sv bk namespace sub)"

section \<open>Plans that are sent\<close>

definition encodable :: "df_builders \<Rightarrow> exec_plan \<Rightarrow> bool" where
  "encodable b p \<longleftrightarrow> (\<exists>n. plan_into b p = Ok n)"

lemma encodable_replace:
  assumes "\<not> is_ballista_op p" "encodable b p" "length cs = length (children p)" "\<forall>c \<in> set cs. encodable b c"
  shows "encodable b (replace_children p cs)"
  using assms
  by (cases p) (auto simp: encodable_def rbind_eq_Ok hash_aggregate_into_def length_1_iff length_2_iff)

lemma encodable_child:
  assumes "encodable b p" "c \<in> set (children p)" "\<not> is_ballista_op p"
  shows "encodable b c"
  using assms by (cases p) (auto simp: encodable_def result_simps hash_aggregate_into_def)

lemma encodable_resolve:
  assumes "staged_plan p" "encodable b p"
  shows "encodable b (resolve locs p)"
  using assms
proof (induction p rule: plan_induct)
  case (plan p)
  note p = staged_plan_not_ballista [OF plan.prems(1)]
  have "encodable b (resolve locs c)" if c: "c \<in> set (children p)" for c
  proof (cases "as_unresolved c")
    case None
    with plan c show ?thesis using staged_plan_child encodable_child p by blast
  next
    case (Some u)
    then show ?thesis
      by (simp add: resolve_Some shuffle_reader_def encodable_def partition_location_to_pb_def [abs_def])
  qed
  with p plan.prems show ?case
    by (simp add: resolve_None as_unresolved_ballista encodable_replace)
qed

section \<open>Polling on the view\<close>

text \<open>The invariant of the server's store.\<close>

definition server_inv :: "'b server_env \<Rightarrow> sched_view \<Rightarrow> bool" where
  "server_inv sv w \<longleftrightarrow>
     tasks_ok w \<and> uniform_ids w \<and> (\<forall>k plan. vw_plans w k = Some plan \<longrightarrow> encodable (env_builders (sv_env sv)) plan)"

text \<open>Reports of finished tasks, and what saving them does.\<close>

definition apply_reports :: "(partition_id \<times> task_state) list \<Rightarrow> sched_view \<Rightarrow> sched_view" where
  "apply_reports rs w = w\<lparr>vw_tasks := foldl (\<lambda>f (p, st). f(p \<mapsto> Some st)) (vw_tasks w) rs\<rparr>"

definition reports_ok :: "sched_view \<Rightarrow> (partition_id \<times> task_state) list \<Rightarrow> bool" where
  "reports_ok w rs \<longleftrightarrow>
     (\<forall>(p, st) \<in> set rs. vw_tasks w p \<noteq> None \<and> (\<forall>e. st = TS_Completed e \<longrightarrow> vw_executors w e \<noteq> None))"

definition report_messages :: "(partition_id \<times> task_state) list \<Rightarrow> task_status list" where
  "report_messages rs = map (\<lambda>(p, st). task_of p (Some st)) rs"

definition register :: "executor_meta \<Rightarrow> sched_view \<Rightarrow> sched_view" where
  "register e w = w\<lparr>vw_executors := (vw_executors w)(em_id e \<mapsto> e)\<rparr>"

definition start_task :: "string \<Rightarrow> partition_id \<Rightarrow> sched_view \<Rightarrow> sched_view" where
  "start_task ex p w = w\<lparr>vw_tasks := (vw_tasks w)(p \<mapsto> Some (TS_Running ex))\<rparr>"

text \<open>The assignment part of a poll: nothing can start, or one task is started and sent.\<close>

definition assigned :: "'b server_env \<Rightarrow> string \<Rightarrow> sched_view \<Rightarrow> task_definition option \<Rightarrow> sched_view \<Rightarrow> bool" where
  "assigned sv ex w task w' \<longleftrightarrow>
     (task = None \<and> w' = w \<and> (\<forall>p plan. \<not> schedulable w p plan)) \<or>
     (\<exists>p plan n. schedulable w p plan \<and> plan_into (env_builders (sv_env sv)) (assigned_plan w p plan) = Ok n \<and>
        task = Some \<lparr>td_task_id = Some (partition_id_to_pb p), td_plan = Some n\<rparr> \<and> w' = start_task ex p w)"

definition poll_spec ::
  "'b server_env \<Rightarrow> executor_meta \<Rightarrow> bool \<Rightarrow> (partition_id \<times> task_state) list \<Rightarrow> sched_view
    \<Rightarrow> task_definition option \<Rightarrow> sched_view \<Rightarrow> bool" where
  "poll_spec sv meta can_accept rs w task w' \<longleftrightarrow>
     (\<exists>w1. (if can_accept then assigned sv (em_id meta) (apply_reports rs (register meta w)) task w1
            else task = None \<and> w1 = apply_reports rs (register meta w)) \<and>
        (if rs = [] then w' = w1 else synced w1 w'))"

lemma poll_specI:
  "(if can_accept then assigned sv (em_id meta) (apply_reports rs (register meta w)) task w1
    else task = None \<and> w1 = apply_reports rs (register meta w)) \<Longrightarrow>
   (if rs = [] then w' = w1 else synced w1 w') \<Longrightarrow> poll_spec sv meta can_accept rs w task w'"
  unfolding poll_spec_def by blast

lemma server_inv_register: "server_inv sv w \<Longrightarrow> server_inv sv (register e w)"
  by (simp add: server_inv_def register_def tasks_ok_executor)

lemma server_inv_start: "server_inv sv w \<Longrightarrow> schedulable w p plan \<Longrightarrow> server_inv sv (start_task ex p w)"
  using tasks_ok_update [of w p "TS_Running ex"] uniform_ids_update [of w p "Some (TS_Running ex)"] schedulable_task [of w p plan]
  by (simp add: server_inv_def start_task_def)

lemma server_inv_synced:
  assumes "server_inv sv w" "synced w w'"
  shows "server_inv sv w'"
proof -
  from assms(2) obtain jobs where w': "w' = w\<lparr>vw_jobs := jobs\<rparr>" unfolding synced_def by blast
  have "dom (vw_jobs w') = dom (vw_jobs w)"
    using assms(2) by (auto simp: synced_def dom_def) (metis option.rel_distinct(1,2) option.exhaust)+
  with assms(1) show ?thesis by (simp add: w' server_inv_def uniform_ids_def)
qed

lemma reports_ok_Cons:
  "reports_ok w ((p, st) # rs) \<longleftrightarrow>
     vw_tasks w p \<noteq> None \<and> (\<forall>e. st = TS_Completed e \<longrightarrow> vw_executors w e \<noteq> None) \<and> reports_ok w rs"
  by (auto simp: reports_ok_def)

lemma apply_reports_Cons:
  "apply_reports ((p, st) # rs) w = apply_reports rs (w\<lparr>vw_tasks := (vw_tasks w)(p \<mapsto> Some st)\<rparr>)"
  by (simp add: apply_reports_def)

lemma server_inv_report:
  "server_inv sv w \<Longrightarrow> reports_ok w ((p, st) # rs) \<Longrightarrow> server_inv sv (w\<lparr>vw_tasks := (vw_tasks w)(p \<mapsto> Some st)\<rparr>)"
  using tasks_ok_update [of w p st] uniform_ids_update [of w p "Some st"] by (simp add: server_inv_def reports_ok_Cons)

lemma reports_ok_report:
  "reports_ok w rs \<Longrightarrow> reports_ok (w\<lparr>vw_tasks := (vw_tasks w)(p \<mapsto> st)\<rparr>) rs"
  by (auto simp: reports_ok_def)

lemma represents_fits: "represents env ns m w \<Longrightarrow> vw_tasks w p \<noteq> None \<Longrightarrow> pid_fits p"
  using represents_task [of env ns m w p] by (auto elim!: rel_option_SomeE simp: task_entry_def)

context config_backend
begin

lemma valid_smap_err_Ok:
  "valid m c (\<lambda>r m'. \<exists>x. r = Ok x \<and> R x m') \<Longrightarrow> valid m (smap_err g c) (\<lambda>r m'. \<exists>x. r = Ok x \<and> R x m')"
  by (rule valid_smap_err) (auto elim!: valid_weaken)

lemma valid_swarn_Ok: "valid m c (\<lambda>r m'. r = Ok () \<and> R m') \<Longrightarrow> valid m (swarn c) (\<lambda>r m'. \<exists>u. r = Ok u \<and> R m')"
  by (rule validI) (auto elim!: validD simp: swarn_def keeps_def)

lemma valid_reports:
  assumes env: "env_ok env"
  shows "represents env ns m w \<Longrightarrow> server_inv sv w \<Longrightarrow> reports_ok w rs \<Longrightarrow>
    valid m (sfor (\<lambda>t. smap_err g (save_task_status env bk ns t)) (report_messages rs))
      (\<lambda>r m'. \<exists>u. r = Ok u \<and> represents env ns m' (apply_reports rs w) \<and> server_inv sv (apply_reports rs w))"
proof (induction rs arbitrary: m w)
  case Nil
  then show ?case by (auto simp: report_messages_def apply_reports_def intro!: valid_sret)
next
  case (Cons rep rs)
  obtain p st where rep: "rep = (p, st)" by (cases rep)
  let ?w = "w\<lparr>vw_tasks := (vw_tasks w)(p \<mapsto> Some st)\<rparr>"
  from Cons.prems rep have ok: "vw_tasks w p \<noteq> None" "reports_ok w rs" by (simp_all add: reports_ok_Cons)
  have fits: "pid_fits p" using represents_fits [OF Cons.prems(1) ok(1)] .
  have "valid m (smap_err g (save_task_status env bk ns (task_of p (Some st))))
      (\<lambda>r m'. \<exists>u. r = Ok u \<and> represents env ns m' ?w)"
    by (rule valid_smap_err_Ok, rule valid_weaken [OF valid_save_task [OF env Cons.prems(1) fits]]) auto
  moreover have "server_inv sv ?w" using server_inv_report Cons.prems(2,3) rep by blast
  ultimately show ?case
    using Cons.IH [of _ ?w] reports_ok_report [OF ok(2)]
    by (auto simp: rep report_messages_def apply_reports_Cons intro!: valid_sbind_Ok)
qed

lemma valid_assign_task:
  assumes env: "env_ok (sv_env sv)" and rep: "represents (sv_env sv) ns m w" and inv: "server_inv sv w"
  shows "valid m (sbind (smap_err g (assign_next_schedulable_task (sv_env sv) bk ns ex)) (\<lambda>plan. slift (task_definition_of sv plan)))
    (\<lambda>r m'. \<exists>task. r = Ok task \<and> (\<exists>w'. represents (sv_env sv) ns m' w' \<and> server_inv sv w' \<and> assigned sv ex w task w'))"
proof -
  let ?A = "assign_post (sv_env sv) ns m w ex (range (pid_key ns))"
  have ok: "tasks_ok w" using inv by (simp add: server_inv_def)
  have "valid m (smap_err g (assign_next_schedulable_task (sv_env sv) bk ns ex)) (\<lambda>r m'. \<exists>x. r = Ok x \<and> ?A (Ok x) m')"
    by (rule valid_smap_err_Ok, rule valid_weaken [OF valid_assign [OF env rep ok]]) (auto simp: assign_post_def)
  moreover have "valid m' (slift (task_definition_of sv plan))
      (\<lambda>r m'. \<exists>task. r = Ok task \<and> (\<exists>w'. represents (sv_env sv) ns m' w' \<and> server_inv sv w' \<and> assigned sv ex w task w'))"
    if post: "?A (Ok plan) m'" for plan m'
  proof (cases plan)
    case None
    with post rep inv show ?thesis by (auto simp: task_definition_of_def assign_post_def assigned_def intro!: valid_slift)
  next
    case (Some x)
    with post obtain p pl where p: "schedulable w p pl" "x = (task_of p (Some (TS_Running ex)), assigned_plan w p pl)"
        "represents (sv_env sv) ns m' (start_task ex p w)"
      by (auto simp: assign_post_def start_task_def)
    from p(1) have "vw_plans w (pid_job p, pid_stage p) = Some pl" "pending_ok w p"
      using ok by (auto simp: schedulable_def tasks_ok_def)
    then have "encodable (env_builders (sv_env sv)) (assigned_plan w p pl)"
      using inv by (auto simp: assigned_plan_def server_inv_def pending_ok_def intro!: encodable_resolve)
    then obtain n where n: "plan_into (env_builders (sv_env sv)) (assigned_plan w p pl) = Ok n" by (auto simp: encodable_def)
    then have "task_definition_of sv plan = Ok (Some \<lparr>td_task_id = Some (partition_id_to_pb p), td_plan = Some n\<rparr>)"
      by (simp add: Some p(2) task_definition_of_def)
    moreover have "assigned sv ex w (Some \<lparr>td_task_id = Some (partition_id_to_pb p), td_plan = Some n\<rparr>) (start_task ex p w)"
      using p(1) n by (auto simp: assigned_def)
    ultimately show ?thesis using p(3) server_inv_start [OF inv p(1)] by (auto intro!: valid_slift)
  qed
  ultimately show ?thesis by (rule valid_sbind_Ok)
qed

lemma valid_poll_work_tasks:
  assumes env: "env_ok (sv_env sv)" and ns: "slash_free ns" and rep: "represents (sv_env sv) ns m w"
    and inv: "server_inv sv w" and rs: "reports_ok (register meta w) rs"
  shows "valid m (poll_work_tasks sv bk ns meta can_accept (report_messages rs))
    (\<lambda>r m'. \<exists>task. r = Ok task \<and> (\<exists>w'. represents (sv_env sv) ns m' w' \<and> server_inv sv w' \<and>
       poll_spec sv meta can_accept rs w task w'))"
proof -
  let ?w0 = "register meta w" and ?w1 = "apply_reports rs (register meta w)"
  have 1: "valid m (smap_err g (save_executor_metadata (sv_env sv) bk ns meta))
      (\<lambda>r m'. \<exists>u. r = Ok u \<and> represents (sv_env sv) ns m' ?w0)" for g :: "BallistaError \<Rightarrow> tonic_status"
    by (rule valid_smap_err_Ok, rule valid_weaken [OF valid_save_executor [OF env rep]]) (auto simp: register_def)
  have 3: "valid m1 (if can_accept then
        sbind (smap_err g (assign_next_schedulable_task (sv_env sv) bk ns (em_id meta))) (\<lambda>plan. slift (task_definition_of sv plan))
      else sret None)
      (\<lambda>r m'. \<exists>task. r = Ok task \<and> (\<exists>w'. represents (sv_env sv) ns m' w' \<and> server_inv sv w' \<and>
        (if can_accept then assigned sv (em_id meta) ?w1 task w' else task = None \<and> w' = ?w1)))"
    if "represents (sv_env sv) ns m1 ?w1" "server_inv sv ?w1" for m1 and g :: "BallistaError \<Rightarrow> tonic_status"
    using valid_assign_task [OF env that] that by (auto intro!: valid_sret)
  have 4: "valid m2 (sbind (if report_messages rs \<noteq> [] then swarn (synchronize_job_status (sv_env sv) bk ns) else sret ()) (\<lambda>_. sret task))
      (\<lambda>r m'. \<exists>task. r = Ok task \<and> (\<exists>w'. represents (sv_env sv) ns m' w' \<and> server_inv sv w' \<and>
        poll_spec sv meta can_accept rs w task w'))"
    if "\<exists>w2. represents (sv_env sv) ns m2 w2 \<and> server_inv sv w2 \<and>
      (if can_accept then assigned sv (em_id meta) ?w1 task w2 else task = None \<and> w2 = ?w1)" for m2 task
  proof -
    from that obtain w2 where w2: "represents (sv_env sv) ns m2 w2" "server_inv sv w2"
      "if can_accept then assigned sv (em_id meta) ?w1 task w2 else task = None \<and> w2 = ?w1" by blast
    have sync: "valid m2 (swarn (synchronize_job_status (sv_env sv) bk ns))
        (\<lambda>r m'. \<exists>u :: unit. r = Ok u \<and> (\<exists>w'. represents (sv_env sv) ns m' w' \<and> synced w2 w'))"
      using w2(2) by (intro valid_swarn_Ok valid_synchronize [OF env ns w2(1)]) (simp add: server_inv_def)
    show ?thesis
    proof (cases "rs = []")
      case True
      then have "poll_spec sv meta can_accept rs w task w2" using w2(3) by (intro poll_specI) simp_all
      with True w2 show ?thesis by (auto simp: report_messages_def intro!: valid_sret)
    next
      case False
      then have "server_inv sv w' \<and> poll_spec sv meta can_accept rs w task w'" if "synced w2 w'" for w'
        using w2(3) that server_inv_synced [OF w2(2) that] by (auto intro!: poll_specI [where w' = w'])
      with False sync show ?thesis
        by (auto simp: report_messages_def intro!: valid_sret valid_sbind_Ok)
    qed
  qed
  show ?thesis
    unfolding poll_work_tasks_def
    by (rule valid_sbind_Ok [OF 1], rule valid_sbind_Ok [OF valid_reports [OF env _ server_inv_register [OF inv] rs]], assumption,
        rule valid_sbind_Ok [OF 3], blast, blast, rule 4)
qed

end

section \<open>The lock\<close>

context config_backend
begin

text \<open>Computations that leave the lock alone and the store usable, whatever they return.\<close>

definition frame :: "('s, 'a, 'e) io \<Rightarrow> bool" where
  "frame c \<longleftrightarrow> (\<forall>m. valid m c (\<lambda>_ _. True))"

lemma frameD: "frame c \<Longrightarrow> healthy s \<Longrightarrow> c s = (r, s') \<Longrightarrow> healthy s' \<and> holder s' = holder s"
  by (rule validD [of "kv s" c "\<lambda>_ _. True" s]) (auto simp: frame_def)

lemma frame_sret [intro]: "frame (sret x)"
  by (auto simp: frame_def intro: valid_sret)

lemma frame_slift [intro]: "frame (slift r)"
  by (auto simp: frame_def intro: valid_slift)

lemma frame_sbind [intro]: "frame c \<Longrightarrow> (\<And>x. frame (f x)) \<Longrightarrow> frame (sbind c f)"
  by (auto simp: frame_def intro!: valid_sbind [where R = "\<lambda>_ _. True"])

lemma frame_smap_err [intro]: "frame c \<Longrightarrow> frame (smap_err g c)"
  by (auto simp: frame_def intro: valid_smap_err)

lemma frame_swarn [intro]: "frame c \<Longrightarrow> frame (swarn c)"
  unfolding frame_def by (auto intro!: validI elim!: validD simp: swarn_def keeps_def)

lemma frame_sfor [intro]: "(\<And>x. frame (c x)) \<Longrightarrow> frame (sfor c xs)"
  by (induction xs) auto

lemma frame_get [intro]: "own_key k \<Longrightarrow> frame (bk_get bk k)"
  by (auto simp: frame_def intro: valid_get)

lemma frame_get_from_prefix [intro]: "own_key k \<Longrightarrow> frame (bk_get_from_prefix bk k)"
  by (auto simp: frame_def intro: valid_get_from_prefix)

lemma frame_put [intro]: "own_key k \<Longrightarrow> frame (bk_put bk k v lease)"
  by (auto simp: frame_def intro: valid_put)

lemma frame_if [intro]: "frame c \<Longrightarrow> frame d \<Longrightarrow> frame (if b then c else d)"
  by simp

lemmas frame_rules = frame_if frame_sret frame_slift frame_sbind frame_smap_err frame_swarn frame_sfor frame_get
  frame_get_from_prefix frame_put own_keys

lemma frame_state_operations:
  "frame (get_executors_metadata env bk ns)" "frame (save_executor_metadata env bk ns e)"
  "frame (save_job_metadata env bk ns j st)" "frame (get_job_metadata env bk ns j)"
  "frame (save_task_status env bk ns t)" "frame (get_stage_plan env bk ns j i)" "frame (save_stage_plan env bk ns j i p)"
  unfolding get_executors_metadata_def save_executor_metadata_def save_job_metadata_def get_job_metadata_def
    save_task_status_def get_stage_plan_def save_stage_plan_def Let_def
  by (intro frame_rules)+

lemma frame_resolve_task_plan: "frame (resolve_task_plan env bk ns kvs es p)"
  unfolding resolve_task_plan_def
  by (intro frame_rules frame_state_operations) (auto split: option.split intro!: frame_rules)

lemma frame_assign_loop: "frame (assign_loop env bk ns ex kvs es todo)"
proof (induction todo)
  case (Cons entry todo)
  then show ?case
    by (cases entry)
       (auto simp: Let_def split: option.split intro!: frame_rules frame_resolve_task_plan frame_state_operations)
qed (simp add: frame_sret)

lemma frame_assign: "frame (assign_next_schedulable_task env bk ns ex)"
  unfolding assign_next_schedulable_task_def by (intro frame_rules frame_assign_loop frame_state_operations)

lemma frame_synchronize_job: "frame (synchronize_job env bk ns es entry)"
  unfolding synchronize_job_def get_job_status_from_tasks_def
  by (cases entry) (auto split: option.split intro!: frame_rules frame_state_operations)

lemma frame_synchronize: "frame (synchronize_job_status env bk ns)"
  unfolding synchronize_job_status_def by (intro frame_rules frame_synchronize_job frame_state_operations)

lemma frame_poll_work_tasks: "frame (poll_work_tasks sv bk ns meta can_accept statuses)"
  unfolding poll_work_tasks_def by (intro frame_rules frame_synchronize frame_assign frame_state_operations)

text \<open>\<open>poll_work\<close> waits while the lock is held.\<close>

lemma poll_work_waits: "holder s \<noteq> None \<Longrightarrow> pw_metadata req \<noteq> None \<Longrightarrow> poll_work sv bk ns req s = None"
  using lock_waits by (auto simp: poll_work_def)

text \<open>A poll that succeeds releases the lock; one that fails releases it only through the guard.\<close>

lemma poll_work_lock:
  assumes s: "healthy s" "holder s = None" and meta: "pw_metadata req = Some meta"
  obtains g s1 task s2 r s' where "bk_lock bk s = Some (Ok g, s1)" "healthy s1" "holder s1 = Some g" "kv s1 = kv s"
    "poll_work_tasks sv bk ns (executor_meta_from_pb meta) (pw_can_accept_task req) (pw_task_status req) s1 = (task, s2)"
    "healthy s2" "holder s2 = Some g"
    "poll_work sv bk ns req s = Some (r, bk_drop bk g s')"
    "healthy s'" "kv s' = kv s2"
    "case task of
       Ok t \<Rightarrow> r = Ok \<lparr>pr_task = t\<rparr> \<and> holder (bk_drop bk g s') = None
     | Err e \<Rightarrow> r = Err e \<and> s' = s2
     | Panic p \<Rightarrow> r = Panic p \<and> s' = s2"
proof -
  obtain g s1 where 1: "bk_lock bk s = Some (Ok g, s1)" "kv s1 = kv s" "healthy s1" "holder s1 = Some g"
    using lock_ok [OF s] by blast
  obtain task s2 where 2: "poll_work_tasks sv bk ns (executor_meta_from_pb meta) (pw_can_accept_task req) (pw_task_status req) s1 = (task, s2)"
    by (metis surj_pair)
  with frameD [OF frame_poll_work_tasks 1(3)] 1(4) have 3: "healthy s2" "holder s2 = Some g" by auto
  obtain s3 where 4: "bk_unlock bk g s2 = (Ok (), s3)" "kv s3 = kv s2" "healthy s3" "holder (bk_drop bk g s3) = None"
    using unlock_ok [OF 3] by blast
  show ?thesis
  proof (cases task)
    case (Ok t)
    then have "poll_work sv bk ns req s = Some (Ok \<lparr>pr_task = t\<rparr>, bk_drop bk g s3)"
      using 1 2 4 meta by (simp add: poll_work_def poll_work_locked_def sbind_def sunwrap_def sret_def)
    with that 1 2 3 4 Ok show ?thesis by fastforce
  next
    case (Err e)
    then have "poll_work sv bk ns req s = Some (Err e, bk_drop bk g s2)"
      using 1 2 meta by (simp add: poll_work_def poll_work_locked_def sbind_def)
    with that 1 2 3 Err show ?thesis by fastforce
  next
    case (Panic e)
    then have "poll_work sv bk ns req s = Some (Panic e, bk_drop bk g s2)"
      using 1 2 meta by (simp add: poll_work_def poll_work_locked_def sbind_def)
    with that 1 2 3 Panic show ?thesis by fastforce
  qed
qed

lemma poll_work_run:
  assumes env: "env_ok (sv_env sv)" and ns: "slash_free ns" and s: "healthy s" "holder s = None"
    and rep: "represents (sv_env sv) ns (kv s) w" and inv: "server_inv sv w"
    and req: "pw_metadata req = Some meta" "pw_task_status req = report_messages rs"
      "reports_ok (register (executor_meta_from_pb meta) w) rs"
  shows "\<exists>task s' w'. poll_work sv bk ns req s = Some (Ok \<lparr>pr_task = task\<rparr>, s') \<and> healthy s' \<and> holder s' = None \<and>
    represents (sv_env sv) ns (kv s') w' \<and> server_inv sv w' \<and>
    poll_spec sv (executor_meta_from_pb meta) (pw_can_accept_task req) rs w task w'"
proof -
  obtain g s1 task s2 r s' where run: "bk_lock bk s = Some (Ok g, s1)" "healthy s1" "holder s1 = Some g" "kv s1 = kv s"
    "poll_work_tasks sv bk ns (executor_meta_from_pb meta) (pw_can_accept_task req) (pw_task_status req) s1 = (task, s2)"
    "healthy s2" "holder s2 = Some g" "poll_work sv bk ns req s = Some (r, bk_drop bk g s')" "healthy s'" "kv s' = kv s2"
    "case task of
       Ok t \<Rightarrow> r = Ok \<lparr>pr_task = t\<rparr> \<and> holder (bk_drop bk g s') = None
     | Err e \<Rightarrow> r = Err e \<and> s' = s2
     | Panic p \<Rightarrow> r = Panic p \<and> s' = s2"
    using poll_work_lock [OF s req(1)] by metis
  obtain t w' where "task = Ok t" "represents (sv_env sv) ns (kv s2) w'" "server_inv sv w'"
    "poll_spec sv (executor_meta_from_pb meta) (pw_can_accept_task req) rs w t w'"
    by (rule validD [OF valid_poll_work_tasks [OF env ns rep inv req(3)] run(2,4), of "pw_can_accept_task req"])
       (use run(5) req(2) in auto)
  with run drop_ok [OF run(9), of g] show ?thesis by auto
qed

end

context releasing_backend
begin

text \<open>With a guard that releases on drop, no way out of \<open>poll_work\<close> leaves the lock held.\<close>

lemma poll_work_releases:
  assumes "poll_work sv bk ns req s = Some (r, s')" "bk_lock bk s = Some (Ok g, s1)" "pw_metadata req \<noteq> None"
  shows "holder s' = None"
  using assms drop_releases by (auto simp: poll_work_def split: prod.splits)

end

section \<open>Properties of polling\<close>

definition example_server :: "message server_env" where
  "example_server = \<lparr>
     sv_env = plain_env,
     sv_dbg = (\<lambda>x. x),
     sv_lp = plain_lp_builders,
     sv_sql = (\<lambda>_. Err ''unsupported''),
     sv_optimize = Ok,
     sv_create_physical_plan = (\<lambda>p. case p of LP_EmptyRelation one \<Rightarrow> Ok (EmptyExec one []) | _ \<Rightarrow> Err ''unsupported''),
     sv_parquet = (\<lambda>_. Err ''no such file''),
     sv_show_status = (\<lambda>_. ''error'')\<rparr>"

lemma example_server_inv: "env_ok (sv_env example_server)" "server_inv example_server example_job_view"
  using example_job_view_ok(1,2)
  by (simp_all add: example_server_def plain_env_ok server_inv_def)
     (auto simp: example_job_view_def encodable_def split: if_splits)

text \<open>
  C11. A poll is served.  On a store that satisfies the invariant, with the lock free, a poll from an
  executor that reports existing tasks always succeeds: the executor is registered, the reported
  statuses are stored, an executor that asks for work gets a task whenever one can start and that
  task is marked running, job statuses are brought up to date when something was reported, the
  invariant holds again and the lock is free.
\<close>

theorem poll_work_correct:
  assumes "config_backend bk kv healthy holder" "env_ok (sv_env sv)" "slash_free ns" "healthy s" "holder s = None"
    and "represents (sv_env sv) ns (kv s) w" "server_inv sv w"
    and "pw_metadata req = Some meta" "pw_task_status req = report_messages rs"
    and "reports_ok (register (executor_meta_from_pb meta) w) rs"
  shows "\<exists>task s' w'. poll_work sv bk ns req s = Some (Ok \<lparr>pr_task = task\<rparr>, s') \<and> healthy s' \<and> holder s' = None \<and>
    represents (sv_env sv) ns (kv s') w' \<and> server_inv sv w' \<and>
    poll_spec sv (executor_meta_from_pb meta) (pw_can_accept_task req) rs w task w'"
  by (rule config_backend.poll_work_run [OF assms])

theorem poll_work_correct_witness:
  "\<exists>s task s' w'. poll_work example_server (standalone_backend mem_sled) ''default''
       \<lparr>pw_metadata = Some \<lparr>pem_id = ''e2'', pem_host = ''h'', pem_port = 50051\<rparr>, pw_can_accept_task = True,
        pw_task_status = report_messages [(example_pid 0, TS_Completed ''e2'')]\<rparr> s = Some (Ok \<lparr>pr_task = task\<rparr>, s') \<and>
     client_holder s' = None \<and> represents plain_env ''default'' (client_kv map_of s') w'"
proof -
  let ?m = "\<lparr>pem_id = ''e2'', pem_host = ''h'', pem_port = 50051\<rparr>"
  let ?req = "\<lparr>pw_metadata = Some ?m, pw_can_accept_task = True,
    pw_task_status = report_messages [(example_pid 0, TS_Completed ''e2'')]\<rparr>"
  obtain s where s: "client_healthy map_of mem_fine s" "client_holder s = None"
      "represents plain_env ''default'' (client_kv map_of s) example_job_view"
    using example_job_client by blast
  have env: "sv_env example_server = plain_env" by (simp add: example_server_def)
  have "reports_ok (register (executor_meta_from_pb ?m) example_job_view) [(example_pid 0, TS_Completed ''e2'')]"
    by (auto simp: reports_ok_def register_def example_job_view_def)
  from poll_work_correct [where ns = "''default''" and req = ?req, OF standalone.config_backend_axioms example_server_inv(1) _ s(1,2)
      _ example_server_inv(2) _ _ this] s(3)
  show ?thesis unfolding env by (simp add: slash_free_def) blast
qed



text \<open>
  C23. With etcd a poll that fails leaves the global lock held: the handler returns through \<open>?\<close>
  without \<open>unlock\<close> and the guard has no \<open>Drop\<close>, so every later poll waits.
\<close>

theorem etcd_failed_poll_blocks:
  assumes "etcd_ok et cont fine hold" "fine s" "hold s = None" "pw_metadata req \<noteq> None"
    and "poll_work sv (etcd_backend et) ns req s = Some (Err e, s')"
  shows "hold s' \<noteq> None \<and> (pw_metadata req' \<noteq> None \<longrightarrow> poll_work sv (etcd_backend et) ns req' s' = None)"
proof -
  note contract = etcd_contract [OF assms(1)]
  obtain meta where meta: "pw_metadata req = Some meta" using assms(4) by auto
  obtain g s1 task s2 r s3 where "hold s2 = Some g"
    "poll_work sv (etcd_backend et) ns req s = Some (r, bk_drop (etcd_backend et) g s3)"
    "case task of
       Ok t \<Rightarrow> r = Ok \<lparr>pr_task = t\<rparr> \<and> hold (bk_drop (etcd_backend et) g s3) = None
     | Err e \<Rightarrow> r = Err e \<and> s3 = s2
     | Panic p \<Rightarrow> r = Panic p \<and> s3 = s2"
    using config_backend.poll_work_lock [OF contract assms(2,3) meta] by metis
  with assms(5) have "hold s' \<noteq> None"
    by (auto simp: etcd_backend_def split: result.splits)
  with config_backend.poll_work_waits [OF contract, of s' req'] show ?thesis by blast
qed

theorem etcd_failed_poll_blocks_witness:
  "\<exists>e s'. poll_work example_server (etcd_backend mem_etcd) ''default''
      \<lparr>pw_metadata = Some \<lparr>pem_id = ''e1'', pem_host = ''h'', pem_port = 50051\<rparr>, pw_can_accept_task = True, pw_task_status = []\<rparr>
      ([(''/ballista/default/tasks/x'', [M_Job \<lparr>js_status = None\<rparr>])], None) = Some (Err e, s') \<and>
    snd s' \<noteq> None"
proof -
  let ?req = "\<lparr>pw_metadata = Some \<lparr>pem_id = ''e1'', pem_host = ''h'', pem_port = 50051\<rparr>, pw_can_accept_task = True, pw_task_status = []\<rparr>"
  let ?s = "([(''/ballista/default/tasks/x'', [M_Job \<lparr>js_status = None\<rparr>])], None)"
  obtain e s' where "poll_work example_server (etcd_backend mem_etcd) ''default'' ?req ?s = Some (Err e, s')"
    by (simp add: poll_work_def poll_work_locked_def poll_work_tasks_def etcd_backend_def mem_etcd_def etcd_lock_def
        sbind_def smap_err_def sret_def slift_def save_executor_metadata_def etcd_put_def etcd_get_from_prefix_def
        assign_next_schedulable_task_def get_executors_metadata_def example_server_def plain_env_def plain_codec_def
        encode_protobuf_def decode_protobuf_def key_defs executor_meta_from_pb_def executor_meta_to_pb_def LEASE_TIME_def)
  with etcd_failed_poll_blocks [OF mem_etcd_ok, of ?s ?req] show ?thesis by auto
qed

end
