(* ===== verification/Scheduler_System.thy ===== *)
theory Scheduler_System
  imports Scheduler_Server
begin

text \<open>
  The scheduler as a system: requests and the tasks that \<open>execute_query\<close> spawns, interleaved.  A
  spawned task is the list of its writes (\<open>job_write\<close>), because each write to the store is atomic
  and between two of them any other request may be served; \<open>submission_trace\<close> is that list and
  \<open>submission_body_writes\<close> says that running it is running the spawned task.  \<open>sched_step\<close> is the
  step relation (\<open>other_step\<close> without the polls), \<open>sched_inv\<close> its invariant.

  A poll is one step: it holds the global lock from its first to its last access.
\<close>

section \<open>The writes of a spawned task\<close>

datatype job_write =
    W_Running string
  | W_Plan string nat exec_plan
  | W_Task string nat nat

fun perform_write ::
  "'b server_env \<Rightarrow> ('s, 'g, 'b) config_backend_client \<Rightarrow> string \<Rightarrow> job_write \<Rightarrow> ('s, unit, tonic_status) io" where
  "perform_write sv bk ns (W_Running j) =
     swarn (save_job_metadata (sv_env sv) bk ns j \<lparr>js_status = Some JS_Running\<rparr>)"
| "perform_write sv bk ns (W_Plan j i plan) =
     smap_err (internal sv ''Could not save stage plan'') (save_stage_plan (sv_env sv) bk ns j i plan)"
| "perform_write sv bk ns (W_Task j i n) =
     smap_err (internal sv ''Could not save task status'') (save_task_status (sv_env sv) bk ns (pending_task j i n))"

definition stage_writes :: "'b server_env \<Rightarrow> string \<Rightarrow> query_stage \<Rightarrow> job_write list" where
  "stage_writes sv j stage =
     W_Plan j (qs_stage_id stage) (qs_child stage) #
     map (W_Task j (qs_stage_id stage)) [0..<partition_count (env_df (sv_env sv)) (stage_plan stage)]"

text \<open>The writes, and how the task ends after the last of them.\<close>

definition submission_trace :: "'b server_env \<Rightarrow> job_submission \<Rightarrow> job_write list \<times> (unit, tonic_status) result" where
  "submission_trace sv sub =
     (case submission_plan sv sub of
        Ok plan \<Rightarrow>
          (case submission_stages sv sub plan of
             Ok stages \<Rightarrow> (W_Running (sub_job_id sub) # concat (map (stage_writes sv (sub_job_id sub)) stages), Ok ())
           | Err st \<Rightarrow> ([W_Running (sub_job_id sub)], Err st)
           | Panic p \<Rightarrow> ([W_Running (sub_job_id sub)], Panic p))
      | Err st \<Rightarrow> ([], Err st)
      | Panic p \<Rightarrow> ([], Panic p))"

lemma save_stage_writes: "save_stage sv bk ns j stage = sfor (perform_write sv bk ns) (stage_writes sv j stage)"
  by (simp add: save_stage_def stage_writes_def sfor_map)

lemma save_stages_writes:
  "sfor (save_stage sv bk ns j) stages = sfor (perform_write sv bk ns) (concat (map (stage_writes sv j) stages))"
proof -
  have "save_stage sv bk ns j = (\<lambda>stage. sfor (perform_write sv bk ns) (stage_writes sv j stage))"
    by (rule ext) (rule save_stage_writes)
  then show ?thesis by (simp add: sfor_concat sfor_map)
qed

lemma submission_body_writes:
  "submission_body sv bk ns sub =
     sbind (sfor (perform_write sv bk ns) (fst (submission_trace sv sub))) (\<lambda>_. slift (snd (submission_trace sv sub)))"
proof (cases "submission_plan sv sub")
  case (Ok plan)
  then show ?thesis
    by (cases "submission_stages sv sub plan")
       (simp_all add: submission_body_def submission_trace_def save_stages_writes sbind_assoc)
qed (simp_all add: submission_body_def submission_trace_def)

section \<open>Steps\<close>

text \<open>A spawned task: what it has still to write, how it ends, the job it belongs to.\<close>

record spawned =
  sp_writes :: "job_write list"
  sp_end :: "(unit, tonic_status) result"
  sp_job :: string

definition spawn :: "'b server_env \<Rightarrow> job_submission \<Rightarrow> spawned" where
  "spawn sv sub =
     \<lparr>sp_writes = fst (submission_trace sv sub), sp_end = snd (submission_trace sv sub), sp_job = sub_job_id sub\<rparr>"

text \<open>
  What the scheduler relies on: executors report tasks of the store and claim completion only for
  registered executors; a job id drawn at random has seven characters, none of them a slash, and is
  not in use.
\<close>

definition honest :: "'b server_env \<Rightarrow> string \<Rightarrow> (string \<rightharpoonup> 'b list) \<Rightarrow> poll_work_params \<Rightarrow> bool" where
  "honest sv ns m req \<longleftrightarrow>
     (\<forall>meta. pw_metadata req = Some meta \<longrightarrow>
        (\<exists>rs. pw_task_status req = report_messages rs \<and>
           (\<forall>w. represents (sv_env sv) ns m w \<longrightarrow> reports_ok (register (executor_meta_from_pb meta) w) rs)))"

definition job_id_ok :: "string \<Rightarrow> bool" where
  "job_id_ok j \<longleftrightarrow> length j = 7 \<and> slash_free j"

definition unused :: "sched_view \<Rightarrow> string \<Rightarrow> bool" where
  "unused w j \<longleftrightarrow> vw_jobs w j = None \<and> (\<forall>p. pid_job p = j \<longrightarrow> vw_tasks w p = None) \<and> (\<forall>i. vw_plans w (j, i) = None)"

definition fresh_id :: "'b server_env \<Rightarrow> string \<Rightarrow> (string \<rightharpoonup> 'b list) \<Rightarrow> spawned list \<Rightarrow> string \<Rightarrow> bool" where
  "fresh_id sv ns m ts j \<longleftrightarrow>
     job_id_ok j \<and> j \<notin> sp_job ` set ts \<and> (\<forall>w. represents (sv_env sv) ns m w \<longrightarrow> unused w j)"

text \<open>
  A step other than a poll: a query is accepted (its spawned task joins the others) or rejected, a
  status or the list of executors is read, a spawned task makes its next write or fails at it, ends,
  records its failure and ends, or panics and is gone.
\<close>

inductive other_step ::
  "'b server_env \<Rightarrow> ('s, 'g, 'b) config_backend_client \<Rightarrow> ('s \<Rightarrow> string \<rightharpoonup> 'b list) \<Rightarrow> string
    \<Rightarrow> 's \<times> spawned list \<Rightarrow> 's \<times> spawned list \<Rightarrow> bool"
  for sv bk kv ns where
  step_query: "fresh_id sv ns (kv s) ts j \<Longrightarrow> execute_query sv bk ns j q s = (Ok (j', sub), s') \<Longrightarrow>
    other_step sv bk kv ns (s, ts) (s', spawn sv sub # ts)"
| step_query_error: "fresh_id sv ns (kv s) ts j \<Longrightarrow> execute_query sv bk ns j q s = (r, s') \<Longrightarrow> (\<forall>x. r \<noteq> Ok x) \<Longrightarrow>
    other_step sv bk kv ns (s, ts) (s', ts)"
| step_job_status: "get_job_status_handler sv bk ns j s = (r, s') \<Longrightarrow> other_step sv bk kv ns (s, ts) (s', ts)"
| step_executors: "get_executors_metadata_handler sv bk ns s = (r, s') \<Longrightarrow> other_step sv bk kv ns (s, ts) (s', ts)"
| step_write: "sp_writes t = wr # wrs \<Longrightarrow> perform_write sv bk ns wr s = (Ok (), s') \<Longrightarrow>
    other_step sv bk kv ns (s, ts @ t # ts') (s', ts @ t\<lparr>sp_writes := wrs\<rparr> # ts')"
| step_write_error: "sp_writes t = wr # wrs \<Longrightarrow> perform_write sv bk ns wr s = (Err st, s') \<Longrightarrow>
    other_step sv bk kv ns (s, ts @ t # ts') (s', ts @ t\<lparr>sp_writes := [], sp_end := Err st\<rparr> # ts')"
| step_write_panic: "sp_writes t = wr # wrs \<Longrightarrow> perform_write sv bk ns wr s = (Panic p, s') \<Longrightarrow>
    other_step sv bk kv ns (s, ts @ t # ts') (s', ts @ ts')"
| step_panicked: "sp_writes t = [] \<Longrightarrow> sp_end t = Panic p \<Longrightarrow> other_step sv bk kv ns (s, ts @ t # ts') (s, ts @ ts')"
| step_done: "sp_writes t = [] \<Longrightarrow> sp_end t = Ok () \<Longrightarrow> other_step sv bk kv ns (s, ts @ t # ts') (s, ts @ ts')"
| step_failed: "sp_writes t = [] \<Longrightarrow> sp_end t = Err st \<Longrightarrow>
    sunwrap (save_job_metadata (sv_env sv) bk ns (sp_job t) \<lparr>js_status = Some (JS_Failed (sv_show_status sv st))\<rparr>) s =
      ((r :: unit bresult), s') \<Longrightarrow>
    other_step sv bk kv ns (s, ts @ t # ts') (s', ts @ ts')"

text \<open>A step: one of these, or a poll.\<close>

inductive sched_step ::
  "'b server_env \<Rightarrow> ('s, 'g, 'b) config_backend_client \<Rightarrow> ('s \<Rightarrow> string \<rightharpoonup> 'b list) \<Rightarrow> string
    \<Rightarrow> 's \<times> spawned list \<Rightarrow> 's \<times> spawned list \<Rightarrow> bool"
  for sv bk kv ns where
  step_poll: "honest sv ns (kv s) req \<Longrightarrow> poll_work sv bk ns req s = Some (r, s') \<Longrightarrow>
    sched_step sv bk kv ns (s, ts) (s', ts)"
| step_other: "other_step sv bk kv ns c c' \<Longrightarrow> sched_step sv bk kv ns c c'"

section \<open>What a spawned task may write\<close>

abbreviation pid_of :: "string \<Rightarrow> nat \<Rightarrow> nat \<Rightarrow> partition_id" where
  "pid_of j i n \<equiv> dep_pid j (i, n)"

text \<open>
  The writes still to come keep the invariant: a plan is stored before any task of its stage and
  reads only stages with smaller ids, and a task is stored once and only after everything it reads.  A plan
  that does not convert to a message is never stored: the spawned task stops there.
\<close>

fun writes_ok :: "'b server_env \<Rightarrow> sched_view \<Rightarrow> string \<Rightarrow> job_write list \<Rightarrow> bool" where
  "writes_ok sv w j [] = True"
| "writes_ok sv w j (W_Running j' # wrs) = (j' = j \<and> writes_ok sv w j wrs)"
| "writes_ok sv w j (W_Plan j' i plan # wrs) =
     (j' = j \<and> (encodable (env_builders (sv_env sv)) plan \<longrightarrow>
        plan_ok (env_df (sv_env sv)) (env_builders (sv_env sv)) plan \<and> (\<forall>sp \<in> set (plan_deps plan). fst sp < i) \<and>
        (\<forall>n. vw_tasks w (pid_of j i n) = None) \<and> writes_ok sv (w\<lparr>vw_plans := (vw_plans w)((j, i) \<mapsto> plan)\<rparr>) j wrs))"
| "writes_ok sv w j (W_Task j' i n # wrs) =
     (j' = j \<and> i < 2 ^ 32 \<and> n < 2 ^ 32 \<and> pending_ok w (pid_of j i n) \<and> vw_tasks w (pid_of j i n) = None \<and>
      writes_ok sv (w\<lparr>vw_tasks := (vw_tasks w)(pid_of j i n \<mapsto> None)\<rparr>) j wrs)"

text \<open>Two views that agree on a job: the same tasks exist, with the same plans.\<close>

definition same_job :: "string \<Rightarrow> sched_view \<Rightarrow> sched_view \<Rightarrow> bool" where
  "same_job j w w' \<longleftrightarrow>
     (\<forall>p. pid_job p = j \<longrightarrow> (vw_tasks w p = None) = (vw_tasks w' p = None)) \<and>
     (\<forall>i. vw_plans w (j, i) = vw_plans w' (j, i))"

lemma dep_pid_simps [simp]: "pid_job (dep_pid j sp) = j" "pid_stage (dep_pid j sp) = fst sp" "pid_partition (dep_pid j sp) = snd sp"
  "dep_pid j sp = dep_pid j' sp' \<longleftrightarrow> j = j' \<and> sp = sp'"
  by (auto simp: dep_pid_def prod_eq_iff)

lemma pending_ok_same: "same_job (pid_job p) w w' \<Longrightarrow> pending_ok w p = pending_ok w' p"
  by (auto simp: same_job_def pending_ok_def)

lemma writes_ok_same: "same_job j w w' \<Longrightarrow> writes_ok sv w j wrs = writes_ok sv w' j wrs"
proof (induction sv w j wrs arbitrary: w' rule: writes_ok.induct)
  case (3 sv w j j' i plan wrs)
  have "same_job j (w\<lparr>vw_plans := (vw_plans w)((j, i) \<mapsto> plan)\<rparr>) (w'\<lparr>vw_plans := (vw_plans w')((j, i) \<mapsto> plan)\<rparr>)"
    using "3.prems" by (simp add: same_job_def)
  note IH = "3.IH" [OF _ this]
  have "vw_tasks w (pid_of j i n) = None \<longleftrightarrow> vw_tasks w' (pid_of j i n) = None" for n
    using "3.prems" by (simp add: same_job_def)
  with IH show ?case by (simp cong: imp_cong)
next
  case (4 sv w j j' i n wrs)
  have "same_job j (w\<lparr>vw_tasks := (vw_tasks w)(pid_of j i n \<mapsto> None)\<rparr>) (w'\<lparr>vw_tasks := (vw_tasks w')(pid_of j i n \<mapsto> None)\<rparr>)"
    using "4.prems" by (simp add: same_job_def)
  moreover have "vw_tasks w (pid_of j i n) = None \<longleftrightarrow> vw_tasks w' (pid_of j i n) = None"
    using "4.prems" by (simp add: same_job_def)
  ultimately show ?case using 4 pending_ok_same [of "pid_of j i n" w w'] by simp
qed auto

text \<open>An update of another job, or of the status of a task that exists, changes nothing of this.\<close>

lemma same_job_updates [simp]:
  "same_job j (w\<lparr>vw_executors := x\<rparr>) w" "same_job j (w\<lparr>vw_jobs := y\<rparr>) w"
  "vw_tasks w p \<noteq> None \<Longrightarrow> same_job j (w\<lparr>vw_tasks := (vw_tasks w)(p \<mapsto> st)\<rparr>) w"
  "j \<noteq> pid_job p \<Longrightarrow> same_job j (w\<lparr>vw_tasks := (vw_tasks w)(p \<mapsto> st)\<rparr>) w"
  "j \<noteq> j' \<Longrightarrow> same_job j (w\<lparr>vw_plans := (vw_plans w)((j', i) \<mapsto> plan)\<rparr>) w"
  by (auto simp: same_job_def)

lemma same_job_trans: "same_job j w w' \<Longrightarrow> same_job j w' w'' \<Longrightarrow> same_job j w w''"
  by (auto simp: same_job_def)

lemma same_job_reports: "reports_ok w rs \<Longrightarrow> same_job j (apply_reports rs w) w"
proof (induction rs arbitrary: w)
  case (Cons r rs)
  obtain p st where r: "r = (p, st)" by (cases r)
  let ?w = "w\<lparr>vw_tasks := (vw_tasks w)(p \<mapsto> Some st)\<rparr>"
  from Cons.prems r have "vw_tasks w p \<noteq> None" "reports_ok ?w rs" by (simp_all add: reports_ok_Cons reports_ok_report)
  with Cons.IH [of ?w] show ?case by (auto simp: r apply_reports_Cons intro: same_job_trans)
qed (simp add: apply_reports_def same_job_def)

lemma same_job_synced:
  assumes "synced w w'"
  shows "same_job j w' w"
proof -
  from assms obtain jobs where "w' = w\<lparr>vw_jobs := jobs\<rparr>" unfolding synced_def by blast
  then show ?thesis by simp
qed

lemma same_job_poll:
  assumes "poll_spec sv meta can_accept rs w task w'" "reports_ok (register meta w) rs"
  shows "same_job j w' w"
proof -
  let ?w1 = "apply_reports rs (register meta w)"
  from assms(1) obtain w2 where w2: "if can_accept then assigned sv (em_id meta) ?w1 task w2 else task = None \<and> w2 = ?w1"
      "if rs = [] then w' = w2 else synced w2 w'"
    by (auto simp: poll_spec_def)
  have "same_job j ?w1 w"
    using same_job_reports [OF assms(2)] by (rule same_job_trans) (simp add: register_def)
  moreover have "same_job j w2 ?w1"
    using w2(1) by (auto simp: assigned_def start_task_def schedulable_def same_job_def split: if_splits)
  moreover have "same_job j w' w2"
    using w2(2) same_job_synced by (auto simp: same_job_def split: if_splits)
  ultimately show ?thesis by (metis same_job_trans)
qed

text \<open>The invariant of the system's store, for the job ids that are drawn.\<close>

definition deps_ordered :: "sched_view \<Rightarrow> bool" where
  "deps_ordered w \<longleftrightarrow>
     (\<forall>j i plan. vw_plans w (j, i) = Some plan \<longrightarrow> (\<forall>sp \<in> set (plan_deps plan). fst sp < i))"

definition job_ids :: "sched_view \<Rightarrow> bool" where
  "job_ids w \<longleftrightarrow> (\<forall>j \<in> dom (vw_jobs w). length j = 7) \<and> (\<forall>p \<in> dom (vw_tasks w). length (pid_job p) = 7)"

definition plans_ok :: "'b server_env \<Rightarrow> sched_view \<Rightarrow> bool" where
  "plans_ok sv w \<longleftrightarrow> (\<forall>k plan. vw_plans w k = Some plan \<longrightarrow> plan_ok (env_df (sv_env sv)) (env_builders (sv_env sv)) plan)"

definition store_inv :: "'b server_env \<Rightarrow> sched_view \<Rightarrow> bool" where
  "store_inv sv w \<longleftrightarrow> server_inv sv w \<and> job_ids w \<and> deps_ordered w \<and> plans_ok sv w"

lemma job_ids_uniform: "job_ids w \<Longrightarrow> uniform_ids w"
  unfolding job_ids_def uniform_ids_def by blast

lemma plan_ok_encodable:
  assumes "unary_helpers (db_helpers b)" "plan_ok df b plan"
  shows "encodable b plan"
  using serde.roundtrip [OF plan_serde_helpers [OF assms(1)] assms(2)] by (auto simp: encodable_def)

lemma store_inv_job:
  assumes "store_inv sv w" "length j = 7"
  shows "store_inv sv (w\<lparr>vw_jobs := (vw_jobs w)(j \<mapsto> st)\<rparr>)"
proof -
  have "job_ids (w\<lparr>vw_jobs := (vw_jobs w)(j \<mapsto> st)\<rparr>)" using assms by (auto simp: store_inv_def job_ids_def)
  with assms job_ids_uniform show ?thesis by (auto simp: store_inv_def server_inv_def deps_ordered_def plans_ok_def)
qed

lemma store_inv_plan:
  assumes "store_inv sv w" "encodable (env_builders (sv_env sv)) plan" "\<forall>sp \<in> set (plan_deps plan). fst sp < i"
    "\<forall>n. vw_tasks w (pid_of j i n) = None" "plan_ok (env_df (sv_env sv)) (env_builders (sv_env sv)) plan"
  shows "store_inv sv (w\<lparr>vw_plans := (vw_plans w)((j, i) \<mapsto> plan)\<rparr>)"
proof -
  let ?w = "w\<lparr>vw_plans := (vw_plans w)((j, i) \<mapsto> plan)\<rparr>"
  have "(pid_job p, pid_stage p) \<noteq> (j, i)" if "vw_tasks w p = Some None" for p
    using that assms(4) [rule_format, of "pid_partition p"] by (cases p) (auto simp: dep_pid_def)
  with assms(1) have "tasks_ok ?w" by (auto simp: store_inv_def server_inv_def tasks_ok_def pending_ok_def)
  moreover have "job_ids ?w" "deps_ordered ?w" "plans_ok sv ?w"
    using assms(1,3,5) by (auto simp: store_inv_def job_ids_def deps_ordered_def plans_ok_def)
  ultimately show ?thesis using assms(1,2) job_ids_uniform by (auto simp: store_inv_def server_inv_def)
qed

lemma pending_ok_mono:
  "pending_ok w p \<Longrightarrow> vw_plans w' = vw_plans w \<Longrightarrow> dom (vw_tasks w) \<subseteq> dom (vw_tasks w') \<Longrightarrow>
   pid_job q = pid_job p \<Longrightarrow> pid_stage q = pid_stage p \<Longrightarrow> pending_ok w' q"
  by (fastforce simp: pending_ok_def)

lemma store_inv_task:
  assumes "store_inv sv w" "pending_ok w p" "length (pid_job p) = 7"
  shows "store_inv sv (w\<lparr>vw_tasks := (vw_tasks w)(p \<mapsto> None)\<rparr>)"
proof -
  let ?w = "w\<lparr>vw_tasks := (vw_tasks w)(p \<mapsto> None)\<rparr>"
  have "pending_ok ?w q" if "pending_ok w q" for q
    using that by (rule pending_ok_mono) auto
  with assms(1,2) have "tasks_ok ?w" by (auto simp: store_inv_def server_inv_def tasks_ok_def)
  moreover have "job_ids ?w" "deps_ordered ?w" "plans_ok sv ?w"
    using assms(1,3) by (auto simp: store_inv_def job_ids_def deps_ordered_def plans_ok_def)
  ultimately show ?thesis using assms(1) job_ids_uniform by (auto simp: store_inv_def server_inv_def)
qed

lemma store_inv_same:
  assumes "store_inv sv w" "server_inv sv w'" "vw_plans w' = vw_plans w" "dom (vw_tasks w') = dom (vw_tasks w)"
    "dom (vw_jobs w') = dom (vw_jobs w)"
  shows "store_inv sv w'"
  using assms by (simp add: store_inv_def job_ids_def deps_ordered_def plans_ok_def)

context config_backend
begin

lemma valid_perform_write:
  assumes env: "env_ok (sv_env sv)" and rep: "represents (sv_env sv) ns m w" and inv: "store_inv sv w"
    and j: "job_id_ok j" and ok: "writes_ok sv w j (wr # wrs)"
  shows "valid m (perform_write sv bk ns wr)
    (\<lambda>r m'. (r = Ok () \<and> (\<exists>w'. represents (sv_env sv) ns m' w' \<and> store_inv sv w' \<and> writes_ok sv w' j wrs \<and>
               vw_tasks w \<subseteq>\<^sub>m vw_tasks w' \<and> (\<forall>k. k \<noteq> j \<longrightarrow> same_job k w' w))) \<or>
            ((\<forall>u. r \<noteq> Ok u) \<and> m' = m))"
proof (cases wr)
  case (W_Running j')
  let ?w = "w\<lparr>vw_jobs := (vw_jobs w)(j \<mapsto> \<lparr>js_status = Some JS_Running\<rparr>)\<rparr>"
  have "valid m (swarn (save_job_metadata (sv_env sv) bk ns j \<lparr>js_status = Some JS_Running\<rparr>))
      (\<lambda>r m'. \<exists>u :: unit. r = (Ok u :: (_, tonic_status) result) \<and> represents (sv_env sv) ns m' ?w)"
    by (rule valid_swarn_Ok, rule valid_save_job [OF env rep]) (use j in \<open>simp_all add: job_id_ok_def\<close>)
  moreover have "store_inv sv ?w" using store_inv_job [OF inv] j by (simp add: job_id_ok_def)
  moreover have "writes_ok sv ?w j wrs" using ok W_Running writes_ok_same [of j ?w w sv wrs] by simp
  moreover have "j' = j" using ok W_Running by simp
  ultimately show ?thesis using W_Running by (auto elim!: valid_weaken)
next
  case (W_Plan j' i plan)
  let ?w = "w\<lparr>vw_plans := (vw_plans w)((j, i) \<mapsto> plan)\<rparr>"
  have j': "j' = j" using ok W_Plan by simp
  show ?thesis
  proof (cases "encodable (env_builders (sv_env sv)) plan")
    case True
    with ok W_Plan have plan: "plan_ok (env_df (sv_env sv)) (env_builders (sv_env sv)) plan"
        "\<forall>sp \<in> set (plan_deps plan). fst sp < i" "\<forall>n. vw_tasks w (pid_of j i n) = None" "writes_ok sv ?w j wrs"
      by simp_all
    have "valid m (perform_write sv bk ns wr) (\<lambda>r m'. \<exists>u. r = Ok u \<and> represents (sv_env sv) ns m' ?w)"
      unfolding W_Plan j' perform_write.simps
      by (rule valid_smap_err_Ok, rule valid_weaken [OF valid_save_plan [OF env rep plan(1)]]) auto
    then show ?thesis by (rule valid_weaken) (use plan(4) store_inv_plan [OF inv True plan(2,3,1)] in auto)
  next
    case False
    then have "plan_into (env_builders (sv_env sv)) plan \<noteq> Ok n" for n by (simp add: encodable_def)
    then show ?thesis
      by (cases "plan_into (env_builders (sv_env sv)) plan")
         (auto simp: W_Plan save_stage_plan_def intro!: valid_smap_err valid_slift)
  qed
next
  case (W_Task j' i n)
  let ?w = "w\<lparr>vw_tasks := (vw_tasks w)(pid_of j i n \<mapsto> None)\<rparr>"
  from ok W_Task have t: "j' = j" "i < 2 ^ 32" "n < 2 ^ 32" "pending_ok w (pid_of j i n)" "writes_ok sv ?w j wrs"
      "vw_tasks w (pid_of j i n) = None"
    by simp_all
  have "pending_task j i n = task_of (pid_of j i n) None"
    by (simp add: pending_task_def task_of_def partition_id_to_pb_def)
  moreover have "pid_fits (pid_of j i n)" using t by (simp add: pid_fits_def)
  ultimately have "valid m (perform_write sv bk ns wr) (\<lambda>r m'. \<exists>u. r = Ok u \<and> represents (sv_env sv) ns m' ?w)"
    unfolding W_Task t(1) perform_write.simps
    using valid_save_task [OF env rep] by (intro valid_smap_err_Ok) (simp add: valid_weaken)
  moreover have "vw_tasks w \<subseteq>\<^sub>m vw_tasks ?w" using t(6) by (auto simp: map_le_def)
  moreover have "\<forall>k. k \<noteq> j \<longrightarrow> same_job k ?w w" by simp
  ultimately show ?thesis
    using t(5) store_inv_task [OF inv t(4)] j by (elim valid_weaken) (auto simp: job_id_ok_def)
qed

end

section \<open>The writes of a planned query\<close>

text \<open>
  What a stage needs so that its tasks can be handed out: a plan that converts to a message is
  decoded again, and there is at least one partition and no id overflows.
\<close>

definition stage_sendable :: "'b server_env \<Rightarrow> query_stage \<Rightarrow> bool" where
  "stage_sendable sv stage \<longleftrightarrow>
     (encodable (env_builders (sv_env sv)) (qs_child stage) \<longrightarrow>
        plan_ok (env_df (sv_env sv)) (env_builders (sv_env sv)) (qs_child stage)) \<and>
     0 < partition_count (env_df (sv_env sv)) (qs_child stage) \<and>
     partition_count (env_df (sv_env sv)) (qs_child stage) \<le> 2 ^ 32 \<and> qs_stage_id stage < 2 ^ 32"

definition queries_ok :: "'b server_env \<Rightarrow> bool" where
  "queries_ok sv \<longleftrightarrow>
     df_replaces (env_df (sv_env sv)) \<and>
     (\<forall>lp plan. sv_create_physical_plan sv lp = Ok plan \<longrightarrow>
        df_plan plan \<and>
        (\<forall>planner job stages planner'. plan_query_stages (env_df (sv_env sv)) planner job plan = Ok (stages, planner') \<longrightarrow>
           dp_next_stage_id planner = 0 \<longrightarrow> (\<forall>stage \<in> set stages. stage_sendable sv stage)))"

text \<open>The tasks \<open>ns\<close> of a stage added as pending.\<close>

definition add_tasks :: "string \<Rightarrow> nat \<Rightarrow> nat set \<Rightarrow> sched_view \<Rightarrow> sched_view" where
  "add_tasks j i ns w = w\<lparr>vw_tasks := (\<lambda>p. if pid_job p = j \<and> pid_stage p = i \<and> pid_partition p \<in> ns then Some None else vw_tasks w p)\<rparr>"

lemma add_tasks_simps [simp]:
  "vw_plans (add_tasks j i ns w) = vw_plans w" "add_tasks j i {} w = w"
  "vw_tasks (add_tasks j i ns w) (dep_pid k sp) =
     (if k = j \<and> fst sp = i \<and> snd sp \<in> ns then Some None else vw_tasks w (dep_pid k sp))"
  by (auto simp: add_tasks_def fun_eq_iff)

lemma add_tasks_insert:
  "add_tasks j i ns (w\<lparr>vw_tasks := (vw_tasks w)(pid_of j i n \<mapsto> None)\<rparr>) = add_tasks j i (insert n ns) w"
proof (rule sched_view.equality)
  have "p = pid_of j i n \<longleftrightarrow> pid_job p = j \<and> pid_stage p = i \<and> pid_partition p = n" for p
    by (cases p) (auto simp: dep_pid_def)
  then show "vw_tasks (add_tasks j i ns (w\<lparr>vw_tasks := (vw_tasks w)(pid_of j i n \<mapsto> None)\<rparr>)) =
      vw_tasks (add_tasks j i (insert n ns) w)"
    by (intro ext) (auto simp: add_tasks_def)
qed (simp_all add: add_tasks_def)

lemma writes_ok_tasks:
  assumes "pending_ok w (pid_of j i k)" "i < 2 ^ 32" "\<forall>n \<in> set ns. n < 2 ^ 32" "writes_ok sv (add_tasks j i (set ns) w) j wrs"
    "distinct ns" "\<forall>n \<in> set ns. vw_tasks w (pid_of j i n) = None"
  shows "writes_ok sv w j (map (W_Task j i) ns @ wrs)"
  using assms
proof (induction ns arbitrary: w)
  case (Cons n ns)
  let ?w = "w\<lparr>vw_tasks := (vw_tasks w)(pid_of j i n \<mapsto> None)\<rparr>"
  have "pending_ok ?w (pid_of j i k)" using Cons.prems(1) by (rule pending_ok_mono) auto
  moreover have "pending_ok w (pid_of j i n)" using Cons.prems(1) by (rule pending_ok_mono) auto
  moreover have "writes_ok sv (add_tasks j i (set ns) ?w) j wrs"
    using Cons.prems(4) by (simp add: add_tasks_insert)
  moreover have "\<forall>m \<in> set ns. vw_tasks ?w (pid_of j i m) = None" using Cons.prems(5,6) by auto
  ultimately show ?case using Cons by simp
qed simp

text \<open>Every stage of \<open>known\<close> has its tasks in the store.\<close>

definition stages_stored :: "'b server_env \<Rightarrow> sched_view \<Rightarrow> string \<Rightarrow> query_stage list \<Rightarrow> bool" where
  "stages_stored sv w j known \<longleftrightarrow>
     (\<forall>s \<in> set known. 0 < partition_count (env_df (sv_env sv)) (qs_child s) \<and>
        (\<forall>n < partition_count (env_df (sv_env sv)) (qs_child s). vw_tasks w (pid_of j (qs_stage_id s) n) \<noteq> None))"

lemma refs_in_deps:
  assumes "refs_in df known p" "sp \<in> set (plan_deps p)"
  obtains s where "s \<in> set known" "fst sp = qs_stage_id s" "snd sp < partition_count df (qs_child s)"
  using assms by (force simp: refs_in_def shuffle_tasks_def shuffle_of_def)

lemma stage_pending:
  assumes "staged_plan (qs_child s)" "refs_in (env_df (sv_env sv)) known (qs_child s)" "stages_stored sv w j known"
    "vw_plans w (j, qs_stage_id s) = Some (qs_child s)"
  shows "pending_ok w (pid_of j (qs_stage_id s) n)"
proof -
  have "vw_tasks w (dep_pid j sp) \<noteq> None" if dep: "sp \<in> set (plan_deps (qs_child s))" for sp
  proof -
    obtain t where "t \<in> set known" "fst sp = qs_stage_id t" "snd sp < partition_count (env_df (sv_env sv)) (qs_child t)"
      using assms(2) dep by (rule refs_in_deps)
    with assms(3) show ?thesis unfolding stages_stored_def by (metis prod.collapse)
  qed
  moreover have "0 < us_partition_count u" if "u \<in> set (plan_shuffles (qs_child s))" for u
    using that assms(2,3) by (auto simp: refs_in_def stages_stored_def shuffle_of_def)
  ultimately show ?thesis using assms(1,4) by (simp add: pending_ok_def)
qed

lemma writes_ok_stages:
  assumes "stages_ok (env_df (sv_env sv)) j known stages" "stages_stored sv w j known"
    "\<forall>s \<in> set stages. stage_sendable sv s" "sorted_wrt (<) (map qs_stage_id (known @ stages))"
    "\<forall>s \<in> set stages. \<forall>n. vw_tasks w (pid_of j (qs_stage_id s) n) = None"
  shows "writes_ok sv w j (concat (map (stage_writes sv j) stages))"
  using assms
proof (induction stages arbitrary: known w)
  case (Cons s stages)
  let ?df = "env_df (sv_env sv)" and ?i = "qs_stage_id s" and ?rest = "concat (map (stage_writes sv j) stages)"
  let ?w = "w\<lparr>vw_plans := (vw_plans w)((j, ?i) \<mapsto> qs_child s)\<rparr>" and ?ns = "[0..<partition_count ?df (qs_child s)]"
  let ?w' = "add_tasks j ?i (set ?ns) ?w"
  from Cons.prems(1) have s: "staged_plan (qs_child s)" "refs_in ?df known (qs_child s)" "stages_ok ?df j (known @ [s]) stages"
    by simp_all
  from Cons.prems(3) have send: "stage_sendable sv s" by simp
  have w: "stages_stored sv ?w j known" using Cons.prems(2) by (simp add: stages_stored_def)
  have "stages_stored sv ?w' j (known @ [s])"
    using w send by (auto simp: stages_stored_def stage_sendable_def)
  moreover have "\<forall>t \<in> set stages. \<forall>n. vw_tasks ?w' (pid_of j (qs_stage_id t) n) = None"
    using Cons.prems(4,5) by (auto simp: sorted_wrt_append)
  ultimately have rest: "writes_ok sv ?w' j ?rest"
    using Cons.IH [OF s(3)] Cons.prems(3,4) by simp
  have "pending_ok ?w (pid_of j ?i 0)"
    using stage_pending [OF s(1,2) w] by simp
  then have tasks: "writes_ok sv ?w j (map (W_Task j ?i) ?ns @ ?rest)"
    using rest send Cons.prems(5) by (intro writes_ok_tasks) (auto simp: stage_sendable_def)
  have "fst sp < ?i" if "sp \<in> set (plan_deps (qs_child s))" for sp
    by (rule refs_in_deps [OF s(2) that]) (use Cons.prems(4) in \<open>auto simp: sorted_wrt_append\<close>)
  with tasks send Cons.prems(5) show ?case by (simp add: stage_writes_def [of sv j s] stage_sendable_def stage_plan_def)
qed simp

lemma spawn_writes_ok:
  assumes sv: "queries_ok sv" and new: "unused w (sub_job_id sub)"
  shows "writes_ok sv w (sub_job_id sub) (sp_writes (spawn sv sub))"
proof (cases "submission_plan sv sub")
  case plan: (Ok plan)
  then obtain lp where lp: "sv_create_physical_plan sv lp = Ok plan"
    by (auto simp: submission_plan_def rbind_eq_Ok map_err_eq_Ok split: result.splits)
  show ?thesis
  proof (cases "submission_stages sv sub plan")
    case stages: (Ok stages)
    let ?df = "env_df (sv_env sv)" and ?pl = "\<lparr>dp_executors = sub_executors sub, dp_next_stage_id = 0\<rparr>"
    from stages obtain planner' where pqs: "plan_query_stages ?df ?pl (sub_job_id sub) plan = Ok (stages, planner')"
      by (auto simp: submission_stages_def DistributedPlanner_try_new_def rbind_eq_Ok map_err_eq_Ok split: result.splits if_splits)
    from sv lp have df: "df_replaces ?df" "df_plan plan" by (auto simp: queries_ok_def)
    obtain p' ts m where "stages = ts @ [\<lparr>qs_job_id = sub_job_id sub, qs_stage_id = Suc m, qs_child = p'\<rparr>]"
        "planned ?df (sub_job_id sub) 0 plan p' ts m"
      by (rule plan_query_stages_planned [OF df, of ?pl "sub_job_id sub"]) (use pqs in auto)
    then have st: "stages_ok ?df (sub_job_id sub) [] stages" "map qs_stage_id stages = [Suc 0..<Suc (Suc m)]"
      by (auto simp: planned_def kids_ok_def stages_ok_append)
    have "\<forall>s \<in> set stages. stage_sendable sv s" using sv lp pqs by (fastforce simp: queries_ok_def)
    moreover have "sorted_wrt (<) (map qs_stage_id ([] @ stages))" unfolding append_Nil st(2) by (rule sorted_wrt_upt)
    ultimately have "writes_ok sv w (sub_job_id sub) (concat (map (stage_writes sv (sub_job_id sub)) stages))"
      using new by (intro writes_ok_stages [OF st(1)]) (auto simp: stages_stored_def unused_def)
    with plan stages show ?thesis by (simp add: spawn_def submission_trace_def)
  qed (simp_all add: plan spawn_def submission_trace_def)
qed (simp_all add: spawn_def submission_trace_def)

section \<open>The invariant of the system\<close>

definition spawned_ok :: "'b server_env \<Rightarrow> sched_view \<Rightarrow> spawned list \<Rightarrow> bool" where
  "spawned_ok sv w ts \<longleftrightarrow>
     (\<forall>t \<in> set ts. job_id_ok (sp_job t) \<and> writes_ok sv w (sp_job t) (sp_writes t)) \<and> distinct (map sp_job ts)"

definition sched_at ::
  "'b server_env \<Rightarrow> ('s \<Rightarrow> string \<rightharpoonup> 'b list) \<Rightarrow> ('s \<Rightarrow> bool) \<Rightarrow> ('s \<Rightarrow> 'g option) \<Rightarrow> string \<Rightarrow> sched_view
    \<Rightarrow> 's \<times> spawned list \<Rightarrow> bool" where
  "sched_at sv kv healthy holder ns w cfg \<longleftrightarrow>
     healthy (fst cfg) \<and> holder (fst cfg) = None \<and> represents (sv_env sv) ns (kv (fst cfg)) w \<and> store_inv sv w \<and>
     spawned_ok sv w (snd cfg)"

definition sched_inv ::
  "'b server_env \<Rightarrow> ('s \<Rightarrow> string \<rightharpoonup> 'b list) \<Rightarrow> ('s \<Rightarrow> bool) \<Rightarrow> ('s \<Rightarrow> 'g option) \<Rightarrow> string \<Rightarrow> 's \<times> spawned list \<Rightarrow> bool" where
  "sched_inv sv kv healthy holder ns cfg \<longleftrightarrow> (\<exists>w. sched_at sv kv healthy holder ns w cfg)"

lemma spawned_ok_same: "spawned_ok sv w ts \<Longrightarrow> (\<And>t. t \<in> set ts \<Longrightarrow> same_job (sp_job t) w' w) \<Longrightarrow> spawned_ok sv w' ts"
  using writes_ok_same by (fastforce simp: spawned_ok_def)

lemma spawned_ok_remove: "spawned_ok sv w (ts @ t # ts') \<Longrightarrow> spawned_ok sv w (ts @ ts')"
  by (auto simp: spawned_ok_def)

text \<open>A spawned task goes on while the others see no change of their jobs.\<close>

lemma spawned_ok_step:
  assumes "spawned_ok sv w (ts @ t # ts')" "writes_ok sv w' (sp_job t) wrs" "\<forall>k. k \<noteq> sp_job t \<longrightarrow> same_job k w' w"
    "sp_job t' = sp_job t" "sp_writes t' = wrs"
  shows "spawned_ok sv w' (ts @ t' # ts')"
proof -
  have "sp_job t \<notin> sp_job ` set (ts @ ts')" using assms(1) by (auto simp: spawned_ok_def)
  then have "same_job (sp_job u) w' w" if "u \<in> set (ts @ ts')" for u using assms(3) that by (metis image_eqI)
  with spawned_ok_remove [OF assms(1)] have "spawned_ok sv w' (ts @ ts')" by (rule spawned_ok_same)
  with assms(1,2,4,5) show ?thesis by (auto simp: spawned_ok_def)
qed

lemma poll_spec_jobs:
  assumes "poll_spec sv meta can_accept rs w task w'"
  shows "dom (vw_jobs w') = dom (vw_jobs w)"
proof -
  let ?w1 = "apply_reports rs (register meta w)"
  from assms obtain w2 where w2: "if can_accept then assigned sv (em_id meta) ?w1 task w2 else task = None \<and> w2 = ?w1"
      "if rs = [] then w' = w2 else synced w2 w'"
    by (auto simp: poll_spec_def)
  have "vw_jobs w2 = vw_jobs w"
    using w2(1) by (auto simp: assigned_def start_task_def apply_reports_def register_def split: if_splits)
  moreover have "dom (vw_jobs w') = dom (vw_jobs w2)"
    using w2(2) by (auto simp: synced_def dom_def split: if_splits) (metis option.rel_distinct(1,2) option.exhaust)+
  ultimately show ?thesis by simp
qed

lemma store_inv_poll:
  assumes "store_inv sv w" "server_inv sv w'" "poll_spec sv meta can_accept rs w task w'" "reports_ok (register meta w) rs"
  shows "store_inv sv w'"
proof -
  note same = same_job_poll [OF assms(3,4)]
  have "vw_plans w' (j, i) = vw_plans w (j, i)" for j i using same [of j] by (simp add: same_job_def)
  then have "vw_plans w' = vw_plans w" by (auto simp: fun_eq_iff)
  moreover have "vw_tasks w' p = None \<longleftrightarrow> vw_tasks w p = None" for p using same [of "pid_job p"] by (simp add: same_job_def)
  then have "dom (vw_tasks w') = dom (vw_tasks w)" by (auto simp: dom_def)
  ultimately show ?thesis using store_inv_same [OF assms(1,2)] poll_spec_jobs [OF assms(3)] by simp
qed

context config_backend
begin

lemma valid_execute_query:
  assumes env: "env_ok (sv_env sv)" and rep: "represents (sv_env sv) ns m w" and j: "slash_free j"
  shows "valid m (execute_query sv bk ns j q)
    (\<lambda>r m'. (\<exists>sub. r = Ok (j, sub) \<and> sub_job_id sub = j \<and>
               represents (sv_env sv) ns m' (w\<lparr>vw_jobs := (vw_jobs w)(j \<mapsto> \<lparr>js_status = Some JS_Queued\<rparr>)\<rparr>)) \<or>
            ((\<forall>x. r \<noteq> Ok x) \<and> m' = m))"
proof (cases q)
  case None
  then show ?thesis by (auto simp: execute_query_def intro!: valid_slift)
next
  case (Some qu)
  let ?w = "w\<lparr>vw_jobs := (vw_jobs w)(j \<mapsto> \<lparr>js_status = Some JS_Queued\<rparr>)\<rparr>"
  have 1: "valid m (smap_err (internal sv ''Error reading executors metadata'') (get_executors_metadata (sv_env sv) bk ns))
      (\<lambda>r m'. \<exists>es. r = Ok es \<and> m' = m)"
    by (rule valid_smap_err_Ok, rule valid_weaken [OF valid_get_executors [OF rep]]) auto
  have 2: "valid m (smap_err (internal sv ''Could not save job metadata'')
        (save_job_metadata (sv_env sv) bk ns j \<lparr>js_status = Some JS_Queued\<rparr>))
      (\<lambda>r m'. \<exists>u. r = Ok u \<and> represents (sv_env sv) ns m' ?w)"
    by (rule valid_smap_err_Ok, rule valid_weaken [OF valid_save_job [OF env rep _ j]]) auto
  show ?thesis
    unfolding execute_query_def Some option.case
    by (rule valid_sbind [where R = "\<lambda>r m'. m' = m"], rule valid_slift, simp, simp, rule valid_sbind_Ok [OF 1], simp,
        rule valid_sbind_Ok [OF 2], rule valid_sret, auto)
qed

lemma sched_inv_init:
  assumes "healthy s" "holder s = None" "kv s = Map.empty"
  shows "sched_inv sv kv healthy holder ns (s, [])"
proof -
  let ?w = "\<lparr>vw_executors = Map.empty, vw_jobs = Map.empty, vw_tasks = Map.empty, vw_plans = Map.empty\<rparr>"
  have "store_inv sv ?w"
    by (simp add: store_inv_def server_inv_def tasks_ok_def uniform_ids_def job_ids_def deps_ordered_def plans_ok_def)
  with represents_empty [of "sv_env sv" ns] assms show ?thesis by (auto simp: sched_inv_def sched_at_def spawned_ok_def)
qed

end

section \<open>Every step keeps the invariant\<close>

lemma sched_atI:
  "healthy s \<Longrightarrow> holder s = None \<Longrightarrow> represents (sv_env sv) ns (kv s) w \<Longrightarrow> store_inv sv w \<Longrightarrow> spawned_ok sv w ts \<Longrightarrow>
   sched_at sv kv healthy holder ns w (s, ts)"
  by (simp add: sched_at_def)

lemma sched_atE:
  assumes "sched_at sv kv healthy holder ns w (s, ts)"
  obtains "healthy s" "holder s = None" "represents (sv_env sv) ns (kv s) w" "store_inv sv w" "spawned_ok sv w ts"
  using assms by (simp add: sched_at_def)

lemma sched_invE:
  assumes "sched_inv sv kv healthy holder ns (s, ts)"
  obtains w where "healthy s" "holder s = None" "represents (sv_env sv) ns (kv s) w" "store_inv sv w" "spawned_ok sv w ts"
  using assms by (auto simp: sched_inv_def sched_at_def)

text \<open>
  The system goes on to a state with more tasks: those that were in the store are there unchanged.
  This is what every step does but a poll.
\<close>

definition sched_grows ::
  "'b server_env \<Rightarrow> ('s \<Rightarrow> string \<rightharpoonup> 'b list) \<Rightarrow> ('s \<Rightarrow> bool) \<Rightarrow> ('s \<Rightarrow> 'g option) \<Rightarrow> string \<Rightarrow> sched_view
    \<Rightarrow> 's \<times> spawned list \<Rightarrow> bool" where
  "sched_grows sv kv healthy holder ns w cfg \<longleftrightarrow>
     (\<exists>w'. sched_at sv kv healthy holder ns w' cfg \<and> vw_tasks w \<subseteq>\<^sub>m vw_tasks w')"

lemma sched_growsI:
  "healthy s \<Longrightarrow> holder s = None \<Longrightarrow> represents (sv_env sv) ns (kv s) w' \<Longrightarrow> store_inv sv w' \<Longrightarrow> spawned_ok sv w' ts \<Longrightarrow>
   vw_tasks w \<subseteq>\<^sub>m vw_tasks w' \<Longrightarrow> sched_grows sv kv healthy holder ns w (s, ts)"
  by (auto simp: sched_grows_def sched_at_def)

context config_backend
begin

text \<open>What a poll does to the view, in terms of the specification of polls.\<close>

lemma poll_at:
  assumes env: "env_ok (sv_env sv)" and ns: "slash_free ns" and inv: "sched_at sv kv healthy holder ns w (s, ts)"
    and meta: "pw_metadata req = Some meta" and rs: "pw_task_status req = report_messages rs"
      "reports_ok (register (executor_meta_from_pb meta) w) rs"
  obtains task s' w' where "poll_work sv bk ns req s = Some (Ok \<lparr>pr_task = task\<rparr>, s')" "sched_at sv kv healthy holder ns w' (s', ts)"
    "poll_spec sv (executor_meta_from_pb meta) (pw_can_accept_task req) rs w task w'" "server_inv sv w'"
proof -
  from inv have w: "healthy s" "holder s = None" "represents (sv_env sv) ns (kv s) w" "store_inv sv w" "spawned_ok sv w ts"
    by (auto elim: sched_atE)
  have "server_inv sv w" using w(4) by (simp add: store_inv_def)
  then obtain task s1 w' where run: "poll_work sv bk ns req s = Some (Ok \<lparr>pr_task = task\<rparr>, s1)" and s1: "healthy s1" "holder s1 = None"
      "represents (sv_env sv) ns (kv s1) w'" "server_inv sv w'"
      "poll_spec sv (executor_meta_from_pb meta) (pw_can_accept_task req) rs w task w'"
    using poll_work_run [OF env ns w(1-3) _ meta rs] by blast
  have "store_inv sv w'" using w(4) s1(4,5) rs(2) by (rule store_inv_poll)
  moreover have "spawned_ok sv w' ts"
    using w(5) same_job_poll [OF s1(5) rs(2)] by (rule spawned_ok_same)
  ultimately have "sched_at sv kv healthy holder ns w' (s1, ts)" using s1 by (intro sched_atI)
  with run s1(4,5) show ?thesis by (intro that)
qed

lemma poll_keeps_inv:
  assumes env: "env_ok (sv_env sv)" and ns: "slash_free ns" and inv: "sched_inv sv kv healthy holder ns (s, ts)"
    and req: "honest sv ns (kv s) req" and run: "poll_work sv bk ns req s = Some (r, s')"
  shows "sched_inv sv kv healthy holder ns (s', ts)"
proof (cases "pw_metadata req")
  case None
  with run inv show ?thesis by (simp add: poll_work_def)
next
  case (Some meta)
  from inv obtain w where w: "sched_at sv kv healthy holder ns w (s, ts)" by (auto simp: sched_inv_def)
  then have "represents (sv_env sv) ns (kv s) w" by (rule sched_atE)
  with req Some obtain rs where rs: "pw_task_status req = report_messages rs"
      "reports_ok (register (executor_meta_from_pb meta) w) rs"
    by (auto simp: honest_def)
  from env ns w Some rs obtain task s1 w' where "poll_work sv bk ns req s = Some (Ok \<lparr>pr_task = task\<rparr>, s1)"
      "sched_at sv kv healthy holder ns w' (s1, ts)"
    by (rule poll_at)
  with run show ?thesis by (auto simp: sched_inv_def)
qed

lemma query_keeps_inv:
  assumes env: "env_ok (sv_env sv)" and sv: "queries_ok sv" and inv: "sched_at sv kv healthy holder ns w (s, ts)"
    and j: "fresh_id sv ns (kv s) ts j" and run: "execute_query sv bk ns j q s = (r, s')"
  shows "(\<forall>x. r \<noteq> Ok x) \<longrightarrow> sched_grows sv kv healthy holder ns w (s', ts)"
    and "r = Ok (j', sub) \<longrightarrow> sched_grows sv kv healthy holder ns w (s', spawn sv sub # ts)"
proof -
  from inv have w: "healthy s" "holder s = None" "represents (sv_env sv) ns (kv s) w" "store_inv sv w" "spawned_ok sv w ts"
    by (auto elim: sched_atE)
  let ?w = "w\<lparr>vw_jobs := (vw_jobs w)(j \<mapsto> \<lparr>js_status = Some JS_Queued\<rparr>)\<rparr>"
  from j w(3) have ok: "job_id_ok j" "unused w j" "j \<notin> sp_job ` set ts" by (auto simp: fresh_id_def)
  then have "slash_free j" by (simp add: job_id_ok_def)
  from validD [OF valid_execute_query [OF env w(3) this, of q] w(1) refl] run
  have post: "(\<exists>sub. r = Ok (j, sub) \<and> sub_job_id sub = j \<and> represents (sv_env sv) ns (kv s') ?w) \<or>
      ((\<forall>x. r \<noteq> Ok x) \<and> kv s' = kv s)" "healthy s'" "holder s' = holder s"
    by (metis (no_types, lifting) prod.inject)+
  show "(\<forall>x. r \<noteq> Ok x) \<longrightarrow> sched_grows sv kv healthy holder ns w (s', ts)"
    using post w by (auto intro!: sched_growsI)
  show "r = Ok (j', sub) \<longrightarrow> sched_grows sv kv healthy holder ns w (s', spawn sv sub # ts)"
  proof
    assume "r = Ok (j', sub)"
    with post have sub: "sub_job_id sub = j" "represents (sv_env sv) ns (kv s') ?w" by auto
    have "writes_ok sv w j (sp_writes (spawn sv sub))" using spawn_writes_ok [OF sv, of w sub] ok(2) sub(1) by simp
    then have "writes_ok sv ?w j (sp_writes (spawn sv sub))" using writes_ok_same [of j ?w w sv] by simp
    moreover have "spawned_ok sv ?w ts" using w(5) by (rule spawned_ok_same) simp
    moreover have "sp_job (spawn sv sub) = j" by (simp add: spawn_def sub(1))
    ultimately have "spawned_ok sv ?w (spawn sv sub # ts)" using ok by (simp add: spawned_ok_def)
    moreover have "store_inv sv ?w" using store_inv_job [OF w(4)] ok(1) by (simp add: job_id_ok_def)
    ultimately show "sched_grows sv kv healthy holder ns w (s', spawn sv sub # ts)"
      using post sub(2) w(2) by (auto intro!: sched_growsI)
  qed
qed

lemma write_keeps_inv:
  assumes env: "env_ok (sv_env sv)" and inv: "sched_at sv kv healthy holder ns w (s, ts @ t # ts')"
    and t: "sp_writes t = wr # wrs" and run: "perform_write sv bk ns wr s = (r, s')"
  shows "r = Ok () \<longrightarrow> sched_grows sv kv healthy holder ns w (s', ts @ t\<lparr>sp_writes := wrs\<rparr> # ts')"
    and "r = Err st \<longrightarrow> sched_grows sv kv healthy holder ns w (s', ts @ t\<lparr>sp_writes := [], sp_end := Err st\<rparr> # ts')"
    and "r = Panic p \<longrightarrow> sched_grows sv kv healthy holder ns w (s', ts @ ts')"
proof -
  from inv have w: "healthy s" "holder s = None" "represents (sv_env sv) ns (kv s) w" "store_inv sv w"
      "spawned_ok sv w (ts @ t # ts')"
    by (auto elim: sched_atE)
  from w(5) t have tok: "job_id_ok (sp_job t)" "writes_ok sv w (sp_job t) (wr # wrs)" by (auto simp: spawned_ok_def)
  from validD [OF valid_perform_write [OF env w(3,4) tok] w(1) refl] run
  have post: "(r = Ok () \<and> (\<exists>w'. represents (sv_env sv) ns (kv s') w' \<and> store_inv sv w' \<and> writes_ok sv w' (sp_job t) wrs \<and>
       vw_tasks w \<subseteq>\<^sub>m vw_tasks w' \<and> (\<forall>k. k \<noteq> sp_job t \<longrightarrow> same_job k w' w))) \<or> ((\<forall>u. r \<noteq> Ok u) \<and> kv s' = kv s)" "healthy s'" "holder s' = holder s"
    by (metis (no_types, lifting) prod.inject)+
  show "r = Ok () \<longrightarrow> sched_grows sv kv healthy holder ns w (s', ts @ t\<lparr>sp_writes := wrs\<rparr> # ts')"
  proof
    assume "r = Ok ()"
    with post obtain w' where w': "represents (sv_env sv) ns (kv s') w'" "store_inv sv w'" "writes_ok sv w' (sp_job t) wrs"
        "\<forall>k. k \<noteq> sp_job t \<longrightarrow> same_job k w' w" "vw_tasks w \<subseteq>\<^sub>m vw_tasks w'"
      by auto
    have "spawned_ok sv w' (ts @ t\<lparr>sp_writes := wrs\<rparr> # ts')" using spawned_ok_step [OF w(5) w'(3,4)] by simp
    with post w' w(2) show "sched_grows sv kv healthy holder ns w (s', ts @ t\<lparr>sp_writes := wrs\<rparr> # ts')" by (auto intro!: sched_growsI)
  qed
  have "spawned_ok sv w (ts @ t\<lparr>sp_writes := [], sp_end := Err st\<rparr> # ts')"
    using spawned_ok_step [OF w(5), of w "[]"] by (simp add: same_job_def)
  then show "r = Err st \<longrightarrow> sched_grows sv kv healthy holder ns w (s', ts @ t\<lparr>sp_writes := [], sp_end := Err st\<rparr> # ts')"
    using post w by (auto intro!: sched_growsI)
  show "r = Panic p \<longrightarrow> sched_grows sv kv healthy holder ns w (s', ts @ ts')"
    using post w spawned_ok_remove [OF w(5)] by (auto intro!: sched_growsI)
qed

lemma failed_keeps_inv:
  assumes env: "env_ok (sv_env sv)" and inv: "sched_at sv kv healthy holder ns w (s, ts @ t # ts')"
    and run: "sunwrap (save_job_metadata (sv_env sv) bk ns (sp_job t) \<lparr>js_status = Some st\<rparr>) s = (r, s')"
  shows "sched_grows sv kv healthy holder ns w (s', ts @ ts')"
proof -
  from inv have w: "healthy s" "holder s = None" "represents (sv_env sv) ns (kv s) w" "store_inv sv w"
      "spawned_ok sv w (ts @ t # ts')"
    by (auto elim: sched_atE)
  let ?w = "w\<lparr>vw_jobs := (vw_jobs w)(sp_job t \<mapsto> \<lparr>js_status = Some st\<rparr>)\<rparr>"
  from w(5) have j: "length (sp_job t) = 7" "slash_free (sp_job t)" by (auto simp: spawned_ok_def job_id_ok_def)
  have "valid (kv s) (save_job_metadata (sv_env sv) bk ns (sp_job t) \<lparr>js_status = Some st\<rparr>)
      (\<lambda>r m'. r = Ok () \<and> represents (sv_env sv) ns m' ?w)"
    by (rule valid_save_job [OF env w(3)]) (simp_all add: j)
  from validD [OF this w(1) refl] run have s': "represents (sv_env sv) ns (kv s') ?w" "healthy s'" "holder s' = holder s"
    by (auto simp: sunwrap_def split: prod.splits)
  have "spawned_ok sv ?w (ts @ ts')" using spawned_ok_remove [OF w(5)] by (rule spawned_ok_same) simp
  moreover have "store_inv sv ?w" using store_inv_job [OF w(4) j(1)] .
  ultimately show ?thesis using s' w(2) by (auto intro!: sched_growsI)
qed

lemma read_keeps_inv:
  assumes inv: "sched_at sv kv healthy holder ns w (s, ts)"
  shows "get_job_status_handler sv bk ns j s = (r, s') \<Longrightarrow> sched_grows sv kv healthy holder ns w (s', ts)"
    and "get_executors_metadata_handler sv bk ns s = (r', s'') \<Longrightarrow> sched_grows sv kv healthy holder ns w (s'', ts)"
proof -
  from inv have w: "healthy s" "holder s = None" "represents (sv_env sv) ns (kv s) w" "store_inv sv w" "spawned_ok sv w ts"
    by (auto elim: sched_atE)
  have 1: "valid (kv s) (get_job_status_handler sv bk ns j) (\<lambda>_ m'. m' = kv s)"
    unfolding get_job_status_handler_def
    by (rule valid_sbind [where R = "\<lambda>_ m'. m' = kv s"], rule valid_smap_err, rule valid_weaken [OF valid_get_job [OF w(3)]]) auto
  have 2: "valid (kv s) (get_executors_metadata_handler sv bk ns) (\<lambda>_ m'. m' = kv s)"
    unfolding get_executors_metadata_handler_def
    by (rule valid_sbind [where R = "\<lambda>_ m'. m' = kv s"], rule valid_smap_err, rule valid_weaken [OF valid_get_executors [OF w(3)]]) auto
  show "get_job_status_handler sv bk ns j s = (r, s') \<Longrightarrow> sched_grows sv kv healthy holder ns w (s', ts)"
    by (rule validD [OF 1 w(1) refl]) (use w in \<open>auto intro!: sched_growsI\<close>)
  show "get_executors_metadata_handler sv bk ns s = (r', s'') \<Longrightarrow> sched_grows sv kv healthy holder ns w (s'', ts)"
    by (rule validD [OF 2 w(1) refl]) (use w in \<open>auto intro!: sched_growsI\<close>)
qed

lemma other_step_grows:
  assumes env: "env_ok (sv_env sv)" and sv: "queries_ok sv"
  shows "other_step sv bk kv ns c c' \<Longrightarrow> sched_at sv kv healthy holder ns w c \<Longrightarrow> sched_grows sv kv healthy holder ns w c'"
proof (induction rule: other_step.induct)
  case step_query
  then show ?case using query_keeps_inv(2) [OF env sv] by blast
next
  case step_query_error
  then show ?case using query_keeps_inv(1) [OF env sv] by blast
next
  case step_job_status
  then show ?case using read_keeps_inv(1) by blast
next
  case step_executors
  then show ?case using read_keeps_inv(2) by blast
next
  case step_write
  then show ?case using write_keeps_inv(1) [OF env] by blast
next
  case step_write_error
  then show ?case using write_keeps_inv(2) [OF env] by blast
next
  case step_write_panic
  then show ?case using write_keeps_inv(3) [OF env] by blast
next
  case step_failed
  then show ?case using failed_keeps_inv [OF env] by blast
qed (auto simp: sched_grows_def sched_at_def intro: spawned_ok_remove)

lemma other_step_keeps_inv:
  assumes "env_ok (sv_env sv)" "queries_ok sv" "other_step sv bk kv ns c c'" "sched_inv sv kv healthy holder ns c"
  shows "sched_inv sv kv healthy holder ns c'"
  using other_step_grows [OF assms(1-3)] assms(4) by (auto simp: sched_inv_def sched_grows_def)

lemma sched_step_keeps_inv:
  assumes "env_ok (sv_env sv)" "queries_ok sv" "slash_free ns" "sched_step sv bk kv ns c c'" "sched_inv sv kv healthy holder ns c"
  shows "sched_inv sv kv healthy holder ns c'"
  using assms(4,5)
  by (cases rule: sched_step.cases) (use poll_keeps_inv [OF assms(1,3)] other_step_keeps_inv [OF assms(1,2)] in blast)+

lemma reachable_inv:
  assumes "env_ok (sv_env sv)" "queries_ok sv" "slash_free ns"
  shows "(sched_step sv bk kv ns)\<^sup>*\<^sup>* c c' \<Longrightarrow> sched_inv sv kv healthy holder ns c \<Longrightarrow> sched_inv sv kv healthy holder ns c'"
  by (induction rule: rtranclp_induct) (use sched_step_keeps_inv [OF assms] in blast)+

end

section \<open>Progress\<close>

text \<open>
  A job none of whose tasks runs or has failed has a task that can start, if it has a pending one:
  a pending task with the smallest stage id reads only completed tasks.
\<close>

definition idle_job :: "sched_view \<Rightarrow> string \<Rightarrow> bool" where
  "idle_job w j \<longleftrightarrow> (\<forall>p st. pid_job p = j \<longrightarrow> vw_tasks w p = Some (Some st) \<longrightarrow> (\<exists>e. st = TS_Completed e))"

lemma pending_schedulable:
  assumes "tasks_ok w" "deps_ordered w" "idle_job w (pid_job p)" "vw_tasks w p = Some None"
  shows "\<exists>q plan. schedulable w q plan"
  using assms(3,4)
proof (induction "pid_stage p" arbitrary: p rule: less_induct)
  case less
  from assms(1) less.prems(2) obtain plan where plan: "vw_plans w (pid_job p, pid_stage p) = Some plan"
      "\<forall>sp \<in> set (plan_deps plan). vw_tasks w (dep_pid (pid_job p) sp) \<noteq> None"
    by (auto simp: tasks_ok_def pending_ok_def)
  show ?case
  proof (cases "\<exists>sp \<in> set (plan_deps plan). vw_tasks w (dep_pid (pid_job p) sp) = Some None")
    case True
    then obtain sp where sp: "sp \<in> set (plan_deps plan)" "vw_tasks w (dep_pid (pid_job p) sp) = Some None" by blast
    have "fst sp < pid_stage p" using assms(2) plan(1) sp(1) by (auto simp: deps_ordered_def)
    then show ?thesis using less.hyps [of "dep_pid (pid_job p) sp"] less.prems(1) sp(2) by simp
  next
    case False
    have "completed_at w (pid_job p) sp \<noteq> None" if sp: "sp \<in> set (plan_deps plan)" for sp
    proof -
      obtain st where st: "vw_tasks w (dep_pid (pid_job p) sp) = Some (Some st)" using False plan(2) sp by force
      then obtain e where "st = TS_Completed e" using less.prems(1) unfolding idle_job_def by (metis dep_pid_simps(1))
      with st show ?thesis by (simp add: completed_at_def)
    qed
    then have "schedulable w p plan" using plan(1) less.prems(2) by (simp add: schedulable_def list_all_iff)
    then show ?thesis by blast
  qed
qed

lemma schedulable_register [simp]: "schedulable (register e w) p plan = schedulable w p plan"
  by (simp add: schedulable_def register_def completed_at_def)

section \<open>Jobs that are reported complete\<close>

lemma job_completed:
  assumes "lists_tasks w j ts" "ts \<noteq> []" "\<forall>p st. pid_job p = j \<longrightarrow> vw_tasks w p = Some st \<longrightarrow> (\<exists>e. st = Some (TS_Completed e))"
  shows "\<exists>locs. tasks_status ex ts = Some \<lparr>js_status = Some (JS_Completed locs)\<rparr>"
proof -
  have "list_all (\<lambda>t. completed_by t \<noteq> None) ts"
    using assms(1,3) by (fastforce simp: lists_tasks_def list_all_iff completed_by_def)
  with assms(2) show ?thesis by (simp add: tasks_status_def job_state_spec_def)
qed

lemma synced_completed:
  assumes "synced w w'" "vw_jobs w j \<noteq> None" "vw_tasks w p \<noteq> None" "pid_job p = j" "pid_fits p"
    and "\<forall>p st. pid_job p = j \<longrightarrow> vw_tasks w p = Some st \<longrightarrow> (\<exists>e. st = Some (TS_Completed e))"
  shows "\<exists>locs. vw_jobs w' j = Some \<lparr>js_status = Some (JS_Completed locs)\<rparr>"
proof -
  from assms(2) obtain old where old: "vw_jobs w j = Some old" by blast
  have "rel_option (synced_job w j) (vw_jobs w j) (vw_jobs w' j)" using assms(1) by (simp add: synced_def)
  with old obtain new where new: "vw_jobs w' j = Some new" "synced_job w j old new" by (auto elim: option.rel_cases)
  then obtain ts where ts: "lists_tasks w j ts" "new = (case tasks_status (vw_executors w) ts of None \<Rightarrow> old | Some st \<Rightarrow> st)"
    by (auto simp: synced_job_def)
  from assms(3) obtain st where "vw_tasks w p = Some st" by blast
  then have "task_of p st \<in> set ts" using ts(1) assms(4,5) by (auto simp: lists_tasks_def)
  then have "ts \<noteq> []" by auto
  with job_completed [OF ts(1) _ assms(6), of "vw_executors w"] ts(2) new(1) show ?thesis by auto
qed

section \<open>The store determines the view\<close>

lemma rel_option_unique:
  "rel_option R x y \<Longrightarrow> rel_option R x z \<Longrightarrow> (\<And>v a b. R v a \<Longrightarrow> R v b \<Longrightarrow> a = b) \<Longrightarrow> y = z"
  by (cases x; cases y; cases z) auto

lemma represents_unique:
  assumes "represents env ns m w" "represents env ns m w'"
  shows "w = w'"
proof (rule sched_view.equality)
  show "vw_executors w = vw_executors w'"
    by (rule ext, rule rel_option_unique [OF represents_executor [OF assms(1)] represents_executor [OF assms(2)]])
       (auto simp: executor_entry_def, metis executor_meta_roundtrip)
  show "vw_jobs w = vw_jobs w'"
    by (rule ext, rule rel_option_unique [OF represents_job [OF assms(1)] represents_job [OF assms(2)]])
       (auto simp: job_entry_def)
  show "vw_tasks w = vw_tasks w'"
    by (rule ext, rule rel_option_unique [OF represents_task [OF assms(1)] represents_task [OF assms(2)]])
       (auto simp: task_entry_def task_of_def)
  have "vw_plans w (j, i) = vw_plans w' (j, i)" for j i
    by (rule rel_option_unique [OF represents_plan [OF assms(1)] represents_plan [OF assms(2)]]) (auto simp: plan_entry_def)
  then show "vw_plans w = vw_plans w'" by (auto simp: fun_eq_iff)
qed simp

section \<open>Properties of the system\<close>

lemma example_queries_ok: "queries_ok example_server"
proof -
  have stages: "plan_query_stages df_plain planner job (EmptyExec one []) =
      Ok ([\<lparr>qs_job_id = job, qs_stage_id = Suc (dp_next_stage_id planner), qs_child = EmptyExec one []\<rparr>],
        planner\<lparr>dp_next_stage_id := Suc (dp_next_stage_id planner)\<rparr>)" for planner job one
    by (simp add: plan_query_stages_def plan_query_stages_internal.simps plan_operator_def next_stage_id_def create_query_stage_def
        QueryStageExec_try_new_def)
  have count: "partition_count df_plain (EmptyExec one []) = 1" for one
    by (simp add: df_plain_def plain_partitions.simps)
  have "df_plan (EmptyExec one [])" for one by (subst df_plan.simps) simp
  with stages count df_replaces_plain show ?thesis
    by (auto simp: queries_ok_def example_server_def plain_env_def stage_sendable_def schema_wire_ok_def
        simp del: partition_count.simps split: logical_plan.splits)
qed

lemma example_system:
  "\<exists>s. sched_inv example_server (client_kv map_of) (client_healthy map_of mem_fine) client_holder ''default'' (s, []) \<and>
     represents plain_env ''default'' (client_kv map_of s) example_job_view"
proof -
  obtain s where s: "client_healthy map_of mem_fine s" "client_holder s = None"
      "represents plain_env ''default'' (client_kv map_of s) example_job_view"
    using example_job_client by blast
  have "plan_deps (EmptyExec True []) = []" by (simp add: shuffle_tasks_def shuffles_children)
  then have "store_inv example_server example_job_view"
    using example_server_inv(2)
    by (auto simp: store_inv_def job_ids_def deps_ordered_def plans_ok_def schema_wire_ok_def example_job_view_def example_pid_def
        split: if_splits)
  moreover have "sv_env example_server = plain_env" by (simp add: example_server_def)
  ultimately have "sched_inv example_server (client_kv map_of) (client_healthy map_of mem_fine) client_holder ''default'' (s, [])"
    using s by (auto simp: sched_inv_def sched_at_def spawned_ok_def)
  with s(3) show ?thesis by blast
qed



text \<open>
  C6. Nothing gets stuck.  In every state the scheduler reaches, if a job has a pending task and none
  of its tasks runs or has failed, then an executor that asks for work is given a task.
\<close>

theorem idle_executor_gets_task:
  assumes "config_backend bk kv healthy holder" "env_ok (sv_env sv)" "queries_ok sv" "slash_free ns"
    and "sched_inv sv kv healthy holder ns c" "(sched_step sv bk kv ns)\<^sup>*\<^sup>* c (s, ts)"
    and "represents (sv_env sv) ns (kv s) w" "vw_tasks w p = Some None" "idle_job w (pid_job p)"
    and "pw_metadata req = Some meta" "pw_can_accept_task req" "pw_task_status req = []"
  shows "\<exists>task s'. poll_work sv bk ns req s = Some (Ok \<lparr>pr_task = Some task\<rparr>, s')"
proof -
  have "sched_inv sv kv healthy holder ns (s, ts)"
    using config_backend.reachable_inv [OF assms(1-4,6,5)] .
  then obtain v where v: "healthy s" "holder s = None" "represents (sv_env sv) ns (kv s) v" "store_inv sv v" by (rule sched_invE)
  have "v = w" using represents_unique [OF v(3) assms(7)] .
  with v(4) have w: "server_inv sv w" "tasks_ok w" "deps_ordered w" by (simp_all add: store_inv_def server_inv_def)
  obtain q plan where q: "schedulable w q plan" using pending_schedulable [OF w(2,3) assms(9,8)] by blast
  let ?meta = "executor_meta_from_pb meta"
  have "pw_task_status req = report_messages []" "reports_ok (register ?meta w) []"
    using assms(12) by (simp_all add: report_messages_def reports_ok_def)
  then obtain task s' w' where run: "poll_work sv bk ns req s = Some (Ok \<lparr>pr_task = task\<rparr>, s')"
      "poll_spec sv ?meta (pw_can_accept_task req) [] w task w'"
    using config_backend.poll_work_run [OF assms(1,2,4) v(1,2) assms(7) w(1) assms(10)] by blast
  then have "assigned sv (em_id ?meta) (register ?meta w) task w'"
    using assms(11) by (auto simp: poll_spec_def apply_reports_def)
  with q have "task \<noteq> None" by (auto simp: assigned_def)
  with run(1) show ?thesis by auto
qed

theorem idle_executor_gets_task_witness:
  "\<exists>s task s'. poll_work example_server (standalone_backend mem_sled) ''default''
     \<lparr>pw_metadata = Some \<lparr>pem_id = ''e2'', pem_host = ''h'', pem_port = 50051\<rparr>, pw_can_accept_task = True, pw_task_status = []\<rparr> s =
       Some (Ok \<lparr>pr_task = Some task\<rparr>, s')"
proof -
  let ?req = "\<lparr>pw_metadata = Some \<lparr>pem_id = ''e2'', pem_host = ''h'', pem_port = 50051\<rparr>, pw_can_accept_task = True, pw_task_status = []\<rparr>"
  obtain s where s: "sched_inv example_server (client_kv map_of) (client_healthy map_of mem_fine) client_holder ''default'' (s, [])"
      "represents (sv_env example_server) ''default'' (client_kv map_of s) example_job_view"
    using example_system by (auto simp: example_server_def)
  have "vw_tasks example_job_view (example_pid 0) = Some None" "idle_job example_job_view (pid_job (example_pid 0))"
    by (auto simp: example_job_view_def example_pid_def idle_job_def split: if_splits)
  from idle_executor_gets_task [where req = ?req, OF standalone.config_backend_axioms example_server_inv(1) example_queries_ok _ s(1)
      rtranclp.rtrancl_refl s(2) this]
  show ?thesis by (auto simp: slash_free_def)
qed



end
