(* ===== verification/Record_Batches.thy ===== *)
theory Record_Batches
  imports Exec_Plans Ballista_Io "HOL-Library.AList"
begin

text \<open>
  Arrow data as the code handles it: record batches and streams of them, the statistics of a
  partition (\<open>PartitionStats\<close> of \<open>core/src/utils.rs\<close>), writing a stream to disk and collecting it,
  \<open>MemoryStream\<close> of \<open>core/src/memory_stream.rs\<close> and \<open>ColumnarBatch\<close> of
  \<open>client/src/columnar_batch.rs\<close>.

  An Arrow array is of an arbitrary type \<open>'a\<close>; the calls on arrays are the record \<open>arrow_arrays\<close>
  and what the code relies on of them is \<open>arrays_ok\<close>.  A stream is the list of the results it yields
  before it ends.  The disk with Arrow's IPC file format is the record \<open>disk\<close>, its behaviour without
  I/O errors is \<open>disk_ok\<close>.
\<close>

section \<open>Arrays and batches\<close>

record 'a record_batch =
  rb_schema :: schema
  rb_columns :: "'a list"
  rb_num_rows :: nat

text \<open>
  \<open>aa_uint64\<close>, \<open>aa_string\<close> and \<open>aa_struct\<close> are what the builders give after one \<open>append\<close>;
  \<open>aa_as_uint64\<close> and \<open>aa_as_string\<close> are the downcasts, with the function \<open>value\<close> of the array.
\<close>

record 'a arrow_arrays =
  aa_data_type :: "'a \<Rightarrow> data_type"
  aa_len :: "'a \<Rightarrow> nat"
  aa_memory_size :: "'a \<Rightarrow> nat"
  aa_null_count :: "'a \<Rightarrow> nat"
  aa_uint64 :: "u64 \<Rightarrow> 'a"
  aa_string :: "string \<Rightarrow> 'a"
  aa_struct :: "field list \<Rightarrow> 'a list \<Rightarrow> 'a"
  aa_as_uint64 :: "'a \<Rightarrow> (nat \<Rightarrow> u64) option"
  aa_as_string :: "'a \<Rightarrow> (nat \<Rightarrow> string) option"
  aa_is_struct :: "'a \<Rightarrow> bool"
  aa_column_by_name :: "'a \<Rightarrow> string \<Rightarrow> 'a option"
  aa_try_new_batch :: "schema \<Rightarrow> 'a list \<Rightarrow> ('a record_batch, string) result"
  aa_scalar_array :: "scalar_value \<Rightarrow> nat \<Rightarrow> 'a"

text \<open>\<open>Option::expect\<close>\<close>

definition expect :: "string \<Rightarrow> 'a option \<Rightarrow> ('a, 'e) result" where
  "expect msg x = (case x of Some y \<Rightarrow> Ok y | None \<Rightarrow> Panic msg)"

lemma expect_simps [simp]: "expect msg (Some y) = Ok y" "expect msg None = Panic msg"
  by (simp_all add: expect_def)

section \<open>PartitionStats\<close>

record partition_stats =
  st_num_rows :: u64
  st_num_batches :: u64
  st_num_bytes :: u64
  st_null_count :: u64

definition PartitionStats_default :: partition_stats where
  "PartitionStats_default = \<lparr>st_num_rows = 0, st_num_batches = 0, st_num_bytes = 0, st_null_count = 0\<rparr>"

definition arrow_struct_fields :: "field list" where
  "arrow_struct_fields =
     [MkField ''num_rows'' DT_UInt64 False, MkField ''num_batches'' DT_UInt64 False,
      MkField ''num_bytes'' DT_UInt64 False, MkField ''null_count'' DT_UInt64 False]"

definition arrow_struct_repr :: field where
  "arrow_struct_repr = MkField ''partition_stats'' (DT_Struct arrow_struct_fields) False"

definition to_arrow_arrayref :: "'a arrow_arrays \<Rightarrow> partition_stats \<Rightarrow> 'a" where
  "to_arrow_arrayref aa st =
     aa_struct aa arrow_struct_fields
       [aa_uint64 aa (st_num_rows st), aa_uint64 aa (st_num_batches st),
        aa_uint64 aa (st_num_bytes st), aa_uint64 aa (st_null_count st)]"

definition stats_column :: "'a arrow_arrays \<Rightarrow> 'a \<Rightarrow> string \<Rightarrow> (u64, 'e) result" where
  "stats_column aa struct_array name =
     rbind (expect (''from_arrow_struct_array expected a field '' @ name) (aa_column_by_name aa struct_array name)) (\<lambda>column.
     rbind (expect (''from_arrow_struct_array expected '' @ name @ '' to be a UInt64Array'') (aa_as_uint64 aa column)) (\<lambda>value_at.
       Ok (value_at 0)))"

definition from_arrow_struct_array :: "'a arrow_arrays \<Rightarrow> 'a \<Rightarrow> (partition_stats, 'e) result" where
  "from_arrow_struct_array aa struct_array =
     rbind (stats_column aa struct_array ''num_rows'') (\<lambda>num_rows.
     rbind (stats_column aa struct_array ''num_batches'') (\<lambda>num_batches.
     rbind (stats_column aa struct_array ''num_bytes'') (\<lambda>num_bytes.
     rbind (stats_column aa struct_array ''null_count'') (\<lambda>null_count.
       Ok \<lparr>st_num_rows = num_rows, st_num_batches = num_batches, st_num_bytes = num_bytes, st_null_count = null_count\<rparr>))))"

text \<open>
  What the code relies on of Arrow: a builder's array has the value that was appended, a struct's
  columns are found by name, and \<open>RecordBatch::try_new\<close> accepts columns of equal length whose types
  are those of the schema.
\<close>

definition arrays_ok :: "'a arrow_arrays \<Rightarrow> bool" where
  "arrays_ok aa \<longleftrightarrow>
     (\<forall>v. aa_data_type aa (aa_uint64 aa v) = DT_UInt64 \<and> aa_len aa (aa_uint64 aa v) = 1 \<and>
        (\<exists>f. aa_as_uint64 aa (aa_uint64 aa v) = Some f \<and> f 0 = v)) \<and>
     (\<forall>s. aa_data_type aa (aa_string aa s) = DT_Utf8 \<and> aa_len aa (aa_string aa s) = 1 \<and>
        (\<exists>f. aa_as_string aa (aa_string aa s) = Some f \<and> f 0 = s)) \<and>
     (\<forall>fs cs. map (aa_data_type aa) cs = map f_data_type fs \<and> (\<forall>c \<in> set cs. aa_len aa c = 1) \<longrightarrow>
        aa_data_type aa (aa_struct aa fs cs) = DT_Struct fs \<and> aa_len aa (aa_struct aa fs cs) = 1 \<and>
        aa_is_struct aa (aa_struct aa fs cs) \<and>
        (\<forall>n. aa_column_by_name aa (aa_struct aa fs cs) n = map_of (zip (map f_name fs) cs) n)) \<and>
     (\<forall>sch cs n. cs \<noteq> [] \<and> map (aa_data_type aa) cs = map f_data_type sch \<and> (\<forall>c \<in> set cs. aa_len aa c = n) \<longrightarrow>
        aa_try_new_batch aa sch cs = Ok \<lparr>rb_schema = sch, rb_columns = cs, rb_num_rows = n\<rparr>)"

lemma arrays_uint64:
  assumes "arrays_ok aa"
  shows "aa_data_type aa (aa_uint64 aa v) = DT_UInt64" "aa_len aa (aa_uint64 aa v) = 1"
    "\<exists>f. aa_as_uint64 aa (aa_uint64 aa v) = Some f \<and> f 0 = v"
  using assms unfolding arrays_ok_def by blast+

lemma arrays_string:
  assumes "arrays_ok aa"
  shows "aa_data_type aa (aa_string aa s) = DT_Utf8" "aa_len aa (aa_string aa s) = 1"
    "\<exists>f. aa_as_string aa (aa_string aa s) = Some f \<and> f 0 = s"
  using assms unfolding arrays_ok_def by blast+

lemma arrays_struct:
  assumes "arrays_ok aa" "map (aa_data_type aa) cs = map f_data_type fs" "\<forall>c \<in> set cs. aa_len aa c = 1"
  shows "aa_data_type aa (aa_struct aa fs cs) = DT_Struct fs" "aa_len aa (aa_struct aa fs cs) = 1"
    "aa_is_struct aa (aa_struct aa fs cs)" "aa_column_by_name aa (aa_struct aa fs cs) n = map_of (zip (map f_name fs) cs) n"
  using assms unfolding arrays_ok_def by blast+

lemma arrays_batch:
  assumes "arrays_ok aa" "cs \<noteq> []" "map (aa_data_type aa) cs = map f_data_type sch" "\<forall>c \<in> set cs. aa_len aa c = n"
  shows "aa_try_new_batch aa sch cs = Ok \<lparr>rb_schema = sch, rb_columns = cs, rb_num_rows = n\<rparr>"
  using assms unfolding arrays_ok_def by blast

lemma stats_array:
  assumes aa: "arrays_ok aa"
  shows "aa_data_type aa (to_arrow_arrayref aa st) = DT_Struct arrow_struct_fields"
    "aa_len aa (to_arrow_arrayref aa st) = 1" "aa_is_struct aa (to_arrow_arrayref aa st)"
    "from_arrow_struct_array aa (to_arrow_arrayref aa st) = Ok st"
proof -
  let ?cs = "[aa_uint64 aa (st_num_rows st), aa_uint64 aa (st_num_batches st),
    aa_uint64 aa (st_num_bytes st), aa_uint64 aa (st_null_count st)]"
  have cs: "map (aa_data_type aa) ?cs = map f_data_type arrow_struct_fields" "\<forall>c \<in> set ?cs. aa_len aa c = 1"
    by (simp_all add: arrays_uint64 [OF aa] arrow_struct_fields_def)
  note struct = arrays_struct [OF aa cs, folded to_arrow_arrayref_def]
  show "aa_data_type aa (to_arrow_arrayref aa st) = DT_Struct arrow_struct_fields"
    "aa_len aa (to_arrow_arrayref aa st) = 1" "aa_is_struct aa (to_arrow_arrayref aa st)"
    using struct by simp_all
  have column: "stats_column aa (to_arrow_arrayref aa st) n = Ok v"
    if "map_of (zip (map f_name arrow_struct_fields) ?cs) n = Some (aa_uint64 aa v)" for n v
    using that arrays_uint64(3) [OF aa, of v] by (auto simp: stats_column_def struct(4))
  show "from_arrow_struct_array aa (to_arrow_arrayref aa st) = Ok st"
    by (simp add: from_arrow_struct_array_def column arrow_struct_fields_def)
qed

section \<open>Streams\<close>

type_synonym 'a batch_stream = "('a record_batch, string) result list"

text \<open>The loop of \<open>collect_stream\<close>; an item's error is an \<open>ArrowError\<close>.\<close>

fun collect_loop :: "'a record_batch list \<Rightarrow> 'a batch_stream \<Rightarrow> 'a record_batch list bresult" where
  "collect_loop batches [] = Ok batches"
| "collect_loop batches (item # stream) = rbind (map_err ArrowError item) (\<lambda>batch. collect_loop (batches @ [batch]) stream)"

definition collect_stream :: "'a batch_stream \<Rightarrow> 'a record_batch list bresult" where
  "collect_stream stream = collect_loop [] stream"

lemma collect_loop_eq: "collect_loop batches stream = rbind (mapM (map_err ArrowError) stream) (\<lambda>bs. Ok (batches @ bs))"
  by (induction stream arbitrary: batches) (simp_all add: rbind_assoc)

lemma mapM_Ok_items: "mapM (map_err g) (map Ok bs) = Ok bs"
  by (induction bs) simp_all

lemma collect_stream_Ok [simp]: "collect_stream (map Ok bs) = Ok bs"
  by (simp add: collect_stream_def collect_loop_eq mapM_Ok_items)

section \<open>Writing a stream to disk\<close>

record ('s, 'a) disk =
  dk_create_dir_all :: "string \<Rightarrow> ('s, unit, string) io"
  dk_create :: "string \<Rightarrow> ('s, unit, string) io"
  dk_try_new_writer :: "string \<Rightarrow> schema \<Rightarrow> ('s, unit, string) io"
  dk_write :: "string \<Rightarrow> 'a record_batch \<Rightarrow> ('s, unit, string) io"
  dk_finish :: "string \<Rightarrow> ('s, unit, string) io"
  dk_open :: "string \<Rightarrow> ('s, unit, string) io"
  dk_try_new_reader :: "string \<Rightarrow> ('s, schema \<times> 'a batch_stream, string) io"

text \<open>The four counters of the loop, as \<open>usize\<close>.\<close>

record counters =
  ct_rows :: nat
  ct_batches :: nat
  ct_bytes :: nat
  ct_nulls :: nat

definition count_batch :: "'a arrow_arrays \<Rightarrow> counters \<Rightarrow> 'a record_batch \<Rightarrow> counters" where
  "count_batch aa ct batch =
     \<lparr>ct_rows = ct_rows ct + rb_num_rows batch,
      ct_batches = ct_batches ct + 1,
      ct_bytes = ct_bytes ct + sum_list (map (aa_memory_size aa) (rb_columns batch)),
      ct_nulls = ct_nulls ct + sum_list (map (aa_null_count aa) (rb_columns batch))\<rparr>"

fun write_loop ::
  "'a arrow_arrays \<Rightarrow> ('s, 'a) disk \<Rightarrow> string \<Rightarrow> counters \<Rightarrow> 'a batch_stream \<Rightarrow> ('s, counters, BallistaError) io" where
  "write_loop aa dk path ct [] = sret ct"
| "write_loop aa dk path ct (item # stream) =
     sbind (slift (map_err ArrowError item)) (\<lambda>batch.
     sbind (smap_err ArrowError (dk_write dk path batch)) (\<lambda>_.
       write_loop aa dk path (count_batch aa ct batch) stream))"

text \<open>\<open>as u64\<close>\<close>

definition stats_of_counters :: "counters \<Rightarrow> partition_stats" where
  "stats_of_counters ct =
     \<lparr>st_num_rows = word_of_nat (ct_rows ct), st_num_batches = word_of_nat (ct_batches ct),
      st_num_bytes = word_of_nat (ct_bytes ct), st_null_count = word_of_nat (ct_nulls ct)\<rparr>"

definition write_stream_to_disk ::
  "'a arrow_arrays \<Rightarrow> ('s, 'a) disk \<Rightarrow> schema \<Rightarrow> 'a batch_stream \<Rightarrow> string \<Rightarrow> ('s, partition_stats, BallistaError) io" where
  "write_stream_to_disk aa dk sch stream path =
     sbind (smap_err (\<lambda>e. General (''Failed to create partition file at '' @ path @ '': '' @ e)) (dk_create dk path)) (\<lambda>_.
     sbind (smap_err ArrowError (dk_try_new_writer dk path sch)) (\<lambda>_.
     sbind (write_loop aa dk path \<lparr>ct_rows = 0, ct_batches = 0, ct_bytes = 0, ct_nulls = 0\<rparr> stream) (\<lambda>ct.
     sbind (smap_err ArrowError (dk_finish dk path)) (\<lambda>_.
       sret (stats_of_counters ct)))))"

text \<open>What is on the disk: a file just created, one being written, one that is finished.\<close>

datatype 'a ipc_file = F_Created | F_Writing schema "'a record_batch list" | F_Finished schema "'a record_batch list"

text \<open>
  A disk without I/O errors.  \<open>files\<close> is its content, \<open>dirs\<close> the directories that exist; a finished
  file is read back as the batches that were written, in their order.
\<close>

definition disk_ok ::
  "('s, 'a) disk \<Rightarrow> ('s \<Rightarrow> string \<rightharpoonup> 'a ipc_file) \<Rightarrow> ('s \<Rightarrow> string set) \<Rightarrow> bool" where
  "disk_ok dk files dirs \<longleftrightarrow>
     (\<forall>s d. \<exists>s'. dk_create_dir_all dk d s = (Ok (), s') \<and> files s' = files s \<and> dirs s' = insert d (dirs s)) \<and>
     (\<forall>s d n. d \<in> dirs s \<and> CHR ''/'' \<notin> set n \<longrightarrow>
        (\<exists>s'. dk_create dk (d @ ''/'' @ n) s = (Ok (), s') \<and> files s' = (files s)(d @ ''/'' @ n \<mapsto> F_Created) \<and> dirs s' = dirs s)) \<and>
     (\<forall>s p sch. files s p = Some F_Created \<longrightarrow>
        (\<exists>s'. dk_try_new_writer dk p sch s = (Ok (), s') \<and> files s' = (files s)(p \<mapsto> F_Writing sch []) \<and> dirs s' = dirs s)) \<and>
     (\<forall>s p sch bs b. files s p = Some (F_Writing sch bs) \<and> rb_schema b = sch \<longrightarrow>
        (\<exists>s'. dk_write dk p b s = (Ok (), s') \<and> files s' = (files s)(p \<mapsto> F_Writing sch (bs @ [b])) \<and> dirs s' = dirs s)) \<and>
     (\<forall>s p sch bs. files s p = Some (F_Writing sch bs) \<longrightarrow>
        (\<exists>s'. dk_finish dk p s = (Ok (), s') \<and> files s' = (files s)(p \<mapsto> F_Finished sch bs) \<and> dirs s' = dirs s)) \<and>
     (\<forall>s p sch bs. files s p = Some (F_Finished sch bs) \<longrightarrow>
        dk_open dk p s = (Ok (), s) \<and> dk_try_new_reader dk p s = (Ok (sch, map Ok bs), s))"

lemma disk_create_dir_all:
  "disk_ok dk files dirs \<Longrightarrow> \<exists>s'. dk_create_dir_all dk d s = (Ok (), s') \<and> files s' = files s \<and> dirs s' = insert d (dirs s)"
  by (simp add: disk_ok_def)

lemma disk_create:
  "disk_ok dk files dirs \<Longrightarrow> d \<in> dirs s \<Longrightarrow> CHR ''/'' \<notin> set n \<Longrightarrow>
   \<exists>s'. dk_create dk (d @ ''/'' @ n) s = (Ok (), s') \<and> files s' = (files s)(d @ ''/'' @ n \<mapsto> F_Created) \<and> dirs s' = dirs s"
  by (simp add: disk_ok_def)

lemma disk_writer:
  "disk_ok dk files dirs \<Longrightarrow> files s p = Some F_Created \<Longrightarrow>
   \<exists>s'. dk_try_new_writer dk p sch s = (Ok (), s') \<and> files s' = (files s)(p \<mapsto> F_Writing sch []) \<and> dirs s' = dirs s"
  by (simp add: disk_ok_def)

lemma disk_write:
  "disk_ok dk files dirs \<Longrightarrow> files s p = Some (F_Writing (rb_schema b) bs) \<Longrightarrow>
   \<exists>s'. dk_write dk p b s = (Ok (), s') \<and> files s' = (files s)(p \<mapsto> F_Writing (rb_schema b) (bs @ [b])) \<and> dirs s' = dirs s"
  by (simp add: disk_ok_def)

lemma disk_finish:
  "disk_ok dk files dirs \<Longrightarrow> files s p = Some (F_Writing sch bs) \<Longrightarrow>
   \<exists>s'. dk_finish dk p s = (Ok (), s') \<and> files s' = (files s)(p \<mapsto> F_Finished sch bs) \<and> dirs s' = dirs s"
  by (simp add: disk_ok_def)

lemma disk_read:
  "disk_ok dk files dirs \<Longrightarrow> files s p = Some (F_Finished sch bs) \<Longrightarrow>
   dk_open dk p s = (Ok (), s) \<and> dk_try_new_reader dk p s = (Ok (sch, map Ok bs), s)"
  by (simp add: disk_ok_def)

lemma write_loop_ok:
  assumes dk: "disk_ok dk files dirs" and sch: "\<forall>b \<in> set bs. rb_schema b = sch"
    and s: "files s p = Some (F_Writing sch done)"
  shows "\<exists>s'. write_loop aa dk p ct (map Ok bs) s = (Ok (foldl (count_batch aa) ct bs), s') \<and>
    files s' = (files s)(p \<mapsto> F_Writing sch (done @ bs)) \<and> dirs s' = dirs s"
  using sch s
proof (induction bs arbitrary: s ct "done")
  case Nil
  then show ?case by (auto simp: sret_def)
next
  case (Cons b bs)
  from dk Cons.prems obtain s1 where s1: "dk_write dk p b s = (Ok (), s1)"
      "files s1 = (files s)(p \<mapsto> F_Writing sch (done @ [b]))" "dirs s1 = dirs s"
    using disk_write [OF dk, of s p b "done"] by auto
  have "\<exists>s'. write_loop aa dk p (count_batch aa ct b) (map Ok bs) s1 = (Ok (foldl (count_batch aa) (count_batch aa ct b) bs), s') \<and>
      files s' = (files s1)(p \<mapsto> F_Writing sch ((done @ [b]) @ bs)) \<and> dirs s' = dirs s1"
    by (rule Cons.IH) (use Cons.prems s1(2) in auto)
  with s1 show ?case by (auto simp: sbind_def smap_err_def)
qed

text \<open>The totals the counters stand for.\<close>

definition batch_totals :: "'a arrow_arrays \<Rightarrow> 'a record_batch list \<Rightarrow> counters" where
  "batch_totals aa bs =
     \<lparr>ct_rows = sum_list (map rb_num_rows bs), ct_batches = length bs,
      ct_bytes = sum_list (map (aa_memory_size aa) (concat (map rb_columns bs))),
      ct_nulls = sum_list (map (aa_null_count aa) (concat (map rb_columns bs)))\<rparr>"

lemma foldl_count_batch:
  "foldl (count_batch aa) ct bs =
     \<lparr>ct_rows = ct_rows ct + ct_rows (batch_totals aa bs), ct_batches = ct_batches ct + ct_batches (batch_totals aa bs),
      ct_bytes = ct_bytes ct + ct_bytes (batch_totals aa bs), ct_nulls = ct_nulls ct + ct_nulls (batch_totals aa bs)\<rparr>"
  by (induction bs arbitrary: ct) (simp_all add: batch_totals_def count_batch_def)

lemma write_stream_to_disk_ok:
  assumes dk: "disk_ok dk files dirs" and dir: "d \<in> dirs s" "CHR ''/'' \<notin> set n" and sch: "\<forall>b \<in> set bs. rb_schema b = sch"
  shows "\<exists>s'. write_stream_to_disk aa dk sch (map Ok bs) (d @ ''/'' @ n) s = (Ok (stats_of_counters (batch_totals aa bs)), s') \<and>
    files s' = (files s)(d @ ''/'' @ n \<mapsto> F_Finished sch bs) \<and> dirs s' = dirs s"
proof -
  let ?p = "d @ ''/'' @ n"
  let ?ct = "\<lparr>ct_rows = 0, ct_batches = 0, ct_bytes = 0, ct_nulls = 0\<rparr>"
  obtain s1 where s1: "dk_create dk ?p s = (Ok (), s1)" "files s1 = (files s)(?p \<mapsto> F_Created)" "dirs s1 = dirs s"
    using disk_create [OF dk dir] by blast
  then have "files s1 ?p = Some F_Created" by simp
  then obtain s2 where s2: "dk_try_new_writer dk ?p sch s1 = (Ok (), s2)" "files s2 = (files s1)(?p \<mapsto> F_Writing sch [])" "dirs s2 = dirs s1"
    using disk_writer [OF dk] by blast
  then have "files s2 ?p = Some (F_Writing sch [])" by simp
  from write_loop_ok [OF dk sch this, of aa ?ct]
  obtain s3 where s3: "write_loop aa dk ?p ?ct (map Ok bs) s2 = (Ok (batch_totals aa bs), s3)"
      "files s3 = (files s2)(?p \<mapsto> F_Writing sch bs)" "dirs s3 = dirs s2"
    by (auto simp: foldl_count_batch batch_totals_def)
  then have "files s3 ?p = Some (F_Writing sch bs)" by simp
  then obtain s4 where "dk_finish dk ?p s3 = (Ok (), s4)" "files s4 = (files s3)(?p \<mapsto> F_Finished sch bs)" "dirs s4 = dirs s3"
    using disk_finish [OF dk] by blast
  with s1 s2 s3 show ?thesis by (auto simp: write_stream_to_disk_def sbind_def smap_err_def sret_def)
qed

text \<open>An item that is an error ends the loop with that error.\<close>

lemma write_loop_error:
  "write_loop aa dk path ct (Err e # stream) s = (Err (ArrowError e), s)"
  by (simp add: slift_def)

section \<open>MemoryStream\<close>

record 'a memory_stream =
  ms_data :: "'a record_batch list"
  ms_schema :: schema
  ms_projection :: "nat list option"
  ms_index :: nat

definition MemoryStream_try_new :: "'a record_batch list \<Rightarrow> schema \<Rightarrow> nat list option \<Rightarrow> ('a memory_stream, 'e) result" where
  "MemoryStream_try_new data sch projection =
     Ok \<lparr>ms_data = data, ms_schema = sch, ms_projection = projection, ms_index = 0\<rparr>"

text \<open>\<open>poll_next\<close> is always ready: the item, if any, and the stream after it.\<close>

definition memory_poll_next ::
  "'a arrow_arrays \<Rightarrow> 'a memory_stream \<Rightarrow> ('a record_batch, string) result option \<times> 'a memory_stream" where
  "memory_poll_next aa ms =
     (if ms_index ms < length (ms_data ms) then
        (let ms' = ms\<lparr>ms_index := ms_index ms + 1\<rparr>;
             batch = ms_data ms' ! (ms_index ms' - 1)
         in (Some (case ms_projection ms' of
               Some columns \<Rightarrow> rbind (mapM (index_vec (rb_columns batch)) columns) (aa_try_new_batch aa (ms_schema ms'))
             | None \<Rightarrow> Ok batch), ms'))
      else (None, ms))"

definition memory_size_hint :: "'a memory_stream \<Rightarrow> nat \<times> nat option" where
  "memory_size_hint ms = (length (ms_data ms), Some (length (ms_data ms)))"

text \<open>Polling until the stream ends.\<close>

function drain :: "'a arrow_arrays \<Rightarrow> 'a memory_stream \<Rightarrow> 'a batch_stream" where
  "drain aa ms = (case memory_poll_next aa ms of (None, _) \<Rightarrow> [] | (Some item, ms') \<Rightarrow> item # drain aa ms')"
  by pat_completeness auto
termination
  by (relation "measure (\<lambda>(aa, ms). length (ms_data ms) - ms_index ms)")
     (auto simp: memory_poll_next_def Let_def split: if_splits)

declare drain.simps [simp del]

text \<open>What one item is: a batch, or its projection.\<close>

definition project_batch :: "'a arrow_arrays \<Rightarrow> schema \<Rightarrow> nat list option \<Rightarrow> 'a record_batch \<Rightarrow> ('a record_batch, string) result" where
  "project_batch aa sch projection batch =
     (case projection of
        Some columns \<Rightarrow> rbind (mapM (index_vec (rb_columns batch)) columns) (aa_try_new_batch aa sch)
      | None \<Rightarrow> Ok batch)"

lemma drain_from:
  "drain aa ms = map (project_batch aa (ms_schema ms) (ms_projection ms)) (drop (ms_index ms) (ms_data ms))"
proof (induction aa ms rule: drain.induct)
  case (1 aa ms)
  show ?case
  proof (cases "ms_index ms < length (ms_data ms)")
    case True
    then have "drop (ms_index ms) (ms_data ms) = ms_data ms ! ms_index ms # drop (Suc (ms_index ms)) (ms_data ms)"
      by (rule Cons_nth_drop_Suc [symmetric])
    moreover have poll: "memory_poll_next aa ms =
        (Some (project_batch aa (ms_schema ms) (ms_projection ms) (ms_data ms ! ms_index ms)), ms\<lparr>ms_index := ms_index ms + 1\<rparr>)"
      using True by (simp add: memory_poll_next_def project_batch_def split: option.split)
    ultimately show ?thesis using 1 [OF poll [symmetric] refl] by (subst drain.simps) (simp add: poll)
  next
    case False
    then show ?thesis by (subst drain.simps) (simp add: memory_poll_next_def)
  qed
qed

section \<open>ColumnarBatch\<close>

datatype 'a columnar_value = Scalar scalar_value nat | Columnar 'a

text \<open>\<open>HashMap<String, ColumnarValue>\<close>: the pairs in any order, one per key.\<close>

record 'a columnar_batch =
  cb_schema :: schema
  cb_columns :: "(string \<times> 'a columnar_value) list"

definition hash_map_collect :: "('k \<times> 'v) list \<Rightarrow> ('k \<times> 'v) list" where
  "hash_map_collect kvs = fold (\<lambda>(k, v). AList.update k v) kvs []"

definition from_arrow :: "'a record_batch \<Rightarrow> ('a columnar_batch, 'e) result" where
  "from_arrow batch =
     rbind (mapM (\<lambda>(i, array). rbind (index_vec (rb_schema batch) i) (\<lambda>f. Ok (f_name f, Columnar array)))
              (enumerate 0 (rb_columns batch))) (\<lambda>columns.
       Ok \<lparr>cb_schema = rb_schema batch, cb_columns = hash_map_collect columns\<rparr>)"

definition from_values :: "'a columnar_value list \<Rightarrow> schema \<Rightarrow> ('a columnar_batch, 'e) result" where
  "from_values values sch =
     rbind (mapM (\<lambda>(i, f). rbind (index_vec values i) (\<lambda>v. Ok (f_name f, v))) (enumerate 0 sch)) (\<lambda>columns.
       Ok \<lparr>cb_schema = sch, cb_columns = hash_map_collect columns\<rparr>)"

text \<open>\<open>&self.columns[name]\<close> panics on a missing key.\<close>

definition cb_column :: "'a columnar_batch \<Rightarrow> string \<Rightarrow> 'a columnar_value bresult" where
  "cb_column cb name = expect ''no entry found for key'' (map_of (cb_columns cb) name)"

definition cb_to_arrow :: "'a arrow_arrays \<Rightarrow> 'a columnar_batch \<Rightarrow> 'a record_batch bresult" where
  "cb_to_arrow aa cb =
     rbind (mapM (\<lambda>c. rbind (cb_column cb (f_name c)) (\<lambda>v. case v of
                Columnar array \<Rightarrow> Ok array
              | Scalar _ _ \<Rightarrow> Err (ballista_error ''Cannot convert scalar value to Arrow array''))) (cb_schema cb)) (\<lambda>arrays.
       map_err ArrowError (aa_try_new_batch aa (cb_schema cb) arrays))"

fun cv_len :: "'a arrow_arrays \<Rightarrow> 'a columnar_value \<Rightarrow> nat" where
  "cv_len aa (Scalar _ n) = n"
| "cv_len aa (Columnar array) = aa_len aa array"

definition cv_is_empty :: "'a arrow_arrays \<Rightarrow> 'a columnar_value \<Rightarrow> bool" where
  "cv_is_empty aa v \<longleftrightarrow> cv_len aa v = 0"

fun cv_data_type :: "'a arrow_arrays \<Rightarrow> 'a columnar_value \<Rightarrow> (data_type, 'e) result" where
  "cv_data_type aa (Columnar array) = Ok (aa_data_type aa array)"
| "cv_data_type aa (Scalar v _) =
     (case v of
        SV_UInt8 _ \<Rightarrow> Ok DT_UInt8
      | SV_UInt16 _ \<Rightarrow> Ok DT_UInt16
      | SV_UInt32 _ \<Rightarrow> Ok DT_UInt32
      | SV_UInt64 _ \<Rightarrow> Ok DT_UInt64
      | SV_Int8 _ \<Rightarrow> Ok DT_Int8
      | SV_Int16 _ \<Rightarrow> Ok DT_Int16
      | SV_Int32 _ \<Rightarrow> Ok DT_Int32
      | SV_Int64 _ \<Rightarrow> Ok DT_Int64
      | SV_Float32 _ \<Rightarrow> Ok DT_Float32
      | SV_Float64 _ \<Rightarrow> Ok DT_Float64
      | _ \<Rightarrow> Panic ''not implemented'')"

fun cv_to_arrow :: "'a arrow_arrays \<Rightarrow> 'a columnar_value \<Rightarrow> 'a" where
  "cv_to_arrow aa (Columnar array) = array"
| "cv_to_arrow aa (Scalar v n) = aa_scalar_array aa v n"

fun cv_memory_size :: "'a arrow_arrays \<Rightarrow> 'a columnar_value \<Rightarrow> nat" where
  "cv_memory_size aa (Columnar array) = aa_memory_size aa array"
| "cv_memory_size aa (Scalar _ _) = 0"

definition cb_num_columns :: "'a columnar_batch \<Rightarrow> nat" where
  "cb_num_columns cb = length (cb_columns cb)"

definition cb_num_rows :: "'a arrow_arrays \<Rightarrow> 'a columnar_batch \<Rightarrow> nat bresult" where
  "cb_num_rows aa cb =
     rbind (index_vec (cb_schema cb) 0) (\<lambda>f. rbind (cb_column cb (f_name f)) (\<lambda>v. Ok (cv_len aa v)))"

definition cb_memory_size :: "'a arrow_arrays \<Rightarrow> 'a columnar_batch \<Rightarrow> nat" where
  "cb_memory_size aa cb = sum_list (map (\<lambda>(_, v). cv_memory_size aa v) (cb_columns cb))"

lemma map_of_hash_map_collect: "map_of (hash_map_collect kvs) = map_of (rev kvs)"
proof -
  have "map_of (fold (\<lambda>(k, v). AList.update k v) kvs m) = map_of m ++ map_of (rev kvs)" for m
    by (induction kvs arbitrary: m) (auto simp: update_conv' map_add_def fun_eq_iff split: option.split)
  then show ?thesis by (simp add: hash_map_collect_def)
qed

lemma mapM_from_arrow:
  "length cs = length fs \<Longrightarrow>
   mapM (\<lambda>(i, array). rbind (index_vec (pre @ fs) i) (\<lambda>f. Ok (f_name f, Columnar array))) (enumerate (length pre) cs) =
     Ok (zip (map f_name fs) (map Columnar cs))"
proof (induction cs arbitrary: fs pre)
  case (Cons c cs)
  then obtain f fs' where fs: "fs = f # fs'" "length cs = length fs'" by (cases fs) auto
  from Cons.IH [OF fs(2), of "pre @ [f]"] show ?case by (simp add: fs index_vec_def)
qed simp

text \<open>A batch with distinct field names survives the conversion to a columnar batch and back.\<close>

lemma from_arrow_eq:
  assumes "length (rb_columns b) = length (rb_schema b)"
  shows "from_arrow b = Ok \<lparr>cb_schema = rb_schema b,
    cb_columns = hash_map_collect (zip (map f_name (rb_schema b)) (map Columnar (rb_columns b)))\<rparr>"
  by (simp add: from_arrow_def mapM_from_arrow [OF assms, where pre = "[]", simplified])

lemma mapM_lookup_columns:
  assumes "length cs = length fs" "distinct (map f_name fs)" "length ds = length gs" "distinct (map f_name (gs @ fs))"
    "map_of (cb_columns cb) = map_of (rev (zip (map f_name (gs @ fs)) (map Columnar (ds @ cs))))"
  shows "mapM (\<lambda>c. rbind (cb_column cb (f_name c)) (\<lambda>v. case v of Columnar array \<Rightarrow> Ok array
      | Scalar _ _ \<Rightarrow> Err (ballista_error ''Cannot convert scalar value to Arrow array''))) fs = Ok cs"
  using assms
proof (induction cs arbitrary: fs gs ds)
  case (Cons c cs)
  then obtain f fs' where fs: "fs = f # fs'" "length cs = length fs'" by (cases fs) auto
  have "map fst (zip (map f_name (gs @ fs)) (map Columnar (ds @ c # cs))) = map f_name (gs @ fs)"
    by (rule map_fst_zip) (use Cons.prems(1,3) in simp)
  then have dist: "distinct (map fst (rev (zip (map f_name (gs @ fs)) (map Columnar (ds @ c # cs)))))"
    using Cons.prems(4) by (simp only: rev_map [symmetric] distinct_rev)
  have "(f_name f, Columnar c) \<in> set (rev (zip (map f_name (gs @ fs)) (map Columnar (ds @ c # cs))))"
    using Cons.prems(3) by (simp add: fs)
  then have "cb_column cb (f_name f) = Ok (Columnar c)"
    unfolding cb_column_def Cons.prems(5) map_of_eq_Some_iff [OF dist, symmetric] by simp
  moreover from Cons.IH [where fs = fs' and gs = "gs @ [f]" and ds = "ds @ [c]"] Cons.prems
  have "mapM (\<lambda>c. rbind (cb_column cb (f_name c)) (\<lambda>v. case v of Columnar array \<Rightarrow> Ok array
      | Scalar _ _ \<Rightarrow> Err (ballista_error ''Cannot convert scalar value to Arrow array''))) fs' = Ok cs"
    by (simp add: fs)
  ultimately show ?case by (simp add: fs)
qed simp

lemma columnar_batch_roundtrip_lemma:
  assumes "length (rb_columns b) = length (rb_schema b)" "distinct (map f_name (rb_schema b))"
    and "aa_try_new_batch aa (rb_schema b) (rb_columns b) = Ok b"
  shows "rbind (from_arrow b) (cb_to_arrow aa) = Ok b"
proof -
  let ?cb = "\<lparr>cb_schema = rb_schema b, cb_columns = hash_map_collect (zip (map f_name (rb_schema b)) (map Columnar (rb_columns b)))\<rparr>"
  have "mapM (\<lambda>c. rbind (cb_column ?cb (f_name c)) (\<lambda>v. case v of Columnar array \<Rightarrow> Ok array
      | Scalar _ _ \<Rightarrow> Err (ballista_error ''Cannot convert scalar value to Arrow array''))) (rb_schema b) = Ok (rb_columns b)"
    by (rule mapM_lookup_columns [OF assms(1,2), where gs = "[]" and ds = "[]"]) (use assms in \<open>simp_all add: map_of_hash_map_collect\<close>)
  with assms show ?thesis by (simp add: from_arrow_eq cb_to_arrow_def)
qed

section \<open>Concrete arrays and a disk in memory\<close>

datatype plain_array = PA_UInt64 u64 | PA_String string | PA_Struct "field list" "plain_array list"

fun plain_type :: "plain_array \<Rightarrow> data_type" where
  "plain_type (PA_UInt64 _) = DT_UInt64"
| "plain_type (PA_String _) = DT_Utf8"
| "plain_type (PA_Struct fs _) = DT_Struct fs"

definition plain_arrays :: "plain_array arrow_arrays" where
  "plain_arrays = \<lparr>
     aa_data_type = plain_type,
     aa_len = (\<lambda>_. 1),
     aa_memory_size = (\<lambda>_. 8),
     aa_null_count = (\<lambda>_. 0),
     aa_uint64 = PA_UInt64,
     aa_string = PA_String,
     aa_struct = PA_Struct,
     aa_as_uint64 = (\<lambda>a. case a of PA_UInt64 v \<Rightarrow> Some (\<lambda>_. v) | _ \<Rightarrow> None),
     aa_as_string = (\<lambda>a. case a of PA_String s \<Rightarrow> Some (\<lambda>_. s) | _ \<Rightarrow> None),
     aa_is_struct = (\<lambda>a. case a of PA_Struct _ _ \<Rightarrow> True | _ \<Rightarrow> False),
     aa_column_by_name = (\<lambda>a n. case a of PA_Struct fs cs \<Rightarrow> map_of (zip (map f_name fs) cs) n | _ \<Rightarrow> None),
     aa_try_new_batch = (\<lambda>sch cs. if cs \<noteq> [] \<and> map plain_type cs = map f_data_type sch
       then Ok \<lparr>rb_schema = sch, rb_columns = cs, rb_num_rows = 1\<rparr> else Err ''column types must match schema types''),
     aa_scalar_array = (\<lambda>_ _. PA_UInt64 0)\<rparr>"

lemma plain_arrays_ok: "arrays_ok plain_arrays"
  by (auto simp: arrays_ok_def plain_arrays_def)

definition mem_disk :: "((string \<rightharpoonup> 'a ipc_file) \<times> string set, 'a) disk" where
  "mem_disk = \<lparr>
     dk_create_dir_all = (\<lambda>d (fs, ds). (Ok (), (fs, insert d ds))),
     dk_create = (\<lambda>p (fs, ds). (Ok (), (fs(p \<mapsto> F_Created), ds))),
     dk_try_new_writer = (\<lambda>p sch (fs, ds). (Ok (), (fs(p \<mapsto> F_Writing sch []), ds))),
     dk_write = (\<lambda>p b (fs, ds). case fs p of
         Some (F_Writing sch bs) \<Rightarrow> (Ok (), (fs(p \<mapsto> F_Writing sch (bs @ [b])), ds))
       | _ \<Rightarrow> (Err ''not open'', (fs, ds))),
     dk_finish = (\<lambda>p (fs, ds). case fs p of
         Some (F_Writing sch bs) \<Rightarrow> (Ok (), (fs(p \<mapsto> F_Finished sch bs), ds))
       | _ \<Rightarrow> (Err ''not open'', (fs, ds))),
     dk_open = (\<lambda>p (fs, ds). (if fs p = None then Err ''No such file or directory'' else Ok (), (fs, ds))),
     dk_try_new_reader = (\<lambda>p (fs, ds). case fs p of
         Some (F_Finished sch bs) \<Rightarrow> (Ok (sch, map Ok bs), (fs, ds))
       | _ \<Rightarrow> (Err ''no footer'', (fs, ds)))\<rparr>"

lemma mem_disk_ok: "disk_ok mem_disk fst snd"
  by (simp add: disk_ok_def mem_disk_def)

section \<open>Properties\<close>

text \<open>
  A stream over batches in memory ends and loses nothing: polling it until it answers \<open>None\<close>
  takes exactly one poll per batch and yields the batches in order, each with the columns of the
  projection when there is one.
\<close>

theorem memory_stream_drains:
  "\<exists>ms. MemoryStream_try_new data sch projection = Ok ms \<and>
     drain aa ms = map (project_batch aa sch projection) data \<and> length (drain aa ms) = length data"
  by (simp add: MemoryStream_try_new_def drain_from)

text \<open>
  C40. A record batch whose fields have different names is converted to a columnar batch and back to
  the same batch.
\<close>

theorem columnar_batch_roundtrip:
  assumes "length (rb_columns b) = length (rb_schema b)" "distinct (map f_name (rb_schema b))"
    and "aa_try_new_batch aa (rb_schema b) (rb_columns b) = Ok b"
  shows "rbind (from_arrow b) (cb_to_arrow aa) = Ok b"
  by (rule columnar_batch_roundtrip_lemma [OF assms])

theorem columnar_batch_roundtrip_witness:
  "rbind (from_arrow \<lparr>rb_schema = [MkField ''a'' DT_UInt64 False, MkField ''b'' DT_Utf8 False],
       rb_columns = [PA_UInt64 7, PA_String ''x''], rb_num_rows = 1\<rparr>) (cb_to_arrow plain_arrays) =
     Ok \<lparr>rb_schema = [MkField ''a'' DT_UInt64 False, MkField ''b'' DT_Utf8 False],
       rb_columns = [PA_UInt64 7, PA_String ''x''], rb_num_rows = 1\<rparr>"
  by (rule columnar_batch_roundtrip) (simp_all add: plain_arrays_def)

end
