(* ===== verification/Action_Serde.thy ===== *)
theory Action_Serde
  imports Scheduler_State Logical_Serde Core_Utils
begin

text \<open>
  Actions, the requests an executor serves: \<open>Action\<close> and \<open>ExecutePartition\<close> of
  \<open>core/src/serde/scheduler/mod.rs\<close>, their messages, the conversions of \<open>to_proto.rs\<close> and
  \<open>from_proto.rs\<close> beside it, and \<open>decode_protobuf\<close> of \<open>core/src/serde/mod.rs\<close>.
\<close>

section \<open>Actions and their messages\<close>

record execute_partition =
  ep_job_id :: string
  ep_stage_id :: nat
  ep_partition_id :: "nat list"
  ep_plan :: exec_plan
  ep_shuffle_locations :: "partition_id \<rightharpoonup> executor_meta"

datatype action = ExecutePartition execute_partition | FetchPartition partition_id

definition ExecutePartition_new ::
  "string \<Rightarrow> nat \<Rightarrow> nat list \<Rightarrow> exec_plan \<Rightarrow> (partition_id \<rightharpoonup> executor_meta) \<Rightarrow> execute_partition" where
  "ExecutePartition_new job_id stage_id partition_id plan shuffle_locations =
     \<lparr>ep_job_id = job_id, ep_stage_id = stage_id, ep_partition_id = partition_id, ep_plan = plan,
      ep_shuffle_locations = shuffle_locations\<rparr>"

definition ExecutePartition_key :: "execute_partition \<Rightarrow> string" where
  "ExecutePartition_key p =
     ep_job_id p @ ''.'' @ show_nat (ep_stage_id p) @ ''.'' @ debug_usizes (ep_partition_id p)"

record pb_execute_partition =
  pep_job_id :: string
  pep_stage_id :: u32
  pep_partition_id :: "u32 list"
  pep_plan :: "physical_plan_node option"
  pep_partition_location :: "pb_partition_location list"

datatype pb_action_type =
    AT_Query logical_plan_node
  | AT_ExecutePartition pb_execute_partition
  | AT_FetchPartition pb_partition_id

record pb_action =
  pa_action_type :: "pb_action_type option"
  pa_settings :: "(string \<times> string) list"

section \<open>Conversions\<close>

definition execute_partition_into :: "df_builders \<Rightarrow> execute_partition \<Rightarrow> pb_execute_partition bresult" where
  "execute_partition_into b p =
     rbind (plan_into b (ep_plan p)) (\<lambda>plan.
       Ok \<lparr>pep_job_id = ep_job_id p, pep_stage_id = usize_to_u32 (ep_stage_id p),
           pep_partition_id = map usize_to_u32 (ep_partition_id p), pep_plan = Some plan, pep_partition_location = []\<rparr>)"

fun action_into :: "df_builders \<Rightarrow> action \<Rightarrow> pb_action bresult" where
  "action_into b (ExecutePartition p) =
     rbind (execute_partition_into b p) (\<lambda>pb. Ok \<lparr>pa_action_type = Some (AT_ExecutePartition pb), pa_settings = []\<rparr>)"
| "action_into b (FetchPartition p) =
     Ok \<lparr>pa_action_type = Some (AT_FetchPartition (partition_id_to_pb p)), pa_settings = []\<rparr>"

definition action_try_into :: "df_ops \<Rightarrow> df_builders \<Rightarrow> pb_action \<Rightarrow> action bresult" where
  "action_try_into df b pb =
     (case pa_action_type pb of
        Some (AT_ExecutePartition p) \<Rightarrow>
          rbind (ok_or (pep_plan p) (General ''PhysicalPlanNode in ExecutePartition is missing'')) (\<lambda>node.
          rbind (plan_try_into df b node) (\<lambda>plan.
            Ok (ExecutePartition (ExecutePartition_new (pep_job_id p) (u32_to_usize (pep_stage_id p))
              (map u32_to_usize (pep_partition_id p)) plan Map.empty))))
      | Some (AT_FetchPartition p) \<Rightarrow> rbind (partition_id_from_pb p) (\<lambda>pid. Ok (FetchPartition pid))
      | _ \<Rightarrow> Err (General ''scheduler::from_proto(Action) invalid or missing action''))"

text \<open>\<open>serde::decode_protobuf\<close>: the bytes of a ticket as an action.\<close>

definition decode_action :: "df_ops \<Rightarrow> df_builders \<Rightarrow> (pb_action, 'b) codec \<Rightarrow> 'b list \<Rightarrow> action bresult" where
  "decode_action df b cd bytes =
     rbind (map_err Internal (cd_decode cd bytes)) (action_try_into df b)"

section \<open>Round trip\<close>

text \<open>Ids below \<open>2 ^ 32\<close>, a plan the protocol knows, and no shuffle locations, which are not sent.\<close>

fun action_ok :: "df_ops \<Rightarrow> df_builders \<Rightarrow> action \<Rightarrow> bool" where
  "action_ok df b (ExecutePartition p) \<longleftrightarrow>
     ep_stage_id p < 2 ^ 32 \<and> list_all (\<lambda>n. n < 2 ^ 32) (ep_partition_id p) \<and> plan_ok df b (ep_plan p) \<and>
     ep_shuffle_locations p = Map.empty"
| "action_ok df b (FetchPartition p) \<longleftrightarrow> pid_fits p"

lemma usizes_roundtrip: "list_all (\<lambda>n. n < 2 ^ 32) ns \<Longrightarrow> map u32_to_usize (map usize_to_u32 ns) = ns"
  by (induction ns) auto

lemma action_serde_helpers:
  assumes "unary_helpers (db_helpers b)"
  shows "serde (action_into b) (action_try_into df b) (action_ok df b)"
proof
  fix x assume ok: "action_ok df b x"
  show "\<exists>p. action_into b x = Ok p \<and> action_try_into df b p = Ok x"
  proof (cases x)
    case (ExecutePartition p)
    with ok obtain n where "plan_into b (ep_plan p) = Ok n" "plan_try_into df b n = Ok (ep_plan p)"
      using serde.roundtrip [OF plan_serde_helpers [OF assms], of df "ep_plan p"] by auto
    with ok ExecutePartition usizes_roundtrip [of "ep_partition_id p"] show ?thesis
      by (cases p) (auto simp: action_try_into_def execute_partition_into_def ExecutePartition_new_def)
  next
    case (FetchPartition p)
    with ok show ?thesis by (auto simp: action_try_into_def pid_serde.dec_enc)
  qed
qed

interpretation action_serde: serde "action_into plain_builders" "action_try_into df_plain plain_builders" "action_ok df_plain plain_builders"
  by (rule action_serde_helpers [OF plain_builders_helpers])

text \<open>The bytes of an encoded action decode to it.\<close>

lemma decode_encoded_action:
  assumes "unary_helpers (db_helpers b)" "codec_ok cd full" "action_ok df b a"
  shows "\<exists>pb bytes. action_into b a = Ok pb \<and> cd_encode cd pb = Ok bytes \<and> decode_action df b cd bytes = Ok a"
proof -
  obtain pb where pb: "action_into b a = Ok pb" "action_try_into df b pb = Ok a"
    using serde.roundtrip [OF action_serde_helpers [OF assms(1)] assms(3)] by blast
  obtain bytes where "cd_encode cd pb = Ok bytes" "cd_decode cd bytes = Ok pb"
    using assms(2) unfolding codec_ok_def by blast
  with pb show ?thesis by (simp add: decode_action_def)
qed

section \<open>Properties\<close>


definition action_codec :: "(pb_action, pb_action) codec" where
  "action_codec = \<lparr>cd_type_name = ''Action'', cd_encode = (\<lambda>a. Ok [a]),
     cd_decode = (\<lambda>bs. case bs of [a] \<Rightarrow> Ok a | _ \<Rightarrow> Err ''unexpected message'')\<rparr>"

lemma action_codec_ok: "codec_ok action_codec full"
  by (simp add: codec_ok_def action_codec_def)


end
