(* ===== verification/Flight.thy ===== *)
theory Flight
  imports Record_Batches Action_Serde
begin

text \<open>
  The data plane: \<open>BallistaFlightService\<close> of \<open>executor/src/flight_service.rs\<close>, which executes a
  partition of a plan and stores its output on disk, or serves a stored partition; and
  \<open>BallistaClient\<close> of \<open>core/src/client.rs\<close>, which calls it.

  The Flight encoding of schemas and batches, DataFusion's \<open>execute\<close> and the texts of library errors
  are in \<open>flight_env\<close>; \<open>flight_ok\<close> is what the code relies on.  The network between client and
  service is \<open>network\<close>.  The response stream of a request is the list of its messages.
\<close>

section \<open>Paths\<close>

text \<open>\<open>PathBuf::push\<close>: an absolute path replaces the whole path.\<close>

definition path_push :: "string \<Rightarrow> string \<Rightarrow> string" where
  "path_push base p =
     (if prefix ''/'' p then p
      else if base = [] \<or> last base = CHR ''/'' then base @ p
      else base @ ''/'' @ p)"

definition partition_dir :: "string \<Rightarrow> string \<Rightarrow> nat \<Rightarrow> nat \<Rightarrow> string" where
  "partition_dir work_dir job_id stage_id part =
     path_push (path_push (path_push work_dir job_id) (show_nat stage_id)) (show_nat part)"

definition partition_path :: "string \<Rightarrow> string \<Rightarrow> nat \<Rightarrow> nat \<Rightarrow> string" where
  "partition_path work_dir job_id stage_id part = path_push (partition_dir work_dir job_id stage_id part) ''data.arrow''"

lemma show_nat_relative [simp]: "\<not> prefix ''/'' (show_nat n)"
  using show_nat_no_slash [of n] by (cases "show_nat n") auto

lemma show_nat_last [simp]: "last (base @ show_nat n) \<noteq> CHR ''/''"
  by (metis last_appendR last_in_set show_nat_no_slash show_nat_nonempty)

lemma path_push_number: "\<exists>base'. path_push base (show_nat n) = base' @ show_nat n"
  by (auto simp: path_push_def)

lemma partition_dir_shape:
  "partition_dir work_dir job_id stage_id part = path_push (path_push work_dir job_id) (show_nat stage_id) @ ''/'' @ show_nat part"
proof -
  obtain base where base: "path_push (path_push work_dir job_id) (show_nat stage_id) = base @ show_nat stage_id"
    using path_push_number by blast
  have "path_push (base @ show_nat stage_id) (show_nat part) = (base @ show_nat stage_id) @ ''/'' @ show_nat part"
    unfolding path_push_def by (simp only: show_nat_relative show_nat_last) simp
  then show ?thesis by (simp only: partition_dir_def base)
qed

lemma partition_path_shape: "partition_path work_dir job_id stage_id part = partition_dir work_dir job_id stage_id part @ ''/data.arrow''"
proof -
  have "last (partition_dir work_dir job_id stage_id part) \<noteq> CHR ''/''" "partition_dir work_dir job_id stage_id part \<noteq> []"
    using show_nat_last [of "path_push (path_push work_dir job_id) (show_nat stage_id) @ ''/''" part]
    by (simp_all add: partition_dir_shape)
  then show ?thesis by (simp add: partition_path_def path_push_def)
qed

text \<open>Partitions of a stage are stored in different files.\<close>

lemma partition_path_inj [simp]:
  "partition_path work_dir job_id stage_id part = partition_path work_dir job_id stage_id part' \<longleftrightarrow> part = part'"
  by (simp add: partition_path_shape partition_dir_shape)

section \<open>The service\<close>

record ('s, 'a, 'f, 'b) flight_env =
  fe_df :: df_ops
  fe_builders :: df_builders
  fe_rendering :: rendering
  fe_arrays :: "'a arrow_arrays"
  fe_disk :: "('s, 'a) disk"
  fe_execute :: "exec_plan \<Rightarrow> nat \<Rightarrow> ('s, schema \<times> 'a batch_stream, string) io"
  fe_schema_data :: "schema \<Rightarrow> 'f"
  fe_batch_data :: "'a record_batch \<Rightarrow> 'f list \<times> 'f"
  fe_data_schema :: "'f \<Rightarrow> (schema, string) result"
  fe_data_batch :: "'f \<Rightarrow> schema \<Rightarrow> ('a record_batch, string) result"
  fe_action :: "(pb_action, 'b) codec"
  fe_debug_error :: "BallistaError \<Rightarrow> string"
  fe_debug_df :: "string \<Rightarrow> string"
  fe_debug_arrow :: "string \<Rightarrow> string"
  fe_debug_join :: "string \<Rightarrow> string"
  fe_debug_status :: "tonic_status \<Rightarrow> string"

definition from_arrow_err :: "('s, 'a, 'f, 'b) flight_env \<Rightarrow> string \<Rightarrow> tonic_status" where
  "from_arrow_err fe e = St_Internal (''ArrowError: '' @ fe_debug_arrow fe e)"

definition from_ballista_err :: "('s, 'a, 'f, 'b) flight_env \<Rightarrow> BallistaError \<Rightarrow> tonic_status" where
  "from_ballista_err fe e = St_Internal (''Ballista Error: '' @ fe_debug_error fe e)"

definition from_datafusion_err :: "('s, 'a, 'f, 'b) flight_env \<Rightarrow> string \<Rightarrow> tonic_status" where
  "from_datafusion_err fe e = St_Internal (''DataFusion Error: '' @ fe_debug_df fe e)"

text \<open>The messages of one batch: its dictionaries, then the batch.\<close>

definition create_flight_iter :: "('s, 'a, 'f, 'b) flight_env \<Rightarrow> 'a record_batch \<Rightarrow> 'f list" where
  "create_flight_iter fe batch = (case fe_batch_data fe batch of (dictionaries, data) \<Rightarrow> dictionaries @ [data])"

definition summary_schema :: schema where
  "summary_schema = [MkField ''path'' DT_Utf8 False, arrow_struct_repr]"

text \<open>The task spawned for one partition: execute it, store the output, summarise it in one row.\<close>

definition execute_one ::
  "('s, 'a, 'f, 'b) flight_env \<Rightarrow> string \<Rightarrow> execute_partition \<Rightarrow> nat \<Rightarrow> ('s, 'f list, BallistaError) io" where
  "execute_one fe work_dir ep part =
     (let dir = partition_dir work_dir (ep_job_id ep) (ep_stage_id ep) part;
          path = path_push dir ''data.arrow''
      in sbind (smap_err IoError (dk_create_dir_all (fe_disk fe) dir)) (\<lambda>_.
         sbind (smap_err (\<lambda>e. GrpcError (fe_debug_status fe (from_datafusion_err fe e))) (fe_execute fe (ep_plan ep) part)) (\<lambda>(sch, stream).
         sbind (smap_err (\<lambda>e. GrpcError (fe_debug_status fe (from_ballista_err fe e)))
                  (write_stream_to_disk (fe_arrays fe) (fe_disk fe) sch stream path)) (\<lambda>stats.
         sbind (slift (unwrap_result (aa_try_new_batch (fe_arrays fe) summary_schema
                  [aa_string (fe_arrays fe) path, to_arrow_arrayref (fe_arrays fe) stats]))) (\<lambda>batch.
           sret (create_flight_iter fe batch))))))"

text \<open>
  \<open>join_all\<close> over the spawned tasks: every one of them is run to its end, and a panic in one is a
  \<open>JoinError\<close>.  The tasks work on different files, so they are run in the order of the partitions.
\<close>

fun run_tasks :: "(nat \<Rightarrow> ('s, 'x, BallistaError) io) \<Rightarrow> nat list \<Rightarrow> 's \<Rightarrow> ('x, BallistaError) result list \<times> 's" where
  "run_tasks c [] s = ([], s)"
| "run_tasks c (p # ps) s =
     (case c p s of (r, s') \<Rightarrow> case run_tasks c ps s' of (rs, s'') \<Rightarrow> (r # rs, s''))"

fun joined :: "('s, 'a, 'f, 'b) flight_env \<Rightarrow> ('x, BallistaError) result \<Rightarrow> ('x, tonic_status) result" where
  "joined fe (Ok x) = Ok x"
| "joined fe (Err e) = Err (from_ballista_err fe e)"
| "joined fe (Panic p) = Err (St_Internal (''Ballista Error: '' @ fe_debug_join fe p))"

text \<open>
  \<open>stream_flight_data\<close>: the messages it sends and how it ends.  It ends at the first batch that
  cannot be read; its result is only logged.
\<close>

fun stream_batches :: "('s, 'a, 'f, 'b) flight_env \<Rightarrow> 'a batch_stream \<Rightarrow> 'f list \<times> (unit, tonic_status) result" where
  "stream_batches fe [] = ([], Ok ())"
| "stream_batches fe (item # reader) =
     (case item of
        Ok batch \<Rightarrow> (case stream_batches fe reader of (msgs, r) \<Rightarrow> (create_flight_iter fe batch @ msgs, r))
      | Err e \<Rightarrow> ([], Err (from_arrow_err fe e))
      | Panic p \<Rightarrow> ([], Panic p))"

definition stream_flight_data ::
  "('s, 'a, 'f, 'b) flight_env \<Rightarrow> schema \<Rightarrow> 'a batch_stream \<Rightarrow> 'f list \<times> (unit, tonic_status) result" where
  "stream_flight_data fe sch reader =
     (case stream_batches fe reader of (msgs, r) \<Rightarrow> (fe_schema_data fe sch # msgs, r))"

definition do_get_execute ::
  "('s, 'a, 'f, 'b) flight_env \<Rightarrow> string \<Rightarrow> execute_partition \<Rightarrow> ('s, ('f, tonic_status) result list, tonic_status) io" where
  "do_get_execute fe work_dir ep =
     sbind (slift (map_err (from_ballista_err fe) (log_plan (fe_df fe) (fe_rendering fe) (ep_plan ep)))) (\<lambda>_ s.
       case run_tasks (execute_one fe work_dir ep) (ep_partition_id ep) s of (results, s') \<Rightarrow>
         (rbind (mapM (joined fe) results) (\<lambda>batches.
            Ok (map Ok (fe_schema_data fe summary_schema # concat batches))), s'))"

definition do_get_fetch ::
  "('s, 'a, 'f, 'b) flight_env \<Rightarrow> string \<Rightarrow> partition_id \<Rightarrow> ('s, ('f, tonic_status) result list, tonic_status) io" where
  "do_get_fetch fe work_dir pid =
     (let path = partition_path work_dir (pid_job pid) (pid_stage pid) (pid_partition pid)
      in sbind (smap_err (\<lambda>e. from_ballista_err fe (General (''Failed to open partition file at '' @ path @ '': '' @ e)))
                  (dk_open (fe_disk fe) path)) (\<lambda>_.
         sbind (smap_err (from_arrow_err fe) (dk_try_new_reader (fe_disk fe) path)) (\<lambda>(sch, reader).
           sret (map Ok (fst (stream_flight_data fe sch reader))))))"

definition do_get ::
  "('s, 'a, 'f, 'b) flight_env \<Rightarrow> string \<Rightarrow> 'b list \<Rightarrow> ('s, ('f, tonic_status) result list, tonic_status) io" where
  "do_get fe work_dir ticket =
     sbind (slift (map_err (from_ballista_err fe) (decode_action (fe_df fe) (fe_builders fe) (fe_action fe) ticket))) (\<lambda>action.
       case action of
         ExecutePartition ep \<Rightarrow> do_get_execute fe work_dir ep
       | FetchPartition pid \<Rightarrow> do_get_fetch fe work_dir pid)"

text \<open>The other methods of the service.\<close>

definition get_schema :: "(unit, tonic_status) result" where
  "get_schema = Err (St_Unimplemented ''get_schema'')"

definition get_flight_info :: "(unit, tonic_status) result" where
  "get_flight_info = Err (St_Unimplemented ''get_flight_info'')"

definition handshake :: "(unit, tonic_status) result" where
  "handshake = Err (St_Unimplemented ''handshake'')"

definition list_flights :: "(unit, tonic_status) result" where
  "list_flights = Err (St_Unimplemented ''list_flights'')"

fun do_put :: "('f, tonic_status) result list \<Rightarrow> (unit, tonic_status) result" where
  "do_put [] = Err (St_Unimplemented ''do_put'')"
| "do_put (data # request) = rbind data (\<lambda>_. do_put request)"

definition do_action :: "('s, 'a, 'f, 'b) flight_env \<Rightarrow> 'b list \<Rightarrow> (unit, tonic_status) result" where
  "do_action fe body =
     rbind (map_err (from_ballista_err fe) (decode_action (fe_df fe) (fe_builders fe) (fe_action fe) body)) (\<lambda>_.
       Err (St_Unimplemented ''do_action''))"

definition list_actions :: "(unit, tonic_status) result" where
  "list_actions = Err (St_Unimplemented ''list_actions'')"

definition do_exchange :: "(unit, tonic_status) result" where
  "do_exchange = Err (St_Unimplemented ''do_exchange'')"

section \<open>BallistaClient\<close>

record ('s, 'f, 'b) network =
  nw_connect :: "string \<Rightarrow> ('s, unit, string) io"
  nw_do_get :: "string \<Rightarrow> 'b list \<Rightarrow> ('s, ('f, tonic_status) result list, tonic_status) io"

record ballista_client =
  bc_addr :: string

definition client_addr :: "string \<Rightarrow> u16 \<Rightarrow> string" where
  "client_addr host port = ''http://'' @ host @ '':'' @ show_nat (unat port)"

definition BallistaClient_try_new :: "('s, 'f, 'b) network \<Rightarrow> string \<Rightarrow> u16 \<Rightarrow> ('s, ballista_client, BallistaError) io" where
  "BallistaClient_try_new nw host port =
     sbind (smap_err (\<lambda>e. General (''Error connecting to Ballista scheduler or executor at '' @ client_addr host port @ '': '' @ e))
              (nw_connect nw (client_addr host port))) (\<lambda>_.
       sret \<lparr>bc_addr = client_addr host port\<rparr>)"

text \<open>An item of \<open>FlightDataStream\<close>: a batch message decoded with the stream's schema.\<close>

definition flight_stream_item ::
  "('s, 'a, 'f, 'b) flight_env \<Rightarrow> schema \<Rightarrow> ('f, tonic_status) result \<Rightarrow> ('a record_batch, string) result" where
  "flight_stream_item fe sch item = rbind (map_err (fe_debug_status fe) item) (\<lambda>data. fe_data_batch fe data sch)"

definition execute_action ::
  "('s, 'a, 'f, 'b) flight_env \<Rightarrow> ('s, 'f, 'b) network \<Rightarrow> ballista_client \<Rightarrow> action
    \<Rightarrow> ('s, schema \<times> 'a batch_stream, BallistaError) io" where
  "execute_action fe nw client action =
     sbind (slift (action_into (fe_builders fe) action)) (\<lambda>serialized_action.
     sbind (slift (map_err General (cd_encode (fe_action fe) serialized_action))) (\<lambda>buf.
     sbind (smap_err (\<lambda>e. General (fe_debug_status fe e)) (nw_do_get nw (bc_addr client) buf)) (\<lambda>messages.
       slift (case messages of
           [] \<Rightarrow> Err (ballista_error ''Did not receive schema batch from flight server'')
         | message # stream \<Rightarrow>
             rbind (map_err (\<lambda>e. General (fe_debug_status fe e)) message) (\<lambda>data.
             rbind (map_err ArrowError (fe_data_schema fe data)) (\<lambda>sch.
               Ok (sch, map (flight_stream_item fe sch) stream)))))))"

definition fetch_partition ::
  "('s, 'a, 'f, 'b) flight_env \<Rightarrow> ('s, 'f, 'b) network \<Rightarrow> ballista_client \<Rightarrow> string \<Rightarrow> nat \<Rightarrow> nat
    \<Rightarrow> ('s, schema \<times> 'a batch_stream, BallistaError) io" where
  "fetch_partition fe nw client job_id stage_id part =
     execute_action fe nw client (FetchPartition (PartitionId_new job_id stage_id part))"

record execute_partition_result =
  epr_path :: string
  epr_stats :: partition_stats

text \<open>\<open>datafusion::physical_plan::common::collect\<close>\<close>

definition df_collect :: "'a batch_stream \<Rightarrow> ('a record_batch list, string) result" where
  "df_collect stream = mapM (\<lambda>item. item) stream"

lemma df_collect_Ok [simp]: "df_collect (map Ok bs) = Ok bs"
  by (induction bs) (simp_all add: df_collect_def)

definition partition_result ::
  "('s, 'a, 'f, 'b) flight_env \<Rightarrow> 'a record_batch \<Rightarrow> execute_partition_result bresult" where
  "partition_result fe batch =
     (if rb_num_rows batch \<noteq> 1 then Err (General ''execute_partition received wrong number of rows'')
      else
        rbind (index_vec (rb_columns batch) 0) (\<lambda>c0.
        rbind (expect ''execute_partition expected column 0 to be a StringArray'' (aa_as_string (fe_arrays fe) c0)) (\<lambda>path.
        rbind (index_vec (rb_columns batch) 1) (\<lambda>c1.
        rbind (expect ''execute_partition expected column 1 to be a StructArray''
                 (if aa_is_struct (fe_arrays fe) c1 then Some c1 else None)) (\<lambda>stats.
        rbind (from_arrow_struct_array (fe_arrays fe) stats) (\<lambda>st.
          Ok \<lparr>epr_path = path 0, epr_stats = st\<rparr>))))))"

definition client_execute_partition ::
  "('s, 'a, 'f, 'b) flight_env \<Rightarrow> ('s, 'f, 'b) network \<Rightarrow> ballista_client \<Rightarrow> string \<Rightarrow> nat \<Rightarrow> nat list \<Rightarrow> exec_plan
    \<Rightarrow> ('s, execute_partition_result list, BallistaError) io" where
  "client_execute_partition fe nw client job_id stage_id partition_id plan =
     sbind (execute_action fe nw client (ExecutePartition
         \<lparr>ep_job_id = job_id, ep_stage_id = stage_id, ep_partition_id = partition_id, ep_plan = plan,
          ep_shuffle_locations = Map.empty\<rparr>)) (\<lambda>(_, stream).
     sbind (slift (map_err DataFusionError (df_collect stream))) (\<lambda>batches.
       slift (mapM (partition_result fe) batches)))"

section \<open>What the client and the service promise together\<close>

text \<open>A schema without dictionary-encoded columns; the client passes no dictionaries to the decoder.\<close>

definition dict_free :: "schema \<Rightarrow> bool" where
  "dict_free sch \<longleftrightarrow> (\<forall>f \<in> set sch. \<forall>k v. f_data_type f \<noteq> DT_Dictionary k v)"

definition flight_ok :: "('s, 'a, 'f, 'b) flight_env \<Rightarrow> bool" where
  "flight_ok fe \<longleftrightarrow>
     arrays_ok (fe_arrays fe) \<and> unary_helpers (db_helpers (fe_builders fe)) \<and> codec_ok (fe_action fe) (\<lambda>_. False) \<and>
     (\<forall>sch. fe_data_schema fe (fe_schema_data fe sch) = Ok sch) \<and>
     (\<forall>b. dict_free (rb_schema b) \<longrightarrow>
        fst (fe_batch_data fe b) = [] \<and> fe_data_batch fe (snd (fe_batch_data fe b)) (rb_schema b) = Ok b)"

lemma flight_batch:
  "flight_ok fe \<Longrightarrow> dict_free (rb_schema b) \<Longrightarrow>
   \<exists>data. create_flight_iter fe b = [data] \<and> fe_data_batch fe data (rb_schema b) = Ok b"
  unfolding flight_ok_def create_flight_iter_def by (cases "fe_batch_data fe b") fastforce

lemma flight_schema: "flight_ok fe \<Longrightarrow> fe_data_schema fe (fe_schema_data fe sch) = Ok sch"
  by (simp add: flight_ok_def)

text \<open>The messages of a list of batches, as the client decodes them.\<close>

lemma stream_batches_decoded:
  assumes "flight_ok fe" "dict_free sch" "\<forall>b \<in> set bs. rb_schema b = sch" "\<forall>item \<in> set (take 1 rest). \<forall>b. item \<noteq> Ok b"
  shows "\<exists>msgs r. stream_batches fe (map Ok bs @ rest) = (msgs, r) \<and> map (flight_stream_item fe sch) (map Ok msgs) = map Ok bs"
  using assms(3)
proof (induction bs)
  case Nil
  from assms(4) show ?case by (cases rest) (auto split: result.splits)
next
  case (Cons b bs)
  then obtain msgs r where "stream_batches fe (map Ok bs @ rest) = (msgs, r)" "map (flight_stream_item fe sch) (map Ok msgs) = map Ok bs"
    by auto
  moreover from Cons.prems flight_batch [OF assms(1), of b] assms(2)
  obtain data where "create_flight_iter fe b = [data]" "fe_data_batch fe data sch = Ok b" by auto
  then have "create_flight_iter fe b = [data]" "flight_stream_item fe sch (Ok data) = Ok b" by (simp_all add: flight_stream_item_def)
  ultimately show ?case by simp
qed

text \<open>A network that delivers what is sent to an address to the service there.\<close>

definition serves :: "('s, 'a, 'f, 'b) flight_env \<Rightarrow> ('s, 'f, 'b) network \<Rightarrow> string \<Rightarrow> string \<Rightarrow> bool" where
  "serves fe nw addr work_dir \<longleftrightarrow> nw_do_get nw addr = do_get fe work_dir"

lemma execute_action_served:
  assumes fe: "flight_ok fe" and nw: "serves fe nw (bc_addr client) work_dir" and a: "action_ok (fe_df fe) (fe_builders fe) a"
  shows "execute_action fe nw client a =
    sbind (smap_err (\<lambda>e. General (fe_debug_status fe e))
        (case a of ExecutePartition ep \<Rightarrow> do_get_execute fe work_dir ep | FetchPartition pid \<Rightarrow> do_get_fetch fe work_dir pid)) (\<lambda>messages.
      slift (case messages of
          [] \<Rightarrow> Err (ballista_error ''Did not receive schema batch from flight server'')
        | message # stream \<Rightarrow>
            rbind (map_err (\<lambda>e. General (fe_debug_status fe e)) message) (\<lambda>data.
            rbind (map_err ArrowError (fe_data_schema fe data)) (\<lambda>sch.
              Ok (sch, map (flight_stream_item fe sch) stream)))))"
proof -
  obtain pb bytes where "action_into (fe_builders fe) a = Ok pb" "cd_encode (fe_action fe) pb = Ok bytes"
      "decode_action (fe_df fe) (fe_builders fe) (fe_action fe) bytes = Ok a"
    using decode_encoded_action [of "fe_builders fe" "fe_action fe" _ "fe_df fe" a] fe a by (metis flight_ok_def)
  then show ?thesis using nw by (simp add: execute_action_def serves_def do_get_def)
qed

text \<open>Fetching a stored partition gives the batches up to the first one that cannot be read.\<close>

lemma fetch_partition_prefix:
  assumes fe: "flight_ok fe" and nw: "serves fe nw (bc_addr client) work_dir"
    and fits: "stage < 2 ^ 32" "part < 2 ^ 32" and sch: "dict_free sch" "\<forall>b \<in> set bs. rb_schema b = sch"
    and fin: "dk_open (fe_disk fe) (partition_path work_dir job stage part) s = (Ok (), s)"
      "dk_try_new_reader (fe_disk fe) (partition_path work_dir job stage part) s = (Ok (sch, map Ok bs @ rest), s)"
    and rest: "\<forall>item \<in> set (take 1 rest). \<forall>b. item \<noteq> Ok b"
  shows "fetch_partition fe nw client job stage part s = (Ok (sch, map Ok bs), s)"
proof -
  let ?pid = "PartitionId_new job stage part"
  have a: "action_ok (fe_df fe) (fe_builders fe) (FetchPartition ?pid)"
    using fits by (simp add: pid_fits_def PartitionId_new_def)
  obtain msgs r where msgs: "stream_batches fe (map Ok bs @ rest) = (msgs, r)" "map (flight_stream_item fe sch) (map Ok msgs) = map Ok bs"
    using stream_batches_decoded [OF fe sch rest] by blast
  have "do_get_fetch fe work_dir ?pid s = (Ok (map Ok (fe_schema_data fe sch # msgs)), s)"
    using fin msgs(1)
    by (simp add: do_get_fetch_def Let_def PartitionId_new_def sbind_def smap_err_def sret_def stream_flight_data_def)
  with msgs(2) flight_schema [OF fe] show ?thesis
    by (simp add: fetch_partition_def execute_action_served [OF fe nw a] sbind_def smap_err_def slift_def comp_def)
qed

lemma fetch_partition_ok:
  assumes "flight_ok fe" "serves fe nw (bc_addr client) work_dir" and dk: "disk_ok (fe_disk fe) files dirs"
    and "stage < 2 ^ 32" "part < 2 ^ 32" "dict_free sch" "\<forall>b \<in> set bs. rb_schema b = sch"
    and fin: "files s (partition_path work_dir job stage part) = Some (F_Finished sch bs)"
  shows "fetch_partition fe nw client job stage part s = (Ok (sch, map Ok bs), s)"
  using fetch_partition_prefix [where rest = "[]", OF assms(1,2,4-7)] disk_read [OF dk fin] by simp

text \<open>One partition executed: its output is on disk and its summary is one message.\<close>

lemma execute_one_ok:
  fixes work_dir :: string
  assumes fe: "flight_ok fe" and dk: "disk_ok (fe_disk fe) files dirs"
    and run: "\<forall>s. fe_execute fe (ep_plan ep) part s = (Ok (sch, map Ok bs), s)" and sch: "\<forall>b \<in> set bs. rb_schema b = sch"
  defines "path \<equiv> partition_path work_dir (ep_job_id ep) (ep_stage_id ep) part"
    and "stats \<equiv> stats_of_counters (batch_totals (fe_arrays fe) bs)"
  shows "\<exists>data s' batch. execute_one fe work_dir ep part s = (Ok [data], s') \<and>
    files s' = (files s)(path \<mapsto> F_Finished sch bs) \<and>
    fe_data_batch fe data summary_schema = Ok batch \<and> partition_result fe batch = Ok \<lparr>epr_path = path, epr_stats = stats\<rparr>"
proof -
  let ?dir = "partition_dir work_dir (ep_job_id ep) (ep_stage_id ep) part" and ?aa = "fe_arrays fe"
  have aa: "arrays_ok ?aa" using fe by (simp add: flight_ok_def)
  have path: "path = ?dir @ ''/'' @ ''data.arrow''" "path_push ?dir ''data.arrow'' = path"
    by (simp_all add: path_def partition_path_shape) (simp add: partition_path_def [symmetric] partition_path_shape)
  obtain s1 where s1: "dk_create_dir_all (fe_disk fe) ?dir s = (Ok (), s1)" "files s1 = files s" "dirs s1 = insert ?dir (dirs s)"
    using disk_create_dir_all [OF dk] by blast
  obtain s2 where s2: "write_stream_to_disk ?aa (fe_disk fe) sch (map Ok bs) path s1 = (Ok stats, s2)"
      "files s2 = (files s1)(path \<mapsto> F_Finished sch bs)"
    using write_stream_to_disk_ok [OF dk _ _ sch, of ?dir s1 "''data.arrow''" ?aa] s1(3) by (auto simp: path(1) stats_def)
  let ?cs = "[aa_string ?aa path, to_arrow_arrayref ?aa stats]"
  let ?batch = "\<lparr>rb_schema = summary_schema, rb_columns = ?cs, rb_num_rows = 1\<rparr>"
  have batch: "aa_try_new_batch ?aa summary_schema ?cs = Ok ?batch"
    by (rule arrays_batch [OF aa]) (simp_all add: summary_schema_def arrow_struct_repr_def arrays_string [OF aa] stats_array [OF aa])
  have "dict_free summary_schema" by (simp add: dict_free_def summary_schema_def arrow_struct_repr_def)
  then obtain data where data: "create_flight_iter fe ?batch = [data]" "fe_data_batch fe data summary_schema = Ok ?batch"
    using flight_batch [OF fe, of ?batch] by auto
  obtain f where "aa_as_string ?aa (aa_string ?aa path) = Some f" "f 0 = path" using arrays_string(3) [OF aa] by blast
  then have "partition_result fe ?batch = Ok \<lparr>epr_path = path, epr_stats = stats\<rparr>"
    by (simp add: partition_result_def index_vec_def stats_array [OF aa])
  moreover have "execute_one fe work_dir ep part s = (Ok [data], s2)"
    using run s1(1) s2(1) batch data(1) by (simp add: execute_one_def Let_def path(2) sbind_def smap_err_def slift_def sret_def)
  ultimately show ?thesis using data(2) s1(2) s2(2) by auto
qed

text \<open>Partitions executed one after the other, none of them twice.\<close>

lemma run_tasks_ok:
  fixes work_dir :: string
  assumes fe: "flight_ok fe" and dk: "disk_ok (fe_disk fe) files dirs"
    and run: "\<forall>p \<in> set parts. \<forall>s. fe_execute fe (ep_plan ep) p s = (Ok (sch, map Ok (out p)), s)"
    and sch: "\<forall>p \<in> set parts. \<forall>b \<in> set (out p). rb_schema b = sch" and dist: "distinct parts"
  defines "path \<equiv> partition_path work_dir (ep_job_id ep) (ep_stage_id ep)"
  shows "\<exists>datas s' batches. run_tasks (execute_one fe work_dir ep) parts s = (map (\<lambda>d. Ok [d]) datas, s') \<and>
    (\<forall>p \<in> set parts. files s' (path p) = Some (F_Finished sch (out p))) \<and>
    (\<forall>q. q \<notin> path ` set parts \<longrightarrow> files s' q = files s q) \<and>
    map (\<lambda>d. fe_data_batch fe d summary_schema) datas = map Ok batches \<and>
    mapM (partition_result fe) batches =
      Ok (map (\<lambda>p. \<lparr>epr_path = path p, epr_stats = stats_of_counters (batch_totals (fe_arrays fe) (out p))\<rparr>) parts)"
  using run sch dist
proof (induction parts arbitrary: s)
  case (Cons p parts)
  obtain data s1 batch where 1: "execute_one fe work_dir ep p s = (Ok [data], s1)" "files s1 = (files s)(path p \<mapsto> F_Finished sch (out p))"
      "fe_data_batch fe data summary_schema = Ok batch"
      "partition_result fe batch = Ok \<lparr>epr_path = path p, epr_stats = stats_of_counters (batch_totals (fe_arrays fe) (out p))\<rparr>"
    using execute_one_ok [OF fe dk, where ep = ep and part = p and sch = sch and bs = "out p" and work_dir = work_dir and s = s] Cons.prems
    by (auto simp: path_def)
  obtain datas s2 batches where 2: "run_tasks (execute_one fe work_dir ep) parts s1 = (map (\<lambda>d. Ok [d]) datas, s2)"
      "\<forall>p \<in> set parts. files s2 (path p) = Some (F_Finished sch (out p))" "\<forall>q. q \<notin> path ` set parts \<longrightarrow> files s2 q = files s1 q"
      "map (\<lambda>d. fe_data_batch fe d summary_schema) datas = map Ok batches"
      "mapM (partition_result fe) batches =
        Ok (map (\<lambda>p. \<lparr>epr_path = path p, epr_stats = stats_of_counters (batch_totals (fe_arrays fe) (out p))\<rparr>) parts)"
    using Cons.IH [of s1] Cons.prems by auto
  have "path p \<notin> path ` set parts" using Cons.prems(3) by (auto simp: path_def)
  then have "files s2 (path p) = Some (F_Finished sch (out p))" using 1(2) 2(3) by simp
  with 1 2 show ?case
    by (intro exI [of _ "data # datas"] exI [of _ s2] exI [of _ "batch # batches"]) auto
qed simp

lemma client_execute_partition_ok:
  assumes fe: "flight_ok fe" and nw: "serves fe nw (bc_addr client) work_dir" and dk: "disk_ok (fe_disk fe) files dirs"
    and quiet: "\<not> rd_log_info (fe_rendering fe)"
    and fits: "stage < 2 ^ 32" "\<forall>p \<in> set parts. p < 2 ^ 32" "plan_ok (fe_df fe) (fe_builders fe) plan"
    and run: "\<forall>p \<in> set parts. \<forall>s. fe_execute fe plan p s = (Ok (sch, map Ok (out p)), s)"
    and sch: "\<forall>p \<in> set parts. \<forall>b \<in> set (out p). rb_schema b = sch" and dist: "distinct parts"
  shows "\<exists>s'. client_execute_partition fe nw client job stage parts plan s =
      (Ok (map (\<lambda>p. \<lparr>epr_path = partition_path work_dir job stage p,
          epr_stats = stats_of_counters (batch_totals (fe_arrays fe) (out p))\<rparr>) parts), s') \<and>
    (\<forall>p \<in> set parts. files s' (partition_path work_dir job stage p) = Some (F_Finished sch (out p)))"
proof -
  let ?ep = "\<lparr>ep_job_id = job, ep_stage_id = stage, ep_partition_id = parts, ep_plan = plan, ep_shuffle_locations = Map.empty\<rparr>"
  have a: "action_ok (fe_df fe) (fe_builders fe) (ExecutePartition ?ep)" using fits by (simp add: list_all_iff)
  from run have run': "\<forall>p \<in> set parts. \<forall>s. fe_execute fe (ep_plan ?ep) p s = (Ok (sch, map Ok (out p)), s)" by simp
  obtain datas s' batches where r: "run_tasks (execute_one fe work_dir ?ep) parts s = (map (\<lambda>d. Ok [d]) datas, s')"
      "\<forall>p \<in> set parts. files s' (partition_path work_dir job stage p) = Some (F_Finished sch (out p))"
      "map (\<lambda>d. fe_data_batch fe d summary_schema) datas = map Ok batches"
      "mapM (partition_result fe) batches =
        Ok (map (\<lambda>p. \<lparr>epr_path = partition_path work_dir job stage p, epr_stats = stats_of_counters (batch_totals (fe_arrays fe) (out p))\<rparr>) parts)"
    using run_tasks_ok [OF fe dk run' sch dist, of work_dir s] by auto
  have join: "mapM (joined fe) (map (\<lambda>d. Ok [d]) ds) = Ok (map (\<lambda>d. [d]) ds)" for ds :: "'c list" by (induction ds) simp_all
  have one: "concat (map (\<lambda>d. [d]) ds) = ds" for ds :: "'c list" by (induction ds) simp_all
  have "do_get_execute fe work_dir ?ep s = (Ok (map Ok (fe_schema_data fe summary_schema # datas)), s')"
    using quiet r(1) by (simp add: do_get_execute_def join one)
  then have act: "execute_action fe nw client (ExecutePartition ?ep) s = (Ok (summary_schema, map Ok batches), s')"
    using r(3) flight_schema [OF fe]
    by (simp add: execute_action_served [OF fe nw a] sbind_def smap_err_def slift_def flight_stream_item_def comp_def)
  with act r(2,4) show ?thesis by (simp add: client_execute_partition_def sbind_def slift_def)
qed

section \<open>Properties\<close>

text \<open>A concrete service: batches are their own messages, every plan yields one batch.\<close>

definition example_batch :: "nat \<Rightarrow> plain_array record_batch" where
  "example_batch p = \<lparr>rb_schema = [MkField ''v'' DT_UInt64 False], rb_columns = [PA_UInt64 (word_of_nat p)], rb_num_rows = 1\<rparr>"

definition quiet_rendering :: rendering where
  "quiet_rendering = \<lparr>rd_debug_plan = (\<lambda>_. []), rd_debug_strings = (\<lambda>_. []), rd_debug_join_type = (\<lambda>_. []),
     rd_debug_on = (\<lambda>_. []), rd_display_expr = (\<lambda>_. []), rd_display_op = (\<lambda>_. []), rd_log_info = False, rd_log_debug = False\<rparr>"

definition example_flight ::
  "((string \<rightharpoonup> plain_array ipc_file) \<times> string set, plain_array, schema + plain_array record_batch, pb_action) flight_env" where
  "example_flight = \<lparr>
     fe_df = df_plain, fe_builders = plain_builders, fe_rendering = quiet_rendering,
     fe_arrays = plain_arrays, fe_disk = mem_disk,
     fe_execute = (\<lambda>_ p s. (Ok ([MkField ''v'' DT_UInt64 False], [Ok (example_batch p)]), s)),
     fe_schema_data = Inl, fe_batch_data = (\<lambda>b. ([], Inr b)),
     fe_data_schema = (\<lambda>d. case d of Inl sch \<Rightarrow> Ok sch | Inr _ \<Rightarrow> Err ''not a schema''),
     fe_data_batch = (\<lambda>d _. case d of Inr b \<Rightarrow> Ok b | Inl _ \<Rightarrow> Err ''not a batch''),
     fe_action = action_codec, fe_debug_error = (\<lambda>_. ''error''), fe_debug_df = (\<lambda>e. e), fe_debug_arrow = (\<lambda>e. e),
     fe_debug_join = (\<lambda>e. e), fe_debug_status = (\<lambda>_. ''status'')\<rparr>"

definition example_network ::
  "((string \<rightharpoonup> plain_array ipc_file) \<times> string set, schema + plain_array record_batch, pb_action) network" where
  "example_network = \<lparr>nw_connect = (\<lambda>_ s. (Ok (), s)), nw_do_get = (\<lambda>_. do_get example_flight ''/work'')\<rparr>"

text \<open>The same service over a disk whose files end in a batch that cannot be read.\<close>

definition broken_flight ::
  "((string \<rightharpoonup> plain_array ipc_file) \<times> string set, plain_array, schema + plain_array record_batch, pb_action) flight_env" where
  "broken_flight = example_flight\<lparr>fe_disk := mem_disk\<lparr>dk_open := \<lambda>_ s. (Ok (), s),
     dk_try_new_reader := \<lambda>_ s. (Ok ([MkField ''v'' DT_UInt64 False], [Ok (example_batch 0), Err ''truncated file'']), s)\<rparr>\<rparr>"

definition broken_network ::
  "((string \<rightharpoonup> plain_array ipc_file) \<times> string set, schema + plain_array record_batch, pb_action) network" where
  "broken_network = \<lparr>nw_connect = (\<lambda>_ s. (Ok (), s)), nw_do_get = (\<lambda>_. do_get broken_flight ''/work'')\<rparr>"

lemma broken_flight_ok: "flight_ok broken_flight" "serves broken_flight broken_network addr ''/work''"
  using plain_arrays_ok plain_builders_helpers action_codec_ok
  by (simp_all add: flight_ok_def broken_flight_def example_flight_def) (simp add: serves_def broken_network_def broken_flight_def example_flight_def)

lemma example_flight_ok: "flight_ok example_flight" "disk_ok (fe_disk example_flight) fst snd"
  "\<not> rd_log_info (fe_rendering example_flight)" "serves example_flight example_network addr ''/work''"
  using plain_arrays_ok plain_builders_helpers action_codec_ok mem_disk_ok
  by (simp_all add: flight_ok_def example_flight_def serves_def example_network_def quiet_rendering_def)

text \<open>
  C12. What an executor computes is what others read.  A client that asks a service to execute
  partitions of a plan gets one result per partition, in order, with the path of its file and the
  number of rows, batches, bytes and nulls written; afterwards fetching any of these partitions
  yields exactly the batches the plan produced for it, in the order it produced them.
\<close>

theorem executed_partitions_fetched:
  assumes "flight_ok fe" "serves fe nw (bc_addr client) work_dir" "disk_ok (fe_disk fe) files dirs"
    and "\<not> rd_log_info (fe_rendering fe)"
    and "stage < 2 ^ 32" "\<forall>p \<in> set parts. p < 2 ^ 32" "plan_ok (fe_df fe) (fe_builders fe) plan" "distinct parts"
    and "\<forall>p \<in> set parts. \<forall>s. fe_execute fe plan p s = (Ok (sch, map Ok (out p)), s)"
    and "\<forall>p \<in> set parts. \<forall>b \<in> set (out p). rb_schema b = sch" "dict_free sch"
  shows "\<exists>s'. client_execute_partition fe nw client job stage parts plan s =
      (Ok (map (\<lambda>p. \<lparr>epr_path = partition_path work_dir job stage p,
          epr_stats = stats_of_counters (batch_totals (fe_arrays fe) (out p))\<rparr>) parts), s') \<and>
    (\<forall>p \<in> set parts. fetch_partition fe nw client job stage p s' = (Ok (sch, map Ok (out p)), s'))"
proof -
  obtain s' where s': "client_execute_partition fe nw client job stage parts plan s =
      (Ok (map (\<lambda>p. \<lparr>epr_path = partition_path work_dir job stage p,
          epr_stats = stats_of_counters (batch_totals (fe_arrays fe) (out p))\<rparr>) parts), s')"
    "\<forall>p \<in> set parts. files s' (partition_path work_dir job stage p) = Some (F_Finished sch (out p))"
    using client_execute_partition_ok [OF assms(1-7,9,10,8), of job s] by blast
  moreover have "fetch_partition fe nw client job stage p s' = (Ok (sch, map Ok (out p)), s')" if "p \<in> set parts" for p
    using that s'(2) assms(6,10) by (intro fetch_partition_ok [OF assms(1-3,5) _ assms(11)]) auto
  ultimately show ?thesis by blast
qed

theorem executed_partitions_fetched_witness:
  "\<exists>rs s'. client_execute_partition example_flight example_network \<lparr>bc_addr = ''http://h:50051''\<rparr> ''job0001'' 1 [0, 1]
      (EmptyExec True []) (Map.empty, {}) = (Ok rs, s') \<and>
    fetch_partition example_flight example_network \<lparr>bc_addr = ''http://h:50051''\<rparr> ''job0001'' 1 1 s' =
      (Ok ([MkField ''v'' DT_UInt64 False], [Ok (example_batch 1)]), s')"
proof -
  let ?client = "\<lparr>bc_addr = ''http://h:50051''\<rparr>" and ?sch = "[MkField ''v'' DT_UInt64 False]"
  have run: "\<forall>p \<in> set [0, 1]. \<forall>s. fe_execute example_flight (EmptyExec True []) p s = (Ok (?sch, map Ok [example_batch p]), s)"
    by (simp add: example_flight_def)
  have plan: "plan_ok (fe_df example_flight) (fe_builders example_flight) (EmptyExec True [])"
    by (simp add: schema_wire_ok_def)
  have "\<exists>s'. client_execute_partition example_flight example_network ?client ''job0001'' 1 [0, 1] (EmptyExec True []) (Map.empty, {}) =
      (Ok (map (\<lambda>p. \<lparr>epr_path = partition_path ''/work'' ''job0001'' 1 p,
          epr_stats = stats_of_counters (batch_totals (fe_arrays example_flight) [example_batch p])\<rparr>) [0, 1]), s') \<and>
    (\<forall>p \<in> set [0, 1]. fetch_partition example_flight example_network ?client ''job0001'' 1 p s' = (Ok (?sch, map Ok [example_batch p]), s'))"
    by (rule executed_partitions_fetched [OF example_flight_ok(1,4,2,3) _ _ plan _ run]) (simp_all add: example_batch_def dict_free_def)
  then obtain rs s' where "client_execute_partition example_flight example_network ?client ''job0001'' 1 [0, 1] (EmptyExec True []) (Map.empty, {}) = (Ok rs, s')"
      "\<forall>p \<in> set [0, 1]. fetch_partition example_flight example_network ?client ''job0001'' 1 p s' = (Ok (?sch, map Ok [example_batch p]), s')"
    by blast
  then show ?thesis by auto
qed

text \<open>
  C38. An unreadable partition file looks like a short one.  When a batch of a stored partition cannot
  be read, the service logs the error and closes the stream; the client receives the batches before
  it and no error, so it takes them for the whole partition.
\<close>

theorem unreadable_partition_truncated:
  assumes "flight_ok fe" "serves fe nw (bc_addr client) work_dir" "stage < 2 ^ 32" "part < 2 ^ 32"
    and "dict_free sch" "\<forall>b \<in> set bs. rb_schema b = sch"
    and "dk_open (fe_disk fe) (partition_path work_dir job stage part) s = (Ok (), s)"
    and "dk_try_new_reader (fe_disk fe) (partition_path work_dir job stage part) s = (Ok (sch, map Ok bs @ Err e # rest), s)"
  shows "fetch_partition fe nw client job stage part s = (Ok (sch, map Ok bs), s)"
  by (rule fetch_partition_prefix [OF assms]) simp

theorem unreadable_partition_truncated_witness:
  "dk_try_new_reader (fe_disk broken_flight) (partition_path ''/work'' ''job0001'' 1 0) (Map.empty, {}) =
      (Ok ([MkField ''v'' DT_UInt64 False], [Ok (example_batch 0), Err ''truncated file'']), (Map.empty, {})) \<and>
    fetch_partition broken_flight broken_network \<lparr>bc_addr = ''http://h:50051''\<rparr> ''job0001'' 1 0 (Map.empty, {}) =
      (Ok ([MkField ''v'' DT_UInt64 False], [Ok (example_batch 0)]), (Map.empty, {}))"
proof -
  have reader: "dk_open (fe_disk broken_flight) p s = (Ok (), s)"
    "dk_try_new_reader (fe_disk broken_flight) p s =
      (Ok ([MkField ''v'' DT_UInt64 False], map Ok [example_batch 0] @ [Err ''truncated file'']), s)" for p s
    by (simp_all add: broken_flight_def)
  have "fetch_partition broken_flight broken_network \<lparr>bc_addr = ''http://h:50051''\<rparr> ''job0001'' 1 0 (Map.empty, {}) =
      (Ok ([MkField ''v'' DT_UInt64 False], map Ok [example_batch 0]), (Map.empty, {}))"
    by (rule unreadable_partition_truncated [OF broken_flight_ok(1,2) _ _ _ _ reader]) (simp_all add: dict_free_def example_batch_def)
  with reader(2) [of "partition_path ''/work'' ''job0001'' 1 0" "(Map.empty, {})"] show ?thesis by simp
qed

end
