(* ===== verification/Executor.thy ===== *)
theory Executor
  imports Flight Scheduler_Server "HOL-Library.Multiset"
begin

text \<open>
  The executor process: the operators it runs that read from other executors
  (\<open>core/src/execution_plans\<close>, \<open>executor/src/collect.rs\<close>) and the loop that polls the scheduler for
  tasks (\<open>executor/src/execution_loop.rs\<close>).

  DataFusion's operators are a parameter: \<open>xe_operator plan child partition\<close> runs a partition of the
  operator \<open>plan\<close>, where \<open>child k\<close> runs a partition of its \<open>k\<close>-th child.  The loop is modelled by its
  state and the atomic actions on it: the loop itself samples the reports and sends a poll, then
  handles the reply; each spawned task runs, gives its slot back and sends its report.
\<close>

section \<open>Configuration\<close>

record executor_config =
  ec_host :: string
  ec_port :: u16
  ec_work_dir :: string
  ec_concurrent_tasks :: nat

definition ExecutorConfig_new :: "string \<Rightarrow> u16 \<Rightarrow> string \<Rightarrow> nat \<Rightarrow> executor_config" where
  "ExecutorConfig_new host port work_dir concurrent_tasks =
     \<lparr>ec_host = host, ec_port = port, ec_work_dir = work_dir, ec_concurrent_tasks = concurrent_tasks\<rparr>"

record ballista_executor =
  be_config :: executor_config

definition BallistaExecutor_new :: "executor_config \<Rightarrow> ballista_executor" where
  "BallistaExecutor_new config = \<lparr>be_config = config\<rparr>"

section \<open>Execution of operators\<close>

type_synonym ('s, 'a) execution = "nat \<Rightarrow> ('s, schema \<times> 'a batch_stream, string) io"

record ('s, 'a) exec_env =
  xe_operator :: "exec_plan \<Rightarrow> (nat \<Rightarrow> ('s, 'a) execution) \<Rightarrow> ('s, 'a) execution"
  xe_select_all :: "'a batch_stream list \<Rightarrow> 'a batch_stream"

text \<open>Futures that are joined: all are run to their end; a panic is one of the caller.\<close>

fun join_all :: "(nat \<Rightarrow> ('s, 'x, 'e) io) \<Rightarrow> nat list \<Rightarrow> ('s, ('x, 'e) result list, 'f) io" where
  "join_all c [] s = (Ok [], s)"
| "join_all c (p # ps) s =
     (case c p s of
        (Panic msg, s') \<Rightarrow> (Panic msg, s')
      | (r, s') \<Rightarrow> (case join_all c ps s' of (rs, s'') \<Rightarrow> (rbind rs (\<lambda>rs. Ok (r # rs)), s'')))"

definition ShuffleReaderExec_execute ::
  "('s, 'a, 'f, 'b) flight_env \<Rightarrow> ('s, 'f, 'b) network \<Rightarrow> partition_location list \<Rightarrow> ('s, 'a) execution" where
  "ShuffleReaderExec_execute fe nw locs part =
     sbind (slift (index_vec locs part)) (\<lambda>loc.
     sbind (smap_err (\<lambda>e. ''Ballista Error: '' @ fe_debug_error fe e)
              (BallistaClient_try_new nw (em_host (pl_executor_meta loc)) (em_port (pl_executor_meta loc)))) (\<lambda>client.
       smap_err (\<lambda>e. ''Ballista Error: '' @ fe_debug_error fe e)
         (fetch_partition fe nw client (pid_job (pl_partition_id loc)) (pid_stage (pl_partition_id loc)) part)))"

definition UnresolvedShuffleExec_execute :: "('s, 'a) execution" where
  "UnresolvedShuffleExec_execute part = slift (Err ''Ballista UnresolvedShuffleExec does not support execution'')"

definition CollectExec_execute ::
  "('s, 'a, 'f, 'b) flight_env \<Rightarrow> ('s, 'a) exec_env \<Rightarrow> exec_plan \<Rightarrow> ('s, 'a) execution \<Rightarrow> ('s, 'a) execution" where
  "CollectExec_execute fe xe plan plan_execute part =
     (if part \<noteq> 0 then slift (Panic ''assertion failed: `(left == right)`'')
      else
        sbind (join_all plan_execute [0..<partition_count (fe_df fe) plan]) (\<lambda>results.
        sbind (slift (mapM (map_err (\<lambda>e. ''BallistaError: '' @ fe_debug_df fe e)) results)) (\<lambda>streams.
          sret (plan_schema (fe_df fe) plan, xe_select_all xe (map snd streams)))))"

text \<open>\<open>ExecutionPlan::execute\<close>\<close>

function execute_plan ::
  "('s, 'a, 'f, 'b) flight_env \<Rightarrow> ('s, 'f, 'b) network \<Rightarrow> ('s, 'a) exec_env \<Rightarrow> exec_plan \<Rightarrow> ('s, 'a) execution" where
  "execute_plan fe nw xe plan =
     (case plan of
        ShuffleReaderExec locs sch \<Rightarrow> ShuffleReaderExec_execute fe nw locs
      | UnresolvedShuffleExec stages sch n \<Rightarrow> UnresolvedShuffleExec_execute
      | QueryStageExec job stage child \<Rightarrow> execute_plan fe nw xe child
      | CollectExec child \<Rightarrow> CollectExec_execute fe xe child (execute_plan fe nw xe child)
      | _ \<Rightarrow> xe_operator xe plan (\<lambda>k. if k < length (children plan) then execute_plan fe nw xe (children plan ! k)
          else (\<lambda>_. slift (Panic ''no such child''))))"
  by pat_completeness auto
termination
  by (relation "measure (\<lambda>(fe, nw, xe, plan). size plan)") (auto simp: less_Suc_eq_le nth_Cons' intro!: size_list_estimation' [OF nth_mem])

declare execute_plan.simps [simp del]

text \<open>
  Merging keeps the items: the stream of \<open>CollectExec\<close> yields what the partitions of its child yield,
  in some order.
\<close>

lemma join_all_Ok:
  assumes "\<And>p s. p \<in> set ps \<Longrightarrow> c p s = (Ok (out p), s)"
  shows "join_all c ps s = (Ok (map (\<lambda>p. Ok (out p)) ps), s)"
  using assms by (induction ps) simp_all

lemma collect_exec_all_partitions:
  assumes "\<And>ss. mset (xe_select_all xe ss) = mset (concat ss)"
    and "\<And>p s. p < partition_count (fe_df fe) plan \<Longrightarrow> execute_plan fe nw xe plan p s = (Ok (sch, out p), s)"
  shows "\<exists>stream. execute_plan fe nw xe (CollectExec plan) 0 s = (Ok (plan_schema (fe_df fe) plan, stream), s) \<and>
    mset stream = mset (concat (map out [0..<partition_count (fe_df fe) plan]))"
proof -
  let ?ps = "[0..<partition_count (fe_df fe) plan]"
  have "join_all (execute_plan fe nw xe plan) ?ps s = ((Ok (map (\<lambda>p. Ok (sch, out p)) ?ps) :: (_, string) result), s)"
    using assms(2) by (intro join_all_Ok) simp
  moreover have "mapM (map_err g) (map (\<lambda>p. Ok (sch, out p)) ps) = Ok (map (\<lambda>p. (sch, out p)) ps)" for g ps
    by (induction ps) simp_all
  ultimately show ?thesis
    using assms(1) by (subst execute_plan.simps) (simp add: CollectExec_execute_def sbind_def slift_def sret_def comp_def)
qed

text \<open>
  A reader fetches the partition with the number of its own partition: what it yields is the file of
  that partition, on the executor the location names.
\<close>

lemma shuffle_reader_reads:
  assumes "flight_ok fe" "disk_ok (fe_disk fe) files dirs"
    and "part < length locs" "locs ! part = loc" "part < 2 ^ 32" "pid_stage (pl_partition_id loc) < 2 ^ 32"
    and "addr = client_addr (em_host (pl_executor_meta loc)) (em_port (pl_executor_meta loc))"
    and "nw_connect nw addr s = (Ok (), s)" "serves fe nw addr work_dir"
    and "files s (partition_path work_dir (pid_job (pl_partition_id loc)) (pid_stage (pl_partition_id loc)) part) = Some (F_Finished sch bs)"
    and "dict_free sch" "\<forall>b \<in> set bs. rb_schema b = sch"
  shows "execute_plan fe nw xe (ShuffleReaderExec locs rsch) part s = (Ok (sch, map Ok bs), s)"
proof -
  let ?client = "\<lparr>bc_addr = addr\<rparr>"
  have "fetch_partition fe nw ?client (pid_job (pl_partition_id loc)) (pid_stage (pl_partition_id loc)) part s = (Ok (sch, map Ok bs), s)"
    by (rule fetch_partition_ok [OF assms(1) _ assms(2,6,5,11,12,10)]) (simp add: assms(9))
  moreover have "BallistaClient_try_new nw (em_host (pl_executor_meta loc)) (em_port (pl_executor_meta loc)) s = (Ok ?client, s)"
    using assms(7,8) by (simp add: BallistaClient_try_new_def sbind_def smap_err_def sret_def)
  ultimately show ?thesis
    using assms(3,4) by (subst execute_plan.simps) (simp add: ShuffleReaderExec_execute_def index_vec_def sbind_def slift_def smap_err_def)
qed


section \<open>The poll loop\<close>

text \<open>
  The variables of \<open>poll_loop\<close> and of the tasks it spawned: the free slots (an \<open>AtomicUsize\<close>, whose
  \<open>fetch_sub\<close> and \<open>fetch_add\<close> wrap around), the reports in the channel, the poll that waits for its
  reply, the tasks that run, and the reports of tasks that gave their slot back but have not sent yet.
\<close>

record executor =
  ex_meta :: pb_executor_metadata
  ex_concurrent_tasks :: nat
  ex_slots :: u64
  ex_channel :: "task_status list"
  ex_request :: "poll_work_params option"
  ex_running :: "(pb_partition_id \<times> exec_plan) list"
  ex_reporting :: "task_status list"

definition poll_loop_start :: "executor_meta \<Rightarrow> nat \<Rightarrow> executor" where
  "poll_loop_start meta concurrent_tasks =
     \<lparr>ex_meta = executor_meta_to_pb meta, ex_concurrent_tasks = concurrent_tasks,
      ex_slots = word_of_nat concurrent_tasks, ex_channel = [], ex_request = None, ex_running = [], ex_reporting = []\<rparr>"

text \<open>
  Everything that is in the channel.  The loop keeps a sender, so the channel is never disconnected.
\<close>

fun sample_loop :: "task_status list \<Rightarrow> task_status list \<Rightarrow> task_status list \<times> task_status list" where
  "sample_loop task_status [] = (task_status, [])"
| "sample_loop task_status (status # channel) = sample_loop (task_status @ [status]) channel"

definition sample_tasks_status :: "task_status list \<Rightarrow> task_status list \<times> task_status list" where
  "sample_tasks_status channel = sample_loop [] channel"

definition poll_request :: "executor \<Rightarrow> executor" where
  "poll_request ex =
     (case sample_tasks_status (ex_channel ex) of (task_status, channel) \<Rightarrow>
        ex\<lparr>ex_channel := channel,
           ex_request := Some \<lparr>pw_metadata = Some (ex_meta ex), pw_can_accept_task = (0 < ex_slots ex),
             pw_task_status = task_status\<rparr>\<rparr>)"

definition run_received_tasks :: "df_ops \<Rightarrow> df_builders \<Rightarrow> task_definition \<Rightarrow> executor \<Rightarrow> (executor, 'e) result" where
  "run_received_tasks df b task ex =
     (let ex = ex\<lparr>ex_slots := ex_slots ex - 1\<rparr>
      in rbind (unwrap (td_plan task)) (\<lambda>node.
         rbind (unwrap_result (plan_try_into df b node)) (\<lambda>plan.
         rbind (unwrap (td_task_id task)) (\<lambda>task_id.
           Ok (ex\<lparr>ex_running := ex_running ex @ [(task_id, plan)]\<rparr>)))))"

text \<open>The reply to a poll: a task is started, or there is none, or the failure is logged.\<close>

definition poll_reply :: "df_ops \<Rightarrow> df_builders \<Rightarrow> (poll_work_result, 'x) result \<Rightarrow> executor \<Rightarrow> (executor, 'e) result" where
  "poll_reply df b reply ex =
     (let ex = ex\<lparr>ex_request := None\<rparr>
      in case reply of
           Ok result \<Rightarrow> (case pr_task result of Some task \<Rightarrow> run_received_tasks df b task ex | None \<Rightarrow> Ok ex)
         | _ \<Rightarrow> Ok ex)"

text \<open>What a spawned task runs, and the report on its result.\<close>

definition run_task ::
  "('s, 'a, 'f, 'b) flight_env \<Rightarrow> ('s, 'f, 'b) network \<Rightarrow> ballista_client \<Rightarrow> pb_partition_id \<Rightarrow> exec_plan
    \<Rightarrow> ('s, unit, BallistaError) io" where
  "run_task fe nw client task_id plan =
     sbind (client_execute_partition fe nw client (ppid_job task_id) (u32_to_usize (ppid_stage task_id))
              [u32_to_usize (ppid_partition task_id)] plan) (\<lambda>_. sret ())"

definition as_task_status ::
  "(string \<Rightarrow> string) \<Rightarrow> (unit, BallistaError) result \<Rightarrow> string \<Rightarrow> pb_partition_id \<Rightarrow> (task_status, 'e) result" where
  "as_task_status dbg execution_result executor_id task_id =
     (case execution_result of
        Ok _ \<Rightarrow> Ok \<lparr>ts_partition_id = Some task_id, ts_status = Some (TS_Completed executor_id)\<rparr>
      | Err e \<Rightarrow> Ok \<lparr>ts_partition_id = Some task_id,
          ts_status = Some (TS_Failed (''Task failed due to Tokio error: '' @ display_error dbg e))\<rparr>
      | Panic p \<Rightarrow> Panic p)"

definition remove_nth :: "nat \<Rightarrow> 'a list \<Rightarrow> 'a list" where
  "remove_nth i xs = take i xs @ drop (Suc i) xs"

text \<open>
  A spawned task ends: it gives its slot back and has a report to send.  One that panicked does
  neither.
\<close>

definition task_done :: "(string \<Rightarrow> string) \<Rightarrow> nat \<Rightarrow> (unit, BallistaError) result \<Rightarrow> executor \<Rightarrow> executor" where
  "task_done dbg i execution_result ex =
     (let task_id = fst (ex_running ex ! i); ex' = ex\<lparr>ex_running := remove_nth i (ex_running ex)\<rparr>
      in case (as_task_status dbg execution_result (pem_id (ex_meta ex)) task_id :: task_status bresult) of
           Ok status \<Rightarrow> ex'\<lparr>ex_slots := ex_slots ex + 1, ex_reporting := ex_reporting ex @ [status]\<rparr>
         | _ \<Rightarrow> ex')"

definition report_sent :: "nat \<Rightarrow> executor \<Rightarrow> executor" where
  "report_sent i ex =
     ex\<lparr>ex_reporting := remove_nth i (ex_reporting ex), ex_channel := ex_channel ex @ [ex_reporting ex ! i]\<rparr>"

subsection \<open>Slots\<close>

lemma sample_loop_eq: "sample_loop acc channel = (acc @ channel, [])"
  by (induction acc channel rule: sample_loop.induct) simp_all

lemma sample_tasks_status_eq [simp]: "sample_tasks_status channel = (channel, [])"
  by (simp add: sample_tasks_status_def sample_loop_eq)

lemma remove_nth_mset: "i < length xs \<Longrightarrow> mset xs = add_mset (xs ! i) (mset (remove_nth i xs))"
  unfolding remove_nth_def by (subst id_take_nth_drop [of i xs]) simp_all

lemma length_remove_nth: "i < length xs \<Longrightarrow> Suc (length (remove_nth i xs)) = length xs"
  by (simp add: remove_nth_def)

text \<open>
  The free slots and the running tasks together never exceed the number of concurrent tasks, and a
  poll that offers a slot is sent only when there is one; the slot is still there when the reply
  comes, because only the loop itself takes slots.
\<close>

definition slots_ok :: "executor \<Rightarrow> bool" where
  "slots_ok ex \<longleftrightarrow>
     unat (ex_slots ex) + length (ex_running ex) \<le> ex_concurrent_tasks ex \<and> ex_concurrent_tasks ex < 2 ^ 64 \<and>
     (\<forall>req. ex_request ex = Some req \<longrightarrow> pw_can_accept_task req \<longrightarrow> 0 < ex_slots ex)"

lemma slots_ok_start: "n < 2 ^ 64 \<Longrightarrow> slots_ok (poll_loop_start meta n)"
  by (simp add: slots_ok_def poll_loop_start_def unat_of_nat take_bit_nat_eq_self)

lemma slots_ok_request: "slots_ok ex \<Longrightarrow> slots_ok (poll_request ex)"
  by (simp add: slots_ok_def poll_request_def)

lemma slots_ok_no_reply: "slots_ok ex \<Longrightarrow> slots_ok (ex\<lparr>ex_request := None\<rparr>)"
  by (simp add: slots_ok_def)

lemma poll_reply_cases:
  assumes "poll_reply df b reply ex = Ok ex'"
  obtains (idle) "ex' = ex\<lparr>ex_request := None\<rparr>" "\<And>result. reply = Ok result \<Longrightarrow> pr_task result = None"
  | (task) result task task_id plan where "reply = Ok result" "pr_task result = Some task" "td_task_id task = Some task_id"
      "ex' = ex\<lparr>ex_request := None, ex_slots := ex_slots ex - 1, ex_running := ex_running ex @ [(task_id, plan)]\<rparr>"
proof (cases "\<exists>result task. reply = Ok result \<and> pr_task result = Some task")
  case True
  with assms task show ?thesis by (fastforce simp: poll_reply_def run_received_tasks_def rbind_eq_Ok unwrap_eq_Ok)
next
  case False
  then show ?thesis using assms by (intro idle) (auto simp: poll_reply_def Let_def split: result.splits option.splits)
qed

lemma slots_ok_reply:
  assumes "slots_ok ex" "ex_request ex = Some req" "poll_reply df b reply ex = Ok ex'"
    and "\<And>result. reply = Ok result \<Longrightarrow> pr_task result \<noteq> None \<Longrightarrow> pw_can_accept_task req"
  shows "slots_ok ex'"
  using assms(3)
proof (cases rule: poll_reply_cases)
  case (task result task task_id plan)
  with assms(1,2,4) have "0 < ex_slots ex" by (simp add: slots_ok_def)
  then have "unat (ex_slots ex - 1) = unat (ex_slots ex) - 1" "0 < unat (ex_slots ex)"
    by (simp_all add: unat_minus_one word_gt_0 unat_gt_0)
  with assms(1) task show ?thesis by (simp add: slots_ok_def)
qed (simp add: slots_ok_no_reply [OF assms(1)])

lemma slots_ok_done:
  assumes "slots_ok ex" "i < length (ex_running ex)"
  shows "slots_ok (task_done dbg i r ex)"
proof -
  have "unat (ex_slots ex) + 1 < 2 ^ 64" using assms by (simp add: slots_ok_def)
  then have "unat (ex_slots ex + 1) = unat (ex_slots ex) + 1" by (simp add: unat_add_lem [THEN iffD1])
  moreover from this have "0 < ex_slots ex + 1" by (metis add_gr_0 unat_gt_0 word_gt_0 zero_less_one)
  ultimately show ?thesis
    using assms length_remove_nth [OF assms(2)]
    by (auto simp: slots_ok_def task_done_def Let_def as_task_status_def split: result.split)
qed

lemma slots_ok_report: "slots_ok ex \<Longrightarrow> slots_ok (report_sent i ex)"
  by (simp add: slots_ok_def report_sent_def)

end
