(* ===== verification/Cluster.thy ===== *)
theory Cluster
  imports Executor Scheduler_System
begin

text \<open>
  The scheduler and its executors together.  A state is the store, the spawned tasks of the scheduler
  and the executors' poll loops; a step is one of the scheduler's own (\<open>other_step\<close>) or an action of
  an executor.  Polls travel over a network that may lose the request or the reply, executors may
  join and disappear, and a task may end in any way.

  The invariant \<open>cluster_at\<close> says that what an executor runs or has still to report is, in the store,
  a task that runs at this executor, and that no task is in two hands.  It follows that the
  assumption of \<open>Scheduler_System\<close> about polls holds for every poll of a cluster: a cluster only does
  what the scheduler's system does.
\<close>

section \<open>Tasks in an executor's hands\<close>

definition unreported :: "executor \<Rightarrow> task_status list" where
  "unreported ex = ex_reporting ex @ ex_channel ex @ (case ex_request ex of None \<Rightarrow> [] | Some req \<Rightarrow> pw_task_status req)"

definition reported_pid :: "task_status \<Rightarrow> partition_id" where
  "reported_pid st = pid_of_pb (the (ts_partition_id st))"

definition held :: "executor \<Rightarrow> partition_id list" where
  "held ex = map (\<lambda>t. pid_of_pb (fst t)) (ex_running ex) @ map reported_pid (unreported ex)"

text \<open>A report is on one task and says that it ended, completed by this executor or failed.\<close>

definition final_state :: "string \<Rightarrow> task_state \<Rightarrow> bool" where
  "final_state e st \<longleftrightarrow> st = TS_Completed e \<or> (\<exists>msg. st = TS_Failed msg)"

definition report_by :: "string \<Rightarrow> task_status \<Rightarrow> bool" where
  "report_by e status \<longleftrightarrow>
     (\<exists>pb st. status = \<lparr>ts_partition_id = Some pb, ts_status = Some st\<rparr> \<and> final_state e st)"

definition executor_ok :: "sched_view \<Rightarrow> executor \<Rightarrow> bool" where
  "executor_ok w ex \<longleftrightarrow>
     (\<forall>p \<in> set (held ex). vw_tasks w p = Some (Some (TS_Running (pem_id (ex_meta ex))))) \<and>
     (\<forall>status \<in> set (unreported ex). report_by (pem_id (ex_meta ex)) status) \<and>
     (\<forall>req. ex_request ex = Some req \<longrightarrow> pw_metadata req = Some (ex_meta ex)) \<and> slots_ok ex"

subsection \<open>The actions of an executor\<close>

lemma mset_held: "mset (held ex) = image_mset (\<lambda>t. pid_of_pb (fst t)) (mset (ex_running ex)) + image_mset reported_pid (mset (unreported ex))"
  by (simp add: held_def)

lemma request_held:
  "ex_request ex = None \<Longrightarrow> unreported (poll_request ex) = unreported ex"
  "ex_request ex = None \<Longrightarrow> held (poll_request ex) = held ex"
  by (simp_all add: held_def unreported_def poll_request_def)

lemma request_ok: "executor_ok w ex \<Longrightarrow> ex_request ex = None \<Longrightarrow> executor_ok w (poll_request ex)"
  using slots_ok_request by (simp add: executor_ok_def request_held) (simp add: poll_request_def)

lemma report_sent_held:
  assumes "i < length (ex_reporting ex)"
  shows "mset (unreported (report_sent i ex)) = mset (unreported ex)" "mset (held (report_sent i ex)) = mset (held ex)"
proof -
  show "mset (unreported (report_sent i ex)) = mset (unreported ex)"
    using remove_nth_mset [OF assms] by (simp add: unreported_def report_sent_def split: option.split)
  then show "mset (held (report_sent i ex)) = mset (held ex)"
    by (simp add: mset_held) (simp add: report_sent_def)
qed

lemma report_sent_ok:
  assumes "executor_ok w ex" "i < length (ex_reporting ex)"
  shows "executor_ok w (report_sent i ex)"
proof -
  have "set (held (report_sent i ex)) = set (held ex)" "set (unreported (report_sent i ex)) = set (unreported ex)"
    using report_sent_held [OF assms(2)] by (metis set_mset_mset)+
  then show ?thesis using assms(1) slots_ok_report [of ex i] by (simp add: executor_ok_def) (simp add: report_sent_def)
qed

lemma no_reply_held:
  "set (unreported (ex\<lparr>ex_request := None\<rparr>)) \<subseteq> set (unreported ex)" "mset (held (ex\<lparr>ex_request := None\<rparr>)) \<subseteq># mset (held ex)"
  by (auto simp: unreported_def, simp add: held_def unreported_def split: option.split)

lemma no_reply_ok: "executor_ok w ex \<Longrightarrow> executor_ok w (ex\<lparr>ex_request := None\<rparr>)"
  using no_reply_held [of ex] slots_ok_no_reply [of ex] mset_subset_eqD [OF no_reply_held(2) [of ex]]
  by (auto simp: executor_ok_def)

lemma task_done_held:
  assumes "i < length (ex_running ex)"
  shows "mset (held (task_done dbg i r ex)) \<subseteq># mset (held ex)"
    and "\<forall>status \<in> set (unreported (task_done dbg i r ex)). status \<in> set (unreported ex) \<or> report_by (pem_id (ex_meta ex)) status"
proof -
  note m = remove_nth_mset [OF assms]
  show "mset (held (task_done dbg i r ex)) \<subseteq># mset (held ex)"
    by (cases r) (simp_all add: mset_held m, simp_all add: task_done_def as_task_status_def unreported_def reported_pid_def Let_def
        split: option.split)
  show "\<forall>status \<in> set (unreported (task_done dbg i r ex)). status \<in> set (unreported ex) \<or> report_by (pem_id (ex_meta ex)) status"
    by (cases r) (auto simp: task_done_def as_task_status_def unreported_def Let_def report_by_def final_state_def)
qed

lemma task_done_ok:
  assumes "executor_ok w ex" "i < length (ex_running ex)"
  shows "executor_ok w (task_done dbg i r ex)"
proof -
  have "set (held (task_done dbg i r ex)) \<subseteq> set (held ex)"
    using set_mset_mono [OF task_done_held(1) [OF assms(2)]] by simp
  moreover have "ex_meta (task_done dbg i r ex) = ex_meta ex" "ex_request (task_done dbg i r ex) = ex_request ex"
    by (simp_all add: task_done_def Let_def split: result.split)
  ultimately show ?thesis
    using assms task_done_held(2) [OF assms(2), of dbg r] slots_ok_done by (auto simp: executor_ok_def)
qed

section \<open>Steps of the cluster\<close>

type_synonym 's cluster = "'s \<times> spawned list \<times> executor list"

text \<open>
  A poll is answered; or the scheduler handles it and the reply is lost; or the request is lost.  In
  the last two cases the executor sees an error.
\<close>

inductive cluster_step ::
  "'b server_env \<Rightarrow> ('s, 'g, 'b) config_backend_client \<Rightarrow> ('s \<Rightarrow> string \<rightharpoonup> 'b list) \<Rightarrow> string
    \<Rightarrow> 's cluster \<Rightarrow> 's cluster \<Rightarrow> bool"
  for sv bk kv ns where
  cs_other: "other_step sv bk kv ns (s, ts) (s', ts') \<Longrightarrow> cluster_step sv bk kv ns (s, ts, es) (s', ts', es)"
| cs_join: "n < 2 ^ 64 \<Longrightarrow> cluster_step sv bk kv ns (s, ts, es) (s, ts, poll_loop_start meta n # es)"
| cs_leave: "cluster_step sv bk kv ns (s, ts, es @ ex # es') (s, ts, es @ es')"
| cs_request: "ex_request ex = None \<Longrightarrow>
    cluster_step sv bk kv ns (s, ts, es @ ex # es') (s, ts, es @ poll_request ex # es')"
| cs_poll: "ex_request ex = Some req \<Longrightarrow> poll_work sv bk ns req s = Some (reply, s') \<Longrightarrow>
    poll_reply (env_df (sv_env sv)) (env_builders (sv_env sv)) reply ex = (Ok ex' :: executor bresult) \<Longrightarrow>
    cluster_step sv bk kv ns (s, ts, es @ ex # es') (s', ts, es @ ex' # es')"
| cs_poll_panic: "ex_request ex = Some req \<Longrightarrow> poll_work sv bk ns req s = Some (reply, s') \<Longrightarrow>
    poll_reply (env_df (sv_env sv)) (env_builders (sv_env sv)) reply ex = (Panic msg :: executor bresult) \<Longrightarrow>
    cluster_step sv bk kv ns (s, ts, es @ ex # es') (s', ts, es @ es')"
| cs_reply_lost: "ex_request ex = Some req \<Longrightarrow> poll_work sv bk ns req s = Some (reply, s') \<Longrightarrow>
    cluster_step sv bk kv ns (s, ts, es @ ex # es') (s', ts, es @ ex\<lparr>ex_request := None\<rparr> # es')"
| cs_request_lost: "ex_request ex = Some req \<Longrightarrow>
    cluster_step sv bk kv ns (s, ts, es @ ex # es') (s, ts, es @ ex\<lparr>ex_request := None\<rparr> # es')"
| cs_task_done: "i < length (ex_running ex) \<Longrightarrow>
    cluster_step sv bk kv ns (s, ts, es @ ex # es') (s, ts, es @ task_done (sv_dbg sv) i r ex # es')"
| cs_report: "i < length (ex_reporting ex) \<Longrightarrow>
    cluster_step sv bk kv ns (s, ts, es @ ex # es') (s, ts, es @ report_sent i ex # es')"

text \<open>What becomes of a stored task: pending, running at one executor, completed there or failed.\<close>

definition later_state :: "task_state option \<Rightarrow> task_state option \<Rightarrow> bool" where
  "later_state x y \<longleftrightarrow> x = y \<or> x = None \<or> (\<exists>e st. x = Some (TS_Running e) \<and> y = Some st \<and> final_state e st)"

definition tasks_later :: "sched_view \<Rightarrow> sched_view \<Rightarrow> bool" where
  "tasks_later w w' \<longleftrightarrow> (\<forall>p x. vw_tasks w p = Some x \<longrightarrow> (\<exists>y. vw_tasks w' p = Some y \<and> later_state x y))"

lemma later_state_trans: "later_state x y \<Longrightarrow> later_state y z \<Longrightarrow> later_state x z"
  by (auto simp: later_state_def final_state_def)

lemma tasks_later_refl [simp]: "tasks_later w w"
  by (simp add: tasks_later_def later_state_def)

lemma tasks_later_trans: "tasks_later w w' \<Longrightarrow> tasks_later w' w'' \<Longrightarrow> tasks_later w w''"
  unfolding tasks_later_def by (meson later_state_trans)

lemma tasks_later_grows: "vw_tasks w \<subseteq>\<^sub>m vw_tasks w' \<Longrightarrow> tasks_later w w'"
  unfolding tasks_later_def later_state_def map_le_def by (metis domI)

text \<open>A task the store says is running, but which no executor has: it is forgotten.\<close>

definition cluster_held :: "'s cluster \<Rightarrow> partition_id set" where
  "cluster_held c = (\<Union>ex \<in> set (snd (snd c)). set (held ex))"

definition forgotten :: "sched_view \<Rightarrow> 's cluster \<Rightarrow> partition_id \<Rightarrow> string \<Rightarrow> bool" where
  "forgotten w c p e \<longleftrightarrow> vw_tasks w p = Some (Some (TS_Running e)) \<and> p \<notin> cluster_held c"

definition cluster_at ::
  "'b server_env \<Rightarrow> ('s \<Rightarrow> string \<rightharpoonup> 'b list) \<Rightarrow> ('s \<Rightarrow> bool) \<Rightarrow> ('s \<Rightarrow> 'g option) \<Rightarrow> string \<Rightarrow> sched_view \<Rightarrow> 's cluster \<Rightarrow> bool" where
  "cluster_at sv kv healthy holder ns w c \<longleftrightarrow>
     sched_at sv kv healthy holder ns w (fst c, fst (snd c)) \<and> (\<forall>ex \<in> set (snd (snd c)). executor_ok w ex) \<and>
     distinct (concat (map held (snd (snd c))))"

text \<open>What a step does: the invariant holds again, tasks move on, forgotten tasks stay forgotten.\<close>

definition cluster_next ::
  "'b server_env \<Rightarrow> ('s \<Rightarrow> string \<rightharpoonup> 'b list) \<Rightarrow> ('s \<Rightarrow> bool) \<Rightarrow> ('s \<Rightarrow> 'g option) \<Rightarrow> string \<Rightarrow> sched_view \<Rightarrow> 's cluster
    \<Rightarrow> 's cluster \<Rightarrow> bool" where
  "cluster_next sv kv healthy holder ns w c c' \<longleftrightarrow>
     (\<exists>w'. cluster_at sv kv healthy holder ns w' c' \<and> tasks_later w w' \<and> (\<forall>p e. forgotten w c p e \<longrightarrow> forgotten w' c' p e))"

subsection \<open>What a poll does to the tasks\<close>

lemma apply_reports_other: "q \<notin> fst ` set rs \<Longrightarrow> vw_tasks (apply_reports rs w) q = vw_tasks w q"
proof (induction rs arbitrary: w)
  case (Cons r rs)
  then show ?case by (cases r) (simp add: apply_reports_Cons)
qed (simp add: apply_reports_def)

lemma apply_reports_some: "q \<in> fst ` set rs \<Longrightarrow> \<exists>st. (q, st) \<in> set rs \<and> vw_tasks (apply_reports rs w) q = Some (Some st)"
proof (induction rs arbitrary: w)
  case (Cons r rs)
  obtain p st where r: "r = (p, st)" by (cases r)
  show ?case
  proof (cases "q \<in> fst ` set rs")
    case True
    with Cons.IH show ?thesis by (fastforce simp: r apply_reports_Cons)
  next
    case False
    with Cons.prems r show ?thesis by (auto simp: apply_reports_Cons apply_reports_other)
  qed
qed simp

lemma register_tasks [simp]: "vw_tasks (apply_reports rs (register meta w)) = vw_tasks (apply_reports rs w)"
  by (simp add: apply_reports_def register_def)

lemma synced_tasks: "(if rs = [] then w' = w1 else synced w1 w') \<Longrightarrow> vw_tasks w' = vw_tasks w1"
  unfolding synced_def by (metis sched_view.select_convs(3) sched_view.surjective sched_view.update_convs(2))

lemma poll_spec_tasks:
  assumes "poll_spec sv meta can_accept rs w task w'"
  obtains (none) "task = None" "vw_tasks w' = vw_tasks (apply_reports rs w)"
  | (some) p n where "can_accept" "task = Some \<lparr>td_task_id = Some (partition_id_to_pb p), td_plan = Some n\<rparr>"
      "vw_tasks (apply_reports rs w) p = Some None"
      "vw_tasks w' = (vw_tasks (apply_reports rs w))(p \<mapsto> Some (TS_Running (em_id meta)))"
proof -
  from assms obtain w1 where w1: "if can_accept then assigned sv (em_id meta) (apply_reports rs (register meta w)) task w1
      else task = None \<and> w1 = apply_reports rs (register meta w)" "if rs = [] then w' = w1 else synced w1 w'"
    by (auto simp: poll_spec_def)
  have w': "vw_tasks w' = vw_tasks w1" using w1(2) by (rule synced_tasks)
  show ?thesis
  proof (cases task)
    case None
    with w1(1) have "w1 = apply_reports rs (register meta w)" by (auto simp: assigned_def split: if_splits)
    with w' None none show ?thesis by simp
  next
    case (Some t)
    with w1(1) have "can_accept" "assigned sv (em_id meta) (apply_reports rs (register meta w)) task w1" by (auto split: if_splits)
    with w' Some some show ?thesis by (auto simp: assigned_def schedulable_def start_task_def)
  qed
qed

text \<open>
  A poll whose reports are on tasks that run at the polling executor: the tasks it does not report
  keep their state, but a pending one may be started, which is then the one it is given.
\<close>

lemma poll_view:
  assumes spec: "poll_spec sv meta can_accept rs w task w'"
    and rs: "\<forall>p st. (p, st) \<in> set rs \<longrightarrow> vw_tasks w p = Some (Some (TS_Running (em_id meta))) \<and> final_state (em_id meta) st"
  shows "tasks_later w w'"
    and "vw_tasks w q = Some (Some x) \<Longrightarrow> q \<notin> fst ` set rs \<Longrightarrow> vw_tasks w' q = Some (Some x)"
    and "task = Some t \<Longrightarrow> can_accept \<and> (\<exists>p. td_task_id t = Some (partition_id_to_pb p) \<and> vw_tasks w p = Some None \<and>
      vw_tasks w' p = Some (Some (TS_Running (em_id meta))))"
proof -
  have pending: "q \<notin> fst ` set rs" if "vw_tasks (apply_reports rs w) q = Some None" for q
    using apply_reports_some [of q rs w] that by auto
  have reported: "\<exists>y. vw_tasks (apply_reports rs w) q = Some y \<and> later_state x y" if "vw_tasks w q = Some x" for q x
  proof (cases "q \<in> fst ` set rs")
    case True
    then obtain st where "(q, st) \<in> set rs" "vw_tasks (apply_reports rs w) q = Some (Some st)" using apply_reports_some by blast
    with rs that show ?thesis by (fastforce simp: later_state_def)
  qed (simp add: apply_reports_other that later_state_def)
  from spec show "tasks_later w w'"
  proof (cases rule: poll_spec_tasks)
    case none
    with reported show ?thesis by (simp add: tasks_later_def)
  next
    case (some p n)
    have "vw_tasks w p = Some None" using some(3) apply_reports_other [OF pending [OF some(3)]] by simp
    with reported some(4) show ?thesis by (auto simp: tasks_later_def later_state_def)
  qed
  show "vw_tasks w' q = Some (Some x)" if "vw_tasks w q = Some (Some x)" "q \<notin> fst ` set rs"
    using spec by (cases rule: poll_spec_tasks) (use that apply_reports_other [of q rs w] in auto)
  show "can_accept \<and> (\<exists>p. td_task_id t = Some (partition_id_to_pb p) \<and> vw_tasks w p = Some None \<and>
      vw_tasks w' p = Some (Some (TS_Running (em_id meta))))" if "task = Some t"
    using spec
  proof (cases rule: poll_spec_tasks)
    case (some p n)
    have "vw_tasks w p = Some None" using some(3) apply_reports_other [OF pending [OF some(3)]] by simp
    with some that show ?thesis by auto
  qed (use that in simp)
qed

section \<open>The invariant of the cluster\<close>

lemma distinct_shrink:
  assumes "distinct (xs @ ys @ zs)" "mset ys' \<subseteq># mset ys"
  shows "distinct (xs @ ys' @ zs)"
proof -
  from assms(2) obtain rest where "mset ys = mset (ys' @ rest)"
    by (metis ex_mset mset_append subset_mset.le_iff_add)
  then have "distinct ys \<longleftrightarrow> distinct (ys' @ rest)" "set ys = set (ys' @ rest)"
    by (rule mset_eq_imp_distinct_iff, rule mset_eq_setD)
  with assms(1) show ?thesis by auto
qed

lemma cluster_held_simps [simp]:
  "cluster_held (s, ts, es @ es') = cluster_held (s, ts, es) \<union> cluster_held (s, ts, es')"
  "cluster_held (s, ts, ex # es) = set (held ex) \<union> cluster_held (s, ts, es)"
  by (auto simp: cluster_held_def)

lemma cluster_held_indep: "cluster_held (s, ts, es) = cluster_held (s', ts', es)"
  by (simp add: cluster_held_def)

lemma cluster_at_executors:
  "cluster_at sv kv healthy holder ns w (s, ts, es @ ex # es') \<longleftrightarrow>
     sched_at sv kv healthy holder ns w (s, ts) \<and> (\<forall>x \<in> set es \<union> set es'. executor_ok w x) \<and> executor_ok w ex \<and>
     distinct (concat (map held es) @ held ex @ concat (map held es'))"
  by (auto simp: cluster_at_def)

text \<open>An executor that acts on its own and takes nothing new into its hands.\<close>

lemma cluster_local:
  assumes "cluster_at sv kv healthy holder ns w (s, ts, es @ ex # es')" "executor_ok w ex'" "mset (held ex') \<subseteq># mset (held ex)"
  shows "cluster_next sv kv healthy holder ns w (s, ts, es @ ex # es') (s, ts, es @ ex' # es')"
proof -
  have "cluster_at sv kv healthy holder ns w (s, ts, es @ ex' # es')"
    using assms distinct_shrink [OF _ assms(3)] unfolding cluster_at_executors by blast
  moreover have "set (held ex') \<subseteq> set (held ex)" using set_mset_mono [OF assms(3)] by simp
  ultimately show ?thesis by (auto simp: cluster_next_def forgotten_def intro!: exI [of _ w])
qed

lemma cluster_leave:
  assumes "cluster_at sv kv healthy holder ns w (s, ts, es @ ex # es')"
  shows "cluster_next sv kv healthy holder ns w (s, ts, es @ ex # es') (s, ts, es @ es')"
  using assms by (auto simp: cluster_next_def cluster_at_def forgotten_def intro!: exI [of _ w])

lemma start_held [simp]: "held (poll_loop_start meta n) = []"
  by (simp add: held_def unreported_def poll_loop_start_def)

lemma cluster_join:
  assumes "cluster_at sv kv healthy holder ns w (s, ts, es)" "n < 2 ^ 64"
  shows "cluster_next sv kv healthy holder ns w (s, ts, es) (s, ts, poll_loop_start meta n # es)"
proof -
  have "executor_ok w (poll_loop_start meta n)"
    using slots_ok_start [OF assms(2), of meta] by (simp add: executor_ok_def) (simp add: unreported_def poll_loop_start_def)
  with assms show ?thesis by (auto simp: cluster_next_def cluster_at_def forgotten_def intro!: exI [of _ w])
qed

text \<open>A change of the store that keeps the state of every task in some executor's hands.\<close>

lemma executor_ok_view:
  "executor_ok w ex \<Longrightarrow> (\<And>p. p \<in> set (held ex) \<Longrightarrow> vw_tasks w p \<noteq> None \<Longrightarrow> vw_tasks w' p = vw_tasks w p) \<Longrightarrow> executor_ok w' ex"
  by (simp add: executor_ok_def)

text \<open>The reports of a poll, as the scheduler reads them.\<close>

definition poll_reports :: "poll_work_params \<Rightarrow> (partition_id \<times> task_state) list" where
  "poll_reports req = map (\<lambda>st. (reported_pid st, the (ts_status st))) (pw_task_status req)"

lemma poll_reports_messages:
  assumes "\<forall>status \<in> set (pw_task_status req). report_by e status"
  shows "report_messages (poll_reports req) = pw_task_status req"
    and "(p, st) \<in> set (poll_reports req) \<Longrightarrow> final_state e st"
proof -
  have "task_of (reported_pid status) (Some (the (ts_status status))) = status" if "report_by e status" for status
    using that by (auto simp: report_by_def task_of_def reported_pid_def)
  with assms show "report_messages (poll_reports req) = pw_task_status req"
    by (simp add: report_messages_def poll_reports_def map_idI comp_def)
  show "final_state e st" if "(p, st) \<in> set (poll_reports req)"
    using that assms by (fastforce simp: poll_reports_def report_by_def)
qed

lemma fst_poll_reports: "fst ` set (poll_reports req) = reported_pid ` set (pw_task_status req)"
  by (force simp: poll_reports_def)


text \<open>What a poll that waits for its reply contains.\<close>

lemma request_reports:
  assumes "executor_ok w ex" "ex_request ex = Some req"
  shows "pw_metadata req = Some (ex_meta ex)" "pw_task_status req = report_messages (poll_reports req)"
    and "reported_pid ` set (pw_task_status req) \<subseteq> set (held ex)"
    and "\<forall>p st. (p, st) \<in> set (poll_reports req) \<longrightarrow>
      vw_tasks w p = Some (Some (TS_Running (em_id (executor_meta_from_pb (ex_meta ex))))) \<and>
      final_state (em_id (executor_meta_from_pb (ex_meta ex))) st"
    and "reports_ok (register (executor_meta_from_pb (ex_meta ex)) w) (poll_reports req)"
proof -
  show "pw_metadata req = Some (ex_meta ex)" using assms by (simp add: executor_ok_def)
  have sent: "set (pw_task_status req) \<subseteq> set (unreported ex)" using assms(2) by (auto simp: unreported_def)
  then have "\<forall>status \<in> set (pw_task_status req). report_by (pem_id (ex_meta ex)) status" using assms(1) by (auto simp: executor_ok_def)
  note msgs = poll_reports_messages [OF this]
  show "pw_task_status req = report_messages (poll_reports req)" using msgs(1) by simp
  show sub: "reported_pid ` set (pw_task_status req) \<subseteq> set (held ex)" using sent by (auto simp: held_def)
  have "vw_tasks w p = Some (Some (TS_Running (pem_id (ex_meta ex))))" if "p \<in> fst ` set (poll_reports req)" for p
    using that assms(1) sub by (auto simp: fst_poll_reports executor_ok_def)
  then show rs: "\<forall>p st. (p, st) \<in> set (poll_reports req) \<longrightarrow>
      vw_tasks w p = Some (Some (TS_Running (em_id (executor_meta_from_pb (ex_meta ex))))) \<and>
      final_state (em_id (executor_meta_from_pb (ex_meta ex))) st"
    using msgs(2) by force
  then show "reports_ok (register (executor_meta_from_pb (ex_meta ex)) w) (poll_reports req)"
    by (fastforce simp: reports_ok_def register_def final_state_def)
qed

context config_backend
begin

lemma cluster_other:
  assumes "env_ok (sv_env sv)" "queries_ok sv" "cluster_at sv kv healthy holder ns w (s, ts, es)"
    and "other_step sv bk kv ns (s, ts) (s', ts')"
  shows "cluster_next sv kv healthy holder ns w (s, ts, es) (s', ts', es)"
proof -
  from assms(3) have at: "sched_at sv kv healthy holder ns w (s, ts)" "\<forall>ex \<in> set es. executor_ok w ex" "distinct (concat (map held es))"
    by (simp_all add: cluster_at_def)
  from other_step_grows [OF assms(1,2,4) at(1)] obtain w' where w': "sched_at sv kv healthy holder ns w' (s', ts')"
      "vw_tasks w \<subseteq>\<^sub>m vw_tasks w'"
    by (auto simp: sched_grows_def)
  have keep: "vw_tasks w' p = vw_tasks w p" if "vw_tasks w p \<noteq> None" for p
    using w'(2) that unfolding map_le_def by (metis domIff)
  have "executor_ok w' ex" if "ex \<in> set es" for ex
    using bspec [OF at(2) that] by (rule executor_ok_view) (rule keep)
  with w' at(3) have "cluster_at sv kv healthy holder ns w' (s', ts', es)" by (simp add: cluster_at_def)
  moreover have "forgotten w' (s', ts', es) p e" if "forgotten w (s, ts, es) p e" for p e
    using that keep [of p] cluster_held_indep [of s ts es s' ts'] by (simp add: forgotten_def)
  ultimately show ?thesis using tasks_later_grows [OF w'(2)] unfolding cluster_next_def by blast
qed

text \<open>
  The scheduler handles a poll.  Its reports leave the executor's hands whether the reply arrives or
  not; a task it hands out was in nobody's hands.
\<close>

lemma poll_handled:
  assumes env: "env_ok (sv_env sv)" and ns: "slash_free ns"
    and at: "cluster_at sv kv healthy holder ns w (s, ts, es @ ex # es')" and req: "ex_request ex = Some req"
    and run: "poll_work sv bk ns req s = Some (reply, s')"
  obtains task w' where "reply = Ok \<lparr>pr_task = task\<rparr>" "honest sv ns (kv s) req"
    "cluster_at sv kv healthy holder ns w' (s', ts, es @ ex\<lparr>ex_request := None\<rparr> # es')" "tasks_later w w'"
    "\<forall>p e. forgotten w (s, ts, es @ ex # es') p e \<longrightarrow> forgotten w' (s', ts, es @ ex\<lparr>ex_request := None\<rparr> # es') p e"
    "\<forall>t. task = Some t \<longrightarrow> pw_can_accept_task req \<and> (\<exists>p. td_task_id t = Some (partition_id_to_pb p) \<and> pid_fits p \<and>
      vw_tasks w p = Some None \<and> vw_tasks w' p = Some (Some (TS_Running (pem_id (ex_meta ex)))))"
proof -
  let ?e = "pem_id (ex_meta ex)" and ?meta = "executor_meta_from_pb (ex_meta ex)" and ?rs = "poll_reports req"
  let ?ex0 = "ex\<lparr>ex_request := None\<rparr>"
  from at have c: "sched_at sv kv healthy holder ns w (s, ts)" "\<forall>x \<in> set es \<union> set es'. executor_ok w x" "executor_ok w ex"
      "distinct (concat (map held es) @ held ex @ concat (map held es'))"
    by (simp_all add: cluster_at_executors ball_Un)
  have rep: "represents (sv_env sv) ns (kv s) w" using c(1) by (rule sched_atE)
  note meta = request_reports(1) [OF c(3) req] and msgs = request_reports(2) [OF c(3) req] and sub = request_reports(3) [OF c(3) req]
    and rs = request_reports(4) [OF c(3) req] and ok = request_reports(5) [OF c(3) req]
  from env ns c(1) meta msgs ok obtain task s1 w' where p1: "poll_work sv bk ns req s = Some (Ok \<lparr>pr_task = task\<rparr>, s1)"
      "sched_at sv kv healthy holder ns w' (s1, ts)" "poll_spec sv ?meta (pw_can_accept_task req) ?rs w task w'"
    by (rule poll_at)
  note view = poll_view [OF p1(3) rs]
  have distinct_held: "fst ` set ?rs \<inter> set (held ?ex0) = {}"
    using c(4) req by (auto simp: fst_poll_reports held_def unreported_def)
  have others: "fst ` set ?rs \<inter> set (held x) = {}" if "x \<in> set es \<union> set es'" for x
  proof -
    have "set (held ex) \<inter> set (held x) = {}" using that c(4) by auto
    with sub show ?thesis by (auto simp: fst_poll_reports)
  qed
  have keeps: "executor_ok w' x" if "executor_ok w x" "fst ` set ?rs \<inter> set (held x) = {}" for x
    using that(1)
  proof (rule executor_ok_view)
    fix p
    assume "p \<in> set (held x)"
    with that have "vw_tasks w p = Some (Some (TS_Running (pem_id (ex_meta x))))" "p \<notin> fst ` set ?rs" by (auto simp: executor_ok_def)
    then show "vw_tasks w' p = vw_tasks w p" using view(2) by simp
  qed
  then have others': "\<forall>x \<in> set es \<union> set es'. executor_ok w' x" using c(2) others by simp
  have at': "cluster_at sv kv healthy holder ns w' (s1, ts, es @ ?ex0 # es')"
    unfolding cluster_at_executors
    using p1(2) others' keeps [OF no_reply_ok [OF c(3)] distinct_held] distinct_shrink [OF c(4) no_reply_held(2)] by (intro conjI)
  have forgot: "forgotten w' (s1, ts, es @ ?ex0 # es') p e" if "forgotten w (s, ts, es @ ex # es') p e" for p e
  proof -
    from that have p: "vw_tasks w p = Some (Some (TS_Running e))" "p \<notin> set (held ex)" "p \<notin> cluster_held (s, ts, es) \<union> cluster_held (s, ts, es')"
      by (auto simp: forgotten_def)
    with sub have "p \<notin> fst ` set ?rs" by (auto simp: fst_poll_reports)
    moreover have "p \<notin> set (held ?ex0)" using p(2) set_mset_mono [OF no_reply_held(2) [of ex]] by auto
    ultimately show ?thesis using view(2) [OF p(1)] p(3) cluster_held_indep [of s ts _ s1 ts] by (auto simp: forgotten_def)
  qed
  have handed: "pw_can_accept_task req \<and> (\<exists>p. td_task_id t = Some (partition_id_to_pb p) \<and> pid_fits p \<and>
      vw_tasks w p = Some None \<and> vw_tasks w' p = Some (Some (TS_Running ?e)))" if "task = Some t" for t
    using view(3) [OF that] represents_fits [OF rep] by fastforce
  have hon: "honest sv ns (kv s) req"
    unfolding honest_def using meta msgs ok represents_unique [OF rep] by (metis option.inject)
  from run p1(1) have reply: "reply = Ok \<lparr>pr_task = task\<rparr>" "s' = s1" by simp_all
  show ?thesis by (rule that [OF reply(1) hon at' [folded reply(2)] view(1)]) (use forgot reply(2) handed in auto)
qed

end

text \<open>An executor takes a task that nobody has.\<close>

lemma cluster_take:
  assumes "cluster_at sv kv healthy holder ns w (s, ts, es @ ex # es')" "p \<notin> cluster_held (s, ts, es @ ex # es')"
    and "vw_tasks w p = Some (Some (TS_Running (pem_id (ex_meta ex))))" "pid_of_pb pb = p"
    and ex': "ex' = ex\<lparr>ex_slots := k, ex_running := ex_running ex @ [(pb, plan)]\<rparr>" "slots_ok ex'"
  shows "cluster_at sv kv healthy holder ns w (s, ts, es @ ex' # es')"
    and "cluster_held (s, ts, es @ ex' # es') = insert p (cluster_held (s, ts, es @ ex # es'))"
proof -
  have m: "mset (held ex') = mset (p # held ex)" "unreported ex' = unreported ex"
    by (simp_all add: mset_held ex' assms(4) unreported_def)
  then have sets: "set (held ex') = insert p (set (held ex))" by (metis list.simps(15) set_mset_mset)
  have "executor_ok w ex'"
    using assms(1,3) ex'(2) unfolding cluster_at_executors executor_ok_def sets m(2) by (auto simp: ex'(1))
  moreover have "distinct (held ex') \<longleftrightarrow> distinct (p # held ex)" using m(1) by (rule mset_eq_imp_distinct_iff)
  ultimately show "cluster_at sv kv healthy holder ns w (s, ts, es @ ex' # es')"
    using assms(1,2) sets unfolding cluster_at_executors cluster_held_def by auto
  show "cluster_held (s, ts, es @ ex' # es') = insert p (cluster_held (s, ts, es @ ex # es'))" using sets by auto
qed

lemma cluster_heldD:
  "cluster_at sv kv healthy holder ns w c \<Longrightarrow> p \<in> cluster_held c \<Longrightarrow> \<exists>e. vw_tasks w p = Some (Some (TS_Running e))"
  by (auto simp: cluster_at_def cluster_held_def executor_ok_def)

lemma cluster_nextI:
  "cluster_at sv kv healthy holder ns w' c' \<Longrightarrow> tasks_later w w' \<Longrightarrow> (\<And>p e. forgotten w c p e \<Longrightarrow> forgotten w' c' p e) \<Longrightarrow>
   cluster_next sv kv healthy holder ns w c c'"
  by (auto simp: cluster_next_def)

lemma cluster_next_trans:
  assumes "cluster_next sv kv healthy holder ns w c c'"
    and "\<And>w'. cluster_at sv kv healthy holder ns w' c' \<Longrightarrow> cluster_next sv kv healthy holder ns w' c' c''"
  shows "cluster_next sv kv healthy holder ns w c c''"
proof -
  from assms(1) obtain w' where w': "cluster_at sv kv healthy holder ns w' c'" "tasks_later w w'"
      "\<forall>p e. forgotten w c p e \<longrightarrow> forgotten w' c' p e"
    unfolding cluster_next_def by blast
  from assms(2) [OF w'(1)] obtain w'' where w'': "cluster_at sv kv healthy holder ns w'' c''" "tasks_later w' w''"
      "\<forall>p e. forgotten w' c' p e \<longrightarrow> forgotten w'' c'' p e"
    unfolding cluster_next_def by blast
  show ?thesis
    by (rule cluster_nextI [OF w''(1) tasks_later_trans [OF w'(2) w''(2)]]) (use w'(3) w''(3) in blast)
qed

abbreviation sched_part :: "'s cluster \<Rightarrow> 's \<times> spawned list" where
  "sched_part c \<equiv> (fst c, fst (snd c))"

context config_backend
begin

lemma poll_next:
  assumes env: "env_ok (sv_env sv)" and ns: "slash_free ns"
    and at: "cluster_at sv kv healthy holder ns w (s, ts, es @ ex # es')" and req: "ex_request ex = Some req"
    and run: "poll_work sv bk ns req s = Some (reply, s')" and ex': "poll_reply df b reply ex = Ok ex'"
  shows "cluster_next sv kv healthy holder ns w (s, ts, es @ ex # es') (s', ts, es @ ex' # es')"
proof -
  let ?c = "(s, ts, es @ ex # es')" and ?cnew = "(s', ts, es @ ex\<lparr>ex_request := None\<rparr> # es')"
  obtain task w' where h: "reply = Ok \<lparr>pr_task = task\<rparr>" "honest sv ns (kv s) req" "cluster_at sv kv healthy holder ns w' ?cnew" "tasks_later w w'"
    "\<forall>p e. forgotten w ?c p e \<longrightarrow> forgotten w' ?cnew p e"
    "\<forall>t. task = Some t \<longrightarrow> pw_can_accept_task req \<and> (\<exists>p. td_task_id t = Some (partition_id_to_pb p) \<and> pid_fits p \<and>
      vw_tasks w p = Some None \<and> vw_tasks w' p = Some (Some (TS_Running (pem_id (ex_meta ex)))))"
    using env ns at req run by (rule poll_handled)
  have "slots_ok ex" using at by (simp add: cluster_at_executors executor_ok_def)
  then have slots: "slots_ok ex'" by (rule slots_ok_reply [OF _ req ex']) (use h(1,6) in auto)
  from ex' show ?thesis
  proof (cases rule: poll_reply_cases)
    case idle
    with h(3-5) show ?thesis by (auto intro!: cluster_nextI)
  next
    case (task result t pb plan)
    from h(1) task(1,2) have "task = Some t" by simp
    with h(6) task(3) obtain p where p: "pb = partition_id_to_pb p" "pid_fits p" "vw_tasks w p = Some None"
        "vw_tasks w' p = Some (Some (TS_Running (pem_id (ex_meta ex))))"
      by auto
    have "p \<notin> cluster_held ?c" using cluster_heldD [OF at] p(3) by fastforce
    then have "p \<notin> cluster_held ?cnew"
      using set_mset_mono [OF no_reply_held(2) [of ex]] by (auto simp: cluster_held_def)
    from cluster_take [OF h(3) this _ _ _ slots, where pb = pb and k = "ex_slots ex - 1" and plan = plan] p task(4)
    have "cluster_at sv kv healthy holder ns w' (s', ts, es @ ex' # es')"
      "cluster_held (s', ts, es @ ex' # es') = insert p (cluster_held ?cnew)"
      by (simp_all add: pid_of_pb_fits)
    then show ?thesis using h(4,5) p(3) by (intro cluster_nextI) (auto simp: forgotten_def)
  qed
qed

lemma poll_lost_next:
  assumes "env_ok (sv_env sv)" "slash_free ns" "cluster_at sv kv healthy holder ns w (s, ts, es @ ex # es')"
    and "ex_request ex = Some req" "poll_work sv bk ns req s = Some (reply, s')"
  shows "cluster_next sv kv healthy holder ns w (s, ts, es @ ex # es') (s', ts, es @ ex\<lparr>ex_request := None\<rparr> # es')"
  using assms by (rule poll_handled) (simp add: cluster_nextI)

lemma cluster_step_next:
  assumes env: "env_ok (sv_env sv)" "queries_ok sv" "slash_free ns"
    and "cluster_step sv bk kv ns c c'" "cluster_at sv kv healthy holder ns w c"
  shows "cluster_next sv kv healthy holder ns w c c'"
  using assms(4,5)
proof (induction rule: cluster_step.induct)
  case cs_other
  then show ?case by (intro cluster_other [OF env(1,2)])
next
  case cs_join
  then show ?case by (intro cluster_join)
next
  case cs_leave
  then show ?case by (rule cluster_leave)
next
  case (cs_request ex s ts es es')
  then show ?case by (intro cluster_local) (auto simp: request_held cluster_at_executors intro: request_ok)
next
  case (cs_poll ex req s reply s' ex' ts es es')
  then show ?case by (intro poll_next [OF env(1,3)])
next
  case (cs_poll_panic ex req s reply s' msg ts es es')
  from poll_lost_next [OF env(1,3) cs_poll_panic(4,1,2)] show ?case
    by (rule cluster_next_trans) (rule cluster_leave)
next
  case (cs_reply_lost ex req s reply s' ts es es')
  then show ?case by (intro poll_lost_next [OF env(1,3)])
next
  case (cs_request_lost ex req s ts es es')
  then show ?case by (intro cluster_local) (auto simp: no_reply_held cluster_at_executors intro: no_reply_ok)
next
  case (cs_task_done i ex s ts es es' r)
  then show ?case by (intro cluster_local) (auto simp: task_done_held cluster_at_executors intro: task_done_ok)
next
  case (cs_report i ex s ts es es')
  then show ?case by (intro cluster_local) (auto simp: report_sent_held cluster_at_executors intro: report_sent_ok)
qed

lemma cluster_run_next:
  assumes env: "env_ok (sv_env sv)" "queries_ok sv" "slash_free ns"
    and run: "(cluster_step sv bk kv ns)\<^sup>*\<^sup>* c c'" and at: "cluster_at sv kv healthy holder ns w c"
  shows "cluster_next sv kv healthy holder ns w c c'"
  using run
proof (induction rule: rtranclp_induct)
  case base
  show ?case using at by (intro cluster_nextI [of _ _ _ _ _ w]) simp_all
next
  case (step c' c'')
  from step.IH show ?case by (rule cluster_next_trans) (rule cluster_step_next [OF env step.hyps(2)])
qed

text \<open>What a cluster does to the scheduler, the scheduler's system does.\<close>

lemma cluster_step_sched:
  assumes env: "env_ok (sv_env sv)" "slash_free ns" and at: "cluster_at sv kv healthy holder ns w c"
    and step: "cluster_step sv bk kv ns c c'"
  shows "(sched_step sv bk kv ns)\<^sup>*\<^sup>* (sched_part c) (sched_part c')"
proof -
  have poll: "sched_step sv bk kv ns (s, ts) (s', ts)"
    if "cluster_at sv kv healthy holder ns w (s, ts, es @ ex # es')" "ex_request ex = Some req" "poll_work sv bk ns req s = Some (reply, s')"
    for s s' :: 's and ts es es' ex req reply
  proof -
    have "honest sv ns (kv s) req" using env that by (rule poll_handled)
    then show ?thesis using that(3) by (rule step_poll)
  qed
  from step at show ?thesis by cases (auto intro: step_other poll)
qed

lemma cluster_run_sched:
  assumes env: "env_ok (sv_env sv)" "queries_ok sv" "slash_free ns"
    and run: "(cluster_step sv bk kv ns)\<^sup>*\<^sup>* c c'" and at: "cluster_at sv kv healthy holder ns w c"
  shows "(sched_step sv bk kv ns)\<^sup>*\<^sup>* (sched_part c) (sched_part c')"
  using run
proof (induction rule: rtranclp_induct)
  case (step c' c'')
  from cluster_run_next [OF env step.hyps(1) at] obtain w' where "cluster_at sv kv healthy holder ns w' c'"
    unfolding cluster_next_def by blast
  with step.IH cluster_step_sched [OF env(1,3) _ step.hyps(2)] show ?case by (meson rtranclp_trans)
qed simp

lemma cluster_at_init:
  assumes "healthy s" "holder s = None" "kv s = Map.empty"
  obtains w where "cluster_at sv kv healthy holder ns w (s, [], [])"
  using sched_inv_init [OF assms, of sv ns] by (auto simp: sched_inv_def cluster_at_def)

end


section \<open>Properties of the cluster\<close>

lemma cluster_view_unique:
  assumes "cluster_next sv kv healthy holder ns w c (s', ts', es')" "represents (sv_env sv) ns (kv s') w'"
  shows "cluster_at sv kv healthy holder ns w' (s', ts', es')" "tasks_later w w'"
    "forgotten w c p e \<Longrightarrow> forgotten w' (s', ts', es') p e"
proof -
  from assms(1) obtain v where v: "cluster_at sv kv healthy holder ns v (s', ts', es')" "tasks_later w v"
      "\<forall>p e. forgotten w c p e \<longrightarrow> forgotten v (s', ts', es') p e"
    unfolding cluster_next_def by blast
  then have "represents (sv_env sv) ns (kv s') v" by (simp add: cluster_at_def sched_at_def)
  then have "v = w'" using assms(2) by (rule represents_unique)
  with v show "cluster_at sv kv healthy holder ns w' (s', ts', es')" "tasks_later w w'"
    "forgotten w c p e \<Longrightarrow> forgotten w' (s', ts', es') p e" by auto
qed

text \<open>A store in which one task runs at executor \<open>e1\<close>, and executors that have it in their hands.\<close>

abbreviation example_meta :: executor_meta where
  "example_meta \<equiv> \<lparr>em_id = ''e1'', em_host = ''h'', em_port = 50051\<rparr>"

abbreviation example_at :: "sched_view \<Rightarrow> _ \<Rightarrow> bool" where
  "example_at \<equiv> sched_at example_server (client_kv map_of) (client_healthy map_of mem_fine) client_holder ''default''"

abbreviation example_step :: "_ cluster \<Rightarrow> _ cluster \<Rightarrow> bool" where
  "example_step \<equiv> cluster_step example_server (standalone_backend mem_sled) (client_kv map_of) ''default''"

definition example_executor :: "partition_id \<Rightarrow> executor" where
  "example_executor p = (poll_loop_start example_meta 1)\<lparr>ex_slots := 0, ex_running := [(partition_id_to_pb p, EmptyExec True [])]\<rparr>"

abbreviation example_poll :: poll_work_params where
  "example_poll \<equiv> \<lparr>pw_metadata = Some (executor_meta_to_pb example_meta), pw_can_accept_task = True, pw_task_status = []\<rparr>"

lemma example_assigned:
  obtains s s' w' t where "example_at example_job_view (s, [])" "example_at w' (s', [])"
    "poll_work example_server (standalone_backend mem_sled) ''default'' example_poll s = Some (Ok \<lparr>pr_task = Some t\<rparr>, s')"
    "poll_spec example_server example_meta True [] example_job_view (Some t) w'"
proof -
  obtain s where s: "sched_inv example_server (client_kv map_of) (client_healthy map_of mem_fine) client_holder ''default'' (s, [])"
      "represents (sv_env example_server) ''default'' (client_kv map_of s) example_job_view"
    using example_system by (auto simp: example_server_def)
  then obtain v where v: "example_at v (s, [])" by (auto simp: sched_inv_def)
  then have "represents (sv_env example_server) ''default'' (client_kv map_of s) v" by (rule sched_atE)
  with s(2) have "v = example_job_view" by (rule represents_unique [symmetric])
  with v have at: "example_at example_job_view (s, [])" by simp
  have "slash_free ''default''" by (simp add: slash_free_def)
  moreover have "pw_metadata example_poll = Some (executor_meta_to_pb example_meta)" "pw_task_status example_poll = report_messages []"
    "reports_ok (register (executor_meta_from_pb (executor_meta_to_pb example_meta)) example_job_view) []"
    by (simp_all add: report_messages_def reports_ok_def)
  ultimately obtain task s' w' where p: "example_at w' (s', [])"
      "poll_work example_server (standalone_backend mem_sled) ''default'' example_poll s = Some (Ok \<lparr>pr_task = task\<rparr>, s')"
      "poll_spec example_server (executor_meta_from_pb (executor_meta_to_pb example_meta)) (pw_can_accept_task example_poll) []
        example_job_view task w'"
    using standalone.poll_at [OF example_server_inv(1) _ at] by metis
  have "plan_deps (EmptyExec True []) = []" by (simp add: shuffle_tasks_def shuffles_children)
  then have "schedulable (register example_meta example_job_view) (example_pid 0) (EmptyExec True [])"
    by (simp add: schedulable_def example_job_view_def example_pid_def register_def)
  then obtain t where "task = Some t" using p(3) by (auto simp: poll_spec_def assigned_def apply_reports_def)
  with at p show ?thesis by (intro that) simp_all
qed

lemma example_running:
  obtains s w p where "example_at w (s, [])" "vw_tasks w p = Some (Some (TS_Running ''e1''))" "pid_fits p"
proof -
  obtain s w t where p: "example_at w (s, [])" "poll_spec example_server example_meta True [] example_job_view (Some t) w"
    by (rule example_assigned)
  have rep: "represents (sv_env example_server) ''default'' (client_kv map_of s) w" using p(1) by (rule sched_atE)
  from p(2) show ?thesis
  proof (cases rule: poll_spec_tasks)
    case (some q n)
    then have "vw_tasks w q = Some (Some (TS_Running ''e1''))" by simp
    with p(1) represents_fits [OF rep, of q] show ?thesis by (intro that) auto
  qed simp
qed

lemma example_executor_at:
  assumes "example_at w (s, [])" "vw_tasks w p = Some (Some (TS_Running ''e1''))" "pid_fits p"
  shows "cluster_at example_server (client_kv map_of) (client_healthy map_of mem_fine) client_holder ''default'' w (s, [], [example_executor p])"
proof -
  have "held (example_executor p) = [p]" "unreported (example_executor p) = []"
    using assms(3) by (simp_all add: held_def unreported_def example_executor_def poll_loop_start_def pid_of_pb_fits)
  moreover have "slots_ok (example_executor p)" by (simp add: slots_ok_def example_executor_def poll_loop_start_def)
  ultimately show ?thesis
    using assms by (simp add: cluster_at_def executor_ok_def) (simp add: example_executor_def poll_loop_start_def)
qed

text \<open>
  C2. A cluster does what the scheduler is built for.  Start with an empty store and let executors
  join, poll, run tasks, report and disappear, lose any poll or reply on the way, and let queries
  arrive: what happens to the scheduler is a run of the scheduler's system, so executors never report
  anything the scheduler does not expect; and at every moment each task an executor runs or has yet
  to report is marked as running there in the store, and no task is in the hands of two.
\<close>

theorem cluster_refines_scheduler:
  assumes "config_backend bk kv healthy holder" "env_ok (sv_env sv)" "queries_ok sv" "slash_free ns"
    and "healthy s0" "holder s0 = None" "kv s0 = Map.empty"
    and "(cluster_step sv bk kv ns)\<^sup>*\<^sup>* (s0, [], []) (s, ts, es)"
  shows "(sched_step sv bk kv ns)\<^sup>*\<^sup>* (s0, []) (s, ts) \<and>
    (\<exists>w. represents (sv_env sv) ns (kv s) w \<and> distinct (concat (map held es)) \<and>
      (\<forall>ex \<in> set es. \<forall>p \<in> set (held ex). vw_tasks w p = Some (Some (TS_Running (pem_id (ex_meta ex))))))"
proof -
  obtain v where v: "cluster_at sv kv healthy holder ns v (s0, [], [])" using config_backend.cluster_at_init [OF assms(1,5-7)] .
  from config_backend.cluster_run_next [OF assms(1-4,8) v] obtain w where "cluster_at sv kv healthy holder ns w (s, ts, es)"
    unfolding cluster_next_def by blast
  then have "represents (sv_env sv) ns (kv s) w" "distinct (concat (map held es))" "\<forall>ex \<in> set es. executor_ok w ex"
    by (simp_all add: cluster_at_def sched_at_def)
  with config_backend.cluster_run_sched [OF assms(1-4,8) v] show ?thesis by (auto simp: executor_ok_def)
qed


lemma example_join: "example_step\<^sup>*\<^sup>* (s, [], []) (s, [], [poll_request (poll_loop_start example_meta 2)])"
proof -
  have "example_step (s, [], []) (s, [], [poll_loop_start example_meta 2])" by (rule cs_join) simp
  moreover have "example_step (s, [], [] @ poll_loop_start example_meta 2 # []) (s, [], [] @ poll_request (poll_loop_start example_meta 2) # [])"
    by (rule cs_request) (simp add: poll_loop_start_def)
  ultimately show ?thesis by auto
qed

lemma example_empty:
  "client_healthy map_of mem_fine example_client" "client_holder example_client = None" "client_kv map_of example_client = Map.empty"
  "slash_free ''default''"
  by (rule example_client_ok(1)) (simp_all add: client_holder_def client_kv_def example_client_def fun_eq_iff slash_free_def)

theorem cluster_refines_scheduler_witness:
  "\<exists>s'. example_step\<^sup>*\<^sup>* (example_client, [], []) (s', [], [poll_loop_start example_meta 2]) \<and>
    (sched_step example_server (standalone_backend mem_sled) (client_kv map_of) ''default'')\<^sup>*\<^sup>* (example_client, []) (s', [])"
proof -
  let ?ex = "poll_request (poll_loop_start example_meta 2)"
  let ?req = "\<lparr>pw_metadata = Some (executor_meta_to_pb example_meta), pw_can_accept_task = (0 < (2 :: u64)), pw_task_status = []\<rparr>"
  have ex: "ex_request ?ex = Some ?req" "?ex\<lparr>ex_request := None\<rparr> = poll_loop_start example_meta 2"
    by (simp_all add: poll_request_def poll_loop_start_def)
  have "pw_metadata ?req = Some (executor_meta_to_pb example_meta)" "pw_task_status ?req = report_messages []" "reports_ok v []" for v
    by (simp_all add: report_messages_def reports_ok_def)
  moreover obtain w where "example_at w (example_client, [])"
    using standalone.sched_inv_init [OF example_empty(1-3), of example_server "''default''"] by (auto simp: sched_inv_def)
  ultimately obtain reply s' where "poll_work example_server (standalone_backend mem_sled) ''default'' ?req example_client = Some (reply, s')"
    using standalone.poll_at [OF example_server_inv(1) example_empty(4)] by metis
  with ex(1) have "example_step (example_client, [], [] @ ?ex # []) (s', [], [] @ ?ex\<lparr>ex_request := None\<rparr> # [])" by (rule cs_reply_lost)
  then have "example_step\<^sup>*\<^sup>* (example_client, [], []) (s', [], [poll_loop_start example_meta 2])"
    using example_join [of example_client] unfolding ex(2) append_Nil by (rule rtranclp.rtrancl_into_rtrancl [rotated])
  with cluster_refines_scheduler [OF standalone.config_backend_axioms example_server_inv(1) example_queries_ok example_empty(4,1-3) this]
  show ?thesis by blast
qed

text \<open>
  C3. A task is run once.  Along every run of a cluster a stored task only moves forward: a pending
  task may be given to an executor, a running one may be completed by the executor that was given it
  or fail, and a completed or failed one never changes again; none disappears.
\<close>

theorem task_lifecycle:
  assumes "config_backend bk kv healthy holder" "env_ok (sv_env sv)" "queries_ok sv" "slash_free ns"
    and "cluster_at sv kv healthy holder ns w c" "(cluster_step sv bk kv ns)\<^sup>*\<^sup>* c (s', ts', es')"
    and "represents (sv_env sv) ns (kv s') w'" "vw_tasks w p = Some x"
  shows "\<exists>y. vw_tasks w' p = Some y \<and>
    (y = x \<or> x = None \<or> (\<exists>e. x = Some (TS_Running e) \<and> (y = Some (TS_Completed e) \<or> (\<exists>msg. y = Some (TS_Failed msg)))))"
proof -
  have "tasks_later w w'"
    using cluster_view_unique(2) [OF config_backend.cluster_run_next [OF assms(1-4,6,5)] assms(7)] .
  with assms(8) obtain y where "vw_tasks w' p = Some y" "later_state x y" unfolding tasks_later_def by blast
  then show ?thesis by (auto simp: later_state_def final_state_def)
qed

theorem task_lifecycle_witness:
  "\<exists>s w p. example_at w (s, []) \<and> vw_tasks w p = Some (Some (TS_Running ''e1'')) \<and>
    example_step\<^sup>*\<^sup>* (s, [], [example_executor p]) (s, [], [task_done (sv_dbg example_server) 0 (Ok ()) (example_executor p)])"
proof -
  obtain s w p where s: "example_at w (s, [])" "vw_tasks w p = Some (Some (TS_Running ''e1''))" "pid_fits p"
    by (rule example_running)
  have "example_step (s, [], [] @ example_executor p # []) (s, [], [] @ task_done (sv_dbg example_server) 0 (Ok ()) (example_executor p) # [])"
    by (rule cs_task_done) (simp add: example_executor_def)
  then have run: "example_step\<^sup>*\<^sup>* (s, [], [example_executor p]) (s, [], [task_done (sv_dbg example_server) 0 (Ok ()) (example_executor p)])"
    by auto
  have "represents (sv_env example_server) ''default'' (client_kv map_of s) w" using s(1) by (rule sched_atE)
  from task_lifecycle [OF standalone.config_backend_axioms example_server_inv(1) example_queries_ok example_empty(4)
      example_executor_at [OF s] run this s(2)] s run
  show ?thesis by blast
qed

text \<open>
  C18. An executor never runs more tasks than it may.  At every moment the free slots and the running
  tasks of an executor are together at most its number of concurrent tasks, so the counter of slots
  never wraps around, and a poll that asks for work is sent only when there is a slot for it.
\<close>

theorem executor_slots_bound:
  assumes "config_backend bk kv healthy holder" "env_ok (sv_env sv)" "queries_ok sv" "slash_free ns"
    and "healthy s0" "holder s0 = None" "kv s0 = Map.empty"
    and "(cluster_step sv bk kv ns)\<^sup>*\<^sup>* (s0, [], []) (s, ts, es)" "ex \<in> set es"
  shows "unat (ex_slots ex) + length (ex_running ex) \<le> ex_concurrent_tasks ex \<and>
    (\<forall>req. ex_request ex = Some req \<and> pw_can_accept_task req \<longrightarrow> 0 < ex_slots ex)"
proof -
  obtain v where v: "cluster_at sv kv healthy holder ns v (s0, [], [])" using config_backend.cluster_at_init [OF assms(1,5-7)] .
  from config_backend.cluster_run_next [OF assms(1-4,8) v] obtain w where "cluster_at sv kv healthy holder ns w (s, ts, es)"
    unfolding cluster_next_def by blast
  with assms(9) have "slots_ok ex" by (auto simp: cluster_at_def executor_ok_def)
  then show ?thesis by (simp add: slots_ok_def)
qed

theorem executor_slots_bound_witness:
  "unat (ex_slots (poll_request (poll_loop_start example_meta 2))) \<le> 2 \<and> 0 < ex_slots (poll_request (poll_loop_start example_meta 2))"
  using executor_slots_bound [OF standalone.config_backend_axioms example_server_inv(1) example_queries_ok example_empty(4,1-3)
      example_join, of "poll_request (poll_loop_start example_meta 2)"]
  by (simp add: poll_request_def poll_loop_start_def)


definition reporting_executor :: "partition_id \<Rightarrow> executor" where
  "reporting_executor p = poll_request (report_sent 0 (task_done (sv_dbg example_server) 0 (Ok ()) (example_executor p)))"

lemma example_reporting: "example_step\<^sup>*\<^sup>* (s, [], [example_executor p]) (s, [], [reporting_executor p])"
proof -
  let ?ex1 = "task_done (sv_dbg example_server) 0 (Ok ()) (example_executor p)" and ?ex2 = "\<lambda>ex. report_sent 0 ex"
  have "example_step (s, [], [] @ example_executor p # []) (s, [], [] @ ?ex1 # [])"
    by (rule cs_task_done) (simp add: example_executor_def)
  moreover have "example_step (s, [], [] @ ?ex1 # []) (s, [], [] @ ?ex2 ?ex1 # [])"
    by (rule cs_report) (simp add: task_done_def as_task_status_def)
  moreover have "example_step (s, [], [] @ ?ex2 ?ex1 # []) (s, [], [] @ reporting_executor p # [])"
    unfolding reporting_executor_def
    by (rule cs_request) (simp add: report_sent_def task_done_def as_task_status_def example_executor_def poll_loop_start_def)
  ultimately show ?thesis by (simp add: converse_rtranclp_into_rtranclp)
qed


end
