(* ===== verification/Task_Plans.thy ===== *)
theory Task_Plans
  imports Cluster
begin

text \<open>
  The plans that travel from the scheduler to the executors.  A stored plan that can be sent and
  read back stays so when its shuffles are resolved, so an executor can always decode the task it is
  given, and what it decodes has no unresolved shuffle; and a resolved shuffle reads, partition by
  partition, what the tasks of the earlier stage stored.

  What DataFusion's operators contribute is the assumption \<open>schema_driven\<close>: the schema of an operator
  and the success of its constructor depend on its inputs only through their schemas.
\<close>

section \<open>Resolving keeps a plan sendable\<close>

definition schema_driven :: "df_ops \<Rightarrow> df_builders \<Rightarrow> bool" where
  "schema_driven df b \<longleftrightarrow>
     (\<forall>p cs. \<not> is_ballista_op p \<longrightarrow> map (plan_schema df) cs = map (plan_schema df) (children p) \<longrightarrow>
        df_schema df (replace_children p cs) = df_schema df p) \<and>
     (\<forall>es i i'. plan_schema df i' = plan_schema df i \<longrightarrow> db_projection b es i = Ok (ProjectionExec es i) \<longrightarrow>
        db_projection b es i' = Ok (ProjectionExec es i')) \<and>
     (\<forall>e i i'. plan_schema df i' = plan_schema df i \<longrightarrow> db_filter b e i = Ok (FilterExec e i) \<longrightarrow>
        db_filter b e i' = Ok (FilterExec e i')) \<and>
     (\<forall>l r l' r' on j. plan_schema df l' = plan_schema df l \<longrightarrow> plan_schema df r' = plan_schema df r \<longrightarrow>
        db_hash_join b l r on j = Ok (HashJoinExec l r on j) \<longrightarrow> db_hash_join b l' r' on j = Ok (HashJoinExec l' r' on j)) \<and>
     (\<forall>m g a i i' s. plan_schema df i' = plan_schema df i \<longrightarrow> db_hash_aggregate b m g a i s = Ok (HashAggregateExec m g a i s) \<longrightarrow>
        db_hash_aggregate b m g a i' s = Ok (HashAggregateExec m g a i' s)) \<and>
     (\<forall>es i i'. plan_schema df i' = plan_schema df i \<longrightarrow> db_sort b es i = Ok (SortExec es i) \<longrightarrow>
        db_sort b es i' = Ok (SortExec es i'))"

lemma schema_driven_plain: "schema_driven df_plain plain_builders"
  by (simp add: schema_driven_def df_plain_def plain_builders_def)

lemma schema_driven_replace:
  "schema_driven df b \<Longrightarrow> \<not> is_ballista_op p \<Longrightarrow> map (plan_schema df) cs = map (plan_schema df) (children p) \<Longrightarrow>
   df_schema df (replace_children p cs) = df_schema df p"
  by (simp add: schema_driven_def)

lemma plan_schema_df: "\<not> is_ballista_op p \<Longrightarrow> plan_schema df p = df_schema df p"
  by (cases p) simp_all

lemma plan_ok_children: "plan_ok df b p \<Longrightarrow> c \<in> set (children p) \<Longrightarrow> plan_ok df b c"
  by (cases p) auto

lemma resolve_schema:
  assumes "schema_driven df b" "plan_ok df b p"
  shows "plan_schema df (resolve locs p) = plan_schema df p"
  using assms(2)
proof (induction p rule: plan_induct)
  case (plan p)
  show ?case
  proof (cases "is_ballista_op p")
    case True
    with plan.prems show ?thesis by (cases p) (simp_all add: resolve.simps shuffle_reader_def)
  next
    case False
    then have p: "resolve locs p = replace_children p (map (resolve locs) (children p))"
      by (simp add: resolve_None as_unresolved_ballista)
    have "map (plan_schema df) (map (resolve locs) (children p)) = map (plan_schema df) (children p)"
      using plan.IH plan_ok_children [OF plan.prems] by simp
    then have "df_schema df (resolve locs p) = df_schema df p"
      unfolding p by (rule schema_driven_replace [OF assms(1) False])
    moreover have "\<not> is_ballista_op (resolve locs p)" using False by (simp add: p is_ballista_replace)
    ultimately show ?thesis using False by (simp add: plan_schema_df)
  qed
qed

text \<open>One level: operators whose inputs are replaced by inputs with the same schema.\<close>

lemma plan_ok_replace:
  assumes "schema_driven df b" "plan_ok df b p" "\<not> is_ballista_op p" "length cs = length (children p)"
    and "list_all (plan_ok df b) cs" "map (plan_schema df) cs = map (plan_schema df) (children p)"
  shows "plan_ok df b (replace_children p cs)"
proof -
  note driven = assms(1) [unfolded schema_driven_def]
  from assms(4) show ?thesis
  proof (cases p)
    case (ProjectionExec es i)
    with assms(4) obtain c where "cs = [c]" by (auto simp: length_Suc_conv)
    with assms ProjectionExec driven show ?thesis by simp
  next
    case (FilterExec e i)
    with assms(4) obtain c where "cs = [c]" by (auto simp: length_Suc_conv)
    with assms FilterExec driven show ?thesis by simp
  next
    case (HashJoinExec l r on j)
    with assms(4) obtain c d where "cs = [c, d]" by (auto simp: length_Suc_conv)
    with assms HashJoinExec driven show ?thesis by simp
  next
    case (HashAggregateExec m g a i s)
    with assms(4) obtain c where "cs = [c]" by (auto simp: length_Suc_conv)
    with assms HashAggregateExec driven show ?thesis by simp
  next
    case (SortExec es i)
    with assms(4) obtain c where "cs = [c]" by (auto simp: length_Suc_conv)
    with assms SortExec driven show ?thesis by simp
  qed (use assms in \<open>auto simp: length_Suc_conv\<close>)
qed

lemma plan_ok_resolve:
  assumes "schema_driven df b" "plan_ok df b p" "located locs p" "\<forall>i ls. locs i = Some ls \<longrightarrow> list_all location_fits ls"
  shows "plan_ok df b (resolve locs p)"
  using assms(2,3)
proof (induction p rule: plan_induct)
  case (plan p)
  show ?case
  proof (cases "is_ballista_op p")
    case True
    then show ?thesis
    proof (cases p)
      case (UnresolvedShuffleExec ids sch n)
      with plan.prems(2) have "set ids \<subseteq> dom locs" by (simp add: located_unresolved)
      then have "list_all location_fits (concat (map (\<lambda>i. the (locs i)) ids))"
        using assms(4) by (fastforce simp: list_all_iff dom_def)
      with plan.prems(1) UnresolvedShuffleExec show ?thesis by (simp add: resolve.simps shuffle_reader_def)
    qed (use plan.prems(1) in \<open>simp_all add: resolve.simps\<close>)
  next
    case False
    then have p: "as_unresolved p = None" by (simp add: as_unresolved_ballista)
    have "list_all (plan_ok df b) (map (resolve locs) (children p))"
      using plan plan_ok_children located_children [OF p] by (simp add: list_all_iff)
    moreover have "map (plan_schema df) (map (resolve locs) (children p)) = map (plan_schema df) (children p)"
      using resolve_schema [OF assms(1)] plan_ok_children [OF plan.prems(1)] by simp
    ultimately show ?thesis
      unfolding resolve_None [OF p] by (intro plan_ok_replace [OF assms(1) plan.prems(1) False]) simp_all
  qed
qed


section \<open>The plan of a task that is handed out\<close>

text \<open>Reports are on tasks of the store, so a poll finds no task that was not there before it.\<close>

lemma reported_tasks:
  assumes "reports_ok (register meta w) rs"
  shows "vw_tasks (apply_reports rs (register meta w)) q \<noteq> None \<Longrightarrow> vw_tasks w q \<noteq> None"
    and "vw_tasks (apply_reports rs (register meta w)) q = Some None \<Longrightarrow> vw_tasks w q = Some None"
proof -
  have known: "vw_tasks w q \<noteq> None" if "q \<in> fst ` set rs"
    using that assms by (auto simp: reports_ok_def register_def)
  show "vw_tasks w q \<noteq> None" if "vw_tasks (apply_reports rs (register meta w)) q \<noteq> None"
    using that known apply_reports_other [of q rs w] by (cases "q \<in> fst ` set rs") simp_all
  show "vw_tasks w q = Some None" if "vw_tasks (apply_reports rs (register meta w)) q = Some None"
    using that apply_reports_other [of q rs w] apply_reports_some [of q rs w] by (cases "q \<in> fst ` set rs") auto
qed

lemma assigned_plan_sendable:
  assumes driven: "schema_driven (env_df (sv_env sv)) (env_builders (sv_env sv))"
    and rep: "represents (sv_env sv) ns m w" and inv: "store_inv sv w" and rs: "reports_ok (register meta w) rs"
    and task: "schedulable (apply_reports rs (register meta w)) p plan"
  shows "plan_ok (env_df (sv_env sv)) (env_builders (sv_env sv)) (assigned_plan (apply_reports rs (register meta w)) p plan)"
    and "plan_shuffles (assigned_plan (apply_reports rs (register meta w)) p plan) = []"
proof -
  let ?w1 = "apply_reports rs (register meta w)"
  let ?locs = "push_deps ?w1 (pid_job p) (plan_deps plan) Map.empty"
  have plans: "vw_plans ?w1 = vw_plans w" by (simp add: apply_reports_def register_def)
  from task have p: "vw_tasks w p = Some None" "vw_plans w (pid_job p, pid_stage p) = Some plan"
    and deps: "list_all (\<lambda>sp. completed_at ?w1 (pid_job p) sp \<noteq> None) (plan_deps plan)"
    using reported_tasks(2) [OF rs] unfolding schedulable_def plans by auto
  have ok: "plan_ok (env_df (sv_env sv)) (env_builders (sv_env sv)) plan" using inv p(2) by (auto simp: store_inv_def plans_ok_def)
  have "pending_ok w p" using inv p(1) by (simp add: store_inv_def server_inv_def tasks_ok_def)
  then have "\<forall>u \<in> set (plan_shuffles plan). 0 < us_partition_count u" using p(2) by (simp add: pending_ok_def)
  then have located: "located ?locs plan" by (rule deps_located)
  have fits: "pid_fits (dep_pid (pid_job p) sp)" if "sp \<in> set (plan_deps plan)" for sp
  proof -
    from that deps have "completed_at ?w1 (pid_job p) sp \<noteq> None" by (simp add: list_all_iff)
    then have "vw_tasks ?w1 (dep_pid (pid_job p) sp) \<noteq> None" unfolding completed_at_def by (auto split: option.splits)
    then have "vw_tasks w (dep_pid (pid_job p) sp) \<noteq> None" by (rule reported_tasks(1) [OF rs])
    then show ?thesis by (rule represents_fits [OF rep])
  qed
  have "list_all location_fits ls" if "?locs i = Some ls" for i ls
    using that fits by (auto simp: push_deps_at list_all_iff dep_location_def location_fits_def split: if_splits)
  with driven ok located show "plan_ok (env_df (sv_env sv)) (env_builders (sv_env sv)) (assigned_plan ?w1 p plan)"
    unfolding assigned_plan_def by (intro plan_ok_resolve) blast+
  show "plan_shuffles (assigned_plan ?w1 p plan) = []" unfolding assigned_plan_def by (rule resolve_no_shuffles)
qed

text \<open>What an executor makes of the task in the reply to a poll.\<close>

lemma poll_spec_runs:
  assumes env: "env_ok (sv_env sv)" and driven: "schema_driven (env_df (sv_env sv)) (env_builders (sv_env sv))"
    and rep: "represents (sv_env sv) ns m w" and inv: "store_inv sv w" and rs: "reports_ok (register meta w) rs"
    and spec: "poll_spec sv meta can_accept rs w task w'"
  obtains (none) "task = None"
  | (some) p plan n where "task = Some \<lparr>td_task_id = Some (partition_id_to_pb p), td_plan = Some n\<rparr>"
      "plan_try_into (env_df (sv_env sv)) (env_builders (sv_env sv)) n = Ok plan"
      "plan_ok (env_df (sv_env sv)) (env_builders (sv_env sv)) plan" "plan_shuffles plan = []"
      "vw_tasks (apply_reports rs w) p = Some None"
      "vw_tasks w' = (vw_tasks (apply_reports rs w))(p \<mapsto> Some (TS_Running (em_id meta)))"
proof (cases task)
  case (Some t)
  let ?w1 = "apply_reports rs (register meta w)"
  from Some spec obtain w2 where w2: "assigned sv (em_id meta) ?w1 (Some t) w2" "if rs = [] then w' = w2 else synced w2 w'"
    by (auto simp: poll_spec_def split: if_splits)
  then obtain p plan n where p: "schedulable ?w1 p plan" "plan_into (env_builders (sv_env sv)) (assigned_plan ?w1 p plan) = Ok n"
      "t = \<lparr>td_task_id = Some (partition_id_to_pb p), td_plan = Some n\<rparr>" "w2 = start_task (em_id meta) p ?w1"
    by (auto simp: assigned_def)
  have "vw_tasks w' = vw_tasks w2" using w2(2) by (rule synced_tasks)
  then have tasks: "vw_tasks w' = (vw_tasks (apply_reports rs w))(p \<mapsto> Some (TS_Running (em_id meta)))" "vw_tasks (apply_reports rs w) p = Some None"
    using p(1,4) by (auto simp: start_task_def schedulable_def)
  note sendable = assigned_plan_sendable [OF driven rep inv rs p(1)]
  have "unary_helpers (db_helpers (env_builders (sv_env sv)))" using env by (simp add: env_ok_def)
  then have "plan_try_into (env_df (sv_env sv)) (env_builders (sv_env sv)) n = Ok (assigned_plan ?w1 p plan)"
    using serde.roundtrip [OF plan_serde_helpers sendable(1)] p(2) by fastforce
  with sendable Some p(3) tasks show ?thesis by (intro some) auto
qed (rule none)

section \<open>Properties\<close>

text \<open>
  C4. An executor can run what it is given.  In every state of a cluster the reply to a poll is
  handled without a panic: a task in it decodes, and the plan of the task that is started has no
  unresolved shuffle left and can itself be sent and read back.
\<close>

theorem handed_out_task_decodes:
  assumes "config_backend bk kv healthy holder" "env_ok (sv_env sv)" "slash_free ns"
    and "schema_driven (env_df (sv_env sv)) (env_builders (sv_env sv))"
    and "cluster_at sv kv healthy holder ns w (s, ts, es @ ex # es')" "ex_request ex = Some req"
    and "poll_work sv bk ns req s = Some (reply, s')"
  shows "\<exists>tasks. poll_reply (env_df (sv_env sv)) (env_builders (sv_env sv)) reply ex =
      (Ok (ex\<lparr>ex_request := None, ex_slots := ex_slots ex - of_nat (length tasks), ex_running := ex_running ex @ tasks\<rparr>) :: executor bresult) \<and>
    length tasks \<le> 1 \<and>
    list_all (\<lambda>(_, plan). plan_ok (env_df (sv_env sv)) (env_builders (sv_env sv)) plan \<and> plan_shuffles plan = []) tasks"
proof -
  let ?meta = "executor_meta_from_pb (ex_meta ex)"
  from assms(5) have c: "sched_at sv kv healthy holder ns w (s, ts)" "executor_ok w ex"
    unfolding cluster_at_executors by simp_all
  then have w: "represents (sv_env sv) ns (kv s) w" "store_inv sv w" by (auto elim: sched_atE)
  note rs = request_reports [OF c(2) assms(6)]
  from assms(2,3) c(1) rs(1,2,5) obtain task s1 w' where run: "poll_work sv bk ns req s = Some (Ok \<lparr>pr_task = task\<rparr>, s1)"
      "poll_spec sv ?meta (pw_can_accept_task req) (poll_reports req) w task w'"
    by (rule config_backend.poll_at [OF assms(1)])
  with assms(7) have reply: "reply = Ok \<lparr>pr_task = task\<rparr>" by simp
  from assms(2,4) w rs(5) run(2) show ?thesis
  proof (cases rule: poll_spec_runs)
    case none
    then show ?thesis by (intro exI [of _ "[]"]) (simp add: reply poll_reply_def)
  next
    case (some p plan n)
    then show ?thesis
      by (intro exI [of _ "[(partition_id_to_pb p, plan)]"]) (simp add: reply poll_reply_def run_received_tasks_def)
  qed
qed

theorem handed_out_task_decodes_witness:
  "\<exists>s s' t task_id plan.
     poll_work example_server (standalone_backend mem_sled) ''default'' example_poll s = Some (Ok \<lparr>pr_task = Some t\<rparr>, s') \<and>
     poll_reply df_plain plain_builders (Ok \<lparr>pr_task = Some t\<rparr> :: (poll_work_result, tonic_status) result) (poll_request (poll_loop_start example_meta 1)) =
       (Ok ((poll_loop_start example_meta 1)\<lparr>ex_slots := 0, ex_running := [(task_id, plan)]\<rparr>) :: executor bresult) \<and>
     plan_ok df_plain plain_builders plan \<and> plan_shuffles plan = []"
proof -
  let ?ex = "poll_request (poll_loop_start example_meta 1)"
  obtain s s' t where s: "example_at example_job_view (s, [])"
      "poll_work example_server (standalone_backend mem_sled) ''default'' example_poll s = Some (Ok \<lparr>pr_task = Some t\<rparr>, s')"
    by (rule example_assigned)
  have request: "ex_request ?ex = Some example_poll" by (simp add: poll_request_def poll_loop_start_def sample_tasks_status_def)
  have empty: "held ?ex = []" "unreported ?ex = []" "slots_ok ?ex"
    by (simp_all add: held_def unreported_def slots_ok_def poll_request_def poll_loop_start_def sample_tasks_status_def)
  have at: "cluster_at example_server (client_kv map_of) (client_healthy map_of mem_fine) client_holder ''default'' example_job_view
      (s, [], [] @ ?ex # [])"
    unfolding cluster_at_executors executor_ok_def using s(1) empty request
    by (simp add: poll_request_def poll_loop_start_def sample_tasks_status_def)
  have "schema_driven (env_df (sv_env example_server)) (env_builders (sv_env example_server))"
    by (simp add: example_server_def plain_env_def schema_driven_plain)
  from handed_out_task_decodes [OF standalone.config_backend_axioms example_server_inv(1) example_empty(4) this at request s(2)]
  obtain tasks where tasks: "poll_reply df_plain plain_builders (Ok \<lparr>pr_task = Some t\<rparr> :: (poll_work_result, tonic_status) result) ?ex =
      (Ok (?ex\<lparr>ex_request := None, ex_slots := ex_slots ?ex - of_nat (length tasks), ex_running := ex_running ?ex @ tasks\<rparr>) :: executor bresult)"
    "length tasks \<le> 1" "list_all (\<lambda>(_, plan). plan_ok df_plain plain_builders plan \<and> plan_shuffles plan = []) tasks"
    by (auto simp: example_server_def plain_env_def)
  then have "tasks \<noteq> []" by (auto simp: poll_reply_def run_received_tasks_def rbind_eq_Ok poll_request_def poll_loop_start_def sample_tasks_status_def)
  with tasks(2) obtain task_id plan where "tasks = [(task_id, plan)]" by (cases tasks) auto
  with s(2) tasks show ?thesis
    by (intro exI [of _ s] exI [of _ s'] exI [of _ t] exI [of _ task_id] exI [of _ plan])
       (simp add: poll_request_def poll_loop_start_def sample_tasks_status_def)
qed


section \<open>The data a task reads\<close>

text \<open>
  The tasks a planned stage reads, filtered by the stage that produces them, start with the
  partitions of that stage in order, also when several shuffles read the same stage.
\<close>

lemma shuffle_tasks_of_stage:
  assumes "set us \<subseteq> shuffle_of df ` set known" "shuffle_of df s \<in> set us" "s \<in> set known" "distinct (map qs_stage_id known)"
  shows "\<exists>rest. filter (\<lambda>sp. fst sp = qs_stage_id s) (shuffle_tasks us) =
    map (Pair (qs_stage_id s)) [0..<partition_count df (qs_child s)] @ rest"
  using assms(1,2)
proof (induction us)
  case (Cons u us)
  then obtain s' where s': "u = shuffle_of df s'" "s' \<in> set known" by auto
  have head: "shuffle_tasks (u # us) = map (Pair (qs_stage_id s')) [0..<partition_count df (qs_child s')] @ shuffle_tasks us"
    by (simp add: shuffle_tasks_def s'(1) shuffle_of_def)
  show ?case
  proof (cases "qs_stage_id s' = qs_stage_id s")
    case True
    with assms(3,4) s'(2) have "s' = s" by (auto simp: distinct_map dest: inj_onD)
    then show ?thesis by (simp add: head filter_map comp_def)
  next
    case False
    then have "shuffle_of df s \<noteq> u" by (auto simp: s'(1) shuffle_of_def)
    with False Cons show ?thesis by (simp add: head filter_map comp_def)
  qed
qed simp

text \<open>The plans inside a plan; the reader of every shuffle is inside the resolved plan.\<close>

function subplans :: "exec_plan \<Rightarrow> exec_plan list" where
  "subplans p = p # concat (map subplans (children p))"
  by pat_completeness auto
termination by (relation "measure size") auto

declare subplans.simps [simp del]

lemma subplans_self [simp]: "p \<in> set (subplans p)"
  by (subst subplans.simps) simp

lemma subplans_child: "c \<in> set (children p) \<Longrightarrow> q \<in> set (subplans c) \<Longrightarrow> q \<in> set (subplans p)"
  by (subst subplans.simps) auto

lemma resolve_readers: "u \<in> set (plan_shuffles p) \<Longrightarrow> shuffle_reader locs u \<in> set (subplans (resolve locs p))"
proof (induction p rule: plan_induct)
  case (plan p)
  show ?case
  proof (cases "as_unresolved p")
    case None
    with plan.prems obtain c where c: "c \<in> set (children p)" "u \<in> set (plan_shuffles c)" by (auto simp: shuffles_children)
    from c(1) have "resolve locs c \<in> set (children (resolve locs p))" by (simp add: resolve_None [OF None])
    then show ?thesis using plan.IH [OF c] by (rule subplans_child)
  next
    case (Some v)
    with plan.prems show ?thesis by (simp add: resolve_Some shuffles_unresolved)
  qed
qed

text \<open>Every stage of a planned job reads stages of the job, which have different numbers.\<close>

lemma planned_stages_refs:
  assumes "df_replaces df" "df_plan p" "plan_query_stages df planner job p = Ok (stages, planner')"
  shows "distinct (map qs_stage_id stages)" "t \<in> set stages \<Longrightarrow> refs_in df stages (qs_child t)"
proof -
  obtain p' ts m where *: "stages = ts @ [\<lparr>qs_job_id = job, qs_stage_id = Suc m, qs_child = p'\<rparr>]"
    "planned df job (dp_next_stage_id planner) p p' ts m"
    using plan_query_stages_planned [OF assms(1,2), of planner job] assms(3) by (metis Pair_inject result.inject(1))
  then have ts: "map qs_stage_id ts = [Suc (dp_next_stage_id planner)..<Suc m]" "stages_ok df job [] stages"
    by (simp_all add: planned_def kids_ok_def)
  then show "distinct (map qs_stage_id stages)" by (simp add: *(1))
  have "refs_in df (known @ ss) (qs_child t)" if "stages_ok df job known ss" "t \<in> set ss" for known ss
    using that
  proof (induction ss arbitrary: known)
    case (Cons s ss)
    then show ?case using Cons.IH [of "known @ [s]"] by (auto intro: refs_in_mono)
  qed simp
  from this [OF ts(2)] show "t \<in> set stages \<Longrightarrow> refs_in df stages (qs_child t)" by simp
qed

text \<open>
  C10. A stage reads what the earlier stage wrote.  Take a stage of a planned job, a shuffle in it and
  a task of the stage that can start.  In the plan that is handed out the shuffle has become a reader
  whose partition \<open>k\<close> yields the batches the producing stage stored for its partition \<open>k\<close>, from the
  executor that completed that task, for every \<open>k\<close> below the partition count.
\<close>

theorem shuffle_reads_earlier_stage:
  assumes "df_replaces df" "df_plan query" "plan_query_stages df planner job query = Ok (stages, planner')"
    and "t \<in> set stages" "s \<in> set stages" "shuffle_of df s \<in> set (plan_shuffles (qs_child t))"
    and "schedulable w p (qs_child t)" "pid_job p = job"
    and "flight_ok fe" "disk_ok (fe_disk fe) files dirs" "dict_free sch"
    and "qs_stage_id s < 2 ^ 32" "partition_count df (qs_child s) \<le> 2 ^ 32"
    and "\<forall>k e. vw_tasks w (PartitionId_new job (qs_stage_id s) k) = Some (Some (TS_Completed e)) \<longrightarrow>
      (\<exists>m work_dir. vw_executors w e = Some m \<and>
        nw_connect nw (client_addr (em_host m) (em_port m)) d = (Ok (), d) \<and>
        serves fe nw (client_addr (em_host m) (em_port m)) work_dir \<and>
        files d (partition_path work_dir job (qs_stage_id s) k) = Some (F_Finished sch (out k)) \<and>
        (\<forall>b \<in> set (out k). rb_schema b = sch))"
    and "k < partition_count df (qs_child s)"
  shows "let reader = shuffle_reader (push_deps w job (plan_deps (qs_child t)) Map.empty) (shuffle_of df s) in
    reader \<in> set (subplans (assigned_plan w p (qs_child t))) \<and>
    execute_plan fe nw xe reader k d = (Ok (sch, map Ok (out k)), d)"
  unfolding Let_def
proof
  let ?i = "qs_stage_id s" and ?locs = "push_deps w job (plan_deps (qs_child t)) Map.empty"
  let ?reader = "shuffle_reader ?locs (shuffle_of df s)"
  show "?reader \<in> set (subplans (assigned_plan w p (qs_child t)))"
    unfolding assigned_plan_def assms(8) by (rule resolve_readers [OF assms(6)])
  note refs = planned_stages_refs [OF assms(1-3)]
  from refs(2) [OF assms(4)] have "set (plan_shuffles (qs_child t)) \<subseteq> shuffle_of df ` set stages" by (simp add: refs_in_def)
  from shuffle_tasks_of_stage [OF this assms(6,5) refs(1)] obtain rest where
    deps: "filter (\<lambda>sp. fst sp = ?i) (plan_deps (qs_child t)) = map (Pair ?i) [0..<partition_count df (qs_child s)] @ rest" by blast
  have dep: "(?i, k) \<in> set (plan_deps (qs_child t))"
  proof -
    have "(?i, k) \<in> set (filter (\<lambda>sp. fst sp = ?i) (plan_deps (qs_child t)))" using assms(15) unfolding deps by auto
    then show ?thesis by simp
  qed
  then have locs: "?locs ?i = Some (map (dep_location w job) (map (Pair ?i) [0..<partition_count df (qs_child s)] @ rest))"
    unfolding push_deps_at deps by force
  from dep assms(7,8) have "completed_at w job (?i, k) \<noteq> None" by (auto simp: schedulable_def list_all_iff)
  then obtain e where e: "vw_tasks w (dep_pid job (?i, k)) = Some (Some (TS_Completed e))"
    by (auto simp: completed_at_def split: option.splits task_state.splits)
  then have "vw_tasks w (PartitionId_new job ?i k) = Some (Some (TS_Completed e))" by (simp add: dep_pid_def PartitionId_new_def)
  with assms(14) obtain m work_dir where m: "vw_executors w e = Some m"
      "nw_connect nw (client_addr (em_host m) (em_port m)) d = (Ok (), d)" "serves fe nw (client_addr (em_host m) (em_port m)) work_dir"
      "files d (partition_path work_dir job ?i k) = Some (F_Finished sch (out k))" "\<forall>b \<in> set (out k). rb_schema b = sch" by blast
  have loc: "dep_location w job (?i, k) = \<lparr>pl_partition_id = dep_pid job (?i, k), pl_executor_meta = m\<rparr>"
    using e m(1) by (simp add: dep_location_def completed_at_def)
  show "execute_plan fe nw xe ?reader k d = (Ok (sch, map Ok (out k)), d)"
    unfolding shuffle_reader_def using assms(11-13,15) m
    by (intro shuffle_reader_reads [OF assms(9,10), where loc = "dep_location w job (?i, k)"])
       (simp_all add: shuffle_of_def locs loc nth_append)
qed


text \<open>The two stages of the example query, the first of them completed at one executor.\<close>

definition shuffled_stages :: "query_stage list" where
  "shuffled_stages = [\<lparr>qs_job_id = ''job'', qs_stage_id = 1, qs_child = ProjectionExec [] example_scan\<rparr>,
     \<lparr>qs_job_id = ''job'', qs_stage_id = 2, qs_child = SortExec [] (MergeExec (UnresolvedShuffleExec [1] [] 2))\<rparr>]"

definition shuffled_view :: sched_view where
  "shuffled_view = \<lparr>vw_executors = [''e1'' \<mapsto> example_meta], vw_jobs = Map.empty,
     vw_tasks = [PartitionId_new ''job'' 1 0 \<mapsto> Some (TS_Completed ''e1''), PartitionId_new ''job'' 1 1 \<mapsto> Some (TS_Completed ''e1''),
       PartitionId_new ''job'' 2 0 \<mapsto> None],
     vw_plans = [(''job'', 2) \<mapsto> qs_child (shuffled_stages ! 1)]\<rparr>"

definition shuffled_disk :: "(string \<rightharpoonup> plain_array ipc_file) \<times> string set" where
  "shuffled_disk = ([partition_path ''/work'' ''job'' 1 0 \<mapsto> F_Finished [MkField ''v'' DT_UInt64 False] [example_batch 0],
     partition_path ''/work'' ''job'' 1 1 \<mapsto> F_Finished [MkField ''v'' DT_UInt64 False] [example_batch 1]], {})"

lemma shuffled_stages_planned:
  "plan_query_stages df_plain \<lparr>dp_executors = [], dp_next_stage_id = 0\<rparr> ''job'' example_query =
     Ok (shuffled_stages, \<lparr>dp_executors = [], dp_next_stage_id = 2\<rparr>)"
  by code_simp

lemma shuffled_counts:
  "shuffle_of df_plain (hd shuffled_stages) = \<lparr>us_query_stage_ids = [1], us_schema = [], us_partition_count = 2\<rparr>"
  "partition_count df_plain (qs_child (hd shuffled_stages)) = 2"
  "plan_shuffles (qs_child (shuffled_stages ! 1)) = [\<lparr>us_query_stage_ids = [1], us_schema = [], us_partition_count = 2\<rparr>]"
  by code_simp+

theorem shuffle_reads_earlier_stage_witness:
  "\<forall>xe. execute_plan example_flight example_network xe
     (shuffle_reader (push_deps shuffled_view ''job'' (plan_deps (qs_child (shuffled_stages ! 1))) Map.empty)
       (shuffle_of df_plain (hd shuffled_stages))) 1 shuffled_disk =
   (Ok ([MkField ''v'' DT_UInt64 False], [Ok (example_batch 1)]), shuffled_disk)"
proof -
  let ?s = "hd shuffled_stages" and ?t = "shuffled_stages ! 1" and ?sch = "[MkField ''v'' DT_UInt64 False]"
  have in_stages: "?t \<in> set shuffled_stages" "?s \<in> set shuffled_stages" by (simp_all add: shuffled_stages_def)
  have shuffle: "shuffle_of df_plain ?s \<in> set (plan_shuffles (qs_child ?t))" unfolding shuffled_counts by simp
  have deps: "plan_deps (qs_child ?t) = [(1, 0), (1, 1)]" unfolding shuffled_counts by (simp add: shuffle_tasks_def upt_rec)
  have ready: "schedulable shuffled_view (PartitionId_new ''job'' 2 0) (qs_child ?t)"
    unfolding schedulable_def deps by (simp add: shuffled_view_def completed_at_def dep_pid_def PartitionId_new_def)
  have stored: "\<forall>k e. vw_tasks shuffled_view (PartitionId_new ''job'' (qs_stage_id ?s) k) = Some (Some (TS_Completed e)) \<longrightarrow>
      (\<exists>m work_dir. vw_executors shuffled_view e = Some m \<and>
        nw_connect example_network (client_addr (em_host m) (em_port m)) shuffled_disk = (Ok (), shuffled_disk) \<and>
        serves example_flight example_network (client_addr (em_host m) (em_port m)) work_dir \<and>
        fst shuffled_disk (partition_path work_dir ''job'' (qs_stage_id ?s) k) = Some (F_Finished ?sch ([example_batch k])) \<and>
        (\<forall>b \<in> set [example_batch k]. rb_schema b = ?sch))"
    using example_flight_ok(4)
    by (auto simp: shuffled_view_def shuffled_stages_def PartitionId_new_def shuffled_disk_def example_network_def example_batch_def
        intro!: exI [of _ "''/work''"])
  have bounds: "qs_stage_id ?s < 2 ^ 32" "partition_count df_plain (qs_child ?s) \<le> 2 ^ 32" "1 < partition_count df_plain (qs_child ?s)"
    unfolding shuffled_counts by (simp_all add: shuffled_stages_def)
  have job: "pid_job (PartitionId_new ''job'' 2 0) = ''job''" "dict_free ?sch" by (simp_all add: PartitionId_new_def dict_free_def)
  show ?thesis
    using shuffle_reads_earlier_stage [OF df_replaces_plain example_query_df_plan shuffled_stages_planned in_stages shuffle ready job(1)
        example_flight_ok(1,2) job(2) bounds(1,2) stored bounds(3)]
    by (simp add: Let_def)
qed

end
