(* ===== verification/Progress.thy ===== *)
theory Progress
  imports Task_Plans
begin

text \<open>
  Progress of a cluster.  One executor that works is enough: from a state in which no task runs or has
  failed, it can poll, run and report until every task of every job is completed and the jobs are
  marked completed in the store.  The run is built round by round; a round is a poll of an executor
  that is idle or reports the task it has just finished.
\<close>

section \<open>The rounds of an executor\<close>

definition idle_executor :: "executor \<Rightarrow> bool" where
  "idle_executor ex \<longleftrightarrow>
     ex_request ex = None \<and> ex_channel ex = [] \<and> ex_running ex = [] \<and> ex_reporting ex = [] \<and> 0 < ex_slots ex"

text \<open>An idle executor that has been given one task.\<close>

definition busy_with :: "executor \<Rightarrow> partition_id \<Rightarrow> exec_plan \<Rightarrow> executor" where
  "busy_with ex p plan = ex\<lparr>ex_slots := ex_slots ex - 1, ex_running := [(partition_id_to_pb p, plan)]\<rparr>"

abbreviation executor_id :: "executor \<Rightarrow> string" where
  "executor_id ex \<equiv> pem_id (ex_meta ex)"

abbreviation completion :: "executor \<Rightarrow> partition_id \<Rightarrow> partition_id \<times> task_state" where
  "completion ex p \<equiv> (p, TS_Completed (executor_id ex))"

definition asks :: "executor \<Rightarrow> task_status list \<Rightarrow> poll_work_params" where
  "asks ex reports = \<lparr>pw_metadata = Some (ex_meta ex), pw_can_accept_task = True, pw_task_status = reports\<rparr>"

lemma idle_channel [simp]: "idle_executor ex \<Longrightarrow> ex\<lparr>ex_channel := []\<rparr> = ex"
  by (cases ex) (simp add: idle_executor_def)

lemma request_idle: "idle_executor ex \<Longrightarrow> poll_request (ex\<lparr>ex_channel := reports\<rparr>) = ex\<lparr>ex_request := Some (asks ex reports)\<rparr>"
  by (cases ex) (simp add: idle_executor_def poll_request_def sample_tasks_status_eq asks_def)

lemma finished_busy:
  "idle_executor ex \<Longrightarrow> report_sent 0 (task_done dbg 0 (Ok ()) (busy_with ex p plan)) = ex\<lparr>ex_channel := report_messages [completion ex p]\<rparr>"
  by (cases ex)
     (simp add: idle_executor_def report_sent_def task_done_def busy_with_def as_task_status_def remove_nth_def report_messages_def task_of_def)

lemma reply_idle:
  assumes "idle_executor ex"
  shows "poll_reply df b (Ok \<lparr>pr_task = None\<rparr>) (ex\<lparr>ex_request := Some req\<rparr>) = Ok ex"
    and "plan_try_into df b n = Ok plan \<Longrightarrow>
      poll_reply df b (Ok \<lparr>pr_task = Some \<lparr>td_task_id = Some (partition_id_to_pb p), td_plan = Some n\<rparr>\<rparr>) (ex\<lparr>ex_request := Some req\<rparr>) =
        Ok (busy_with ex p plan)"
  using assms by (cases ex; simp add: idle_executor_def poll_reply_def run_received_tasks_def busy_with_def)+

section \<open>Views\<close>

definition pending :: "sched_view \<Rightarrow> partition_id set" where
  "pending w = {p. vw_tasks w p = Some None}"

text \<open>Every task that is not pending is completed, but for those in \<open>ps\<close>.\<close>

definition settled_but :: "partition_id set \<Rightarrow> sched_view \<Rightarrow> bool" where
  "settled_but ps w \<longleftrightarrow> (\<forall>p st. vw_tasks w p = Some (Some st) \<longrightarrow> p \<in> ps \<or> (\<exists>e. st = TS_Completed e))"

text \<open>The same jobs and tasks are in the store; all tasks and all jobs with tasks are completed.\<close>

definition same_work :: "sched_view \<Rightarrow> sched_view \<Rightarrow> bool" where
  "same_work w w' \<longleftrightarrow> dom (vw_tasks w') = dom (vw_tasks w) \<and> dom (vw_jobs w') = dom (vw_jobs w)"

definition all_completed :: "sched_view \<Rightarrow> bool" where
  "all_completed w \<longleftrightarrow>
     (\<forall>p st. vw_tasks w p = Some st \<longrightarrow> (\<exists>e. st = Some (TS_Completed e))) \<and>
     (\<forall>p. vw_tasks w p \<noteq> None \<longrightarrow> vw_jobs w (pid_job p) \<noteq> None \<longrightarrow>
        (\<exists>locs. vw_jobs w (pid_job p) = Some \<lparr>js_status = Some (JS_Completed locs)\<rparr>))"

lemma same_work_trans: "same_work w w' \<Longrightarrow> same_work w' w'' \<Longrightarrow> same_work w w''"
  by (simp add: same_work_def)

lemma synced_dom: "synced w w' \<Longrightarrow> dom (vw_jobs w') = dom (vw_jobs w)"
  unfolding synced_def dom_def by (metis option.rel_distinct(1) option.rel_distinct(2) option.exhaust)

lemma poll_spec_same_work:
  assumes "poll_spec sv meta can_accept rs w task w'" "reports_ok (register meta w) rs"
  shows "same_work w w'"
proof -
  have reported: "dom (vw_tasks (apply_reports rs w)) = dom (vw_tasks w)"
    using assms(2)
  proof (induction rs arbitrary: w)
    case (Cons r rs)
    obtain p st where r: "r = (p, st)" by fastforce
    have "vw_tasks w p \<noteq> None" "reports_ok (register meta (w\<lparr>vw_tasks := (vw_tasks w)(p \<mapsto> Some st)\<rparr>)) rs"
      using Cons.prems unfolding r by (auto simp: reports_ok_def register_def)
    with Cons.IH [of "w\<lparr>vw_tasks := (vw_tasks w)(p \<mapsto> Some st)\<rparr>"] show ?case
      unfolding r by (auto simp: apply_reports_def insert_absorb dom_def)
  qed (simp add: apply_reports_def)
  from assms(1) have "dom (vw_tasks w') = dom (vw_tasks w)"
    by (cases rule: poll_spec_tasks) (use reported in auto)
  moreover have "dom (vw_jobs w') = dom (vw_jobs w)"
  proof -
    from assms(1) obtain w1 where w1: "if can_accept then assigned sv (em_id meta) (apply_reports rs (register meta w)) task w1
        else task = None \<and> w1 = apply_reports rs (register meta w)" "if rs = [] then w' = w1 else synced w1 w'"
      unfolding poll_spec_def by blast
    from w1(1) have jobs: "vw_jobs w1 = vw_jobs (apply_reports rs (register meta w))"
      by (auto simp: assigned_def start_task_def split: if_split_asm)
    from w1(2) have "dom (vw_jobs w') = dom (vw_jobs w1)" by (simp add: synced_dom split: if_split_asm)
    with jobs show ?thesis by (simp add: apply_reports_def register_def)
  qed
  ultimately show ?thesis by (simp add: same_work_def)
qed

text \<open>When a poll finds nothing to hand out and all other tasks are completed, no task is pending.\<close>

lemma nothing_pending:
  assumes "poll_spec sv meta True rs w None w'" "store_inv sv w'" "settled_but {} w'"
  shows "pending w' = {}"
proof (rule ccontr)
  assume "pending w' \<noteq> {}"
  then obtain p where "vw_tasks w' p = Some None" by (auto simp: pending_def)
  moreover have "tasks_ok w'" "deps_ordered w'" "idle_job w' (pid_job p)"
    using assms(2,3) by (simp_all add: store_inv_def server_inv_def settled_but_def idle_job_def)
  ultimately obtain q plan where q: "schedulable w' q plan" using pending_schedulable by blast
  from assms(1) obtain w1 where w1: "\<not> schedulable w1 q plan" "if rs = [] then w' = w1 else synced w1 w'"
    by (auto simp: poll_spec_def assigned_def)
  have "vw_plans w' = vw_plans w1 \<and> vw_executors w' = vw_executors w1 \<and> vw_tasks w' = vw_tasks w1"
    using w1(2) unfolding synced_def by (cases w1; cases w') (auto split: if_split_asm)
  then have "schedulable w' q plan = schedulable w1 q plan"
    by (simp add: schedulable_def completed_at_def)
  with w1(1) q show False by simp
qed

text \<open>The last poll: no task is left, and the report in it makes the scheduler look at all jobs.\<close>

lemma last_report_completes:
  assumes spec: "poll_spec sv meta True rs w None w'" and rs: "rs \<noteq> []"
    and w': "represents env ns m w'" "store_inv sv w'" "settled_but {} w'"
  shows "all_completed w'"
proof -
  have finished: "\<exists>e. st = Some (TS_Completed e)" if "vw_tasks w' p = Some st" for p st
    using that nothing_pending [OF spec w'(2,3)] w'(3) by (cases st) (auto simp: pending_def settled_but_def)
  from spec rs obtain w1 where w1: "synced w1 w'" by (auto simp: poll_spec_def)
  have tasks: "vw_tasks w' = vw_tasks w1" using w1 synced_tasks [of rs w' w1] rs by simp
  have "\<exists>locs. vw_jobs w' (pid_job p) = Some \<lparr>js_status = Some (JS_Completed locs)\<rparr>"
    if "vw_tasks w' p \<noteq> None" "vw_jobs w' (pid_job p) \<noteq> None" for p
    using synced_dom [OF w1] that represents_fits [OF w'(1) that(1)] finished unfolding tasks
    by (intro synced_completed [OF w1]) blast+
  with finished show ?thesis by (simp add: all_completed_def)
qed

section \<open>Rounds\<close>

context config_backend
begin

text \<open>One poll of an executor with finished tasks \<open>rs\<close> and nothing to do.\<close>

lemma poll_round:
  assumes env: "env_ok (sv_env sv)" and ns: "slash_free ns"
    and driven: "schema_driven (env_df (sv_env sv)) (env_builders (sv_env sv))"
    and at: "sched_at sv kv healthy holder ns w (s, ts)" and idle: "idle_executor ex"
    and rs: "reports_ok (register (executor_meta_from_pb (ex_meta ex)) w) rs"
  obtains (none) s' w' where
      "(cluster_step sv bk kv ns)\<^sup>*\<^sup>* (s, ts, es @ ex\<lparr>ex_channel := report_messages rs\<rparr> # es') (s', ts, es @ ex # es')"
      "sched_at sv kv healthy holder ns w' (s', ts)" "poll_spec sv (executor_meta_from_pb (ex_meta ex)) True rs w None w'"
  | (some) s' w' p plan where
      "(cluster_step sv bk kv ns)\<^sup>*\<^sup>* (s, ts, es @ ex\<lparr>ex_channel := report_messages rs\<rparr> # es') (s', ts, es @ busy_with ex p plan # es')"
      "sched_at sv kv healthy holder ns w' (s', ts)" "same_work w w'" "vw_tasks (apply_reports rs w) p = Some None"
      "vw_tasks w' = (vw_tasks (apply_reports rs w))(p \<mapsto> Some (TS_Running (executor_id ex)))"
proof -
  let ?req = "asks ex (report_messages rs)" and ?ex = "ex\<lparr>ex_request := Some (asks ex (report_messages rs))\<rparr>"
  from at have w: "represents (sv_env sv) ns (kv s) w" "store_inv sv w" by (auto elim: sched_atE)
  have req: "pw_metadata ?req = Some (ex_meta ex)" "pw_task_status ?req = report_messages rs" "pw_can_accept_task ?req"
    by (simp_all add: asks_def)
  from env ns at req(1,2) rs obtain task s' w' where run: "poll_work sv bk ns ?req s = Some (Ok \<lparr>pr_task = task\<rparr>, s')"
      "sched_at sv kv healthy holder ns w' (s', ts)" "poll_spec sv (executor_meta_from_pb (ex_meta ex)) (pw_can_accept_task ?req) rs w task w'"
    by (rule poll_at)
  have "cluster_step sv bk kv ns (s, ts, es @ ex\<lparr>ex_channel := report_messages rs\<rparr> # es') (s, ts, es @ ?ex # es')"
    unfolding request_idle [OF idle, symmetric] by (rule cs_request) (use idle in \<open>simp add: idle_executor_def\<close>)
  moreover have "cluster_step sv bk kv ns (s, ts, es @ ?ex # es') (s', ts, es @ ex' # es')"
    if "poll_reply (env_df (sv_env sv)) (env_builders (sv_env sv)) (Ok \<lparr>pr_task = task\<rparr> :: (poll_work_result, tonic_status) result) ?ex =
      (Ok ex' :: executor bresult)" for ex'
    by (rule cs_poll [OF _ run(1) that]) simp
  ultimately have steps: "(cluster_step sv bk kv ns)\<^sup>*\<^sup>* (s, ts, es @ ex\<lparr>ex_channel := report_messages rs\<rparr> # es') (s', ts, es @ ex' # es')"
    if "poll_reply (env_df (sv_env sv)) (env_builders (sv_env sv)) (Ok \<lparr>pr_task = task\<rparr> :: (poll_work_result, tonic_status) result) ?ex =
      (Ok ex' :: executor bresult)" for ex'
    using that by (meson converse_rtranclp_into_rtranclp r_into_rtranclp)
  from env driven w rs run(3) show ?thesis
  proof (cases rule: poll_spec_runs)
    case none
    with steps reply_idle(1) [OF idle] run(2,3) req(3) show ?thesis by (intro that(1)) auto
  next
    case (some p plan n)
    with steps reply_idle(2) [OF idle some(2)] run(2) poll_spec_same_work [OF run(3) rs] show ?thesis by (intro that(2)) auto
  qed
qed

text \<open>The executor finishes the task it has and reports it in its next poll.\<close>

lemma finish_steps:
  assumes "idle_executor ex"
  shows "(cluster_step sv bk kv ns)\<^sup>*\<^sup>* (s, ts, es @ busy_with ex p plan # es')
    (s, ts, es @ ex\<lparr>ex_channel := report_messages [completion ex p]\<rparr> # es')"
proof -
  let ?ex = "task_done (sv_dbg sv) 0 (Ok ()) (busy_with ex p plan)"
  have "cluster_step sv bk kv ns (s, ts, es @ busy_with ex p plan # es') (s, ts, es @ ?ex # es')"
    by (rule cs_task_done) (simp add: busy_with_def)
  moreover have "cluster_step sv bk kv ns (s, ts, es @ ?ex # es') (s, ts, es @ report_sent 0 ?ex # es')"
    by (rule cs_report) (simp add: busy_with_def task_done_def as_task_status_def)
  ultimately show ?thesis
    unfolding finished_busy [OF assms] by (meson converse_rtranclp_into_rtranclp r_into_rtranclp)
qed

lemma busy_finishes:
  assumes env: "env_ok (sv_env sv)" and ns: "slash_free ns"
    and driven: "schema_driven (env_df (sv_env sv)) (env_builders (sv_env sv))" and idle: "idle_executor ex"
    and "sched_at sv kv healthy holder ns w (s, ts)" "vw_tasks w p \<noteq> None" "settled_but {p} w" "p \<notin> pending w" "finite (pending w)"
  shows "\<exists>s' w'. (cluster_step sv bk kv ns)\<^sup>*\<^sup>* (s, ts, es @ busy_with ex p plan # es') (s', ts, es @ ex # es') \<and>
    sched_at sv kv healthy holder ns w' (s', ts) \<and> same_work w w' \<and> all_completed w'"
  using assms(5-)
proof (induction "card (pending w)" arbitrary: w s p plan rule: less_induct)
  case less
  let ?rs = "[completion ex p]" and ?meta = "executor_meta_from_pb (ex_meta ex)"
  have rs: "reports_ok (register ?meta w) ?rs"
    using less.prems(2) by (simp add: reports_ok_def register_def executor_meta_from_pb_def)
  have tasks: "vw_tasks (apply_reports ?rs w) = (vw_tasks w)(p \<mapsto> Some (TS_Completed (executor_id ex)))"
    by (simp add: apply_reports_def)
  note finish = finish_steps [OF idle, where p = p and plan = plan and s = s and ts = ts and es = es and es' = es' and sv = sv and ns = ns]
  from env ns driven less.prems(1) idle rs show ?case
  proof (cases rule: poll_round [where es = es and es' = es'])
    case (none s' w')
    have "vw_tasks w' = vw_tasks (apply_reports ?rs w)" using none(3) by (cases rule: poll_spec_tasks) auto
    then have "settled_but {} w'" using less.prems(3) by (auto simp: settled_but_def tasks)
    moreover have "represents (sv_env sv) ns (kv s') w'" "store_inv sv w'" using none(2) by (auto elim: sched_atE)
    ultimately have "all_completed w'" using last_report_completes [OF none(3)] by blast
    with none poll_spec_same_work [OF none(3) rs] finish show ?thesis by (meson rtranclp_trans)
  next
    case (some s' w' q plan')
    then have q: "q \<in> pending w" "pending w' = pending w - {q}" "vw_tasks w' q \<noteq> None" "settled_but {q} w'"
      using less.prems(3,4) by (auto simp: tasks pending_def settled_but_def split: if_split_asm)
    then have "card (pending w') < card (pending w)" using less.prems(5) by (metis card_Diff1_less)
    from less.hyps [OF this some(2) q(3,4), of plan'] q(2) less.prems(5) obtain s'' w'' where
        "(cluster_step sv bk kv ns)\<^sup>*\<^sup>* (s', ts, es @ busy_with ex q plan' # es') (s'', ts, es @ ex # es')"
        "sched_at sv kv healthy holder ns w'' (s'', ts)" "same_work w' w''" "all_completed w''"
      by auto
    with some(1,3) finish same_work_trans show ?thesis by (meson rtranclp_trans)
  qed
qed

lemma idle_finishes:
  assumes env: "env_ok (sv_env sv)" and ns: "slash_free ns"
    and driven: "schema_driven (env_df (sv_env sv)) (env_builders (sv_env sv))" and idle: "idle_executor ex"
    and at: "sched_at sv kv healthy holder ns w (s, ts)" and w: "settled_but {} w" "finite (pending w)" "pending w \<noteq> {}"
  shows "\<exists>s' w'. (cluster_step sv bk kv ns)\<^sup>*\<^sup>* (s, ts, es @ ex # es') (s', ts, es @ ex # es') \<and>
    sched_at sv kv healthy holder ns w' (s', ts) \<and> same_work w w' \<and> all_completed w'"
proof -
  have reports: "report_messages [] = []" "reports_ok (register (executor_meta_from_pb (ex_meta ex)) w) []"
    "vw_tasks (apply_reports [] w) = vw_tasks w"
    by (simp_all add: report_messages_def reports_ok_def apply_reports_def)
  from env ns driven at idle reports(2) show ?thesis
  proof (cases rule: poll_round [where es = es and es' = es'])
    case (none s' w')
    have tasks: "vw_tasks w' = vw_tasks w" using none(3) by (cases rule: poll_spec_tasks) (auto simp: reports(3))
    have "store_inv sv w'" using none(2) by (auto elim: sched_atE)
    then have "pending w' = {}" using none(3) w(1) by (intro nothing_pending) (simp_all add: settled_but_def tasks)
    with w(3) show ?thesis by (simp add: pending_def tasks)
  next
    case (some s' w' q plan)
    then have q: "vw_tasks w' q \<noteq> None" "settled_but {q} w'" "q \<notin> pending w'" and sub: "pending w' \<subseteq> pending w"
      using w(1) by (auto simp: reports(3) pending_def settled_but_def split: if_split_asm)
    note q = q finite_subset [OF sub w(2)]
    from busy_finishes [OF env ns driven idle some(2) q, of es plan es'] some(1,3) same_work_trans show ?thesis
      unfolding reports(1) idle_channel [OF idle] by (meson rtranclp_trans)
  qed
qed

end

section \<open>One executor is enough\<close>

text \<open>
  C5. The work of a cluster can always be finished by one executor.  Take any state that satisfies
  the scheduler's invariant, with any jobs in its store, in which at least one task is pending,
  finitely many are, and every other task is completed.  If an executor has a free slot and nothing
  else to do, there is a run of the cluster in which it polls, runs and reports, and no other executor
  takes part, that ends with the executor idle again, the same jobs and tasks in the store, every task
  completed, and every stored job that has tasks marked completed.
\<close>

theorem one_executor_finishes:
  assumes "config_backend bk kv healthy holder" "env_ok (sv_env sv)" "slash_free ns"
    and "schema_driven (env_df (sv_env sv)) (env_builders (sv_env sv))"
    and "sched_at sv kv healthy holder ns w (s, ts)" "settled_but {} w" "finite (pending w)" "pending w \<noteq> {}"
    and "idle_executor ex"
  shows "\<exists>s' w'. (cluster_step sv bk kv ns)\<^sup>*\<^sup>* (s, ts, es @ ex # es') (s', ts, es @ ex # es') \<and>
    represents (sv_env sv) ns (kv s') w' \<and> same_work w w' \<and> all_completed w'"
proof -
  from config_backend.idle_finishes [OF assms(1-4,9,5-8)] obtain s' w' where
      run: "(cluster_step sv bk kv ns)\<^sup>*\<^sup>* (s, ts, es @ ex # es') (s', ts, es @ ex # es')"
      "sched_at sv kv healthy holder ns w' (s', ts)" "same_work w w'" "all_completed w'"
    by blast
  from run(2) have "represents (sv_env sv) ns (kv s') w'" by (rule sched_atE)
  with run show ?thesis by blast
qed

theorem one_executor_finishes_witness:
  "\<exists>s s' w'. example_at example_job_view (s, []) \<and> example_step\<^sup>*\<^sup>* (s, [], [poll_loop_start example_meta 1]) (s', [], [poll_loop_start example_meta 1]) \<and>
     represents (sv_env example_server) ''default'' (client_kv map_of s') w' \<and> vw_tasks example_job_view (example_pid 0) = Some None \<and>
     (\<exists>e. vw_tasks w' (example_pid 0) = Some (Some (TS_Completed e)))"
proof -
  let ?ex = "poll_loop_start example_meta 1"
  obtain s where at: "example_at example_job_view (s, [])" by (rule example_assigned)
  have task: "vw_tasks example_job_view (example_pid 0) = Some None" by (simp add: example_job_view_def example_pid_def)
  have "settled_but {} example_job_view" "idle_executor ?ex"
    by (auto simp: settled_but_def example_job_view_def idle_executor_def poll_loop_start_def split: if_split_asm)
  moreover have "finite (dom (vw_tasks example_job_view))" by (simp add: example_job_view_def)
  then have "finite (pending example_job_view)" by (rule finite_subset [rotated]) (auto simp: pending_def)
  moreover have "pending example_job_view \<noteq> {}" using task by (auto simp: pending_def)
  moreover have "schema_driven (env_df (sv_env example_server)) (env_builders (sv_env example_server))"
    by (simp add: example_server_def plain_env_def schema_driven_plain)
  ultimately obtain s' w' where run: "example_step\<^sup>*\<^sup>* (s, [], [] @ ?ex # []) (s', [], [] @ ?ex # [])"
      "represents (sv_env example_server) ''default'' (client_kv map_of s') w'" "same_work example_job_view w'" "all_completed w'"
    using one_executor_finishes [OF standalone.config_backend_axioms example_server_inv(1) example_empty(4) _ at, of ?ex "[]" "[]"] by blast
  from run(3) task have "example_pid 0 \<in> dom (vw_tasks w')" by (auto simp: same_work_def)
  then obtain st where "vw_tasks w' (example_pid 0) = Some st" by blast
  with run(4) have "\<exists>e. vw_tasks w' (example_pid 0) = Some (Some (TS_Completed e))" by (fastforce simp: all_completed_def)
  with at run(1,2) task show ?thesis by auto
qed

end
