(* ===== verification/Client_Context.thy ===== *)
theory Client_Context
  imports Flight Scheduler_Server
begin

text \<open>
  The client library: \<open>client/src/context.rs\<close> and the table adapter of \<open>core/src/datasource.rs\<close>.

  DataFusion's \<open>ExecutionContext\<close> and \<open>DataFrame\<close> are parameters, collected in \<open>datafusion\<close>; so are
  \<open>fs::canonicalize\<close> and the order in which a \<open>HashMap\<close> is iterated.  The state behind the \<open>Mutex\<close> is
  passed explicitly; all data frames of a context share it.  Paths are texts, so \<open>to_str\<close> always
  succeeds.

  \<open>collect\<close> polls the scheduler until the job has ended.  It is a partial function: \<open>None\<close> is a
  client that waits forever.  \<open>sc_sleep\<close> is what happens in the world while the client sleeps.
\<close>

section \<open>core/src/datasource.rs\<close>

record df_table_adapter =
  ta_logical_plan :: logical_plan
  ta_plan :: exec_plan

definition DFTableAdapter_new :: "logical_plan \<Rightarrow> exec_plan \<Rightarrow> df_table_adapter" where
  "DFTableAdapter_new logical_plan plan = \<lparr>ta_logical_plan = logical_plan, ta_plan = plan\<rparr>"

definition adapter_schema :: "df_ops \<Rightarrow> df_table_adapter \<Rightarrow> schema" where
  "adapter_schema df ta = plan_schema df (ta_plan ta)"

definition adapter_scan :: "df_table_adapter \<Rightarrow> nat list option \<Rightarrow> nat \<Rightarrow> expr list \<Rightarrow> (exec_plan, string) result" where
  "adapter_scan ta projection batch_size filters = Ok (ta_plan ta)"

section \<open>BallistaContext\<close>

record ('c, 'd, 'o) datafusion =
  dc_new :: 'c
  dc_read_parquet :: "'c \<Rightarrow> string \<Rightarrow> ('d, string) result"
  dc_read_csv :: "'c \<Rightarrow> string \<Rightarrow> 'o \<Rightarrow> ('d, string) result"
  dc_optimize :: "'c \<Rightarrow> logical_plan \<Rightarrow> (logical_plan, string) result"
  dc_create_physical_plan :: "'c \<Rightarrow> logical_plan \<Rightarrow> (exec_plan, string) result"
  dc_register_table :: "'c \<Rightarrow> string \<Rightarrow> df_table_adapter \<Rightarrow> 'c"
  dc_sql :: "'c \<Rightarrow> string \<Rightarrow> ('d, string) result"
  dd_select_columns :: "'d \<Rightarrow> string list \<Rightarrow> ('d, string) result"
  dd_select :: "'d \<Rightarrow> expr list \<Rightarrow> ('d, string) result"
  dd_filter :: "'d \<Rightarrow> expr \<Rightarrow> ('d, string) result"
  dd_aggregate :: "'d \<Rightarrow> expr list \<Rightarrow> expr list \<Rightarrow> ('d, string) result"
  dd_limit :: "'d \<Rightarrow> nat \<Rightarrow> ('d, string) result"
  dd_sort :: "'d \<Rightarrow> expr list \<Rightarrow> ('d, string) result"
  dd_repartition :: "'d \<Rightarrow> partitioning \<Rightarrow> ('d, string) result"
  dd_explain :: "'d \<Rightarrow> bool \<Rightarrow> ('d, string) result"
  dd_schema :: "'d \<Rightarrow> schema"
  dd_to_logical_plan :: "'d \<Rightarrow> logical_plan"
  dd_plan_schema :: "logical_plan \<Rightarrow> schema"
  fs_canonicalize :: "string \<Rightarrow> (string, string) result"
  hash_entries :: "(string \<rightharpoonup> logical_plan) \<Rightarrow> (string \<times> logical_plan) list"

record context_state =
  cs_scheduler_host :: string
  cs_scheduler_port :: u16
  cs_tables :: "string \<rightharpoonup> logical_plan"
  cs_settings :: "string \<rightharpoonup> string"

definition BallistaContextState_new :: "string \<Rightarrow> u16 \<Rightarrow> (string \<rightharpoonup> string) \<Rightarrow> context_state" where
  "BallistaContextState_new scheduler_host scheduler_port settings =
     \<lparr>cs_scheduler_host = scheduler_host, cs_scheduler_port = scheduler_port, cs_tables = Map.empty, cs_settings = settings\<rparr>"

definition BallistaContext_remote :: "string \<Rightarrow> u16 \<Rightarrow> (string \<rightharpoonup> string) \<Rightarrow> context_state" where
  "BallistaContext_remote host port settings = BallistaContextState_new host port settings"

definition read_parquet :: "('c, 'd, 'o) datafusion \<Rightarrow> string \<Rightarrow> 'd bresult" where
  "read_parquet dc path =
     rbind (map_err IoError (fs_canonicalize dc path)) (\<lambda>path.
       map_err DataFusionError (dc_read_parquet dc (dc_new dc) path))"

definition read_csv :: "('c, 'd, 'o) datafusion \<Rightarrow> string \<Rightarrow> 'o \<Rightarrow> 'd bresult" where
  "read_csv dc path options =
     rbind (map_err IoError (fs_canonicalize dc path)) (\<lambda>path.
       map_err DataFusionError (dc_read_csv dc (dc_new dc) path options))"

definition register_table :: "('c, 'd, 'o) datafusion \<Rightarrow> string \<Rightarrow> 'd \<Rightarrow> (context_state, unit, BallistaError) io" where
  "register_table dc name table state =
     (Ok (), state\<lparr>cs_tables := (cs_tables state)(name \<mapsto> dd_to_logical_plan dc table)\<rparr>)"

definition register_csv :: "('c, 'd, 'o) datafusion \<Rightarrow> string \<Rightarrow> string \<Rightarrow> 'o \<Rightarrow> (context_state, unit, BallistaError) io" where
  "register_csv dc name path options = sbind (slift (read_csv dc path options)) (register_table dc name)"

definition register_parquet :: "('c, 'd, 'o) datafusion \<Rightarrow> string \<Rightarrow> string \<Rightarrow> (context_state, unit, BallistaError) io" where
  "register_parquet dc name path = sbind (slift (read_parquet dc path)) (register_table dc name)"

fun register_tables :: "('c, 'd, 'o) datafusion \<Rightarrow> 'c \<Rightarrow> (string \<times> logical_plan) list \<Rightarrow> 'c bresult" where
  "register_tables dc ctx [] = Ok ctx"
| "register_tables dc ctx ((name, plan) # tables) =
     rbind (map_err DataFusionError (dc_optimize dc ctx plan)) (\<lambda>plan.
     rbind (map_err DataFusionError (dc_create_physical_plan dc ctx plan)) (\<lambda>execution_plan.
       register_tables dc (dc_register_table dc ctx name (DFTableAdapter_new plan execution_plan)) tables))"

definition context_sql :: "('c, 'd, 'o) datafusion \<Rightarrow> string \<Rightarrow> context_state \<Rightarrow> 'd bresult" where
  "context_sql dc sql state =
     rbind (register_tables dc (dc_new dc) (hash_entries dc (cs_tables state))) (\<lambda>ctx.
       map_err DataFusionError (dc_sql dc ctx sql))"

section \<open>BallistaDataFrame\<close>

definition select_columns :: "('c, 'd, 'o) datafusion \<Rightarrow> 'd \<Rightarrow> string list \<Rightarrow> 'd bresult" where
  "select_columns dc df columns = map_err DataFusionError (dd_select_columns dc df columns)"

definition select :: "('c, 'd, 'o) datafusion \<Rightarrow> 'd \<Rightarrow> expr list \<Rightarrow> 'd bresult" where
  "select dc df exprs = map_err DataFusionError (dd_select dc df exprs)"

definition filter_rows :: "('c, 'd, 'o) datafusion \<Rightarrow> 'd \<Rightarrow> expr \<Rightarrow> 'd bresult" where
  "filter_rows dc df e = map_err DataFusionError (dd_filter dc df e)"

definition aggregate :: "('c, 'd, 'o) datafusion \<Rightarrow> 'd \<Rightarrow> expr list \<Rightarrow> expr list \<Rightarrow> 'd bresult" where
  "aggregate dc df group_expr aggr_expr = map_err DataFusionError (dd_aggregate dc df group_expr aggr_expr)"

definition limit :: "('c, 'd, 'o) datafusion \<Rightarrow> 'd \<Rightarrow> nat \<Rightarrow> 'd bresult" where
  "limit dc df n = map_err DataFusionError (dd_limit dc df n)"

definition sort_rows :: "('c, 'd, 'o) datafusion \<Rightarrow> 'd \<Rightarrow> expr list \<Rightarrow> 'd bresult" where
  "sort_rows dc df exprs = map_err DataFusionError (dd_sort dc df exprs)"

definition repartition :: "('c, 'd, 'o) datafusion \<Rightarrow> 'd \<Rightarrow> partitioning \<Rightarrow> 'd bresult" where
  "repartition dc df partitioning_scheme = map_err DataFusionError (dd_repartition dc df partitioning_scheme)"

definition df_schema_of :: "('c, 'd, 'o) datafusion \<Rightarrow> 'd \<Rightarrow> schema" where
  "df_schema_of dc df = dd_schema dc df"

definition to_logical_plan :: "('c, 'd, 'o) datafusion \<Rightarrow> 'd \<Rightarrow> logical_plan" where
  "to_logical_plan dc df = dd_to_logical_plan dc df"

definition explain :: "('c, 'd, 'o) datafusion \<Rightarrow> 'd \<Rightarrow> bool \<Rightarrow> 'd bresult" where
  "explain dc df verbose = map_err DataFusionError (dd_explain dc df verbose)"

section \<open>collect\<close>

record 's scheduler_client =
  sc_connect :: "string \<Rightarrow> ('s, unit, string) io"
  sc_execute_query :: "query option \<Rightarrow> ('s, string, tonic_status) io"
  sc_get_job_status :: "string \<Rightarrow> ('s, job_status option, tonic_status) io"
  sc_sleep :: "'s \<Rightarrow> 's"

fun fetch_locations ::
  "('s, 'a, 'f, 'b) flight_env \<Rightarrow> ('s, 'f, 'b) network \<Rightarrow> 'a record_batch list \<Rightarrow> pb_partition_location list
    \<Rightarrow> ('s, 'a record_batch list, BallistaError) io" where
  "fetch_locations fe nw result [] = sret result"
| "fetch_locations fe nw result (location # locations) =
     sbind (slift (ok_or (ppl_executor_meta location) (Internal ''Received empty executor metadata''))) (\<lambda>metadata.
     sbind (slift (ok_or (ppl_partition_id location) (Internal ''Received empty partition id''))) (\<lambda>partition_id.
     sbind (BallistaClient_try_new nw (pem_host metadata) (ucast (pem_port metadata))) (\<lambda>ballista_client.
     sbind (fetch_partition fe nw ballista_client (ppid_job partition_id) (u32_to_usize (ppid_stage partition_id))
              (u32_to_usize (ppid_partition partition_id))) (\<lambda>(_, stream).
     sbind (slift (map_err DataFusionError (df_collect stream))) (\<lambda>batches.
       fetch_locations fe nw (result @ batches) locations)))))"

partial_function (option) collect_poll ::
  "('s, 'a, 'f, 'b) flight_env \<Rightarrow> ('s, 'f, 'b) network \<Rightarrow> 's scheduler_client \<Rightarrow> string \<Rightarrow> schema
    \<Rightarrow> 's \<Rightarrow> (('a memory_stream, BallistaError) result \<times> 's) option" where
  "collect_poll fe nw sc job_id sch s =
     (case sc_get_job_status sc job_id s of
        (Err st, s1) \<Rightarrow> Some (Err (GrpcError (fe_debug_status fe st)), s1)
      | (Panic msg, s1) \<Rightarrow> Some (Panic msg, s1)
      | (Ok status, s1) \<Rightarrow>
          (case Option.bind status js_status of
             None \<Rightarrow> Some (Err (Internal ''Received empty status message''), s1)
           | Some st \<Rightarrow>
               (case st of
                  JS_Queued \<Rightarrow> collect_poll fe nw sc job_id sch (sc_sleep sc s1)
                | JS_Running \<Rightarrow> collect_poll fe nw sc job_id sch (sc_sleep sc s1)
                | JS_Failed err \<Rightarrow> Some (Err (General (''Job '' @ job_id @ '' failed: '' @ err)), s1)
                | JS_Completed partition_location \<Rightarrow>
                    Some (sbind (fetch_locations fe nw [] partition_location) (\<lambda>result.
                      slift (MemoryStream_try_new result sch None)) s1))))"

definition collect ::
  "('c, 'd, 'o) datafusion \<Rightarrow> ('s, 'a, 'f, 'b) flight_env \<Rightarrow> ('s, 'f, 'b) network \<Rightarrow> 's scheduler_client \<Rightarrow> context_state \<Rightarrow> 'd
    \<Rightarrow> 's \<Rightarrow> (('a memory_stream, BallistaError) result \<times> 's) option" where
  "collect dc fe nw sc state df s =
     (let scheduler_url = client_addr (cs_scheduler_host state) (cs_scheduler_port state);
          plan = dd_to_logical_plan dc df;
          sch = dd_plan_schema dc plan
      in case sbind (smap_err TonicError (sc_connect sc scheduler_url)) (\<lambda>_.
              sbind (slift (logical_plan_into plan)) (\<lambda>node.
                smap_err (\<lambda>st. GrpcError (fe_debug_status fe st)) (sc_execute_query sc (Some (Q_LogicalPlan node))))) s of
           (Ok job_id, s1) \<Rightarrow> collect_poll fe nw sc job_id sch s1
         | (Err e, s1) \<Rightarrow> Some (Err e, s1)
         | (Panic msg, s1) \<Rightarrow> Some (Panic msg, s1))"

section \<open>Waiting for a job\<close>

text \<open>The world at the \<open>n\<close>-th poll, when the answers before it are only waited on.\<close>

fun polled :: "'s scheduler_client \<Rightarrow> string \<Rightarrow> nat \<Rightarrow> 's \<Rightarrow> 's" where
  "polled sc job_id 0 s = s"
| "polled sc job_id (Suc n) s = polled sc job_id n (sc_sleep sc (snd (sc_get_job_status sc job_id s)))"

definition unfinished :: "(job_status option, tonic_status) result \<Rightarrow> bool" where
  "unfinished r \<longleftrightarrow> (\<exists>st. r = Ok (Some \<lparr>js_status = Some st\<rparr>) \<and> (st = JS_Queued \<or> st = JS_Running))"

lemma collect_poll_unfinished:
  "unfinished (fst (sc_get_job_status sc job_id s)) \<Longrightarrow>
   collect_poll fe nw sc job_id sch s = collect_poll fe nw sc job_id sch (sc_sleep sc (snd (sc_get_job_status sc job_id s)))"
  by (subst collect_poll.simps) (auto simp: unfinished_def split: prod.split)

lemma collect_poll_polled:
  assumes "\<forall>k < n. unfinished (fst (sc_get_job_status sc job_id (polled sc job_id k s)))"
  shows "collect_poll fe nw sc job_id sch s = collect_poll fe nw sc job_id sch (polled sc job_id n s)"
  using assms
proof (induction n arbitrary: s)
  case (Suc n)
  let ?s = "sc_sleep sc (snd (sc_get_job_status sc job_id s))"
  have "unfinished (fst (sc_get_job_status sc job_id s))" using Suc.prems [rule_format, of 0] by simp
  then have "collect_poll fe nw sc job_id sch s = collect_poll fe nw sc job_id sch ?s" by (rule collect_poll_unfinished)
  also have "\<dots> = collect_poll fe nw sc job_id sch (polled sc job_id n ?s)"
    using Suc.prems by (intro Suc.IH) (metis Suc_less_eq polled.simps(2))
  finally show ?case by simp
qed simp

text \<open>One answer that ends the loop.\<close>

lemma collect_poll_finished:
  assumes "sc_get_job_status sc job_id s = (r, s1)" "\<not> unfinished r"
  shows "\<exists>x s2. collect_poll fe nw sc job_id sch s = Some (x, s2)"
    and "r = Ok (Some \<lparr>js_status = Some (JS_Failed err)\<rparr>) \<Longrightarrow>
      collect_poll fe nw sc job_id sch s = Some (Err (General (''Job '' @ job_id @ '' failed: '' @ err)), s1)"
    and "r = Ok (Some \<lparr>js_status = Some (JS_Completed locs)\<rparr>) \<Longrightarrow>
      collect_poll fe nw sc job_id sch s =
        Some (sbind (fetch_locations fe nw [] locs) (\<lambda>result. slift (MemoryStream_try_new result sch None)) s1)"
proof -
  have "st \<noteq> JS_Queued \<and> st \<noteq> JS_Running" if "r = Ok status" "Option.bind status js_status = Some st" for status st
    using assms(2) that by (cases status) (auto simp: unfinished_def)
  with assms(1) show "\<exists>x s2. collect_poll fe nw sc job_id sch s = Some (x, s2)"
    by (subst collect_poll.simps) (auto split: prod.split result.split option.split job_state.split)
qed (subst collect_poll.simps, simp add: assms(1))+

text \<open>Fetching a list of locations that are all served.\<close>

lemma fetch_locations_ok:
  assumes "\<forall>loc \<in> set locs. \<exists>meta pb. loc = \<lparr>ppl_partition_id = Some pb, ppl_executor_meta = Some meta\<rparr> \<and>
      nw_connect nw (client_addr (pem_host meta) (ucast (pem_port meta))) s = (Ok (), s) \<and>
      fetch_partition fe nw \<lparr>bc_addr = client_addr (pem_host meta) (ucast (pem_port meta))\<rparr> (ppid_job pb) (u32_to_usize (ppid_stage pb))
        (u32_to_usize (ppid_partition pb)) s = (Ok (sch, map Ok (out pb)), s)"
  shows "fetch_locations fe nw result locs s = (Ok (result @ concat (map (\<lambda>loc. out (the (ppl_partition_id loc))) locs)), s)"
  using assms
proof (induction locs arbitrary: result)
  case (Cons loc locs)
  from Cons.prems obtain meta pb where loc: "loc = \<lparr>ppl_partition_id = Some pb, ppl_executor_meta = Some meta\<rparr>"
      "nw_connect nw (client_addr (pem_host meta) (ucast (pem_port meta))) s = (Ok (), s)"
      "fetch_partition fe nw \<lparr>bc_addr = client_addr (pem_host meta) (ucast (pem_port meta))\<rparr> (ppid_job pb) (u32_to_usize (ppid_stage pb))
        (u32_to_usize (ppid_partition pb)) s = (Ok (sch, map Ok (out pb)), s)"
    by auto
  from loc(2) have "BallistaClient_try_new nw (pem_host meta) (ucast (pem_port meta)) s =
      (Ok \<lparr>bc_addr = client_addr (pem_host meta) (ucast (pem_port meta))\<rparr>, s)"
    by (simp add: BallistaClient_try_new_def sbind_def smap_err_def sret_def)
  with loc Cons.IH [of "result @ out pb"] Cons.prems show ?case by (simp add: sbind_def slift_def)
qed (simp add: sret_def)


section \<open>Properties of collect\<close>

text \<open>
  C20. \<open>collect\<close> returns once the job has ended.  If the scheduler answers that the job is queued or
  running at the first \<open>n\<close> polls and with anything else at the next one, \<open>collect\<close> returns then; if
  the job failed, the result is an error with the job's id and the reason.
\<close>

theorem collect_terminates:
  assumes "\<forall>k < n. unfinished (fst (sc_get_job_status sc job_id (polled sc job_id k s)))"
    and "sc_get_job_status sc job_id (polled sc job_id n s) = (r, s1)" "\<not> unfinished r"
  shows "\<exists>x s2. collect_poll fe nw sc job_id sch s = Some (x, s2) \<and>
    (\<forall>err. r = Ok (Some \<lparr>js_status = Some (JS_Failed err)\<rparr>) \<longrightarrow>
       x = Err (General (''Job '' @ job_id @ '' failed: '' @ err)) \<and> s2 = s1)"
  using collect_poll_finished(1,2) [OF assms(2,3), where fe = fe and nw = nw and sch = sch]
    collect_poll_polled [OF assms(1), where fe = fe and nw = nw and sch = sch]
  by auto

definition failing_scheduler :: "nat scheduler_client" where
  "failing_scheduler = \<lparr>sc_connect = (\<lambda>_ s. (Ok (), s)), sc_execute_query = (\<lambda>_ s. (Ok ''job0001'', s)),
     sc_get_job_status = (\<lambda>_ s. (Ok (Some \<lparr>js_status = Some (if s < 3 then JS_Running else JS_Failed ''no space'')\<rparr>), s)),
     sc_sleep = Suc\<rparr>"

theorem collect_terminates_witness:
  "\<forall>(fe :: (nat, unit, unit, unit) flight_env) (nw :: (nat, unit, unit) network). \<exists>s2.
     collect_poll fe nw failing_scheduler ''job0001'' [] 0 = Some (Err (General ''Job job0001 failed: no space''), s2)"
proof -
  have "polled failing_scheduler ''job0001'' k s = s + k" for k s
    by (induction k arbitrary: s) (simp_all add: failing_scheduler_def)
  then have "\<forall>k < 3. unfinished (fst (sc_get_job_status failing_scheduler ''job0001'' (polled failing_scheduler ''job0001'' k 0)))"
    "sc_get_job_status failing_scheduler ''job0001'' (polled failing_scheduler ''job0001'' 3 0) =
       (Ok (Some \<lparr>js_status = Some (JS_Failed ''no space'')\<rparr>), 3)"
    "\<not> unfinished (Ok (Some \<lparr>js_status = Some (JS_Failed ''no space'')\<rparr>))"
    by (simp_all add: failing_scheduler_def unfinished_def)
  from collect_terminates [OF this] show ?thesis by fastforce
qed


text \<open>The locations of a completed job: one for each of its tasks, in the order of the list.\<close>

lemma completed_locations:
  assumes "lists_tasks w job ts" "tasks_status ex ts = Some \<lparr>js_status = Some (JS_Completed locs)\<rparr>"
  obtains ps where "distinct ps" "set ps = {p. vw_tasks w p \<noteq> None \<and> pid_fits p \<and> pid_job p = job}"
    "\<forall>p \<in> set ps. \<exists>e. vw_tasks w p = Some (Some (TS_Completed e))"
    "locs = map (\<lambda>p. task_location ex (task_of p (the (vw_tasks w p)))) ps"
proof -
  let ?task = "\<lambda>p. task_of p (the (vw_tasks w p))" and ?pid = "\<lambda>t. pid_of_pb (the (ts_partition_id t))"
  from assms(2) have locs: "list_all (\<lambda>t. completed_by t \<noteq> None) ts" "locs = map (task_location ex) ts"
    by (auto simp: tasks_status_def job_state_spec_def split: if_splits list.splits)
  have task: "\<exists>p. t = ?task p \<and> ?pid t = p \<and> vw_tasks w p \<noteq> None \<and> pid_fits p \<and> pid_job p = job" if "t \<in> set ts" for t
    using that assms(1) by (auto simp: lists_tasks_def task_of_def pid_of_pb_fits)
  have again: "?task (?pid t) = t" if "t \<in> set ts" for t using task [OF that] by auto
  show ?thesis
  proof (rule that [of "map ?pid ts"])
    have "inj_on ?pid (set ts)" by (rule inj_on_inverseI [of _ ?task]) (rule again)
    then show "distinct (map ?pid ts)" using assms(1) by (simp add: lists_tasks_def distinct_map)
    show "set (map ?pid ts) = {p. vw_tasks w p \<noteq> None \<and> pid_fits p \<and> pid_job p = job}"
      using task assms(1) by (fastforce simp: lists_tasks_def task_of_def pid_of_pb_fits image_iff)
    show "locs = map (\<lambda>p. task_location ex (?task p)) (map ?pid ts)" using locs(2) again by (simp add: comp_def)
    show "\<forall>p \<in> set (map ?pid ts). \<exists>e. vw_tasks w p = Some (Some (TS_Completed e))"
    proof
      fix p
      assume "p \<in> set (map ?pid ts)"
      then obtain t where t: "t \<in> set ts" "p = ?pid t" by auto
      then have "completed_by (?task p) \<noteq> None" "vw_tasks w p \<noteq> None"
        using locs(1) again [OF t(1)] task [OF t(1)] by (auto simp: list_all_iff)
      then show "\<exists>e. vw_tasks w p = Some (Some (TS_Completed e))"
        by (auto simp: completed_by_def task_of_def split: option.splits task_state.splits)
    qed
  qed
qed



text \<open>A job with two stages of one task each, both completed at the same executor.\<close>

definition two_stage_view :: sched_view where
  "two_stage_view = example_view\<lparr>vw_tasks :=
     [PartitionId_new ''job0001'' 1 0 \<mapsto> Some (TS_Completed ''e1''), PartitionId_new ''job0001'' 2 0 \<mapsto> Some (TS_Completed ''e1'')]\<rparr>"

definition two_stage_tasks :: "task_status list" where
  "two_stage_tasks = [task_of (PartitionId_new ''job0001'' 1 0) (Some (TS_Completed ''e1'')),
     task_of (PartitionId_new ''job0001'' 2 0) (Some (TS_Completed ''e1''))]"

definition two_stage_executors :: "string \<rightharpoonup> executor_meta" where
  "two_stage_executors = [''e1'' \<mapsto> \<lparr>em_id = ''e1'', em_host = ''h'', em_port = 50051\<rparr>]"

definition two_stage_disk :: "(string \<rightharpoonup> plain_array ipc_file) \<times> string set" where
  "two_stage_disk = (\<lambda>_. Some (F_Finished [MkField ''v'' DT_UInt64 False] [example_batch 0]), {})"

definition two_stage_scheduler :: "((string \<rightharpoonup> plain_array ipc_file) \<times> string set) scheduler_client" where
  "two_stage_scheduler = \<lparr>sc_connect = (\<lambda>_ s. (Ok (), s)), sc_execute_query = (\<lambda>_ s. (Ok ''job0001'', s)),
     sc_get_job_status = (\<lambda>_ s. (Ok (tasks_status two_stage_executors two_stage_tasks), s)), sc_sleep = (\<lambda>s. s)\<rparr>"

lemma two_stage_pid: "pid_fits (PartitionId_new ''job0001'' 1 0)" "pid_fits (PartitionId_new ''job0001'' 2 0)"
  "PartitionId_new ''job0001'' 1 0 \<noteq> PartitionId_new ''job0001'' 2 0" "pid_job (PartitionId_new j i n) = j"
  by (simp_all add: PartitionId_new_def pid_fits_def)

lemma two_stage_vw:
  "vw_tasks two_stage_view p = Some x \<longleftrightarrow>
     x = Some (TS_Completed ''e1'') \<and> (p = PartitionId_new ''job0001'' 1 0 \<or> p = PartitionId_new ''job0001'' 2 0)"
  by (auto simp: two_stage_view_def example_view_def)

lemma two_stage_job:
  "lists_tasks two_stage_view ''job0001'' two_stage_tasks"
  "tasks_status two_stage_executors two_stage_tasks =
     Some \<lparr>js_status = Some (JS_Completed (map (task_location two_stage_executors) two_stage_tasks))\<rparr>"
  "{p. vw_tasks two_stage_view p \<noteq> None \<and> pid_fits p \<and> pid_job p = ''job0001''} =
     {PartitionId_new ''job0001'' 1 0, PartitionId_new ''job0001'' 2 0}"
proof -
  have "distinct two_stage_tasks"
    using two_stage_pid(3) pid_of_pb_fits [OF two_stage_pid(1)] pid_of_pb_fits [OF two_stage_pid(2)]
    by (auto simp: two_stage_tasks_def task_of_def simp del: One_nat_def)
  moreover have "set two_stage_tasks = {task_of p st |p st. vw_tasks two_stage_view p = Some st \<and> pid_fits p \<and> pid_job p = ''job0001''}"
    unfolding two_stage_tasks_def two_stage_vw using two_stage_pid by auto
  ultimately show "lists_tasks two_stage_view ''job0001'' two_stage_tasks" by (simp add: lists_tasks_def)
  show "tasks_status two_stage_executors two_stage_tasks =
      Some \<lparr>js_status = Some (JS_Completed (map (task_location two_stage_executors) two_stage_tasks))\<rparr>"
    by (simp add: two_stage_tasks_def tasks_status_def job_state_spec_def completed_by_def task_of_def)
  show "{p. vw_tasks two_stage_view p \<noteq> None \<and> pid_fits p \<and> pid_job p = ''job0001''} =
      {PartitionId_new ''job0001'' 1 0, PartitionId_new ''job0001'' 2 0}"
    using two_stage_pid by (auto simp: two_stage_vw not_None_eq simp del: One_nat_def)
qed


end
