(* ===== verification/Python_Types.thy ===== *)
theory Python_Types
  imports Arrow_Serde
begin

text \<open>
  The Python bindings, part one: \<open>python/src/util.rs\<close>, \<open>datatypes.rs\<close>, \<open>field.rs\<close>, \<open>schema.rs\<close> and
  \<open>dfschema.rs\<close>.

  A Python object is opaque to the bindings: they only ask PyO3 about it.  The answers are the
  parameter \<open>py_api\<close>, over a type \<open>'o\<close> of objects; a \<open>PyTuple\<close> or \<open>PyList\<close> is the list of its items.
  A class of the bindings with a single field (\<open>BPyDataType\<close>, \<open>BPyTimeUnit\<close>, \<open>BPyExpr\<close>) is that field.
  The conversions to and from JSON are done by serde and are not modelled.
\<close>

section \<open>Errors and objects\<close>

datatype py_err = PyException string | PyTypeError string | PyOther string

type_synonym 'a pyresult = "('a, py_err) result"

text \<open>
  \<open>BPyField\<close>: an Arrow field, with the dictionary properties the Arrow fields of this development
  leave out, and a qualifier.
\<close>

record bpy_field =
  bf_arrow_field :: field
  bf_dict_id :: u64
  bf_dict_is_ordered :: bool
  bf_qualifier :: "string option"

record 'o py_api =
  py_datatype :: "'o \<Rightarrow> data_type pyresult"
  py_time_unit :: "'o \<Rightarrow> time_unit pyresult"
  py_interval_unit :: "'o \<Rightarrow> interval_unit pyresult"
  py_field :: "'o \<Rightarrow> bpy_field pyresult"
  py_expr :: "'o \<Rightarrow> expr pyresult"
  py_str :: "'o \<Rightarrow> string pyresult"
  py_bool :: "'o \<Rightarrow> bool pyresult"
  py_i8 :: "'o \<Rightarrow> u8 pyresult"
  py_i16 :: "'o \<Rightarrow> u16 pyresult"
  py_i32 :: "'o \<Rightarrow> u32 pyresult"
  py_i64 :: "'o \<Rightarrow> u64 pyresult"
  py_u8 :: "'o \<Rightarrow> u8 pyresult"
  py_u16 :: "'o \<Rightarrow> u16 pyresult"
  py_u32 :: "'o \<Rightarrow> u32 pyresult"
  py_u64 :: "'o \<Rightarrow> u64 pyresult"
  py_f32 :: "'o \<Rightarrow> u32 pyresult"
  py_f64 :: "'o \<Rightarrow> u64 pyresult"
  py_isize :: "'o \<Rightarrow> int pyresult"
  py_tuple :: "'o \<Rightarrow> 'o list pyresult"
  py_dict :: "'o \<Rightarrow> (string \<rightharpoonup> 'o) pyresult"
  py_getattr :: "'o \<Rightarrow> string \<Rightarrow> 'o pyresult"
  py_type_str :: "'o \<Rightarrow> string pyresult"
  py_call_str :: "'o \<Rightarrow> 'o pyresult"
  py_to_str :: "'o \<Rightarrow> string pyresult"
  py_display :: "'o \<Rightarrow> string option"
  py_err_text :: "py_err \<Rightarrow> string"

text \<open>\<open>to_string()\<close> on an object panics when Python's \<open>str()\<close> fails.\<close>

definition py_to_string :: "'o py_api \<Rightarrow> 'o \<Rightarrow> string pyresult" where
  "py_to_string py ob =
     (case py_display py ob of
        Some text \<Rightarrow> Ok text
      | None \<Rightarrow> Panic ''a Display implementation returned an error unexpectedly'')"

section \<open>python/src/util.rs\<close>

definition wrap_err :: "string \<Rightarrow> py_err" where
  "wrap_err err = PyException err"

definition kwarg_to_strings :: "'o py_api \<Rightarrow> 'o \<times> 'o \<Rightarrow> (string \<times> string) pyresult" where
  "kwarg_to_strings py kv =
     rbind (map_err (\<lambda>err. PyTypeError (''kwargs keys must be convertible to a string using str(): '' @ py_err_text py err))
              (py_call_str py (fst kv))) (\<lambda>py_key.
     rbind (map_err (\<lambda>err. PyTypeError (''kwargs values must be convertible to a string using str(): '' @ py_err_text py err))
              (py_call_str py (snd kv))) (\<lambda>py_val.
     rbind (py_to_str py py_key) (\<lambda>k.
     rbind (py_to_str py py_val) (\<lambda>v. Ok (k, v)))))"

text \<open>Later entries of an iterator collected into a \<open>HashMap\<close> replace earlier ones with the same key.\<close>

definition kwargs_to_string_map :: "'o py_api \<Rightarrow> ('o \<times> 'o) list option \<Rightarrow> (string \<rightharpoonup> string) pyresult" where
  "kwargs_to_string_map py kwargs =
     (case kwargs of
        Some kwargs \<Rightarrow> rbind (mapM (kwarg_to_strings py) kwargs) (\<lambda>kvs. Ok (map_of (rev kvs)))
      | None \<Rightarrow> Ok Map.empty)"

definition missing_key :: "string \<Rightarrow> string \<Rightarrow> py_err" where
  "missing_key key_name from_name =
     PyException (''The required key '' @ key_name @ '' was not present in '' @ from_name @ ''.'')"

definition transform_tuple_to_uniform_type :: "('o \<Rightarrow> 't pyresult) \<Rightarrow> 'o list \<Rightarrow> ('t \<Rightarrow> 'u) \<Rightarrow> 'u list pyresult" where
  "transform_tuple_to_uniform_type extract tuple transform =
     mapM (\<lambda>tuple_item. rbind (extract tuple_item) (\<lambda>x. Ok (transform x))) tuple"

definition tuple_to_uniform_type :: "('o \<Rightarrow> 't pyresult) \<Rightarrow> 'o list \<Rightarrow> 't list pyresult" where
  "tuple_to_uniform_type extract tuple = mapM extract tuple"

definition class_attr :: "'o py_api \<Rightarrow> 'o \<Rightarrow> string \<Rightarrow> string pyresult" where
  "class_attr py ob name =
     rbind (py_getattr py ob ''__class__'') (\<lambda>cls.
     rbind (py_getattr py cls name) (\<lambda>text. py_str py text))"

definition object_class_name :: "'o py_api \<Rightarrow> 'o \<Rightarrow> string pyresult" where
  "object_class_name py ob =
     rbind (class_attr py ob ''__qualname__'') (\<lambda>qual_name.
     rbind (class_attr py ob ''__module__'') (\<lambda>module_name. Ok (module_name @ ''.'' @ qual_name)))"

section \<open>python/src/datatypes.rs\<close>

subsection \<open>Names of types and units\<close>

definition time_unit_names :: "(string \<times> time_unit) list" where
  "time_unit_names =
     [(''Second'', Second), (''second'', Second), (''s'', Second),
      (''Millisecond'', Millisecond), (''MilliSecond'', Millisecond), (''ms'', Millisecond), (''milli'', Millisecond), (''Milli'', Millisecond),
      (''Microsecond'', Microsecond), (''MicroSecond'', Microsecond), (''us'', Microsecond), (''micro'', Microsecond), (''Micro'', Microsecond),
      (''Nanosecond'', Nanosecond), (''NanoSecond'', Nanosecond), (''ns'', Nanosecond), (''nano'', Nanosecond), (''Nano'', Nanosecond)]"

text \<open>A unit is given as an object of the bindings or by a name.\<close>

definition any_to_named ::
  "'o py_api \<Rightarrow> ('o \<Rightarrow> 'u pyresult) \<Rightarrow> (string \<times> 'u) list \<Rightarrow> string \<Rightarrow> 'o \<Rightarrow> 'u pyresult" where
  "any_to_named py extract names what any =
     (case extract any of
        Ok unit \<Rightarrow> Ok unit
      | Panic p \<Rightarrow> Panic p
      | Err _ \<Rightarrow>
          (case py_str py any of
             Ok text \<Rightarrow> ok_or (map_of names text) (PyException (''Could not convert '' @ [CHR 0x27] @ text @ [CHR 0x27] @ '' to a valid '' @ what))
           | Panic p \<Rightarrow> Panic p
           | Err _ \<Rightarrow>
               (case object_class_name py any of
                  Panic p \<Rightarrow> Panic p
                | Ok name \<Rightarrow> Err (PyException (''Could not convert '' @ name @ '' to a valid '' @ what))
                | Err _ \<Rightarrow> Err (PyException (''Could not convert <Could not get class name> to a valid '' @ what)))))"

definition any_to_time_unit :: "'o py_api \<Rightarrow> 'o \<Rightarrow> time_unit pyresult" where
  "any_to_time_unit py any = any_to_named py (py_time_unit py) time_unit_names ''time unit'' any"

definition interval_unit_names :: "(string \<times> interval_unit) list" where
  "interval_unit_names =
     [(''YearMonth'', YearMonth), (''ym'', YearMonth), (''y'', YearMonth), (''DayTime'', DayTime), (''dt'', DayTime), (''d'', DayTime)]"

definition any_to_interval_unit :: "'o py_api \<Rightarrow> 'o \<Rightarrow> interval_unit pyresult" where
  "any_to_interval_unit py any = any_to_named py (py_interval_unit py) interval_unit_names ''interval unit'' any"

definition datatype_names :: "(string \<times> data_type) list" where
  "datatype_names =
     [(''int8'', DT_Int8), (''i8'', DT_Int8), (''int16'', DT_Int16), (''i16'', DT_Int16),
      (''int32'', DT_Int32), (''int'', DT_Int32), (''i32'', DT_Int32), (''int64'', DT_Int64), (''i64'', DT_Int64),
      (''uint8'', DT_UInt8), (''u8'', DT_UInt8), (''uint16'', DT_UInt16), (''u16'', DT_UInt16),
      (''uint32'', DT_UInt32), (''uint'', DT_UInt32), (''u32'', DT_UInt32), (''uint64'', DT_UInt64), (''u64'', DT_UInt64),
      (''str'', DT_Utf8), (''utf8'', DT_Utf8), (''float32'', DT_Float32), (''f32'', DT_Float32),
      (''float'', DT_Float64), (''f64'', DT_Float64), (''bool'', DT_Boolean), (''date32'', DT_Date32), (''date64'', DT_Date64)]"

definition any_to_datatype :: "'o py_api \<Rightarrow> 'o \<Rightarrow> data_type pyresult" where
  "any_to_datatype py any =
     (case py_datatype py any of
        Ok datatype \<Rightarrow> Ok datatype
      | Panic p \<Rightarrow> Panic p
      | Err _ \<Rightarrow>
          (case py_str py any of
             Ok text \<Rightarrow> ok_or (map_of datatype_names text) (PyException (''The type string '' @ text @ '' is invalid''))
           | Panic p \<Rightarrow> Panic p
           | Err _ \<Rightarrow>
               (case py_type_str py any of
                  Panic p \<Rightarrow> Panic p
                | Ok type_name \<Rightarrow> Err (PyException (''Could not convert type '' @ type_name))
                | Err _ \<Rightarrow> Err (PyException ''Could not convert type <Failed to get type name>''))))"

subsection \<open>Type constructors\<close>

definition BPyDataType_new :: "'o py_api \<Rightarrow> 'o \<Rightarrow> data_type pyresult" where
  "BPyDataType_new py primitive = any_to_datatype py primitive"

definition List_type :: "bpy_field \<Rightarrow> data_type" where
  "List_type item_type = DT_List (bf_arrow_field item_type)"

definition LargeList_type :: "bpy_field \<Rightarrow> data_type" where
  "LargeList_type item_type = DT_List (bf_arrow_field item_type)"

definition show_i32 :: "u32 \<Rightarrow> string" where
  "show_i32 w = (if sint w < 0 then ''-'' @ show_nat (nat (- sint w)) else show_nat (nat (sint w)))"

definition FixedSizeList_type :: "bpy_field \<Rightarrow> u32 \<Rightarrow> data_type pyresult" where
  "FixedSizeList_type item_type list_size =
     (if sint list_size < 0 then Err (PyException (''list_size must be postive, found :'' @ show_i32 list_size))
      else Ok (DT_FixedSizeList (bf_arrow_field item_type) list_size))"

definition FixedSizeBinary_type :: "u32 \<Rightarrow> data_type pyresult" where
  "FixedSizeBinary_type binary_size =
     (if sint binary_size < 0 then Err (PyException (''binary_size must be postive, found :'' @ show_i32 binary_size))
      else Ok (DT_FixedSizeBinary binary_size))"

definition Interval_type :: "'o py_api \<Rightarrow> 'o option \<Rightarrow> data_type pyresult" where
  "Interval_type py interval_unit =
     rbind (case interval_unit of Some any \<Rightarrow> any_to_interval_unit py any | None \<Rightarrow> Ok DayTime) (\<lambda>unit. Ok (DT_Interval unit))"

definition Date_type :: "bool \<Rightarrow> data_type pyresult" where
  "Date_type date32 = Ok (if date32 then DT_Date32 else DT_Date64)"

definition Time_type :: "'o py_api \<Rightarrow> 'o option \<Rightarrow> bool \<Rightarrow> data_type pyresult" where
  "Time_type py time_unit time32 =
     rbind (case time_unit of Some any \<Rightarrow> any_to_time_unit py any | None \<Rightarrow> Ok Millisecond) (\<lambda>unit.
       Ok (if time32 then DT_Time32 unit else DT_Time64 unit))"

definition Duration_type :: "'o py_api \<Rightarrow> 'o option \<Rightarrow> data_type pyresult" where
  "Duration_type py time_unit =
     rbind (case time_unit of Some any \<Rightarrow> any_to_time_unit py any | None \<Rightarrow> Ok Millisecond) (\<lambda>unit. Ok (DT_Duration unit))"

definition Union_type :: "'o py_api \<Rightarrow> 'o list \<Rightarrow> data_type pyresult" where
  "Union_type py field_obs =
     (if field_obs = [] then Err (PyException ''To construct a Union at least a single Field must be provided'')
      else rbind (mapM (\<lambda>any. rbind (py_field py any) (\<lambda>f. Ok (bf_arrow_field f))) field_obs) (\<lambda>union_fields. Ok (DT_Union union_fields)))"

definition Struct_type :: "'o py_api \<Rightarrow> 'o list \<Rightarrow> data_type pyresult" where
  "Struct_type py members =
     (if members = [] then Err (PyException ''To construct a Struct at least a single Field must be provided'')
      else rbind (mapM (\<lambda>any. rbind (py_field py any) (\<lambda>f. Ok (bf_arrow_field f))) members) (\<lambda>struct_members. Ok (DT_Struct struct_members)))"

definition Dictionary_type :: "data_type \<Rightarrow> data_type \<Rightarrow> data_type" where
  "Dictionary_type key_type value_type = DT_Dictionary key_type value_type"

definition Decimal_type :: "nat \<Rightarrow> nat \<Rightarrow> data_type" where
  "Decimal_type whole fractional = DT_Decimal whole fractional"

definition Timestamp_type :: "'o py_api \<Rightarrow> 'o \<Rightarrow> string option \<Rightarrow> data_type pyresult" where
  "Timestamp_type py time_unit timezone = rbind (any_to_time_unit py time_unit) (\<lambda>unit. Ok (DT_Timestamp unit timezone))"

text \<open>The constants \<open>init\<close> adds to the module.\<close>

definition module_types :: "(string \<times> data_type) list" where
  "module_types =
     [(''Null'', DT_Float32), (''Bool'', DT_Float64), (''Int8'', DT_Int8), (''Int16'', DT_Int16), (''Int32'', DT_Int32),
      (''Int64'', DT_Int64), (''UInt8'', DT_UInt8), (''UInt16'', DT_UInt16), (''UInt32'', DT_UInt32), (''UInt64'', DT_UInt64),
      (''Float16'', DT_Float16), (''Float32'', DT_Float32), (''Float64'', DT_Float64), (''Binary'', DT_Binary),
      (''LargeBinary'', DT_Binary), (''Utf8'', DT_Binary), (''LargeUtf8'', DT_Binary)]"

section \<open>python/src/field.rs\<close>

text \<open>\<open>Field::new\<close> sets no dictionary, \<open>Field::new_dict\<close> the given one.\<close>

definition arrow_field_new :: "string \<Rightarrow> data_type \<Rightarrow> bool \<Rightarrow> string option \<Rightarrow> bpy_field" where
  "arrow_field_new name datatype nullable qualifier =
     \<lparr>bf_arrow_field = MkField name datatype nullable, bf_dict_id = 0, bf_dict_is_ordered = False, bf_qualifier = qualifier\<rparr>"

definition optional_item :: "(string \<rightharpoonup> 'o) \<Rightarrow> string \<Rightarrow> ('o \<Rightarrow> 'a pyresult) \<Rightarrow> 'a option pyresult" where
  "optional_item items key extract =
     (case items key of Some pyobj \<Rightarrow> rbind (extract pyobj) (\<lambda>x. Ok (Some x)) | None \<Rightarrow> Ok None)"

definition dict_to_bpyfield :: "'o py_api \<Rightarrow> (string \<rightharpoonup> 'o) \<Rightarrow> bpy_field pyresult" where
  "dict_to_bpyfield py items =
     rbind (ok_or (items ''name'') (missing_key ''name'' ''field dictionary'')) (\<lambda>name.
     rbind (ok_or (items ''datatype'') (missing_key ''datatype'' ''field dictionary'')) (\<lambda>datatype.
     rbind (optional_item items ''nullable'' (py_bool py)) (\<lambda>nullable.
     rbind (optional_item items ''dict_id'' (py_i64 py)) (\<lambda>dict_id.
     rbind (optional_item items ''dict_is_ordered'' (py_bool py)) (\<lambda>dict_is_ordered.
     rbind (optional_item items ''qualifier'' (py_to_string py)) (\<lambda>qualifier.
     rbind (py_to_string py name) (\<lambda>field_name.
     rbind (any_to_datatype py datatype) (\<lambda>field_datatype.
       let arrow_field = arrow_field_new field_name field_datatype (nullable = Some True) qualifier
       in case dict_id of
            Some dict_id \<Rightarrow> Ok (arrow_field\<lparr>bf_dict_id := dict_id, bf_dict_is_ordered := (dict_is_ordered = Some True)\<rparr>)
          | None \<Rightarrow> Ok arrow_field))))))))"

definition any_to_bpyfield :: "'o py_api \<Rightarrow> 'o \<Rightarrow> bpy_field pyresult" where
  "any_to_bpyfield py any =
     (case py_field py any of
        Ok native_field \<Rightarrow> Ok native_field
      | Panic p \<Rightarrow> Panic p
      | Err _ \<Rightarrow>
          (case py_dict py any of
             Ok items \<Rightarrow> dict_to_bpyfield py items
           | Panic p \<Rightarrow> Panic p
           | Err _ \<Rightarrow> Err (PyException ''Could not convert to Field class'')))"

definition BPyField_new :: "'o py_api \<Rightarrow> string \<Rightarrow> 'o \<Rightarrow> bool \<Rightarrow> string option \<Rightarrow> bpy_field pyresult" where
  "BPyField_new py name datatype nullable qualifier =
     rbind (any_to_datatype py datatype) (\<lambda>native_datatype. Ok (arrow_field_new name native_datatype nullable qualifier))"

definition bpyfield_is_nullable :: "bpy_field \<Rightarrow> bool" where
  "bpyfield_is_nullable f = f_nullable (bf_arrow_field f)"

definition bpyfield_datatype :: "bpy_field \<Rightarrow> data_type" where
  "bpyfield_datatype f = f_data_type (bf_arrow_field f)"

text \<open>\<open>DFField\<close> of DataFusion: a field with a qualifier.\<close>

record df_field =
  dff_qualifier :: "string option"
  dff_field :: field

definition bpyfield_into_dffield :: "bpy_field \<Rightarrow> df_field" where
  "bpyfield_into_dffield f =
     \<lparr>dff_qualifier = bf_qualifier f,
      dff_field = MkField (f_name (bf_arrow_field f)) (f_data_type (bf_arrow_field f)) (f_nullable (bf_arrow_field f))\<rparr>"

section \<open>python/src/schema.rs\<close>

record bpy_schema =
  bs_fields :: schema
  bs_metadata :: "string \<rightharpoonup> string"

definition BPySchema_new :: "'o py_api \<Rightarrow> 'o list \<Rightarrow> ('o \<times> 'o) list option \<Rightarrow> bpy_schema pyresult" where
  "BPySchema_new py args kwargs =
     rbind (mapM (\<lambda>arg. case py_field py arg of Ok f \<Rightarrow> Ok (bf_arrow_field f) | Err py_err \<Rightarrow> Err py_err | Panic p \<Rightarrow> Panic p) args) (\<lambda>arrow_fields.
     rbind (kwargs_to_string_map py kwargs) (\<lambda>metadata.
       Ok \<lparr>bs_fields = arrow_fields, bs_metadata = metadata\<rparr>))"

text \<open>The text of a schema; \<open>show_type\<close> is the \<open>Display\<close> of an Arrow type.\<close>

definition py_newline :: string where
  "py_newline = [CHR 0x0A]"

definition show_field :: "(data_type \<Rightarrow> string) \<Rightarrow> field \<Rightarrow> string" where
  "show_field show_type f =
     ''Field{ name: '' @ f_name f @ '', datatype: '' @ show_type (f_data_type f) @ '', nullable: '' @
     (if f_nullable f then ''true'' else ''false'') @ ''}''"

fun schema_str_loop :: "(data_type \<Rightarrow> string) \<Rightarrow> string \<Rightarrow> bool \<Rightarrow> field list \<Rightarrow> string" where
  "schema_str_loop show_type msg first [] = msg"
| "schema_str_loop show_type msg first (f # fs) =
     (let msg = (if \<not> first then msg @ '', '' @ py_newline else msg)
      in schema_str_loop show_type (msg @ show_field show_type f) False fs)"

definition schema_str :: "(data_type \<Rightarrow> string) \<Rightarrow> bpy_schema \<Rightarrow> string" where
  "schema_str show_type sch = schema_str_loop show_type (''Schema: ['' @ py_newline) True (bs_fields sch) @ py_newline @ '']''"

section \<open>python/src/dfschema.rs\<close>

text \<open>DataFusion's \<open>DFSchema\<close> is a type \<open>'q\<close> with the operations the bindings call.\<close>

record 'q dfschema_ops =
  dq_empty :: 'q
  dq_new :: "df_field list \<Rightarrow> ('q, string) result"
  dq_try_from_qualified :: "string \<Rightarrow> bpy_schema \<Rightarrow> ('q, string) result"
  dq_join :: "'q \<Rightarrow> 'q \<Rightarrow> ('q, string) result"

definition BPyDFSchema_new :: "'o py_api \<Rightarrow> 'q dfschema_ops \<Rightarrow> string option \<Rightarrow> bpy_schema option \<Rightarrow> 'o list \<Rightarrow> 'q pyresult" where
  "BPyDFSchema_new py dq qualifier sch args =
     (case (qualifier, sch) of
        (Some qual, Some sch) \<Rightarrow>
          if args \<noteq> [] then
            Err (PyException ''When a qualifier and schema are supplied no additional fields are allowd in *args'')
          else map_err wrap_err (dq_try_from_qualified dq qual sch)
      | (Some _, None) \<Rightarrow> Err (PyException ''When passing a qualifier a schema must also be supplied'')
      | (None, Some _) \<Rightarrow> Err (PyException ''When passing a schema a qualifier must also be supplied'')
      | (None, None) \<Rightarrow>
          if args = [] then Ok (dq_empty dq)
          else
            rbind (mapM (any_to_bpyfield py) args) (\<lambda>py_fields.
              map_err wrap_err (dq_new dq (map bpyfield_into_dffield py_fields))))"

definition BPyDFSchema_join :: "'q dfschema_ops \<Rightarrow> 'q \<Rightarrow> 'q \<Rightarrow> 'q pyresult" where
  "BPyDFSchema_join dq self sch = map_err wrap_err (dq_join dq self sch)"

section \<open>Lemmas\<close>

text \<open>Every type that has a name arrives at the other side of the wire as it is.\<close>

lemma named_types_wire: "(text, t) \<in> set datatype_names \<Longrightarrow> dt_norm t = t"
  by (auto simp: datatype_names_def)

text \<open>
  A field of a dictionary: the required keys decide between a field and an error, whatever else the
  dictionary holds.
\<close>

lemma dict_to_bpyfield_missing:
  "items ''name'' = None \<Longrightarrow> dict_to_bpyfield py items = Err (missing_key ''name'' ''field dictionary'')"
  "items ''name'' = Some ob \<Longrightarrow> items ''datatype'' = None \<Longrightarrow>
     dict_to_bpyfield py items = Err (missing_key ''datatype'' ''field dictionary'')"
  by (simp_all add: dict_to_bpyfield_def)

lemma dict_to_bpyfield_plain:
  assumes "items = [''name'' \<mapsto> name, ''datatype'' \<mapsto> ty]" "py_display py name = Some text"
  shows "dict_to_bpyfield py items = rbind (any_to_datatype py ty) (\<lambda>t. Ok (arrow_field_new text t False None))"
  using assms by (simp add: dict_to_bpyfield_def optional_item_def py_to_string_def)

text \<open>A size that is accepted is not negative, and it is kept.\<close>

lemma fixed_size_kept:
  "FixedSizeList_type f n = Ok t \<longleftrightarrow> 0 \<le> sint n \<and> t = DT_FixedSizeList (bf_arrow_field f) n"
  "FixedSizeBinary_type n = Ok t \<longleftrightarrow> 0 \<le> sint n \<and> t = DT_FixedSizeBinary n"
  by (auto simp: FixedSizeList_type_def FixedSizeBinary_type_def)

text \<open>
  \<open>LargeList\<close> builds a plain list type, and five of the module's constants have another type than
  their name says.
\<close>

lemma large_list_is_list: "LargeList_type f = List_type f" "LargeList_type f \<noteq> DT_LargeList (bf_arrow_field f)"
  by (simp_all add: LargeList_type_def List_type_def)

lemma module_types_misnamed:
  "map_of module_types ''Null'' = Some DT_Float32" "map_of module_types ''Bool'' = Some DT_Float64"
  "map_of module_types ''LargeBinary'' = Some DT_Binary" "map_of module_types ''Utf8'' = Some DT_Binary"
  "map_of module_types ''LargeUtf8'' = Some DT_Binary"
  by (simp_all add: module_types_def)

text \<open>The loop that prints a schema separates the fields and prints each once.\<close>

lemma schema_str_loop_rest:
  "schema_str_loop show_type msg False fs = msg @ concat (map (\<lambda>f. '', '' @ py_newline @ show_field show_type f) fs)"
  by (induction fs arbitrary: msg) (simp_all add: Let_def)

lemma schema_str_fields:
  "schema_str show_type \<lparr>bs_fields = f # fs, bs_metadata = m\<rparr> =
     ''Schema: ['' @ py_newline @ show_field show_type f @ concat (map (\<lambda>f. '', '' @ py_newline @ show_field show_type f) fs) @ py_newline @ '']''"
  by (simp add: schema_str_def schema_str_loop_rest)

end
