(* ===== verification/Python_Expr.thy ===== *)
theory Python_Expr
  imports Python_Types Client_Context
begin

text \<open>
  The Python bindings, part two: \<open>python/src/scalar.rs\<close>, \<open>expression.rs\<close>, \<open>functions.rs\<close>,
  \<open>partition.rs\<close>, \<open>dataframe.rs\<close> and \<open>context.rs\<close>.

  The builder of \<open>CASE\<close> expressions is a small state machine; its lemmas show that it implements the
  abstract machine \<open>case_spec_call\<close>.  DataFusion's own expression constructors are the parameter
  \<open>expr_ops\<close>; the conversion of batches to pyarrow objects is foreign and not modelled.
\<close>

section \<open>python/src/scalar.rs\<close>

definition numpy_scalar :: "'o py_api \<Rightarrow> 'o \<Rightarrow> string \<Rightarrow> scalar_value pyresult" where
  "numpy_scalar py ob qual_name =
     (if qual_name = ''int8'' then rbind (py_i8 py ob) (\<lambda>x. Ok (SV_Int8 (Some x)))
      else if qual_name = ''int32'' then rbind (py_i32 py ob) (\<lambda>x. Ok (SV_Int32 (Some x)))
      else if qual_name = ''int16'' then rbind (py_i16 py ob) (\<lambda>x. Ok (SV_Int16 (Some x)))
      else if qual_name = ''int64'' then rbind (py_i64 py ob) (\<lambda>x. Ok (SV_Int64 (Some x)))
      else if qual_name = ''uint8'' then rbind (py_u8 py ob) (\<lambda>x. Ok (SV_UInt8 (Some x)))
      else if qual_name = ''uint16'' then rbind (py_u16 py ob) (\<lambda>x. Ok (SV_UInt16 (Some x)))
      else if qual_name = ''uint32'' then rbind (py_u32 py ob) (\<lambda>x. Ok (SV_UInt32 (Some x)))
      else if qual_name = ''uint64'' then rbind (py_u64 py ob) (\<lambda>x. Ok (SV_UInt64 (Some x)))
      else if qual_name = ''float64'' \<or> qual_name = ''float_'' then rbind (py_f64 py ob) (\<lambda>x. Ok (SV_Float64 (Some x)))
      else if qual_name = ''float32'' then rbind (py_f32 py ob) (\<lambda>x. Ok (SV_Float32 (Some x)))
      else if qual_name = ''bool_'' then rbind (py_bool py ob) (\<lambda>x. Ok (SV_Boolean (Some x)))
      else if qual_name = ''str_'' then rbind (py_str py ob) (\<lambda>x. Ok (SV_Utf8 (Some x)))
      else if qual_name = ''ndarray'' then
        rbind (py_getattr py ob ''dtype'') (\<lambda>np_dtype.
        rbind (py_getattr py np_dtype ''name'') (\<lambda>dtype_name.
        rbind (py_str py dtype_name) (\<lambda>_.
        rbind (py_getattr py ob ''shape'') (\<lambda>shape.
        rbind (py_tuple py shape) (\<lambda>items.
        rbind (mapM (py_isize py) items) (\<lambda>_. Err (PyException ''numpy.ndarray is unimplemented'')))))))
      else Err (PyException (''Numpy type '' @ [CHR 0x27] @ qual_name @ [CHR 0x27] @ '' not yet implemented'')))"

definition builtin_scalar :: "'o py_api \<Rightarrow> 'o \<Rightarrow> string \<Rightarrow> scalar_value pyresult" where
  "builtin_scalar py ob qual_name =
     (if qual_name = ''int'' then rbind (py_i64 py ob) (\<lambda>x. Ok (SV_Int64 (Some x)))
      else if qual_name = ''float'' then rbind (py_f64 py ob) (\<lambda>x. Ok (SV_Float64 (Some x)))
      else if qual_name = ''str'' then rbind (py_str py ob) (\<lambda>x. Ok (SV_Utf8 (Some x)))
      else Err (PyException (''Builtin type '' @ [CHR 0x27] @ qual_name @ [CHR 0x27] @ '' not yet implemented'')))"

text \<open>
  \<open>Scalar::extract\<close>.  The match is entered with the names of the class.  On a class \<open>Scalar\<close> of the
  module \<open>ballista\<close> it extracts a \<open>Scalar\<close> from the same object, which is this function again:
  \<open>None\<close> is a recursion that does not end.
\<close>

partial_function (option) scalar_extract :: "'o py_api \<Rightarrow> 'o \<Rightarrow> scalar_value pyresult option" where
  "scalar_extract py ob =
     (case class_attr py ob ''__qualname__'' of
        Err e \<Rightarrow> Some (Err e)
      | Panic p \<Rightarrow> Some (Panic p)
      | Ok qual_name \<Rightarrow>
          (case class_attr py ob ''__module__'' of
             Err e \<Rightarrow> Some (Err e)
           | Panic p \<Rightarrow> Some (Panic p)
           | Ok module_name \<Rightarrow>
               if module_name = ''numpy'' then Some (numpy_scalar py ob qual_name)
               else if module_name = ''builtins'' then Some (builtin_scalar py ob qual_name)
               else if module_name = ''ballista'' then
                 if qual_name = ''Scalar'' then scalar_extract py ob
                 else Some (Err (PyException (''Ballista type '' @ [CHR 0x27] @ qual_name @ [CHR 0x27] @
                   '' is not supported as a literal scalar value'')))
               else Some (Err (PyException (''Types from the module '' @ [CHR 0x27] @ module_name @ [CHR 0x27] @
                 '' are not supported. If you would like to have support added please file an issue at https://github.com/ballista-compute/ballista'')))))"

text \<open>To a caller, a recursion that does not end is a stack overflow.\<close>

definition scalar_of :: "'o py_api \<Rightarrow> 'o \<Rightarrow> scalar_value pyresult" where
  "scalar_of py ob = (case scalar_extract py ob of Some r \<Rightarrow> r | None \<Rightarrow> Panic ''stack overflow'')"

lemma scalar_extract_unending:
  assumes "class_attr py ob ''__qualname__'' = Ok ''Scalar''" "class_attr py ob ''__module__'' = Ok ''ballista''"
  shows "scalar_extract py ob = None"
proof (rule ccontr)
  let ?loops = "\<lambda>py ob. class_attr py ob ''__qualname__'' = Ok ''Scalar'' \<and> class_attr py ob ''__module__'' = Ok ''ballista''"
  assume "scalar_extract py ob \<noteq> None"
  then obtain r where "scalar_extract py ob = Some r" by blast
  then have "\<not> ?loops py ob"
    by (rule scalar_extract.raw_induct [where P = "\<lambda>py ob r. \<not> ?loops py ob", rotated]) auto
  with assms show False by simp
qed

lemma scalar_of_builtin:
  assumes "class_attr py ob ''__qualname__'' = Ok name" "class_attr py ob ''__module__'' = Ok ''builtins''"
  shows "scalar_of py ob = builtin_scalar py ob name"
  unfolding scalar_of_def by (subst scalar_extract.simps) (simp add: assms)

section \<open>python/src/expression.rs\<close>

text \<open>
  DataFusion's operators on expressions, by the operator they stand for, and its builder of \<open>CASE\<close>
  expressions, a type \<open>'k\<close>.
\<close>

record 'k expr_ops =
  eo_binary :: "operator \<Rightarrow> expr \<Rightarrow> expr \<Rightarrow> expr"
  eo_not :: "expr \<Rightarrow> expr"
  eo_alias :: "expr \<Rightarrow> string \<Rightarrow> expr"
  eo_concat :: "expr list \<Rightarrow> expr"
  eo_array :: "expr list \<Rightarrow> expr"
  eo_case :: "expr \<Rightarrow> 'k"
  eo_start :: "expr \<Rightarrow> expr \<Rightarrow> 'k"
  eo_when :: "'k \<Rightarrow> expr \<Rightarrow> expr \<Rightarrow> 'k"
  eo_otherwise :: "'k \<Rightarrow> expr \<Rightarrow> (expr, string) result"
  eo_end :: "'k \<Rightarrow> (expr, string) result"

definition from_tuple :: "'o py_api \<Rightarrow> 'o list \<Rightarrow> expr list pyresult" where
  "from_tuple py tuple = mapM (py_expr py) tuple"

definition any_to_expression :: "'o py_api \<Rightarrow> 'o \<Rightarrow> expr pyresult" where
  "any_to_expression py any =
     (case py_expr py any of
        Ok e \<Rightarrow> Ok e
      | Panic p \<Rightarrow> Panic p
      | Err _ \<Rightarrow>
          (case scalar_of py any of
             Ok scalar_value \<Rightarrow> Ok (E_Literal scalar_value)
           | Panic p \<Rightarrow> Panic p
           | Err _ \<Rightarrow>
               (case object_class_name py any of
                  Panic p \<Rightarrow> Panic p
                | Ok type_name \<Rightarrow> Err (PyException (''The rhs type '' @ type_name @ '' could not be converted to an expression.''))
                | Err err \<Rightarrow> Err (PyException (''The rhs type <Could not get class name:'' @ py_err_text py err @
                    ''> could not be converted to an expression.'')))))"

text \<open>The arithmetic and logical operators: \<open>__add__\<close> and its siblings differ in the operator.\<close>

definition expr_binary :: "'o py_api \<Rightarrow> 'k expr_ops \<Rightarrow> operator \<Rightarrow> expr \<Rightarrow> 'o \<Rightarrow> expr pyresult" where
  "expr_binary py eo operator lhs rhs = rbind (any_to_expression py rhs) (\<lambda>rhs_expr. Ok (eo_binary eo operator lhs rhs_expr))"

definition expr_add :: "'o py_api \<Rightarrow> 'k expr_ops \<Rightarrow> expr \<Rightarrow> 'o \<Rightarrow> expr pyresult" where
  "expr_add py eo lhs rhs = expr_binary py eo Op_Plus lhs rhs"

definition expr_sub :: "'o py_api \<Rightarrow> 'k expr_ops \<Rightarrow> expr \<Rightarrow> 'o \<Rightarrow> expr pyresult" where
  "expr_sub py eo lhs rhs = expr_binary py eo Op_Minus lhs rhs"

definition expr_truediv :: "'o py_api \<Rightarrow> 'k expr_ops \<Rightarrow> expr \<Rightarrow> 'o \<Rightarrow> expr pyresult" where
  "expr_truediv py eo lhs rhs = expr_binary py eo Op_Divide lhs rhs"

definition expr_mul :: "'o py_api \<Rightarrow> 'k expr_ops \<Rightarrow> expr \<Rightarrow> 'o \<Rightarrow> expr pyresult" where
  "expr_mul py eo lhs rhs = expr_binary py eo Op_Multiply lhs rhs"

definition expr_and :: "'o py_api \<Rightarrow> 'k expr_ops \<Rightarrow> expr \<Rightarrow> 'o \<Rightarrow> expr pyresult" where
  "expr_and py eo lhs rhs = expr_binary py eo Op_And lhs rhs"

definition expr_or :: "'o py_api \<Rightarrow> 'k expr_ops \<Rightarrow> expr \<Rightarrow> 'o \<Rightarrow> expr pyresult" where
  "expr_or py eo lhs rhs = expr_binary py eo Op_Or lhs rhs"

definition expr_invert :: "'k expr_ops \<Rightarrow> expr \<Rightarrow> expr pyresult" where
  "expr_invert eo self = Ok (eo_not eo self)"

datatype compare_op = Cmp_Lt | Cmp_Le | Cmp_Eq | Cmp_Ne | Cmp_Gt | Cmp_Ge

definition expr_richcmp :: "'o py_api \<Rightarrow> 'k expr_ops \<Rightarrow> expr \<Rightarrow> 'o \<Rightarrow> compare_op \<Rightarrow> expr pyresult" where
  "expr_richcmp py eo self other op =
     rbind (any_to_expression py other) (\<lambda>other_expr.
       Ok (case op of
             Cmp_Lt \<Rightarrow> eo_binary eo Op_Lt self other_expr
           | Cmp_Le \<Rightarrow> eo_binary eo Op_LtEq self other_expr
           | Cmp_Eq \<Rightarrow> eo_binary eo Op_Eq self other_expr
           | Cmp_Ne \<Rightarrow> eo_binary eo Op_NotEq self other_expr
           | Cmp_Gt \<Rightarrow> eo_binary eo Op_Gt self other_expr
           | Cmp_Ge \<Rightarrow> eo_binary eo Op_GtEq self other_expr))"

definition BPyExpr_new :: "'o py_api \<Rightarrow> 'o \<Rightarrow> expr pyresult" where
  "BPyExpr_new py any = any_to_expression py any"

definition expr_alias :: "'k expr_ops \<Rightarrow> expr \<Rightarrow> string \<Rightarrow> expr pyresult" where
  "expr_alias eo self name = Ok (eo_alias eo self name)"

definition expr_between :: "'o py_api \<Rightarrow> expr \<Rightarrow> 'o \<Rightarrow> 'o \<Rightarrow> bool \<Rightarrow> expr pyresult" where
  "expr_between py self low high negated =
     rbind (any_to_expression py low) (\<lambda>low_expr.
     rbind (any_to_expression py high) (\<lambda>high_expr. Ok (E_Between self negated low_expr high_expr)))"

subsection \<open>CaseBuilder\<close>

record case_builder =
  cb_case_expr :: "expr option"
  cb_when_expr :: "expr list"
  cb_then_expr :: "expr list"
  cb_else_expr :: "expr option"
  cb_built_expr :: "expr option"

definition CaseBuilder_new :: "expr option \<Rightarrow> case_builder" where
  "CaseBuilder_new case_e =
     \<lparr>cb_case_expr = case_e, cb_when_expr = [], cb_then_expr = [], cb_else_expr = None, cb_built_expr = None\<rparr>"

definition CaseBuilder_case :: "expr \<Rightarrow> case_builder" where
  "CaseBuilder_case case_e = CaseBuilder_new (Some case_e)"

definition is_built :: "case_builder \<Rightarrow> bool" where
  "is_built cb = (cb_built_expr cb \<noteq> None)"

definition already_built :: py_err where
  "already_built = PyException (''This case builder has already been used, use '' @ [CHR 0x27] @ ''expr'' @ [CHR 0x27] @
     '' attribute to access expression or create a new builder using case function'')"

definition no_clauses :: py_err where
  "no_clauses = PyException ''The builder must have at least one when then clause added before building''"

definition is_built_error :: "case_builder \<Rightarrow> unit pyresult" where
  "is_built_error cb = (if is_built cb then Err already_built else Ok ())"

definition when_impl :: "expr \<Rightarrow> expr \<Rightarrow> (case_builder, unit, py_err) io" where
  "when_impl w t cb =
     (case is_built_error cb of
        Ok _ \<Rightarrow> (Ok (), cb\<lparr>cb_when_expr := cb_when_expr cb @ [w], cb_then_expr := cb_then_expr cb @ [t]\<rparr>)
      | Err e \<Rightarrow> (Err e, cb)
      | Panic p \<Rightarrow> (Panic p, cb))"

text \<open>\<open>Vec::remove(0)\<close>.\<close>

fun vec_remove_first :: "'a list \<Rightarrow> ('a \<times> 'a list, 'e) result" where
  "vec_remove_first [] = Panic ''removal index (is 0) should be < len (is 0)''"
| "vec_remove_first (x # xs) = Ok (x, xs)"

definition private_build :: "'k expr_ops \<Rightarrow> (case_builder, expr, py_err) io" where
  "private_build eo cb =
     (if cb_when_expr cb = [] then (Err no_clauses, cb)
      else
        let temp_case = cb_case_expr cb; cb = cb\<lparr>cb_case_expr := None\<rparr>
        in case vec_remove_first (cb_when_expr cb) of
             Panic p \<Rightarrow> (Panic p, cb)
           | Err e \<Rightarrow> (Err e, cb)
           | Ok (w, temp_when) \<Rightarrow>
          (case vec_remove_first (cb_then_expr cb) of
             Panic p \<Rightarrow> (Panic p, cb\<lparr>cb_when_expr := temp_when\<rparr>)
           | Err e \<Rightarrow> (Err e, cb\<lparr>cb_when_expr := temp_when\<rparr>)
           | Ok (t, temp_then) \<Rightarrow>
               (let builder = (case temp_case of Some e \<Rightarrow> eo_when eo (eo_case eo e) w t | None \<Rightarrow> eo_start eo w t);
                    builder = foldl (\<lambda>builder (w, t). eo_when eo builder w t) builder (zip temp_when temp_then);
                    temp_else = cb_else_expr cb;
                    cb = cb\<lparr>cb_when_expr := [], cb_then_expr := [], cb_else_expr := None\<rparr>
                in case map_err wrap_err (case temp_else of Some e \<Rightarrow> eo_otherwise eo builder e | None \<Rightarrow> eo_end eo builder) of
                     Ok build_result \<Rightarrow> (Ok build_result, cb\<lparr>cb_built_expr := Some build_result\<rparr>)
                   | Err e \<Rightarrow> (Err e, cb)
                   | Panic p \<Rightarrow> (Panic p, cb))))"

definition otherwise_impl :: "'k expr_ops \<Rightarrow> expr \<Rightarrow> (case_builder, expr, py_err) io" where
  "otherwise_impl eo e cb =
     (case is_built_error cb of
        Ok _ \<Rightarrow> private_build eo (cb\<lparr>cb_else_expr := Some e\<rparr>)
      | Err err \<Rightarrow> (Err err, cb)
      | Panic p \<Rightarrow> (Panic p, cb))"

definition CaseBuilder_otherwise :: "'o py_api \<Rightarrow> 'k expr_ops \<Rightarrow> 'o \<Rightarrow> (case_builder, expr, py_err) io" where
  "CaseBuilder_otherwise py eo else_expr = sbind (slift (any_to_expression py else_expr)) (otherwise_impl eo)"

definition CaseBuilder_build :: "'k expr_ops \<Rightarrow> (case_builder, expr, py_err) io" where
  "CaseBuilder_build eo cb = (if is_built cb then (unwrap (cb_built_expr cb), cb) else private_build eo cb)"

text \<open>\<open>when\<close> borrows the builder's cell for the time of the call; \<open>borrow\<close> is whether that succeeds.\<close>

definition CaseBuilder_when :: "'o py_api \<Rightarrow> unit pyresult \<Rightarrow> 'o \<Rightarrow> 'o \<Rightarrow> (case_builder, unit, py_err) io" where
  "CaseBuilder_when py borrow when then_ob =
     sbind (slift borrow) (\<lambda>_.
     sbind (slift (any_to_expression py when)) (\<lambda>when_expr.
     sbind (slift (any_to_expression py then_ob)) (\<lambda>then_expr. when_impl when_expr then_expr)))"

definition CaseBuilder_get_expr :: "case_builder \<Rightarrow> expr option" where
  "CaseBuilder_get_expr cb = cb_built_expr cb"

section \<open>python/src/functions.rs\<close>

definition fn_lit :: "'o py_api \<Rightarrow> 'o \<Rightarrow> expr pyresult" where
  "fn_lit py literal = rbind (scalar_of py literal) (\<lambda>literal_value. Ok (E_Literal literal_value))"

definition fn_concat :: "'o py_api \<Rightarrow> 'k expr_ops \<Rightarrow> 'o list \<Rightarrow> expr pyresult" where
  "fn_concat py eo exprs =
     rbind (transform_tuple_to_uniform_type (py_expr py) exprs (\<lambda>e. e)) (\<lambda>expressions. Ok (eo_concat eo expressions))"

definition fn_array :: "'o py_api \<Rightarrow> 'k expr_ops \<Rightarrow> 'o list \<Rightarrow> expr pyresult" where
  "fn_array py eo args = rbind (transform_tuple_to_uniform_type (py_expr py) args (\<lambda>e. e)) (\<lambda>args. Ok (eo_array eo args))"

definition fn_when :: "'o py_api \<Rightarrow> 'o \<Rightarrow> 'o \<Rightarrow> case_builder pyresult" where
  "fn_when py when then_ob =
     rbind (any_to_expression py when) (\<lambda>when_expr.
     rbind (any_to_expression py then_ob) (\<lambda>then_expr.
       case when_impl when_expr then_expr (CaseBuilder_new None) of
         (Ok _, builder) \<Rightarrow> Ok builder
       | (Err _, _) \<Rightarrow> Panic ''called `Result::unwrap()` on an `Err` value''
       | (Panic p, _) \<Rightarrow> Panic p))"

definition fn_case :: "'o py_api \<Rightarrow> 'o \<Rightarrow> case_builder pyresult" where
  "fn_case py case_ob = rbind (any_to_expression py case_ob) (\<lambda>case_e. Ok (CaseBuilder_case case_e))"

section \<open>python/src/partition.rs\<close>

definition partitioning_hash :: "'o py_api \<Rightarrow> nat \<Rightarrow> 'o list \<Rightarrow> partitioning pyresult" where
  "partitioning_hash py n exprs =
     rbind (transform_tuple_to_uniform_type (py_expr py) exprs (\<lambda>e. e)) (\<lambda>hash_exprs. Ok (Hash hash_exprs n))"

definition partitioning_round_robin :: "nat \<Rightarrow> partitioning" where
  "partitioning_round_robin n = RoundRobinBatch n"

section \<open>python/src/dataframe.rs\<close>

text \<open>An error of the client becomes a Python exception with its \<open>Display\<close> text.\<close>

definition wrap_ballista :: "(string \<Rightarrow> string) \<Rightarrow> 'a bresult \<Rightarrow> 'a pyresult" where
  "wrap_ballista dbg r = map_err (\<lambda>e. wrap_err (display_error dbg e)) r"

definition py_select_columns ::
  "'o py_api \<Rightarrow> (string \<Rightarrow> string) \<Rightarrow> ('c, 'd, 'p) datafusion \<Rightarrow> 'd \<Rightarrow> 'o list \<Rightarrow> 'd pyresult" where
  "py_select_columns py dbg dc df columns =
     rbind (tuple_to_uniform_type (py_str py) columns) (\<lambda>col_vec. wrap_ballista dbg (select_columns dc df col_vec))"

definition py_select :: "'o py_api \<Rightarrow> (string \<Rightarrow> string) \<Rightarrow> ('c, 'd, 'p) datafusion \<Rightarrow> 'd \<Rightarrow> 'o list \<Rightarrow> 'd pyresult" where
  "py_select py dbg dc df exprs =
     rbind (transform_tuple_to_uniform_type (py_expr py) exprs (\<lambda>e. e)) (\<lambda>expressions. wrap_ballista dbg (select dc df expressions))"

definition py_filter :: "'o py_api \<Rightarrow> (string \<Rightarrow> string) \<Rightarrow> ('c, 'd, 'p) datafusion \<Rightarrow> 'd \<Rightarrow> 'o \<Rightarrow> 'd pyresult" where
  "py_filter py dbg dc df e = rbind (any_to_expression py e) (\<lambda>filter_expr. wrap_ballista dbg (filter_rows dc df filter_expr))"

definition py_aggregate ::
  "'o py_api \<Rightarrow> (string \<Rightarrow> string) \<Rightarrow> ('c, 'd, 'p) datafusion \<Rightarrow> 'd \<Rightarrow> 'o list \<Rightarrow> 'o list \<Rightarrow> 'd pyresult" where
  "py_aggregate py dbg dc df group_expr aggr_expr =
     rbind (mapM (any_to_expression py) group_expr) (\<lambda>group_by.
     rbind (mapM (any_to_expression py) aggr_expr) (\<lambda>aggr_by. wrap_ballista dbg (aggregate dc df group_by aggr_by)))"

definition py_limit :: "(string \<Rightarrow> string) \<Rightarrow> ('c, 'd, 'p) datafusion \<Rightarrow> 'd \<Rightarrow> nat \<Rightarrow> 'd pyresult" where
  "py_limit dbg dc df n = wrap_ballista dbg (limit dc df n)"

definition py_sort :: "'o py_api \<Rightarrow> (string \<Rightarrow> string) \<Rightarrow> ('c, 'd, 'p) datafusion \<Rightarrow> 'd \<Rightarrow> 'o list \<Rightarrow> 'd pyresult" where
  "py_sort py dbg dc df exprs =
     rbind (transform_tuple_to_uniform_type (py_expr py) exprs (\<lambda>e. e)) (\<lambda>expressions. wrap_ballista dbg (sort_rows dc df expressions))"

definition py_join :: "'d \<Rightarrow> 'd \<Rightarrow> 'o list \<Rightarrow> 'o list \<Rightarrow> string \<Rightarrow> 'd pyresult" where
  "py_join slf right left_cols right_cols join_type = Err (PyException ''Not implemented on ballista dataframe yet'')"

definition py_repartition :: "(string \<Rightarrow> string) \<Rightarrow> ('c, 'd, 'p) datafusion \<Rightarrow> 'd \<Rightarrow> partitioning \<Rightarrow> 'd pyresult" where
  "py_repartition dbg dc df partitioning_scheme = wrap_ballista dbg (repartition dc df partitioning_scheme)"

definition py_explain :: "(string \<Rightarrow> string) \<Rightarrow> ('c, 'd, 'p) datafusion \<Rightarrow> 'd \<Rightarrow> bool \<Rightarrow> 'd pyresult" where
  "py_explain dbg dc df verbose = wrap_ballista dbg (explain dc df verbose)"

text \<open>The loop over the stream: \<open>result.map_err(wrap_err)?\<close> leaves it at the first error.\<close>

function collect_batches :: "'a arrow_arrays \<Rightarrow> 'a memory_stream \<Rightarrow> 'a record_batch list \<Rightarrow> 'a record_batch list pyresult" where
  "collect_batches aa stream batches =
     (case memory_poll_next aa stream of
        (None, _) \<Rightarrow> Ok batches
      | (Some result, stream') \<Rightarrow> rbind (map_err wrap_err result) (\<lambda>batch. collect_batches aa stream' (batches @ [batch])))"
  by pat_completeness auto
termination
  by (relation "measure (\<lambda>(aa, ms, _). length (ms_data ms) - ms_index ms)")
     (auto simp: memory_poll_next_def Let_def split: if_splits)

declare collect_batches.simps [simp del]

lemma collect_batches_data:
  assumes "ms_projection ms = None"
  shows "collect_batches aa ms bs = Ok (bs @ drop (ms_index ms) (ms_data ms))"
  using assms
proof (induction aa ms bs rule: collect_batches.induct)
  case (1 aa ms bs)
  show ?case
  proof (cases "ms_index ms < length (ms_data ms)")
    case True
    then have poll: "memory_poll_next aa ms = (Some (Ok (ms_data ms ! ms_index ms)), ms\<lparr>ms_index := ms_index ms + 1\<rparr>)"
      using 1(2) by (simp add: memory_poll_next_def)
    have "map_err wrap_err (Ok (ms_data ms ! ms_index ms)) = Ok (ms_data ms ! ms_index ms)" by simp
    with 1(1) [OF poll [symmetric] refl] 1(2) show ?thesis
      using True by (subst collect_batches.simps) (simp add: poll Cons_nth_drop_Suc)
  next
    case False
    then show ?thesis by (subst collect_batches.simps) (simp add: memory_poll_next_def)
  qed
qed

definition async_collect ::
  "(string \<Rightarrow> string) \<Rightarrow> ('c, 'd, 'p) datafusion \<Rightarrow> ('s, 'a, 'f, 'b) flight_env \<Rightarrow> ('s, 'f, 'b) network \<Rightarrow> 's scheduler_client
    \<Rightarrow> context_state \<Rightarrow> 'd \<Rightarrow> 's \<Rightarrow> ('a record_batch list pyresult \<times> 's) option" where
  "async_collect dbg dc fe nw sc state df s =
     map_option (\<lambda>(r, s'). (rbind (wrap_ballista dbg r) (\<lambda>stream. collect_batches (fe_arrays fe) stream []), s'))
       (collect dc fe nw sc state df s)"

section \<open>python/src/context.rs\<close>

text \<open>\<open>CsvReadOptions\<close> of DataFusion; \<open>csv_new\<close> are its defaults.\<close>

record csv_read_options =
  co_has_header :: bool
  co_delimiter :: u8
  co_schema :: "schema option"
  co_schema_infer_max_records :: nat
  co_file_extension :: string

definition context_kwarg :: "'o py_api \<Rightarrow> 'o \<times> 'o \<Rightarrow> (string \<times> string) pyresult" where
  "context_kwarg py kv =
     rbind (map_err (\<lambda>err. PyTypeError (''kwargs keys must be convertible to a string using __str__: '' @ py_err_text py err))
              (py_call_str py (fst kv))) (\<lambda>py_key.
     rbind (map_err (\<lambda>err. PyTypeError (''kwargs values must be convertible to a string using __str__: '' @ py_err_text py err))
              (py_call_str py (snd kv))) (\<lambda>py_val.
     rbind (py_to_str py py_key) (\<lambda>k.
     rbind (py_to_str py py_val) (\<lambda>v. Ok (k, v)))))"

definition BPyBallistaContext_new :: "'o py_api \<Rightarrow> string \<Rightarrow> u16 \<Rightarrow> ('o \<times> 'o) list option \<Rightarrow> context_state pyresult" where
  "BPyBallistaContext_new py host port kwds =
     rbind (case kwds of
              Some kwargs \<Rightarrow> rbind (mapM (context_kwarg py) kwargs) (\<lambda>kvs. Ok (map_of (rev kvs)))
            | None \<Rightarrow> Ok Map.empty) (\<lambda>settings.
       Ok (BallistaContext_remote host port settings))"

definition py_read_parquet :: "(string \<Rightarrow> string) \<Rightarrow> ('c, 'd, 'p) datafusion \<Rightarrow> string \<Rightarrow> 'd pyresult" where
  "py_read_parquet dbg dc path = wrap_ballista dbg (read_parquet dc path)"

definition delimiter_byte :: "char \<Rightarrow> u8 pyresult" where
  "delimiter_byte delimiter =
     (if (of_char delimiter :: nat) < 128 then Ok (of_char delimiter)
      else Err (PyException (''Invalid delimiter '' @ [delimiter] @ '', currently ballista only accepts ascii as csv delimiters'')))"

definition py_read_csv ::
  "(string \<Rightarrow> string) \<Rightarrow> ('c, 'd, csv_read_options) datafusion \<Rightarrow> string \<Rightarrow> bool \<Rightarrow> char \<Rightarrow> string \<Rightarrow> bpy_schema option \<Rightarrow> nat
    \<Rightarrow> 'd pyresult" where
  "py_read_csv dbg dc path has_header delimiter file_extension sch schema_infer_max_records =
     rbind (delimiter_byte delimiter) (\<lambda>delimiter_byte.
       wrap_ballista dbg (read_csv dc path
         \<lparr>co_has_header = has_header, co_delimiter = delimiter_byte, co_schema = map_option bs_fields sch,
          co_schema_infer_max_records = schema_infer_max_records, co_file_extension = file_extension\<rparr>))"

definition wrap_io :: "(string \<Rightarrow> string) \<Rightarrow> ('s, 'a, BallistaError) io \<Rightarrow> ('s, 'a, py_err) io" where
  "wrap_io dbg f = smap_err (\<lambda>e. wrap_err (display_error dbg e)) f"

definition py_register_table ::
  "(string \<Rightarrow> string) \<Rightarrow> ('c, 'd, 'p) datafusion \<Rightarrow> string \<Rightarrow> 'd \<Rightarrow> (context_state, unit, py_err) io" where
  "py_register_table dbg dc name table = wrap_io dbg (register_table dc name table)"

definition py_register_csv ::
  "(string \<Rightarrow> string) \<Rightarrow> ('c, 'd, csv_read_options) datafusion \<Rightarrow> csv_read_options \<Rightarrow> string \<Rightarrow> string \<Rightarrow> bool \<Rightarrow> char \<Rightarrow> string
    \<Rightarrow> bpy_schema option \<Rightarrow> nat \<Rightarrow> (context_state, unit, py_err) io" where
  "py_register_csv dbg dc csv_new name path has_header delimiter file_extension sch schema_infer_max_records =
     (if name = [] then slift (Err (PyException ''Must provide table name''))
      else
        sbind (slift (delimiter_byte delimiter)) (\<lambda>delimiter_byte.
          let options = csv_new\<lparr>co_delimiter := delimiter_byte, co_has_header := has_header, co_file_extension := file_extension\<rparr>;
              options = (case sch of
                Some sch \<Rightarrow> options\<lparr>co_schema := Some (bs_fields sch)\<rparr>
              | None \<Rightarrow> options\<lparr>co_schema_infer_max_records := schema_infer_max_records\<rparr>)
          in wrap_io dbg (register_csv dc name path options)))"

definition py_register_parquet ::
  "(string \<Rightarrow> string) \<Rightarrow> ('c, 'd, 'p) datafusion \<Rightarrow> string \<Rightarrow> string \<Rightarrow> (context_state, unit, py_err) io" where
  "py_register_parquet dbg dc name path = wrap_io dbg (register_parquet dc name path)"

definition py_sql :: "(string \<Rightarrow> string) \<Rightarrow> ('c, 'd, 'p) datafusion \<Rightarrow> string \<Rightarrow> context_state \<Rightarrow> 'd pyresult" where
  "py_sql dbg dc sql state = wrap_ballista dbg (context_sql dc sql state)"

section \<open>The builder of \<open>CASE\<close> expressions as an abstract machine\<close>

text \<open>The calls a program can make on a builder, once their arguments are expressions.\<close>

datatype case_call = Call_When expr expr | Call_Otherwise expr | Call_Build

fun case_builder_call :: "'k expr_ops \<Rightarrow> case_call \<Rightarrow> (case_builder, expr option, py_err) io" where
  "case_builder_call eo (Call_When w t) = sbind (when_impl w t) (\<lambda>_. sret None)"
| "case_builder_call eo (Call_Otherwise e) = sbind (otherwise_impl eo e) (\<lambda>r. sret (Some r))"
| "case_builder_call eo Call_Build = sbind (CaseBuilder_build eo) (\<lambda>r. sret (Some r))"

text \<open>
  The abstract machine: a builder is open, with the case expression, the clauses and the default it
  has so far, or it has built its expression.  \<open>check\<close> is what DataFusion objects to in an expression.
\<close>

datatype case_spec = Open "expr option" "(expr \<times> expr) list" "expr option" | Built expr

definition case_spec_build ::
  "(expr \<Rightarrow> string option) \<Rightarrow> expr option \<Rightarrow> (expr \<times> expr) list \<Rightarrow> expr option \<Rightarrow> expr option pyresult \<times> case_spec" where
  "case_spec_build check c ws d =
     (if ws = [] then (Err no_clauses, Open c ws d)
      else case check (E_Case c ws d) of
             None \<Rightarrow> (Ok (Some (E_Case c ws d)), Built (E_Case c ws d))
           | Some msg \<Rightarrow> (Err (wrap_err msg), Open None [] None))"

fun case_spec_call :: "(expr \<Rightarrow> string option) \<Rightarrow> case_call \<Rightarrow> (case_spec, expr option, py_err) io" where
  "case_spec_call check (Call_When w t) (Open c ws d) = (Ok None, Open c (ws @ [(w, t)]) d)"
| "case_spec_call check (Call_Otherwise e) (Open c ws d) = case_spec_build check c ws (Some e)"
| "case_spec_call check Call_Build (Open c ws d) = case_spec_build check c ws d"
| "case_spec_call check (Call_When w t) (Built e) = (Err already_built, Built e)"
| "case_spec_call check (Call_Otherwise x) (Built e) = (Err already_built, Built e)"
| "case_spec_call check Call_Build (Built e) = (Ok (Some e), Built e)"

fun run_calls :: "('c \<Rightarrow> ('s, 'a, 'e) io) \<Rightarrow> 'c list \<Rightarrow> 's \<Rightarrow> ('a, 'e) result list \<times> 's" where
  "run_calls call [] s = ([], s)"
| "run_calls call (c # cs) s = (case call c s of (r, s') \<Rightarrow> case run_calls call cs s' of (rs, s'') \<Rightarrow> (r # rs, s''))"

text \<open>
  What DataFusion documents of its builder: it collects the clauses in order, and \<open>otherwise\<close> and
  \<open>end\<close> return the \<open>CASE\<close> expression or an error about it.
\<close>

definition expr_ops_ok :: "'k expr_ops \<Rightarrow> (expr \<Rightarrow> string option) \<Rightarrow> bool" where
  "expr_ops_ok eo check \<longleftrightarrow>
     (\<exists>clauses :: 'k \<Rightarrow> expr option \<times> (expr \<times> expr) list.
        (\<forall>e. clauses (eo_case eo e) = (Some e, [])) \<and> (\<forall>w t. clauses (eo_start eo w t) = (None, [(w, t)])) \<and>
        (\<forall>k w t. clauses (eo_when eo k w t) = (fst (clauses k), snd (clauses k) @ [(w, t)])) \<and>
        (\<forall>k e. eo_otherwise eo k e = (let x = E_Case (fst (clauses k)) (snd (clauses k)) (Some e) in
           case check x of None \<Rightarrow> Ok x | Some msg \<Rightarrow> Err msg)) \<and>
        (\<forall>k. eo_end eo k = (let x = E_Case (fst (clauses k)) (snd (clauses k)) None in
           case check x of None \<Rightarrow> Ok x | Some msg \<Rightarrow> Err msg)))"

definition builder_abs :: "case_builder \<Rightarrow> case_spec" where
  "builder_abs cb =
     (case cb_built_expr cb of
        Some e \<Rightarrow> Built e
      | None \<Rightarrow> Open (cb_case_expr cb) (zip (cb_when_expr cb) (cb_then_expr cb)) (cb_else_expr cb))"

definition case_inv :: "case_builder \<Rightarrow> bool" where
  "case_inv cb \<longleftrightarrow> length (cb_when_expr cb) = length (cb_then_expr cb)"

lemma foldl_clauses:
  assumes "\<And>k w t. clauses (when k w t) = (fst (clauses k), snd (clauses k) @ [(w, t)])"
  shows "clauses (foldl (\<lambda>k (w, t). when k w t) k ws) = (fst (clauses k), snd (clauses k) @ ws)"
  using assms by (induction ws arbitrary: k) auto

lemma private_build_spec:
  assumes ops: "expr_ops_ok eo check" and inv: "case_inv cb" and "cb_built_expr cb = None"
  shows "case private_build eo cb of (r, cb') \<Rightarrow>
    (rbind r (\<lambda>e. Ok (Some e)), builder_abs cb') =
      case_spec_build check (cb_case_expr cb) (zip (cb_when_expr cb) (cb_then_expr cb)) (cb_else_expr cb) \<and> case_inv cb'"
proof (cases "cb_when_expr cb")
  case Nil
  then show ?thesis using assms(3) inv by (simp add: private_build_def case_spec_build_def builder_abs_def)
next
  case (Cons w ws)
  with inv obtain t ts where t: "cb_then_expr cb = t # ts" "length ws = length ts"
    by (cases "cb_then_expr cb") (auto simp: case_inv_def)
  from ops obtain clauses where cl: "\<And>e. clauses (eo_case eo e) = (Some e, [])" "\<And>w t. clauses (eo_start eo w t) = (None, [(w, t)])"
      "\<And>k w t. clauses (eo_when eo k w t) = (fst (clauses k), snd (clauses k) @ [(w, t)])"
      "\<And>k e. eo_otherwise eo k e = (let x = E_Case (fst (clauses k)) (snd (clauses k)) (Some e) in
           case check x of None \<Rightarrow> Ok x | Some msg \<Rightarrow> Err msg)"
      "\<And>k. eo_end eo k = (let x = E_Case (fst (clauses k)) (snd (clauses k)) None in case check x of None \<Rightarrow> Ok x | Some msg \<Rightarrow> Err msg)"
    unfolding expr_ops_ok_def by blast
  let ?k = "case cb_case_expr cb of Some e \<Rightarrow> eo_when eo (eo_case eo e) w t | None \<Rightarrow> eo_start eo w t"
  have "clauses ?k = (cb_case_expr cb, [(w, t)])" by (simp add: cl split: option.split)
  then have all: "clauses (foldl (\<lambda>k (w, t). eo_when eo k w t) ?k (zip ws ts)) = (cb_case_expr cb, zip (w # ws) (t # ts))"
    using foldl_clauses [of clauses "eo_when eo", OF cl(3), of ?k "zip ws ts"] by simp
  show ?thesis
    using Cons t all assms(3)
    by (cases "cb_else_expr cb")
       (simp_all add: private_build_def case_spec_build_def cl(4,5) builder_abs_def case_inv_def Let_def split: option.split)
qed

lemma case_builder_call_spec:
  assumes ops: "expr_ops_ok eo check" and inv: "case_inv cb"
  shows "case case_builder_call eo call cb of (r, cb') \<Rightarrow> (r, builder_abs cb') = case_spec_call check call (builder_abs cb) \<and> case_inv cb'"
proof (cases "cb_built_expr cb")
  case None
  have build: "case sbind (private_build eo) (\<lambda>r. sret (Some r)) cb' of (r, cb'') \<Rightarrow>
      (r, builder_abs cb'') = case_spec_build check (cb_case_expr cb') (zip (cb_when_expr cb') (cb_then_expr cb')) (cb_else_expr cb') \<and> case_inv cb''"
    if "case_inv cb'" "cb_built_expr cb' = None" for cb'
    using private_build_spec [OF ops that] by (auto simp: sbind_def sret_def split: prod.splits result.splits)
  show ?thesis
  proof (cases call)
    case (Call_When w t)
    then show ?thesis using None inv
      by (simp add: sbind_def sret_def when_impl_def is_built_error_def is_built_def builder_abs_def case_inv_def)
  next
    case (Call_Otherwise e)
    then show ?thesis using None inv build [of "cb\<lparr>cb_else_expr := Some e\<rparr>"]
      by (simp add: sbind_def otherwise_impl_def is_built_error_def is_built_def builder_abs_def case_inv_def)
  next
    case Call_Build
    then show ?thesis using None inv build [of cb] by (simp add: sbind_def CaseBuilder_build_def is_built_def builder_abs_def)
  qed
next
  case (Some e)
  then show ?thesis using inv
    by (cases call) (simp_all add: sbind_def sret_def when_impl_def otherwise_impl_def CaseBuilder_build_def is_built_error_def is_built_def builder_abs_def)
qed

text \<open>
  A machine that implements another one: every call keeps the invariant, and with the abstraction
  \<open>f\<close> it answers and moves like the abstract machine.  So does every sequence of calls.
\<close>

locale machine_refinement =
  fixes call :: "'c \<Rightarrow> ('s, 'a, 'e) io" and spec :: "'c \<Rightarrow> ('t, 'a, 'e) io" and f :: "'s \<Rightarrow> 't" and good :: "'s \<Rightarrow> bool"
  assumes call_refines: "good s \<Longrightarrow> case call c s of (r, s') \<Rightarrow> (r, f s') = spec c (f s) \<and> good s'"
begin

lemma run_refines: "good s \<Longrightarrow> (fst (run_calls call cs s), f (snd (run_calls call cs s))) = run_calls spec cs (f s)"
proof (induction cs arbitrary: s)
  case (Cons c cs)
  obtain r s' where s': "call c s = (r, s')" by fastforce
  with call_refines [OF Cons.prems, of c] have "spec c (f s) = (r, f s')" "good s'" by auto
  with Cons.IH [of s'] s' show ?case by (cases "run_calls call cs s'") (auto split: prod.splits)
qed simp

lemma run_good: "good s \<Longrightarrow> good (snd (run_calls call cs s))"
proof (induction cs arbitrary: s)
  case (Cons c cs)
  obtain r s' where s': "call c s = (r, s')" by fastforce
  with call_refines [OF Cons.prems, of c] Cons.IH [of s'] show ?case by (auto split: prod.splits)
qed simp

end

lemma case_builder_machine:
  "expr_ops_ok eo check \<Longrightarrow> machine_refinement (case_builder_call eo) (case_spec_call check) builder_abs case_inv"
  by (rule machine_refinement.intro) (rule case_builder_call_spec)

text \<open>Two runs of the abstract machine: the clauses come out in order, and a default outlives a failed \<open>otherwise\<close>.\<close>

lemma case_spec_clauses:
  assumes "ws \<noteq> []" "check (E_Case c ws (Some d)) = None"
  shows "run_calls (case_spec_call check) (map (\<lambda>(w, t). Call_When w t) ws @ [Call_Otherwise d]) (Open c [] None) =
    (map (\<lambda>_. Ok None) ws @ [Ok (Some (E_Case c ws (Some d)))], Built (E_Case c ws (Some d)))"
proof -
  have "run_calls (case_spec_call check) (map (\<lambda>(w, t). Call_When w t) vs @ cs) (Open c us None) =
      (case run_calls (case_spec_call check) cs (Open c (us @ vs) None) of (rs, s) \<Rightarrow> (map (\<lambda>_. Ok None) vs @ rs, s))" for us vs cs
    by (induction vs arbitrary: us) (auto split: prod.splits)
  from this [of ws "[Call_Otherwise d]" "[]"] show ?thesis using assms by (simp add: case_spec_build_def)
qed

lemma failed_default_kept:
  assumes "check (E_Case c [(w, t)] (Some d)) = None"
  shows "run_calls (case_spec_call check) [Call_Otherwise d, Call_When w t, Call_Build] (Open c [] None) =
    ([Err no_clauses, Ok None, Ok (Some (E_Case c [(w, t)] (Some d)))], Built (E_Case c [(w, t)] (Some d)))"
  using assms by (simp add: case_spec_build_def)

section \<open>Properties\<close>

text \<open>
  C29. The builder of \<open>CASE\<close> expressions.  Whatever a program calls on a builder, in any order, the
  answers and the builder's state are those of the abstract machine: clauses are collected in order,
  a build without a clause fails, a built expression contains the case expression, every clause and
  the default, and from then on the builder answers with this expression or with the error that it
  has been used.
\<close>

theorem case_builder_refines:
  assumes "expr_ops_ok eo check"
  shows "(fst (run_calls (case_builder_call eo) calls (CaseBuilder_new c)),
      builder_abs (snd (run_calls (case_builder_call eo) calls (CaseBuilder_new c)))) =
    run_calls (case_spec_call check) calls (Open c [] None)"
proof -
  have new: "case_inv (CaseBuilder_new c)" "builder_abs (CaseBuilder_new c) = Open c [] None"
    by (simp_all add: case_inv_def builder_abs_def CaseBuilder_new_def)
  from machine_refinement.run_refines [OF case_builder_machine [OF assms] new(1)]
  show ?thesis unfolding new(2) .
qed

text \<open>DataFusion's operations as plain data: a builder is its case expression and its clauses.\<close>

definition plain_expr_ops :: "(expr option \<times> (expr \<times> expr) list) expr_ops" where
  "plain_expr_ops = \<lparr>eo_binary = (\<lambda>op l r. E_BinaryExpr l op r), eo_not = E_Not, eo_alias = E_Alias,
     eo_concat = E_ScalarFunction F_Concat, eo_array = E_ScalarFunction F_Array,
     eo_case = (\<lambda>e. (Some e, [])), eo_start = (\<lambda>w t. (None, [(w, t)])), eo_when = (\<lambda>(c, ws) w t. (c, ws @ [(w, t)])),
     eo_otherwise = (\<lambda>(c, ws) e. Ok (E_Case c ws (Some e))), eo_end = (\<lambda>(c, ws). Ok (E_Case c ws None))\<rparr>"

lemma plain_expr_ops_ok: "expr_ops_ok plain_expr_ops (\<lambda>_. None)"
  unfolding expr_ops_ok_def by (rule exI [of _ "\<lambda>k. k"]) (simp add: plain_expr_ops_def split_beta)

interpretation plain_case: machine_refinement "case_builder_call plain_expr_ops" "case_spec_call (\<lambda>_. None)" builder_abs case_inv
  by (rule case_builder_machine [OF plain_expr_ops_ok])

theorem case_builder_refines_witness:
  "fst (run_calls (case_builder_call plain_expr_ops)
      [Call_Build, Call_When (E_Column ''a'') (E_Column ''x''), Call_When (E_Column ''b'') (E_Column ''y''), Call_Otherwise (E_Column ''z''),
       Call_When (E_Column ''c'') (E_Column ''x''), Call_Build] (CaseBuilder_new None)) =
   (let e = E_Case None [(E_Column ''a'', E_Column ''x''), (E_Column ''b'', E_Column ''y'')] (Some (E_Column ''z''))
    in [Err no_clauses, Ok None, Ok None, Ok (Some e), Err already_built, Ok (Some e)])"
  using case_builder_refines [OF plain_expr_ops_ok, of
      "[Call_Build, Call_When (E_Column ''a'') (E_Column ''x''), Call_When (E_Column ''b'') (E_Column ''y''), Call_Otherwise (E_Column ''z''),
        Call_When (E_Column ''c'') (E_Column ''x''), Call_Build]" None]
  by (simp add: case_spec_build_def Let_def)

end
