(* ===== verification/Jdbc.thy ===== *)
theory Jdbc
  imports Ballista_Io
begin

text \<open>
  The JDBC driver, \<open>jvm/jdbc/src/main/java/org/ballistacompute/jdbc\<close>: the connection string, the
  result set over a Flight stream with its metadata, and the conversion of values.

  A Java exception is an \<open>Err\<close>.  The Flight stream is the list of the batches it will deliver; a
  \<open>VectorSchemaRoot\<close> is a row count and the columns, each with name, minor type and values.  A value is
  what a vector's \<open>getObject\<close> returns: a \<open>Number\<close> carries what its conversion methods answer.  The row
  counters are unbounded.  The many methods that only throw \<open>SQLFeatureNotSupportedException\<close> are left
  out.
\<close>

datatype java_exn =
    SQLException string
  | SQLFeatureNotSupported
  | NumberFormat string
  | NullPointer
  | IndexOutOfBounds

section \<open>Driver.java and FlightConnection.java\<close>

record flight_connection =
  fc_host :: string
  fc_port :: "32 word"

definition FlightConnection_new :: "string \<Rightarrow> u32 \<Rightarrow> flight_connection" where
  "FlightConnection_new host port = \<lparr>fc_host = host, fc_port = port\<rparr>"

definition driver_prefix :: string where
  "driver_prefix = ''jdbc:arrow://''"

definition substring_from :: "string \<Rightarrow> nat \<Rightarrow> (string, java_exn) result" where
  "substring_from s i = (if i \<le> length s then Ok (drop i s) else Err IndexOutOfBounds)"

text \<open>\<open>parseInt\<close> and its siblings: an optional sign and at least one digit, within the type's range.\<close>

fun digits_value :: "int \<Rightarrow> string \<Rightarrow> int option" where
  "digits_value acc [] = Some acc"
| "digits_value acc (c # cs) =
     (if 48 \<le> (of_char c :: int) \<and> (of_char c :: int) \<le> 57 then digits_value (10 * acc + (of_char c - 48)) cs else None)"

definition parse_signed :: "nat \<Rightarrow> string \<Rightarrow> (int, java_exn) result" where
  "parse_signed bits s =
     (let (sign, ds) = (case s of [] \<Rightarrow> (1, [])
            | c # cs \<Rightarrow> if c = CHR ''-'' then (- 1, cs) else if c = CHR ''+'' then (1, cs) else (1, s))
      in if ds = [] then Err (NumberFormat s)
         else case digits_value 0 ds of
                None \<Rightarrow> Err (NumberFormat s)
              | Some n \<Rightarrow> if - (2 ^ (bits - 1)) \<le> sign * n \<and> sign * n < 2 ^ (bits - 1) then Ok (sign * n) else Err (NumberFormat s))"

definition driver_connect :: "string option \<Rightarrow> (flight_connection, java_exn) result" where
  "driver_connect url =
     (case url of
        None \<Rightarrow> Err NullPointer
      | Some url \<Rightarrow>
          rbind (substring_from url (length driver_prefix)) (\<lambda>c.
            let i = length (takeWhile (\<lambda>x. x \<noteq> CHR '':'') c)
            in if i = length c then Ok (FlightConnection_new c 50051)
               else rbind (parse_signed 32 (drop (i + 1) c)) (\<lambda>port. Ok (FlightConnection_new (take i c) (word_of_int port)))))"

definition acceptsURL :: "string option \<Rightarrow> bool" where
  "acceptsURL url = (case url of None \<Rightarrow> False | Some url \<Rightarrow> prefix driver_prefix url)"

section \<open>ResultSetHelper.java\<close>

record java_number =
  jn_byte :: u8
  jn_short :: u16
  jn_int :: u32
  jn_long :: u64
  jn_float :: u32
  jn_double :: u64
  jn_text :: string

datatype java_value = J_Null | J_Boolean bool | J_Number java_number | J_String string | J_Object string string

text \<open>\<open>String.valueOf\<close> and \<open>getClass\<close> of a value that is not null; \<open>J_Object\<close> has its class and its text.\<close>

fun java_text :: "java_value \<Rightarrow> string" where
  "java_text J_Null = ''null''"
| "java_text (J_Boolean b) = (if b then ''true'' else ''false'')"
| "java_text (J_Number n) = jn_text n"
| "java_text (J_String s) = s"
| "java_text (J_Object cls text) = text"

definition helper_getString :: "java_value \<Rightarrow> (string option, java_exn) result" where
  "helper_getString value = Ok (if value = J_Null then None else Some (java_text value))"

definition unsupportedConversion :: "(java_value \<Rightarrow> string) \<Rightarrow> string \<Rightarrow> java_value \<Rightarrow> java_exn" where
  "unsupportedConversion class_text t value =
     (if value = J_Null then SQLException (''Cannot convert null value to type '' @ t)
      else SQLException (''Cannot convert '' @ class_text value @ '' value '' @ [CHR 0x27] @ java_text value @ [CHR 0x27] @ '' to type '' @ t))"

text \<open>ASCII lower case; \<open>equalsIgnoreCase\<close> against an ASCII word compares nothing else.\<close>

definition lower_char :: "char \<Rightarrow> char" where
  "lower_char c = (if 65 \<le> (of_char c :: nat) \<and> (of_char c :: nat) \<le> 90 then char_of ((of_char c :: nat) + 32) else c)"

definition helper_getBoolean :: "(java_value \<Rightarrow> string) \<Rightarrow> java_value \<Rightarrow> (bool, java_exn) result" where
  "helper_getBoolean class_text value =
     (case value of
        J_Null \<Rightarrow> Ok False
      | J_Boolean b \<Rightarrow> Ok b
      | J_String s \<Rightarrow> Ok (map lower_char s = ''true'')
      | _ \<Rightarrow> Err (unsupportedConversion class_text ''boolean'' value))"

text \<open>The numeric conversions have one shape: null is zero, a number converts itself, a text is parsed.\<close>

definition helper_number ::
  "(java_value \<Rightarrow> string) \<Rightarrow> string \<Rightarrow> (java_number \<Rightarrow> 'w::len word) \<Rightarrow> (string \<Rightarrow> ('w word, java_exn) result) \<Rightarrow> java_value
    \<Rightarrow> ('w word, java_exn) result" where
  "helper_number class_text t convert parse value =
     (case value of
        J_Null \<Rightarrow> Ok 0
      | J_Number n \<Rightarrow> Ok (convert n)
      | J_String s \<Rightarrow> parse s
      | _ \<Rightarrow> Err (unsupportedConversion class_text t value))"

definition parse_word :: "string \<Rightarrow> ('w::len word, java_exn) result" where
  "parse_word s = rbind (parse_signed LENGTH('w) s) (\<lambda>n. Ok (word_of_int n))"

definition helper_getByte :: "(java_value \<Rightarrow> string) \<Rightarrow> java_value \<Rightarrow> (u8, java_exn) result" where
  "helper_getByte class_text value = helper_number class_text ''byte'' jn_byte parse_word value"

definition helper_getShort :: "(java_value \<Rightarrow> string) \<Rightarrow> java_value \<Rightarrow> (u16, java_exn) result" where
  "helper_getShort class_text value = helper_number class_text ''short'' jn_short parse_word value"

definition helper_getInt :: "(java_value \<Rightarrow> string) \<Rightarrow> java_value \<Rightarrow> (u32, java_exn) result" where
  "helper_getInt class_text value = helper_number class_text ''int'' jn_int parse_word value"

definition helper_getLong :: "(java_value \<Rightarrow> string) \<Rightarrow> java_value \<Rightarrow> (u64, java_exn) result" where
  "helper_getLong class_text value = helper_number class_text ''long'' jn_long parse_word value"

text \<open>A float is carried as its bits; how a text is parsed to a float is Java's.\<close>

definition helper_getFloat :: "(java_value \<Rightarrow> string) \<Rightarrow> (string \<Rightarrow> (u32, java_exn) result) \<Rightarrow> java_value \<Rightarrow> (u32, java_exn) result" where
  "helper_getFloat class_text parse_float value = helper_number class_text ''float'' jn_float parse_float value"

definition helper_getDouble :: "(java_value \<Rightarrow> string) \<Rightarrow> (string \<Rightarrow> (u64, java_exn) result) \<Rightarrow> java_value \<Rightarrow> (u64, java_exn) result" where
  "helper_getDouble class_text parse_double value = helper_number class_text ''double'' jn_double parse_double value"

section \<open>FlightResultSet.java\<close>

record java_column =
  jc_name :: string
  jc_minor_type :: string
  jc_values :: "java_value list"

record vector_root =
  vr_row_count :: nat
  vr_columns :: "java_column list"

record flight_result_set =
  rs_stream :: "vector_root list"
  rs_root :: "vector_root option"
  rs_batch_index :: int
  rs_row_index :: int
  rs_was_null :: bool

definition getNextBatch :: "flight_result_set \<Rightarrow> bool \<times> flight_result_set" where
  "getNextBatch rs =
     (let rs = rs\<lparr>rs_batch_index := - 1\<rparr>
      in case rs_stream rs of
           batch # rest \<Rightarrow> (True, rs\<lparr>rs_stream := rest, rs_root := Some batch\<rparr>)
         | [] \<Rightarrow> (False, rs\<lparr>rs_root := None\<rparr>))"

definition FlightResultSet_new :: "vector_root list \<Rightarrow> flight_result_set" where
  "FlightResultSet_new stream =
     snd (getNextBatch \<lparr>rs_stream = stream, rs_root = None, rs_batch_index = 0, rs_row_index = - 1, rs_was_null = False\<rparr>)"

definition result_set_next :: "(flight_result_set, bool, java_exn) io" where
  "result_set_next rs =
     (case rs_root rs of
        None \<Rightarrow> (Err NullPointer, rs)
      | Some root \<Rightarrow>
          if rs_batch_index rs + 1 = int (vr_row_count root) then
            (case getNextBatch rs of
               (True, rs') \<Rightarrow> (Ok True, rs'\<lparr>rs_batch_index := rs_batch_index rs' + 1, rs_row_index := rs_row_index rs' + 1\<rparr>)
             | (False, rs') \<Rightarrow> (Ok False, rs'))
          else (Ok True, rs\<lparr>rs_batch_index := rs_batch_index rs + 1, rs_row_index := rs_row_index rs + 1\<rparr>))"

definition list_get :: "'a list \<Rightarrow> int \<Rightarrow> ('a, java_exn) result" where
  "list_get xs i = (if 0 \<le> i \<and> i < int (length xs) then Ok (xs ! nat i) else Err IndexOutOfBounds)"

definition getObject :: "int \<Rightarrow> (flight_result_set, java_value, java_exn) io" where
  "getObject columnIndex rs =
     (case rbind (case rs_root rs of None \<Rightarrow> Err NullPointer | Some root \<Rightarrow> list_get (vr_columns root) (columnIndex - 1)) (\<lambda>column.
            list_get (jc_values column) (rs_batch_index rs)) of
        Ok value \<Rightarrow> (Ok value, rs\<lparr>rs_was_null := (value = J_Null)\<rparr>)
      | Err e \<Rightarrow> (Err e, rs)
      | Panic p \<Rightarrow> (Panic p, rs))"

definition wasNull :: "flight_result_set \<Rightarrow> bool" where
  "wasNull rs = rs_was_null rs"

text \<open>The getters by index read the object and convert it.\<close>

definition getString :: "int \<Rightarrow> (flight_result_set, string option, java_exn) io" where
  "getString i = sbind (getObject i) (\<lambda>value. slift (helper_getString value))"

definition getBoolean :: "(java_value \<Rightarrow> string) \<Rightarrow> int \<Rightarrow> (flight_result_set, bool, java_exn) io" where
  "getBoolean class_text i = sbind (getObject i) (\<lambda>value. slift (helper_getBoolean class_text value))"

definition getByte :: "(java_value \<Rightarrow> string) \<Rightarrow> int \<Rightarrow> (flight_result_set, u8, java_exn) io" where
  "getByte class_text i = sbind (getObject i) (\<lambda>value. slift (helper_getByte class_text value))"

definition getShort :: "(java_value \<Rightarrow> string) \<Rightarrow> int \<Rightarrow> (flight_result_set, u16, java_exn) io" where
  "getShort class_text i = sbind (getObject i) (\<lambda>value. slift (helper_getShort class_text value))"

definition getInt :: "(java_value \<Rightarrow> string) \<Rightarrow> int \<Rightarrow> (flight_result_set, u32, java_exn) io" where
  "getInt class_text i = sbind (getObject i) (\<lambda>value. slift (helper_getInt class_text value))"

definition getLong :: "(java_value \<Rightarrow> string) \<Rightarrow> int \<Rightarrow> (flight_result_set, u64, java_exn) io" where
  "getLong class_text i = sbind (getObject i) (\<lambda>value. slift (helper_getLong class_text value))"

definition getFloat ::
  "(java_value \<Rightarrow> string) \<Rightarrow> (string \<Rightarrow> (u32, java_exn) result) \<Rightarrow> int \<Rightarrow> (flight_result_set, u32, java_exn) io" where
  "getFloat class_text parse_float i = sbind (getObject i) (\<lambda>value. slift (helper_getFloat class_text parse_float value))"

definition getDouble ::
  "(java_value \<Rightarrow> string) \<Rightarrow> (string \<Rightarrow> (u64, java_exn) result) \<Rightarrow> int \<Rightarrow> (flight_result_set, u64, java_exn) io" where
  "getDouble class_text parse_double i = sbind (getObject i) (\<lambda>value. slift (helper_getDouble class_text parse_double value))"

text \<open>Columns cannot be read by name: \<open>getObject(String)\<close> is not supported, and every getter by name calls it.\<close>

definition getObject_by_name :: "string \<Rightarrow> (flight_result_set, java_value, java_exn) io" where
  "getObject_by_name name = slift (Err SQLFeatureNotSupported)"

definition getInt_by_name :: "(java_value \<Rightarrow> string) \<Rightarrow> string \<Rightarrow> (flight_result_set, u32, java_exn) io" where
  "getInt_by_name class_text name = sbind (getObject_by_name name) (\<lambda>value. slift (helper_getInt class_text value))"

definition isBeforeFirst :: "flight_result_set \<Rightarrow> bool" where
  "isBeforeFirst rs = (rs_row_index rs < 0)"

definition isFirst :: "flight_result_set \<Rightarrow> bool" where
  "isFirst rs = (rs_row_index rs = 0)"

definition getRow :: "flight_result_set \<Rightarrow> int" where
  "getRow rs = rs_row_index rs"

section \<open>FlightResultSetMetaData.java\<close>

definition getMetaData :: "flight_result_set \<Rightarrow> (java_column list, java_exn) result" where
  "getMetaData rs = (case rs_root rs of None \<Rightarrow> Err NullPointer | Some root \<Rightarrow> Ok (vr_columns root))"

definition getColumnCount :: "java_column list \<Rightarrow> int" where
  "getColumnCount field_vectors = int (length field_vectors)"

definition getColumnName :: "java_column list \<Rightarrow> int \<Rightarrow> (string, java_exn) result" where
  "getColumnName field_vectors i = rbind (list_get field_vectors (i - 1)) (\<lambda>f. Ok (jc_name f))"

text \<open>\<open>java.sql.Types\<close>: \<open>INTEGER\<close> is 4, \<open>OTHER\<close> is 1111.\<close>

definition getColumnType :: "java_column list \<Rightarrow> int \<Rightarrow> (int, java_exn) result" where
  "getColumnType field_vectors i = rbind (list_get field_vectors (i - 1)) (\<lambda>f. Ok (if jc_minor_type f = ''INT'' then 4 else 1111))"

definition getColumnTypeName :: "java_column list \<Rightarrow> int \<Rightarrow> (string, java_exn) result" where
  "getColumnTypeName field_vectors i = rbind (list_get field_vectors (i - 1)) (\<lambda>f. Ok (jc_minor_type f))"

section \<open>Reading a result set\<close>

text \<open>
  The loop every JDBC program has: \<open>while (rs.next())\<close> read all columns of the row.  \<open>None\<close> is a loop
  that does not end.
\<close>

fun read_columns :: "int list \<Rightarrow> (flight_result_set, java_value list, java_exn) io" where
  "read_columns [] = sret []"
| "read_columns (i # is) = sbind (getObject i) (\<lambda>v. sbind (read_columns is) (\<lambda>vs. sret (v # vs)))"

partial_function (option) read_rows ::
  "int list \<Rightarrow> java_value list list \<Rightarrow> flight_result_set \<Rightarrow> ((java_value list list, java_exn) result \<times> flight_result_set) option" where
  "read_rows cols acc rs =
     (case result_set_next rs of
        (Err e, rs') \<Rightarrow> Some (Err e, rs')
      | (Panic p, rs') \<Rightarrow> Some (Panic p, rs')
      | (Ok has_row, rs') \<Rightarrow>
          if has_row then
            (case read_columns cols rs' of
               (Ok row, rs'') \<Rightarrow> read_rows cols (acc @ [row]) rs''
             | (Err e, rs'') \<Rightarrow> Some (Err e, rs'')
             | (Panic p, rs'') \<Rightarrow> Some (Panic p, rs''))
          else Some (Ok acc, rs'))"

text \<open>The rows of a batch whose columns are all as long as it says.\<close>

definition batch_wf :: "nat \<Rightarrow> vector_root \<Rightarrow> bool" where
  "batch_wf n b \<longleftrightarrow> length (vr_columns b) = n \<and> list_all (\<lambda>c. length (jc_values c) = vr_row_count b) (vr_columns b)"

definition batch_row :: "vector_root \<Rightarrow> nat \<Rightarrow> java_value list" where
  "batch_row b k = map (\<lambda>c. jc_values c ! k) (vr_columns b)"

definition batch_rows :: "vector_root \<Rightarrow> java_value list list" where
  "batch_rows b = map (batch_row b) [0..<vr_row_count b]"

lemma getObject_column:
  assumes "rs_root rs = Some b" "rs_batch_index rs = int k" "batch_wf n b" "k < vr_row_count b" "i < n"
  shows "\<exists>nl. getObject (int i + 1) rs = (Ok (jc_values (vr_columns b ! i) ! k), rs\<lparr>rs_was_null := nl\<rparr>)"
proof -
  have i: "i < length (vr_columns b)" "length (jc_values (vr_columns b ! i)) = vr_row_count b"
    using assms(3,5) by (simp_all add: batch_wf_def list_all_length)
  with assms(1,2,4) show ?thesis by (simp add: getObject_def list_get_def) blast
qed

lemma read_columns_row:
  assumes "rs_root rs = Some b" "rs_batch_index rs = int k" "batch_wf n b" "k < vr_row_count b" "\<forall>i \<in> set is. i < n"
  shows "\<exists>nl. read_columns (map (\<lambda>i. int i + 1) is) rs =
    (Ok (map (\<lambda>i. jc_values (vr_columns b ! i) ! k) is), rs\<lparr>rs_was_null := nl\<rparr>)"
  using assms(1,2,5)
proof (induction "is" arbitrary: rs)
  case Nil
  then show ?case by (intro exI [of _ "rs_was_null rs"]) (simp add: sret_def)
next
  case (Cons i "is")
  obtain nl where nl: "getObject (int i + 1) rs = (Ok (jc_values (vr_columns b ! i) ! k), rs\<lparr>rs_was_null := nl\<rparr>)"
    using getObject_column [OF Cons.prems(1,2) assms(3,4), of i] Cons.prems(3) by auto
  have "\<exists>nl'. read_columns (map (\<lambda>i. int i + 1) is) (rs\<lparr>rs_was_null := nl\<rparr>) =
      (Ok (map (\<lambda>i. jc_values (vr_columns b ! i) ! k) is), (rs\<lparr>rs_was_null := nl\<rparr>)\<lparr>rs_was_null := nl'\<rparr>)"
    using Cons.prems by (intro Cons.IH) simp_all
  with nl show ?case by (auto simp: sbind_def sret_def)
qed

lemma read_columns_all:
  assumes "rs_root rs = Some b" "rs_batch_index rs = int k" "batch_wf n b" "k < vr_row_count b"
  shows "\<exists>nl. read_columns (map (\<lambda>i. int i + 1) [0..<n]) rs = (Ok (batch_row b k), rs\<lparr>rs_was_null := nl\<rparr>)"
proof -
  have "map (\<lambda>i. jc_values (vr_columns b ! i) ! k) [0..<n] = batch_row b k"
    using assms(3) by (intro nth_equalityI) (simp_all add: batch_row_def batch_wf_def)
  with read_columns_row [OF assms, of "[0..<n]"] show ?thesis by simp
qed

text \<open>One turn of the loop: the cursor moves to a row of a batch, and the row is read.\<close>

lemma read_row_step:
  assumes "result_set_next rs = (Ok True, rs1)" "rs_root rs1 = Some b" "rs_batch_index rs1 = int k" "k < vr_row_count b" "batch_wf n b"
  obtains nl where "read_rows (map (\<lambda>i. int i + 1) [0..<n]) acc rs =
    read_rows (map (\<lambda>i. int i + 1) [0..<n]) (acc @ [batch_row b k]) (rs1\<lparr>rs_was_null := nl\<rparr>)"
proof -
  obtain nl where row: "read_columns (map (\<lambda>i. int i + 1) [0..<n]) rs1 = (Ok (batch_row b k), rs1\<lparr>rs_was_null := nl\<rparr>)"
    using read_columns_all [of rs1 b k n] assms by auto
  show ?thesis by (rule that [of nl]) (subst read_rows.simps, simp add: assms(1) row)
qed

text \<open>A cursor in front of row \<open>k\<close> of its batch reads the rest of the batch and then the other batches.\<close>

lemma read_rows_from:
  assumes "rs_root rs = Some b" "rs_batch_index rs + 1 = int k" "k \<le> vr_row_count b"
    and "\<forall>x \<in> set (b # rs_stream rs). batch_wf n x" "\<forall>x \<in> set (rs_stream rs). 0 < vr_row_count x"
  shows "\<exists>rs'. read_rows (map (\<lambda>i. int i + 1) [0..<n]) acc rs =
    Some (Ok (acc @ drop k (batch_rows b) @ concat (map batch_rows (rs_stream rs))), rs') \<and> rs_root rs' = None"
  using assms
proof (induction "(vr_row_count b - k) + (\<Sum>x \<leftarrow> rs_stream rs. Suc (vr_row_count x))" arbitrary: rs b k acc rule: less_induct)
  case less
  let ?cols = "map (\<lambda>i. int i + 1) [0..<n]"
  show ?case
  proof (cases "k = vr_row_count b")
    case False
    let ?rs = "rs\<lparr>rs_batch_index := int k, rs_row_index := rs_row_index rs + 1\<rparr>"
    from False less.prems have "result_set_next rs = (Ok True, ?rs)" by (simp add: result_set_next_def)
    then obtain nl where step: "read_rows ?cols acc rs = read_rows ?cols (acc @ [batch_row b k]) (?rs\<lparr>rs_was_null := nl\<rparr>)"
      by (rule read_row_step [of rs ?rs b k n acc]) (use False less.prems in auto)
    have rest: "drop k (batch_rows b) = batch_row b k # drop (Suc k) (batch_rows b)"
      using False less.prems(3) by (simp add: batch_rows_def Cons_nth_drop_Suc [symmetric])
    show ?thesis
      using less.hyps [of b "Suc k" "?rs\<lparr>rs_was_null := nl\<rparr>" "acc @ [batch_row b k]"] False less.prems by (auto simp: step rest)
  next
    case True
    show ?thesis
    proof (cases "rs_stream rs")
      case Nil
      with True less.prems show ?thesis
        by (subst read_rows.simps) (simp add: result_set_next_def getNextBatch_def batch_rows_def)
    next
      case (Cons b' bs)
      let ?rs = "rs\<lparr>rs_stream := bs, rs_root := Some b', rs_batch_index := 0, rs_row_index := rs_row_index rs + 1\<rparr>"
      have b': "0 < vr_row_count b'" "batch_wf n b'" using Cons less.prems by auto
      from True Cons less.prems have "result_set_next rs = (Ok True, ?rs)" by (simp add: result_set_next_def getNextBatch_def)
      then obtain nl where step: "read_rows ?cols acc rs = read_rows ?cols (acc @ [batch_row b' 0]) (?rs\<lparr>rs_was_null := nl\<rparr>)"
        by (rule read_row_step [of rs ?rs b' 0 n acc]) (use b' in auto)
      have rest: "acc @ drop k (batch_rows b) @ concat (map batch_rows (rs_stream rs)) =
          acc @ batch_row b' 0 # drop 1 (batch_rows b') @ concat (map batch_rows bs)"
        using b'(1) True Cons by (simp add: batch_rows_def upt_conv_Cons)
      show ?thesis
        unfolding step rest
        using less.hyps [of b' 1 "?rs\<lparr>rs_was_null := nl\<rparr>" "acc @ [batch_row b' 0]"] Cons b' less.prems True by auto
    qed
  qed
qed

text \<open>
  The cursor on a batch without rows that is not the first one: \<open>next\<close> answers true from then on.
\<close>

lemma next_past_empty_batch:
  assumes "rs_root rs = Some b" "int (vr_row_count b) < rs_batch_index rs + 1"
  shows "fst (result_set_next (((\<lambda>rs. snd (result_set_next rs)) ^^ n) rs)) = Ok True"
proof -
  have "rs_root (((\<lambda>rs. snd (result_set_next rs)) ^^ n) rs) = Some b \<and>
      int (vr_row_count b) < rs_batch_index (((\<lambda>rs. snd (result_set_next rs)) ^^ n) rs) + 1"
  proof (induction n)
    case (Suc n)
    then show ?case by (simp add: result_set_next_def)
  qed (use assms in simp)
  then show ?thesis by (simp add: result_set_next_def)
qed

text \<open>A stream with no batch, and a result set that has been read to its end: \<open>next\<close> fails.\<close>

lemma next_without_batch:
  "fst (result_set_next (FlightResultSet_new [])) = Err NullPointer"
  "rs_root rs = None \<Longrightarrow> result_set_next rs = (Err NullPointer, rs)"
  by (simp_all add: FlightResultSet_new_def getNextBatch_def result_set_next_def)

text \<open>\<open>connect\<close> does not look at the scheme of the URL it is given.\<close>

lemma connect_ignores_scheme:
  assumes "length url = length driver_prefix" "CHR '':'' \<notin> set host"
  shows "driver_connect (Some (url @ host)) = Ok (FlightConnection_new host 50051)"
proof -
  have tw: "takeWhile (\<lambda>x. x \<noteq> CHR '':'') host = host" using assms(2) by (induction host) auto
  show ?thesis using assms(1) by (simp add: driver_connect_def substring_from_def Let_def tw)
qed

section \<open>Properties\<close>

text \<open>
  C30. A result set delivers its rows.  A program that loops over \<open>next\<close> and reads every column gets,
  in order, all rows of all batches of the stream and the loop ends, provided only the first batch
  may be without rows.
\<close>

theorem result_set_reads_rows:
  assumes "\<forall>x \<in> set (b # bs). batch_wf n x" "\<forall>x \<in> set bs. 0 < vr_row_count x"
  shows "\<exists>rs'. read_rows (map (\<lambda>i. int i + 1) [0..<n]) [] (FlightResultSet_new (b # bs)) =
    Some (Ok (concat (map batch_rows (b # bs))), rs')"
  using read_rows_from [of "FlightResultSet_new (b # bs)" b 0 n "[]"] assms
  by (auto simp: FlightResultSet_new_def getNextBatch_def)

theorem result_set_reads_rows_witness:
  "\<exists>rs'. read_rows [1] [] (FlightResultSet_new
      [\<lparr>vr_row_count = 0, vr_columns = [\<lparr>jc_name = ''id'', jc_minor_type = ''INT'', jc_values = []\<rparr>]\<rparr>,
       \<lparr>vr_row_count = 2, vr_columns = [\<lparr>jc_name = ''id'', jc_minor_type = ''INT'', jc_values = [J_String ''4'', J_Null]\<rparr>]\<rparr>]) =
    Some (Ok [[J_String ''4''], [J_Null]], rs')"
proof -
  let ?b = "\<lambda>n vs. \<lparr>vr_row_count = n, vr_columns = [\<lparr>jc_name = ''id'', jc_minor_type = ''INT'', jc_values = vs\<rparr>]\<rparr>"
  have "\<forall>x \<in> set (?b 0 [] # [?b 2 [J_String ''4'', J_Null]]). batch_wf 1 x"
    "\<forall>x \<in> set [?b 2 [J_String ''4'', J_Null]]. 0 < vr_row_count x"
    by (simp_all add: batch_wf_def)
  from result_set_reads_rows [OF this] show ?thesis by (simp add: batch_rows_def batch_row_def upt_rec)
qed

end
