(* ===== verification/Diagram.thy ===== *)
theory Diagram
  imports Planner Core_Utils Ballista_Io "HOL-Library.Multiset"
begin

text \<open>
  The diagrams of \<open>core/src/utils.rs\<close>: \<open>produce_diagram\<close> writes the stages of a query as a graph in the
  language of Graphviz.

  What is written does not depend on the writes that came before, so the lines are computed first and
  then written in order; the first write that fails ends the function with its error.  The message
  \<open>build_exec_plan_diagram\<close> prints about an unknown operator is left out.
\<close>

section \<open>Lines of the graph\<close>

fun diagram_operator :: "exec_plan \<Rightarrow> string" where
  "diagram_operator (HashAggregateExec _ _ _ _ _) = ''HashAggregateExec''"
| "diagram_operator (SortExec _ _) = ''SortExec''"
| "diagram_operator (ProjectionExec _ _) = ''ProjectionExec''"
| "diagram_operator (HashJoinExec _ _ _ _) = ''HashJoinExec''"
| "diagram_operator (ParquetExec _) = ''ParquetExec''"
| "diagram_operator (CsvExec _) = ''CsvExec''"
| "diagram_operator (FilterExec _ _) = ''FilterExec''"
| "diagram_operator (QueryStageExec _ _ _) = ''QueryStageExec''"
| "diagram_operator (UnresolvedShuffleExec _ _ _) = ''UnresolvedShuffleExec''"
| "diagram_operator (CoalesceBatchesExec _ _) = ''CoalesceBatchesExec''"
| "diagram_operator (MergeExec _) = ''MergeExec''"
| "diagram_operator _ = ''Unknown''"

datatype diagram_line =
    L_Open | L_Close
  | L_Cluster nat
  | L_Label nat
  | L_EndCluster
  | L_Node nat nat string
  | L_Edge nat nat nat nat
  | L_ShuffleEdge nat nat nat

text \<open>The text of a line: an \<open>exec\<close> is named by its stage and its number.\<close>

definition exec_name :: "nat \<Rightarrow> nat \<Rightarrow> string" where
  "exec_name stage_id node_id = ''stage_'' @ show_nat stage_id @ ''_exec_'' @ show_nat node_id"

definition tab :: string where
  "tab = [CHR 0x09]"

definition quoted :: "string \<Rightarrow> string" where
  "quoted s = [CHR 0x22] @ s @ [CHR 0x22]"

fun line_text :: "diagram_line \<Rightarrow> string" where
  "line_text L_Open = ''digraph G {'' @ newline"
| "line_text (L_Cluster stage_id) = tab @ ''subgraph cluster'' @ show_nat stage_id @ '' {'' @ newline"
| "line_text (L_Label stage_id) = tab @ tab @ ''label = '' @ quoted (''Stage '' @ show_nat stage_id) @ '';'' @ newline"
| "line_text L_EndCluster = tab @ ''}'' @ newline"
| "line_text (L_Node stage_id node_id name) =
     tab @ tab @ exec_name stage_id node_id @ '' [shape=box, label='' @ quoted name @ ''];'' @ newline"
| "line_text (L_Edge stage_id child_id stage_id' node_id) =
     tab @ tab @ exec_name stage_id child_id @ '' -> '' @ exec_name stage_id' node_id @ '';'' @ newline"
| "line_text (L_ShuffleEdge y stage_id node_id) =
     tab @ ''stage_'' @ show_nat y @ ''_exec_1 -> '' @ exec_name stage_id node_id @ '';'' @ newline"
| "line_text L_Close = ''}''"

text \<open>
  The recursion over a plan, with the counter for the numbers of the nodes: the lines and the next
  number.  The number of the node itself is the counter's value at the start.
\<close>

function build_exec_plan_diagram :: "nat \<Rightarrow> bool \<Rightarrow> exec_plan \<Rightarrow> nat \<Rightarrow> diagram_line list \<times> nat" where
  "build_exec_plan_diagram stage_id draw_entity plan node_id =
     foldl (\<lambda>st child.
         case as_unresolved child of
           Some shuffle \<Rightarrow>
             (fst st @ (if draw_entity then [] else map (\<lambda>y. L_ShuffleEdge y stage_id node_id) (us_query_stage_ids shuffle)), snd st)
         | None \<Rightarrow>
             (case build_exec_plan_diagram stage_id draw_entity child (snd st) of
                (ls, n) \<Rightarrow> (fst st @ ls @ (if draw_entity then [L_Edge stage_id (snd st) stage_id node_id] else []), n)))
       (if draw_entity then [L_Node stage_id node_id (diagram_operator plan)] else [], node_id + 1) (children plan)"
  by pat_completeness auto
termination by (relation "measure (\<lambda>(s, d, p, n). size p)") auto

declare build_exec_plan_diagram.simps [simp del]

definition diagram_lines :: "query_stage list \<Rightarrow> diagram_line list" where
  "diagram_lines stages =
     L_Open #
     concat (map (\<lambda>stage. [L_Cluster (qs_stage_id stage), L_Label (qs_stage_id stage)] @
       fst (build_exec_plan_diagram (qs_stage_id stage) True (qs_child stage) 0) @ [L_EndCluster]) stages) @
     concat (map (\<lambda>stage. fst (build_exec_plan_diagram (qs_stage_id stage) False (qs_child stage) 0)) stages) @
     [L_Close]"

record 's diagram_file =
  wf_create :: "string \<Rightarrow> ('s, unit, string) io"
  wf_write :: "string \<Rightarrow> ('s, unit, string) io"

definition produce_diagram :: "'s diagram_file \<Rightarrow> string \<Rightarrow> query_stage list \<Rightarrow> ('s, unit, BallistaError) io" where
  "produce_diagram w filename stages =
     sbind (smap_err IoError (wf_create w filename)) (\<lambda>_.
       sfor (\<lambda>l. smap_err IoError (wf_write w (line_text l))) (diagram_lines stages))"

section \<open>Nodes and edges\<close>

text \<open>The operators of a plan that are drawn: all but the unresolved shuffles below it.\<close>

function drawn_count :: "exec_plan \<Rightarrow> nat" where
  "drawn_count p = 1 + sum_list (map (\<lambda>c. if as_unresolved c = None then drawn_count c else 0) (children p))"
  by pat_completeness auto
termination by (relation "measure size") auto

declare drawn_count.simps [simp del]

fun node_of :: "diagram_line \<Rightarrow> nat list" where
  "node_of (L_Node _ i _) = [i]"
| "node_of _ = []"

fun edge_of :: "diagram_line \<Rightarrow> (nat \<times> nat) list" where
  "edge_of (L_Edge _ c _ i) = [(c, i)]"
| "edge_of _ = []"

abbreviation nodes_in :: "diagram_line list \<Rightarrow> nat list" where
  "nodes_in ls \<equiv> concat (map node_of ls)"

abbreviation edges_in :: "diagram_line list \<Rightarrow> (nat \<times> nat) list" where
  "edges_in ls \<equiv> concat (map edge_of ls)"

text \<open>
  What the lines of a plan are: the nodes are numbered in the order in which they are drawn, every
  node but the first has exactly one edge, to a node with a smaller number.
\<close>

definition tree_lines :: "nat \<Rightarrow> nat \<Rightarrow> diagram_line list \<Rightarrow> bool" where
  "tree_lines n m ls \<longleftrightarrow>
     nodes_in ls = [n..<m] \<and> mset (map fst (edges_in ls)) = mset [Suc n..<m] \<and> list_all (\<lambda>(c, i). n \<le> i \<and> i < c) (edges_in ls)"

lemma build_children_tree:
  assumes "\<And>c k. c \<in> set cs \<Longrightarrow> as_unresolved c = None \<Longrightarrow>
      snd (build_exec_plan_diagram s True c k) = k + drawn_count c \<and> tree_lines k (k + drawn_count c) (fst (build_exec_plan_diagram s True c k))"
    and "tree_lines n m ls" "n < m"
  shows "case foldl (\<lambda>st child.
         case as_unresolved child of
           Some shuffle \<Rightarrow> (fst st @ (if True then [] else map (\<lambda>y. L_ShuffleEdge y s n) (us_query_stage_ids shuffle)), snd st)
         | None \<Rightarrow>
             (case build_exec_plan_diagram s True child (snd st) of
                (ls, k) \<Rightarrow> (fst st @ ls @ (if True then [L_Edge s (snd st) s n] else []), k))) (ls, m) cs of
      (ls', m') \<Rightarrow> m' = m + sum_list (map (\<lambda>c. if as_unresolved c = None then drawn_count c else 0) cs) \<and> tree_lines n m' ls'"
  using assms
proof (induction cs arbitrary: ls m)
  case (Cons c cs)
  show ?case
  proof (cases "as_unresolved c")
    case (Some u)
    then show ?thesis using Cons.IH [of m ls] Cons.prems by auto
  next
    case None
    obtain ls' m' where b: "build_exec_plan_diagram s True c m = (ls', m')" by fastforce
    with Cons.prems(1) [of c m] None have c: "m' = m + drawn_count c" "tree_lines m m' ls'" by auto
    have pos: "m < m'" using c(1) by (simp add: drawn_count.simps [of c])
    have "tree_lines n m' (ls @ ls' @ [L_Edge s m s n])"
    proof -
      have "[n..<m] @ [m..<m'] = [n..<m']" "[Suc n..<m'] = [Suc n..<m] @ [m..<m']" "[m..<m'] = m # [Suc m..<m']"
        using Cons.prems(3) pos upt_split [of n m m'] upt_split [of "Suc n" m m'] by (simp_all add: upt_conv_Cons)
      moreover have "list_all (\<lambda>(c, i). n \<le> i \<and> i < c) (edges_in ls')"
        using c(2) Cons.prems(3) by (fastforce simp: tree_lines_def list_all_iff)
      ultimately show ?thesis
        using Cons.prems(2,3) c(2) by (auto simp: tree_lines_def)
    qed
    then show ?thesis using Cons.IH [of m' "ls @ ls' @ [L_Edge s m s n]"] Cons.prems pos None b c(1)
      by (auto simp: add.assoc)
  qed
qed simp

text \<open>
  The picture of a stage is the tree of its operators: as many nodes as operators, numbered from the
  counter on, and one edge from each operator to its parent.
\<close>

lemma diagram_tree:
  "snd (build_exec_plan_diagram s True p n) = n + drawn_count p \<and>
   tree_lines n (n + drawn_count p) (fst (build_exec_plan_diagram s True p n))"
proof (induction p arbitrary: n rule: plan_induct)
  case (plan p)
  have "tree_lines n (n + 1) [L_Node s n (diagram_operator p)]" by (simp add: tree_lines_def)
  from build_children_tree [where cs = "children p", OF plan.IH this] show ?case
    unfolding build_exec_plan_diagram.simps [of s True p n] drawn_count.simps [of p] by (auto simp: split_beta)
qed

text \<open>
  The edge of a shuffle always starts at the node with number 1 of the stage that is read.  A stage
  that is a single scan has no such node, so the edge points at nothing that was drawn.
\<close>

lemma shuffle_edge_dangles:
  "let stages = [\<lparr>qs_job_id = ''job'', qs_stage_id = 1, qs_child = example_scan\<rparr>,
       \<lparr>qs_job_id = ''job'', qs_stage_id = 2, qs_child = MergeExec (UnresolvedShuffleExec [1] [] 2)\<rparr>]
   in L_ShuffleEdge 1 2 0 \<in> set (diagram_lines stages) \<and> (\<forall>op. L_Node 1 1 op \<notin> set (diagram_lines stages))"
  by (simp add: diagram_lines_def build_exec_plan_diagram.simps example_scan_def)

end
